(* ===== verification/Js_Prelude.thy ===== *)
theory Js_Prelude
  imports Main "HOL-Library.Monad_Syntax"
begin

text \<open>
  The part of JavaScript the Spatial dashboard code relies on, and the lemmas every component
  shares.

  \<^item> \<open>js_trim\<close>, \<open>js_truthy\<close> and \<open>show_int\<close> model \<open>String.prototype.trim\<close>, the truthiness test
    of a \<open>string | null\<close> and the conversion of an integer in a template literal. A string is a
    list of \<open>char\<close>, one per code unit; the model covers the code units below 256.
  \<^item> \<open>jm_get\<close>, \<open>jm_has\<close>, \<open>jm_set\<close>, \<open>jm_delete\<close>, \<open>jm_keys\<close> and \<open>jm_values\<close> model the ES
    \<open>Map\<close>: an association list in insertion order, where \<open>set\<close> on an existing key keeps its
    position.
  \<^item> \<open>js_uniq\<close> models \<open>[...new Set(xs)]\<close>.
  \<^item> An operation that may throw returns \<open>('e + 'a) \<times> 's\<close>: the thrown error or the value, and
    the state it leaves behind in either case.
  \<^item> A timestamp is the epoch millisecond count of the ISO string the code stores:
    \<open>toISOString\<close> and \<open>Date.parse\<close> are inverse on the strings the code writes.

  The locales at the end state four contracts that several components share: a keyed store, a
  machine with an invariant and a monotone measure, a log of events numbered per source, and a
  command that is applied at most once per idempotency key.
\<close>

section \<open>Types shared by the components\<close>

type_synonym timestamp = int
type_synonym ('k, 'v) jsmap = "('k \<times> 'v) list"
type_synonym ('e, 'a, 's) outcome = "('e + 'a) \<times> 's"

named_theorems outcome_simps \<open>case analysis of outcomes\<close>

section \<open>Strings\<close>

definition js_space :: "char \<Rightarrow> bool" where
  "js_space c \<longleftrightarrow> of_char c \<in> {9, 10, 11, 12, 13, 32, 160 :: int}"

definition js_trim :: "string \<Rightarrow> string" where
  "js_trim s = rev (dropWhile js_space (rev (dropWhile js_space s)))"

definition js_truthy :: "string option \<Rightarrow> bool" where
  "js_truthy v = (case v of None \<Rightarrow> False | Some s \<Rightarrow> s \<noteq> [])"

function show_nonneg :: "int \<Rightarrow> string" where
  "show_nonneg n =
     (if n < 10 then [char_of (48 + n)] else show_nonneg (n div 10) @ [char_of (48 + n mod 10)])"
  by pat_completeness auto
termination
  by (relation "measure nat") auto

declare show_nonneg.simps [simp del]

definition show_int :: "int \<Rightarrow> string" where
  "show_int i = (if i < 0 then CHR ''-'' # show_nonneg (- i) else show_nonneg i)"

definition js_lower_char :: "char \<Rightarrow> char" where
  "js_lower_char c = (let n = of_char c :: int in
     if 65 \<le> n \<and> n \<le> 90 \<or> 192 \<le> n \<and> n \<le> 222 \<and> n \<noteq> 215 then char_of (n + 32) else c)"

definition js_toLowerCase :: "string \<Rightarrow> string" where
  "js_toLowerCase s = map js_lower_char s"

text \<open>The code units whose upper case lies above 255 (181 and 255) are left unchanged.\<close>

definition js_upper_char :: "char \<Rightarrow> string" where
  "js_upper_char c = (let n = of_char c :: int in
     if n = 223 then ''SS''
     else if 97 \<le> n \<and> n \<le> 122 \<or> 224 \<le> n \<and> n \<le> 254 \<and> n \<noteq> 247 then [char_of (n - 32)] else [c])"

definition js_toUpperCase :: "string \<Rightarrow> string" where
  "js_toUpperCase s = concat (map js_upper_char s)"

lemma js_trim_Nil [simp]: "js_trim [] = []"
  by (simp add: js_trim_def)

lemma dropWhile_idle: "dropWhile P (dropWhile P xs) = dropWhile P xs"
  by (induction xs) auto

lemma dropWhile_rev_keeps_head:
  assumes "dropWhile P xs = xs"
  shows "dropWhile P (rev (dropWhile P (rev xs))) = rev (dropWhile P (rev xs))"
proof (cases xs)
  case Nil
  then show ?thesis by simp
next
  case (Cons x ys)
  with assms have x: "\<not> P x" by (metis dropWhile.simps(2) dropWhile_eq_self_iff list.sel(1) list.distinct(1))
  have "rev (dropWhile P (rev xs)) = x # rev (dropWhile P (rev ys))"
    using Cons x by (simp add: dropWhile_append)
  then show ?thesis using x by simp
qed

lemma js_trim_idem [simp]: "js_trim (js_trim s) = js_trim s"
proof -
  let ?d = "dropWhile js_space s"
  let ?t = "rev (dropWhile js_space (rev ?d))"
  have "dropWhile js_space ?t = ?t"
    by (rule dropWhile_rev_keeps_head) (rule dropWhile_idle)
  then show ?thesis by (simp add: js_trim_def dropWhile_idle)
qed

lemma js_trim_fixed: "\<not> js_space c \<Longrightarrow> \<not> js_space d \<Longrightarrow> js_trim (c # cs @ [d]) = c # cs @ [d]"
  by (simp add: js_trim_def)

lemma js_trim_id_iff: "js_trim s = s \<longleftrightarrow> s = [] \<or> \<not> js_space (hd s) \<and> \<not> js_space (last s)"
proof (cases s)
  case (Cons c cs)
  show ?thesis
  proof
    assume t: "js_trim s = s"
    then have len: "length (dropWhile js_space (rev (dropWhile js_space s))) = length s"
      unfolding js_trim_def by (metis length_rev)
    have "length (dropWhile js_space s) = length s"
      using len length_dropWhile_le [of js_space "rev (dropWhile js_space s)"] length_dropWhile_le [of js_space s] by simp
    then have d: "dropWhile js_space s = s" by (metis append_self_conv2 append_eq_append_conv takeWhile_dropWhile_id append_Nil)
    then have r: "dropWhile js_space (rev s) = rev s" using t unfolding js_trim_def by (metis rev_rev_ident)
    have "\<not> js_space (hd s)" using d Cons by (metis dropWhile_eq_self_iff list.distinct(1))
    moreover have "\<not> js_space (last s)" using r Cons by (metis dropWhile_eq_self_iff hd_rev list.distinct(1) rev_is_Nil_conv)
    ultimately show "s = [] \<or> \<not> js_space (hd s) \<and> \<not> js_space (last s)" by simp
  next
    assume h: "s = [] \<or> \<not> js_space (hd s) \<and> \<not> js_space (last s)"
    then have "dropWhile js_space s = s" by (metis dropWhile_eq_self_iff)
    moreover have "dropWhile js_space (rev s) = rev s" using h by (metis dropWhile_eq_self_iff hd_rev rev_is_Nil_conv)
    ultimately show "js_trim s = s" by (simp add: js_trim_def)
  qed
qed simp

lemma js_upper_char_cases:
  obtains (keep) "js_upper_char c = [c]"
  | (double) "js_upper_char c = ''SS''"
  | (shift) d where "js_upper_char c = [d]" "js_upper_char d = [d]" "\<not> js_space d"
proof -
  let ?n = "of_char c :: int"
  show thesis
  proof (cases "97 \<le> ?n \<and> ?n \<le> 122 \<or> 224 \<le> ?n \<and> ?n \<le> 254 \<and> ?n \<noteq> 247")
    case True
    then have m: "(?n - 32) mod 256 = ?n - 32" by auto
    show thesis
    proof (rule shift)
      show "js_upper_char c = [char_of (?n - 32)]" using True by (auto simp: js_upper_char_def Let_def)
      show "js_upper_char (char_of (?n - 32)) = [char_of (?n - 32)]" using True m by (auto simp: js_upper_char_def Let_def)
      show "\<not> js_space (char_of (?n - 32))" using True m by (auto simp: js_space_def)
    qed
  next
    case False
    then have "js_upper_char c = [c] \<or> js_upper_char c = ''SS''" by (auto simp: js_upper_char_def Let_def)
    then show thesis using keep double by blast
  qed
qed

lemma js_upper_char_idem: "js_toUpperCase (js_upper_char c) = js_upper_char c"
  by (cases rule: js_upper_char_cases [of c]) (simp_all add: js_toUpperCase_def, simp add: js_upper_char_def)

lemma js_toUpperCase_idem [simp]: "js_toUpperCase (js_toUpperCase s) = js_toUpperCase s"
  using js_upper_char_idem by (induction s) (simp_all add: js_toUpperCase_def)

lemma js_upper_char_ends:
  assumes "\<not> js_space c"
  shows "js_upper_char c \<noteq> []" "\<not> js_space (hd (js_upper_char c))" "\<not> js_space (last (js_upper_char c))"
  using assms by (cases rule: js_upper_char_cases [of c]; simp add: js_space_def)+

lemma js_trim_toUpperCase [simp]: "js_trim (js_toUpperCase (js_trim s)) = js_toUpperCase (js_trim s)"
proof (cases "js_trim s")
  case (Cons c cs)
  then have h: "\<not> js_space c" "\<not> js_space (last (js_trim s))"
    using iffD1 [OF js_trim_id_iff js_trim_idem [of s]] by auto
  have "js_trim s = butlast (js_trim s) @ [last (js_trim s)]" using Cons by simp
  then have l: "js_toUpperCase (js_trim s) = js_toUpperCase (butlast (js_trim s)) @ js_upper_char (last (js_trim s))"
    by (metis (no_types) js_toUpperCase_def concat_append map_append concat.simps list.map append_Nil2)
  show ?thesis
    using js_upper_char_ends [OF h(1)] js_upper_char_ends [OF h(2)] l
    by (subst js_trim_id_iff) (metis Cons concat.simps(2) hd_append2 js_toUpperCase_def last_appendR list.simps(9))
qed (simp add: js_toUpperCase_def)

lemma js_lower_char_idem: "js_lower_char (js_lower_char c) = js_lower_char c"
  and js_lower_char_space: "js_space (js_lower_char c) \<longleftrightarrow> js_space c"
proof -
  let ?n = "of_char c :: int"
  have "js_lower_char (js_lower_char c) = js_lower_char c \<and> (js_space (js_lower_char c) \<longleftrightarrow> js_space c)"
  proof (cases "65 \<le> ?n \<and> ?n \<le> 90 \<or> 192 \<le> ?n \<and> ?n \<le> 222 \<and> ?n \<noteq> 215")
    case True
    then have m: "(?n + 32) mod 256 = ?n + 32" by auto
    have l: "js_lower_char c = char_of (?n + 32)" using True by (simp add: js_lower_char_def Let_def)
    have "js_lower_char (char_of (?n + 32)) = char_of (?n + 32)" using True m by (auto simp: js_lower_char_def Let_def)
    moreover have "\<not> js_space (char_of (?n + 32))" "\<not> js_space c" using True m by (auto simp: js_space_def)
    ultimately show ?thesis using l by simp
  next
    case False
    then have "js_lower_char c = c" by (auto simp: js_lower_char_def Let_def)
    then show ?thesis by simp
  qed
  then show "js_lower_char (js_lower_char c) = js_lower_char c" "js_space (js_lower_char c) \<longleftrightarrow> js_space c" by auto
qed

lemma js_toLowerCase_idem [simp]: "js_toLowerCase (js_toLowerCase s) = js_toLowerCase s"
  by (simp add: js_toLowerCase_def js_lower_char_idem)

lemma js_trim_toLowerCase [simp]: "js_trim (js_toLowerCase s) = js_toLowerCase (js_trim s)"
  by (simp add: js_trim_def js_toLowerCase_def dropWhile_map rev_map comp_def js_lower_char_space)

lemma show_nonneg_nonempty [simp]: "show_nonneg n \<noteq> []"
  by (subst show_nonneg.simps) simp

lemma show_int_nonempty [simp]: "show_int n \<noteq> []"
  by (simp add: show_int_def)

lemma js_truthy_simps [simp]:
  "\<not> js_truthy None"
  "js_truthy (Some s) \<longleftrightarrow> s \<noteq> []"
  by (simp_all add: js_truthy_def)

lemma js_truthyE: "js_truthy v \<Longrightarrow> (\<And>s. v = Some s \<Longrightarrow> s \<noteq> [] \<Longrightarrow> P) \<Longrightarrow> P"
  by (cases v) auto

section \<open>Ordered maps\<close>

definition jm_get :: "('k, 'v) jsmap \<Rightarrow> 'k \<Rightarrow> 'v option" where
  "jm_get m k = map_of m k"

definition jm_has :: "('k, 'v) jsmap \<Rightarrow> 'k \<Rightarrow> bool" where
  "jm_has m k \<longleftrightarrow> jm_get m k \<noteq> None"

fun jm_set :: "'k \<Rightarrow> 'v \<Rightarrow> ('k, 'v) jsmap \<Rightarrow> ('k, 'v) jsmap" where
  "jm_set k v [] = [(k, v)]"
| "jm_set k v ((k', v') # m) = (if k = k' then (k, v) # m else (k', v') # jm_set k v m)"

definition jm_delete :: "'k \<Rightarrow> ('k, 'v) jsmap \<Rightarrow> ('k, 'v) jsmap" where
  "jm_delete k m = filter (\<lambda>(k', _). k' \<noteq> k) m"

definition jm_keys :: "('k, 'v) jsmap \<Rightarrow> 'k list" where
  "jm_keys m = map fst m"

definition jm_values :: "('k, 'v) jsmap \<Rightarrow> 'v list" where
  "jm_values m = map snd m"

definition jm_wf :: "('k, 'v) jsmap \<Rightarrow> bool" where
  "jm_wf m \<longleftrightarrow> distinct (jm_keys m)"

lemma jm_get_Nil [simp]: "jm_get [] k = None"
  by (simp add: jm_get_def)

lemma jm_get_None: "jm_get m k = None \<longleftrightarrow> k \<notin> set (jm_keys m)"
  by (simp add: jm_get_def jm_keys_def map_of_eq_None_iff)

lemma jm_get_set: "jm_get (jm_set k v m) k' = (if k' = k then Some v else jm_get m k')"
  by (induction k v m rule: jm_set.induct) (auto simp: jm_get_def)

lemma jm_get_set_same [simp]: "jm_get (jm_set k v m) k = Some v"
  by (simp add: jm_get_set)

lemma jm_get_set_other [simp]: "k' \<noteq> k \<Longrightarrow> jm_get (jm_set k v m) k' = jm_get m k'"
  by (simp add: jm_get_set)

lemma jm_get_delete: "jm_get (jm_delete k m) k' = (if k' = k then None else jm_get m k')"
  by (induction m) (auto simp: jm_get_def jm_delete_def)

lemma set_jm_keys_set: "set (jm_keys (jm_set k v m)) = insert k (set (jm_keys m))"
  by (induction k v m rule: jm_set.induct) (auto simp: jm_keys_def)

lemma jm_wf_Nil [simp]: "jm_wf []"
  by (simp add: jm_wf_def jm_keys_def)

lemma jm_wf_set: "jm_wf m \<Longrightarrow> jm_wf (jm_set k v m)"
proof (induction k v m rule: jm_set.induct)
  case (1 k v)
  then show ?case by (simp add: jm_wf_def jm_keys_def)
next
  case (2 k v k' v' m)
  then show ?case
    using set_jm_keys_set [of k v m] by (auto simp: jm_wf_def jm_keys_def)
qed

lemma jm_wf_delete: "jm_wf m \<Longrightarrow> jm_wf (jm_delete k m)"
  by (induction m) (auto simp: jm_wf_def jm_keys_def jm_delete_def)

lemma set_jm_set: "set (jm_set k v m) \<subseteq> insert (k, v) (set m)"
  by (induction k v m rule: jm_set.induct) auto

lemma jm_setD: "x \<in> set (jm_set k v m) \<Longrightarrow> x = (k, v) \<or> x \<in> set m"
  using set_jm_set [of k v m] by auto

lemma jm_getD: "jm_get m k = Some v \<Longrightarrow> (k, v) \<in> set m"
  by (simp add: jm_get_def map_of_SomeD)

lemma list_all_jm_set: "list_all P m \<Longrightarrow> P (k, v) \<Longrightarrow> list_all P (jm_set k v m)"
  by (auto simp: list_all_iff dest: jm_setD)

lemma list_all_jm_get: "list_all P m \<Longrightarrow> jm_get m k = Some v \<Longrightarrow> P (k, v)"
  by (auto simp: list_all_iff dest: jm_getD)

lemma jm_has_set [simp]: "jm_has (jm_set k v m) k' \<longleftrightarrow> k' = k \<or> jm_has m k'"
  by (simp add: jm_has_def jm_get_set)

lemma jm_has_iff: "jm_has m k \<longleftrightarrow> k \<in> set (jm_keys m)"
  by (auto simp: jm_has_def jm_get_def jm_keys_def map_of_eq_None_iff)

lemma jm_get_values: "jm_get m k = Some v \<Longrightarrow> v \<in> set (jm_values m)"
  by (auto simp: jm_get_def jm_values_def dest: map_of_SomeD intro: rev_image_eqI)

lemma jm_get_mem: "jm_wf m \<Longrightarrow> jm_get m k = Some v \<longleftrightarrow> (k, v) \<in> set m"
  by (simp add: jm_wf_def jm_keys_def jm_get_def map_of_eq_Some_iff)

lemma jm_set_existing_keys: "jm_has m k \<Longrightarrow> jm_keys (jm_set k v m) = jm_keys m"
  by (induction k v m rule: jm_set.induct) (auto simp: jm_has_def jm_get_def jm_keys_def)

lemma jm_set_fresh: "\<not> jm_has m k \<Longrightarrow> jm_set k v m = m @ [(k, v)]"
  by (induction k v m rule: jm_set.induct) (auto simp: jm_has_def jm_get_def)

lemma jm_set_fresh_values: "\<not> jm_has m k \<Longrightarrow> jm_values (jm_set k v m) = jm_values m @ [v]"
  by (simp add: jm_set_fresh jm_values_def)

section \<open>Sets as lists\<close>

definition js_uniq :: "'a list \<Rightarrow> 'a list" where
  "js_uniq xs = rev (remdups (rev xs))"

lemma set_js_uniq [simp]: "set (js_uniq xs) = set xs"
  by (simp add: js_uniq_def)

lemma distinct_js_uniq [simp]: "distinct (js_uniq xs)"
  by (simp add: js_uniq_def)

lemma js_uniq_Nil [simp]: "js_uniq [] = []"
  by (simp add: js_uniq_def)

lemma js_uniq_distinct: "distinct xs \<Longrightarrow> js_uniq xs = xs"
  by (simp add: js_uniq_def distinct_remdups_id)

lemma js_uniq_idem [simp]: "js_uniq (js_uniq xs) = js_uniq xs"
  by (simp add: js_uniq_distinct)

lemma js_uniq_eq_Nil [simp]: "js_uniq xs = [] \<longleftrightarrow> xs = []"
  by (simp add: js_uniq_def)

section \<open>Outcomes\<close>

abbreviation throw :: "'e \<Rightarrow> 's \<Rightarrow> ('e, 'a, 's) outcome" where
  "throw e s \<equiv> (Inl e, s)"

abbreviation return :: "'a \<Rightarrow> 's \<Rightarrow> ('e, 'a, 's) outcome" where
  "return a s \<equiv> (Inr a, s)"

definition seqO :: "('e, 'a, 's) outcome \<Rightarrow> ('a \<Rightarrow> 's \<Rightarrow> ('e, 'b, 's) outcome) \<Rightarrow> ('e, 'b, 's) outcome" where
  "seqO r k = (case r of (Inl e, s) \<Rightarrow> (Inl e, s) | (Inr a, s) \<Rightarrow> k a s)"

definition bindR :: "'e + 'a \<Rightarrow> ('a \<Rightarrow> 'e + 'b) \<Rightarrow> 'e + 'b" where
  "bindR r k = (case r of Inl e \<Rightarrow> Inl e | Inr a \<Rightarrow> k a)"

definition liftO :: "'e + 'a \<Rightarrow> 's \<Rightarrow> ('a \<Rightarrow> ('e, 'b, 's) outcome) \<Rightarrow> ('e, 'b, 's) outcome" where
  "liftO r s k = (case r of Inl e \<Rightarrow> (Inl e, s) | Inr a \<Rightarrow> k a)"

definition unlessR :: "bool \<Rightarrow> 'e \<Rightarrow> ('e + 'a) \<Rightarrow> 'e + 'a" where
  "unlessR b e r = (if b then Inl e else r)"

lemma seqO_simps [simp]: "seqO (Inl e, s) k = (Inl e, s)" "seqO (Inr a, s) k = k a s"
  by (simp_all add: seqO_def)

lemma bindR_simps [simp]: "bindR (Inl e) k = Inl e" "bindR (Inr a) k = k a"
  by (simp_all add: bindR_def)

lemma liftO_simps [simp]: "liftO (Inl e) s k = (Inl e, s)" "liftO (Inr a) s k = k a"
  by (simp_all add: liftO_def)

lemma bindR_Inr [outcome_simps]: "bindR r k = Inr b \<longleftrightarrow> (\<exists>a. r = Inr a \<and> k a = Inr b)"
  by (cases r) auto

lemma liftO_Inr [outcome_simps]: "liftO r s k = (Inr b, s') \<longleftrightarrow> (\<exists>a. r = Inr a \<and> k a = (Inr b, s'))"
  by (cases r) auto

lemma liftO_Inl [outcome_simps]:
  "liftO r s k = (Inl e, s') \<longleftrightarrow> (r = Inl e \<and> s' = s) \<or> (\<exists>a. r = Inr a \<and> k a = (Inl e, s'))"
  by (cases r) auto

lemma seqO_Inr [outcome_simps]: "seqO r k = (Inr b, s') \<longleftrightarrow> (\<exists>a s. r = (Inr a, s) \<and> k a s = (Inr b, s'))"
  by (cases r; cases "fst r") auto

lemma unlessR_Inr [outcome_simps]: "unlessR b e r = Inr a \<longleftrightarrow> \<not> b \<and> r = Inr a"
  by (simp add: unlessR_def)

lemma if_throw_Inr [outcome_simps]:
  "(if b then (Inl e, s) else r) = (Inr a, s') \<longleftrightarrow> \<not> b \<and> r = (Inr a, s')"
  by simp

lemma outcome_ok: "\<not> isl (fst r) \<Longrightarrow> r = (Inr (projr (fst r)), snd r)"
  by (cases r; cases "fst r") auto

section \<open>Integer ranges\<close>

lemma filter_upto: "filter (\<lambda>x. a < x) [i .. j] = [max i (a + 1) .. j]" for a i j :: int
proof (induction i j rule: upto.induct)
  case (1 i j)
  show ?case
  proof (cases "i \<le> j")
    case True
    then have rec: "[i..j] = i # [i + 1..j]" by (rule upto_rec1)
    show ?thesis
    proof (cases "a < i")
      case True
      then have "max (i + 1) (a + 1) = i + 1" "max i (a + 1) = i" by auto
      with 1 rec \<open>i \<le> j\<close> True show ?thesis by simp
    next
      case False
      then have "max (i + 1) (a + 1) = max i (a + 1)" by auto
      with 1 rec \<open>i \<le> j\<close> False show ?thesis by simp
    qed
  next
    case False
    then show ?thesis by simp
  qed
qed

section \<open>Contracts shared by the components\<close>

text \<open>A keyed store: what a lookup returns after a write, and what keys a store has.\<close>

locale keyed_store =
  fixes get :: "'m \<Rightarrow> 'k \<Rightarrow> 'v option"
    and put :: "'k \<Rightarrow> 'v \<Rightarrow> 'm \<Rightarrow> 'm"
    and empty :: 'm
    and wf :: "'m \<Rightarrow> bool"
  assumes get_empty: "get empty k = None"
    and get_put: "get (put k v m) k' = (if k' = k then Some v else get m k')"
    and wf_empty: "wf empty"
    and wf_put: "wf m \<Longrightarrow> wf (put k v m)"
begin

lemma put_all_get_None:
  "k \<notin> fst ` set kvs \<Longrightarrow> get (fold (\<lambda>(k, v). put k v) kvs m) k = get m k"
  by (induction kvs arbitrary: m) (auto simp: get_put)

lemma put_all_get:
  "distinct (map fst kvs) \<Longrightarrow> (k, v) \<in> set kvs \<Longrightarrow> get (fold (\<lambda>(k, v). put k v) kvs m) k = Some v"
proof (induction kvs arbitrary: m)
  case Nil
  then show ?case by simp
next
  case (Cons kv kvs)
  show ?case
  proof (cases "kv = (k, v)")
    case True
    with Cons.prems(1) have "k \<notin> fst ` set kvs" by auto
    with True show ?thesis by (simp add: put_all_get_None get_put)
  next
    case False
    with Cons show ?thesis by auto
  qed
qed

lemma put_all_wf: "wf m \<Longrightarrow> wf (fold (\<lambda>(k, v). put k v) kvs m)"
  by (induction kvs arbitrary: m) (auto intro: wf_put)

end

interpretation jm: keyed_store jm_get jm_set "[]" jm_wf
  by unfold_locales (auto simp: jm_get_set intro: jm_wf_set)

text \<open>A machine whose steps keep an invariant and never decrease a measure.\<close>

fun run :: "('s \<Rightarrow> 'ev \<Rightarrow> 's) \<Rightarrow> 's \<Rightarrow> 'ev list \<Rightarrow> 's" where
  "run step s [] = s"
| "run step s (e # es) = run step (step s e) es"

lemma run_append: "run step s (es @ fs) = run step (run step s es) fs"
  by (induction es arbitrary: s) auto

locale monotone_machine =
  fixes step :: "'s \<Rightarrow> 'ev \<Rightarrow> 's"
    and inv :: "'s \<Rightarrow> bool"
    and rev :: "'s \<Rightarrow> int"
  assumes step_inv: "inv s \<Longrightarrow> inv (step s e)"
    and step_mono: "inv s \<Longrightarrow> rev s \<le> rev (step s e)"
begin

lemma run_inv: "inv s \<Longrightarrow> inv (run step s es)"
  by (induction es arbitrary: s) (auto intro: step_inv)

lemma run_mono: "inv s \<Longrightarrow> rev s \<le> rev (run step s es)"
proof (induction es arbitrary: s)
  case Nil
  then show ?case by simp
next
  case (Cons e es)
  from Cons.prems have "rev s \<le> rev (step s e)" by (rule step_mono)
  also have "\<dots> \<le> rev (run step (step s e) es)"
    by (rule Cons.IH) (rule step_inv [OF Cons.prems])
  finally show ?case by simp
qed

end

text \<open>
  A log of events numbered per source: a step appends at most one event, numbered above everything its
  source has issued, and the counter of the source moves to that number.
\<close>

locale sequenced_log =
  fixes step :: "'s \<Rightarrow> 'c \<Rightarrow> 's"
    and log :: "'s \<Rightarrow> 'ev list"
    and source :: "'ev \<Rightarrow> 'n"
    and number :: "'ev \<Rightarrow> int"
    and counter :: "'s \<Rightarrow> 'n \<Rightarrow> int"
  assumes step_log: "(log (step s c) = log s \<and> counter (step s c) = counter s) \<or>
     (\<exists>ev. log (step s c) = log s @ [ev] \<and> counter s (source ev) < number ev \<and>
       counter (step s c) = (counter s)(source ev := number ev))"
begin

definition numbered :: "'s \<Rightarrow> bool" where
  "numbered s \<longleftrightarrow> (\<forall>n. sorted_wrt (<) (map number (filter (\<lambda>e. source e = n) (log s)))) \<and>
     (\<forall>e \<in> set (log s). number e \<le> counter s (source e))"

lemma step_numbered: "numbered s \<Longrightarrow> numbered (step s c)"
  using step_log [of s c] by (fastforce simp: numbered_def sorted_wrt_append)

lemma run_numbered: "numbered s \<Longrightarrow> numbered (run step s cs)"
  by (induction cs arbitrary: s) (auto intro: step_numbered)

theorem strictly_increasing:
  "log s = [] \<Longrightarrow> sorted_wrt (<) (map number (filter (\<lambda>e. source e = n) (log (run step s cs))))"
  using run_numbered [of s cs] by (simp add: numbered_def)

end

text \<open>
  A command with an idempotency key: a failed call leaves the state alone, a committed call
  records its key, recorded keys stay recorded, and a call with a recorded key changes nothing.
\<close>

locale idempotent_command =
  fixes exec :: "'s \<Rightarrow> 'op \<Rightarrow> ('e + 'r) \<times> 's"
    and key :: "'op \<Rightarrow> 'k"
    and recorded :: "'s \<Rightarrow> 'k \<Rightarrow> bool"
    and committed :: "'r \<Rightarrow> bool"
  assumes error_frame: "exec s op = (Inl e, s') \<Longrightarrow> s' = s"
    and uncommitted_frame: "exec s op = (Inr r, s') \<Longrightarrow> \<not> committed r \<Longrightarrow> s' = s"
    and replay_frame: "recorded s (key op) \<Longrightarrow> snd (exec s op) = s"
    and commit_records: "exec s op = (Inr r, s') \<Longrightarrow> committed r \<Longrightarrow> recorded s' (key op)"
    and keeps_recorded: "recorded s k \<Longrightarrow> recorded (snd (exec s op)) k"
begin

lemma step_changes_only_by_commit:
  assumes "snd (exec s op) \<noteq> s"
  shows "\<exists>r. fst (exec s op) = Inr r \<and> committed r \<and> \<not> recorded s (key op)"
proof (cases "exec s op")
  case (Pair r s')
  show ?thesis
  proof (cases r)
    case (Inl e)
    with Pair have "s' = s" by (simp add: error_frame)
    with Pair assms show ?thesis by simp
  next
    case (Inr a)
    have c: "committed a" using Pair Inr assms uncommitted_frame by fastforce
    have "\<not> recorded s (key op)" using assms replay_frame by blast
    with Pair Inr c show ?thesis by simp
  qed
qed

lemma recorded_run: "recorded s k \<Longrightarrow> recorded (run (\<lambda>s op. snd (exec s op)) s ops) k"
  by (induction ops arbitrary: s) (auto intro: keeps_recorded)

theorem at_most_once:
  assumes "fst (exec s op) = Inr r" and "committed r"
  shows "run (\<lambda>s op. snd (exec s op)) (snd (exec s op)) (ops @ [op]) =
         run (\<lambda>s op. snd (exec s op)) (snd (exec s op)) ops"
proof -
  have "exec s op = (Inr r, snd (exec s op))" using assms(1) by (metis prod.collapse)
  then have "recorded (snd (exec s op)) (key op)" using assms(2) by (rule commit_records)
  then have "recorded (run (\<lambda>s op. snd (exec s op)) (snd (exec s op)) ops) (key op)"
    by (rule recorded_run)
  then show ?thesis by (simp add: run_append replay_frame)
qed

end

end
