(* ===== verification/Js_Json.thy ===== *)
theory Js_Json
  imports Js_Prelude "HOL-Library.Word"
begin

text \<open>
  \<open>JSON.stringify\<close> on the plain data the code passes to it, the key-sorted \<open>stableStringify\<close> of
  \<open>primary-agent-binding.ts\<close> and its 32-bit FNV-1a hash. A property whose value is
  \<open>undefined\<close> is absent from the object, so an object is the list of its present properties in
  creation order. Numbers are the integers the code stores (revisions, sequences).
\<close>

datatype json =
    JNull
  | JBool bool
  | JNum int
  | JStr string
  | JArr "json list"
  | JObj "(string \<times> json) list"

definition hex_digit :: "int \<Rightarrow> char" where
  "hex_digit n = (if n < 10 then char_of (48 + n) else char_of (87 + n))"

fun js_quote_char :: "char \<Rightarrow> string" where
  "js_quote_char c = (let n = of_char c :: int in
     if n = 34 then [char_of (92::int), char_of (34::int)]
     else if n = 92 then [char_of (92::int), char_of (92::int)]
     else if n = 8 then char_of (92::int) # ''b''
     else if n = 9 then char_of (92::int) # ''t''
     else if n = 10 then char_of (92::int) # ''n''
     else if n = 12 then char_of (92::int) # ''f''
     else if n = 13 then char_of (92::int) # ''r''
     else if n < 32 then char_of (92::int) # ''u00'' @ [hex_digit (n div 16), hex_digit (n mod 16)]
     else [c])"

definition js_quote :: "string \<Rightarrow> string" where
  "js_quote s = char_of (34::int) # concat (map js_quote_char s) @ [char_of (34::int)]"

fun join :: "string \<Rightarrow> string list \<Rightarrow> string" where
  "join sep [] = []"
| "join sep [x] = x"
| "join sep (x # xs) = x @ sep @ join sep xs"

fun stringify :: "json \<Rightarrow> string" where
  "stringify JNull = ''null''"
| "stringify (JBool b) = (if b then ''true'' else ''false'')"
| "stringify (JNum n) = show_int n"
| "stringify (JStr s) = js_quote s"
| "stringify (JArr xs) = ''['' @ join '','' (map stringify xs) @ '']''"
| "stringify (JObj kvs) = ''{'' @ join '','' (map (\<lambda>(k, v). js_quote k @ '':'' @ stringify v) kvs) @ ''}''"

text \<open>\<open>Object.keys(value).sort()\<close> compares keys by code unit.\<close>

fun str_le :: "string \<Rightarrow> string \<Rightarrow> bool" where
  "str_le [] ys = True"
| "str_le (x # xs) [] = False"
| "str_le (x # xs) (y # ys) =
     (let a = of_char x :: int; b = of_char y in if a < b then True else if b < a then False else str_le xs ys)"

fun insert_key :: "string \<times> 'a \<Rightarrow> (string \<times> 'a) list \<Rightarrow> (string \<times> 'a) list" where
  "insert_key kv [] = [kv]"
| "insert_key kv (x # xs) = (if str_le (fst kv) (fst x) then kv # x # xs else x # insert_key kv xs)"

definition sort_keys :: "(string \<times> 'a) list \<Rightarrow> (string \<times> 'a) list" where
  "sort_keys kvs = foldr insert_key kvs []"

lemma set_insert_key: "set (insert_key kv xs) = insert kv (set xs)"
  by (induction xs) auto

lemma set_sort_keys [simp]: "set (sort_keys kvs) = set kvs"
  by (induction kvs) (auto simp: sort_keys_def set_insert_key)

text \<open>
  \<open>stableStringify\<close> recurses on the properties before or after sorting with the same result,
  because it is applied to each value alone; the model renders the values first.
\<close>

fun stableStringify :: "json \<Rightarrow> string" where
  "stableStringify (JArr xs) = ''['' @ join '','' (map stableStringify xs) @ '']''"
| "stableStringify (JObj kvs) =
     ''{'' @ join '','' (map (\<lambda>(k, v). js_quote k @ '':'' @ v)
       (sort_keys (map (\<lambda>(k, v). (k, stableStringify v)) kvs))) @ ''}''"
| "stableStringify v = stringify v"

unbundle bit_operations_syntax

definition fnv1a_step :: "32 word \<Rightarrow> char \<Rightarrow> 32 word" where
  "fnv1a_step hash c = (hash XOR of_nat (of_char c)) * 16777619"

fun hex8 :: "nat \<Rightarrow> int \<Rightarrow> string" where
  "hex8 0 n = []"
| "hex8 (Suc k) n = hex8 k (n div 16) @ [hex_digit (n mod 16)]"

definition fnv1a :: "string \<Rightarrow> string" where
  "fnv1a value = hex8 8 (uint (foldl fnv1a_step 2166136261 value))"

lemma hex_digit_code: "n < 16 \<Longrightarrow> 0 \<le> n \<Longrightarrow> (of_char (hex_digit n) :: int) = (if n < 10 then 48 + n else 87 + n)"
  unfolding hex_digit_def by (cases "n < 10") (simp_all only: if_True if_False of_char_of, simp_all)

lemma hex_digit_not_space: "n < 16 \<Longrightarrow> 0 \<le> n \<Longrightarrow> \<not> js_space (hex_digit n)"
  by (simp add: js_space_def hex_digit_code)

lemma length_hex8 [simp]: "length (hex8 k n) = k"
  by (induction k n rule: hex8.induct) auto

lemma length_fnv1a [simp]: "length (fnv1a s) = 8"
  by (simp add: fnv1a_def)

section \<open>Date.prototype.toISOString\<close>

definition pad_digits :: "nat \<Rightarrow> int \<Rightarrow> string" where
  "pad_digits k n = (let d = show_int n in replicate (k - length d) (CHR ''0'') @ d)"

text \<open>The proleptic Gregorian date of a day count from 1970-01-01.\<close>

definition civil_from_days :: "int \<Rightarrow> int \<times> int \<times> int" where
  "civil_from_days days =
     (let z = days + 719468; era = z div 146097; doe = z mod 146097;
          yoe = (doe - doe div 1460 + doe div 36524 - doe div 146096) div 365;
          doy = doe - (365 * yoe + yoe div 4 - yoe div 100);
          mp = (5 * doy + 2) div 153; d = doy - (153 * mp + 2) div 5 + 1;
          m = (if mp < 10 then mp + 3 else mp - 9)
      in (yoe + era * 400 + (if m \<le> 2 then 1 else 0), m, d))"

definition js_toISOString :: "timestamp \<Rightarrow> string" where
  "js_toISOString t =
     (case civil_from_days (t div 86400000) of (y, m, d) \<Rightarrow>
       let ms = t mod 86400000;
           year = (if 0 \<le> y \<and> y \<le> 9999 then pad_digits 4 y
                   else (if y < 0 then ''-'' else ''+'') @ pad_digits 6 \<bar>y\<bar>)
       in year @ ''-'' @ pad_digits 2 m @ ''-'' @ pad_digits 2 d @ ''T'' @
          pad_digits 2 (ms div 3600000) @ '':'' @ pad_digits 2 (ms div 60000 mod 60) @ '':'' @
          pad_digits 2 (ms div 1000 mod 60) @ ''.'' @ pad_digits 3 (ms mod 1000) @ ''Z'')"

end
