(* ===== verification/Contracts.thy ===== *)
theory Contracts
  imports Complex_Main Js_Json
begin

text \<open>
  The shared transport contracts of \<open>spatial/contracts/index.ts\<close> that the modelled components
  parse, and the Node scope of \<open>spatial/data/scope.ts\<close>.

  Zod is a third-party package: the checks the schemas call on it (\<open>z.string().min(n)\<close>,
  \<open>.max(n)\<close>, \<open>z.number().int().nonnegative()\<close>, \<open>.nonnegative()\<close>, \<open>.max(n)\<close>, \<open>.positive()\<close>, \<open>z.array(..).max(n)\<close>) are the fields of the
  record \<open>zod\<close>, an argument of every schema; \<open>z_text_max\<close> is \<open>.max(n)\<close> on a text given by its UTF-16 code units, \<open>z_finite_positive\<close> is \<open>z.number().finite().positive()\<close> and \<open>z_finite_max\<close> is \<open>z.number().finite().nonnegative().max(m)\<close> on the rational a finite number denotes. \<open>zod_documented\<close> states what Zod documents of
  them; only the theorems that need it assume it. The schemas themselves (which field is
  trimmed, which bound applies) are translated from the source. A parsed value is one of the
  declared TypeScript type: a field of a closed string union is a datatype, so its \<open>z.enum\<close>
  check always passes and is not written out; the literal \<open>schema_version\<close> is not stored.
\<close>

section \<open>Zod as a parameter\<close>

record zod =
  z_string_min :: "int \<Rightarrow> string \<Rightarrow> bool"
  z_string_max :: "int \<Rightarrow> string \<Rightarrow> bool"
  z_int_nonnegative :: "int \<Rightarrow> bool"
  z_array_max :: "int \<Rightarrow> nat \<Rightarrow> bool"
  z_number_positive :: "int \<Rightarrow> bool"
  z_text_max :: "int \<Rightarrow> int list \<Rightarrow> bool"
  z_number_nonnegative :: "int \<Rightarrow> bool"
  z_number_max :: "int \<Rightarrow> int \<Rightarrow> bool"
  z_finite_positive :: "rat \<Rightarrow> bool"
  z_finite_max :: "rat \<Rightarrow> rat \<Rightarrow> bool"

definition zod_documented :: "zod \<Rightarrow> bool" where
  "zod_documented z \<longleftrightarrow>
     (\<forall>n s. z_string_min z n s \<longleftrightarrow> n \<le> int (length s)) \<and>
     (\<forall>n s. z_string_max z n s \<longleftrightarrow> int (length s) \<le> n) \<and>
     (\<forall>i. z_int_nonnegative z i \<longleftrightarrow> 0 \<le> i) \<and>
     (\<forall>n k. z_array_max z n k \<longleftrightarrow> int k \<le> n) \<and>
     (\<forall>i. z_number_positive z i \<longleftrightarrow> 0 < i) \<and>
     (\<forall>n t. z_text_max z n t \<longleftrightarrow> int (length t) \<le> n) \<and>
     (\<forall>i. z_number_nonnegative z i \<longleftrightarrow> 0 \<le> i) \<and>
     (\<forall>n i. z_number_max z n i \<longleftrightarrow> i \<le> n) \<and>
     (\<forall>q. z_finite_positive z q \<longleftrightarrow> 0 < q) \<and>
     (\<forall>m q. z_finite_max z m q \<longleftrightarrow> 0 \<le> q \<and> q \<le> m)"

definition zod_ref :: zod where
  "zod_ref = \<lparr> z_string_min = (\<lambda>n s. n \<le> int (length s)), z_string_max = (\<lambda>n s. int (length s) \<le> n),
     z_int_nonnegative = (\<lambda>i. 0 \<le> i), z_array_max = (\<lambda>n k. int k \<le> n),
     z_number_positive = (\<lambda>i. 0 < i), z_text_max = (\<lambda>n t. int (length t) \<le> n),
     z_number_nonnegative = (\<lambda>i. 0 \<le> i), z_number_max = (\<lambda>n i. i \<le> n),
     z_finite_positive = (\<lambda>q. 0 < q), z_finite_max = (\<lambda>m q. 0 \<le> q \<and> q \<le> m) \<rparr>"

lemma zod_ref_simps [simp]:
  "z_string_min zod_ref n s \<longleftrightarrow> n \<le> int (length s)"
  "z_string_max zod_ref n s \<longleftrightarrow> int (length s) \<le> n"
  "z_int_nonnegative zod_ref i \<longleftrightarrow> 0 \<le> i"
  "z_array_max zod_ref n k \<longleftrightarrow> int k \<le> n"
  "z_number_positive zod_ref i \<longleftrightarrow> 0 < i"
  "z_text_max zod_ref n t \<longleftrightarrow> int (length t) \<le> n"
  "z_number_nonnegative zod_ref i \<longleftrightarrow> 0 \<le> i"
  "z_number_max zod_ref n i \<longleftrightarrow> i \<le> n"
  "z_finite_positive zod_ref q \<longleftrightarrow> 0 < q"
  "z_finite_max zod_ref m q \<longleftrightarrow> 0 \<le> q \<and> q \<le> m"
  by (simp_all add: zod_ref_def)

lemma zod_ref_documented [simp]: "zod_documented zod_ref"
  by (simp add: zod_documented_def)

section \<open>Basic schemas\<close>

definition MAX_ID_LENGTH :: int where
  "MAX_ID_LENGTH = 256"

definition idSchema :: "zod \<Rightarrow> string \<Rightarrow> string option" where
  "idSchema z v = (let t = js_trim v in
     if z_string_min z 1 t \<and> z_string_max z MAX_ID_LENGTH t then Some t else None)"

definition MAX_STATE_LENGTH :: int where
  "MAX_STATE_LENGTH = 96"

definition MAX_LABEL_LENGTH :: int where
  "MAX_LABEL_LENGTH = 240"

definition stateSchema :: "zod \<Rightarrow> string \<Rightarrow> string option" where
  "stateSchema z v = (let t = js_toUpperCase (js_trim v) in
     if z_string_min z 1 t \<and> z_string_max z MAX_STATE_LENGTH t then Some t else None)"

definition labelSchema :: "zod \<Rightarrow> string \<Rightarrow> string option" where
  "labelSchema z v = (let t = js_trim v in
     if z_string_min z 1 t \<and> z_string_max z MAX_LABEL_LENGTH t then Some t else None)"

definition nullable :: "('a \<Rightarrow> 'a option) \<Rightarrow> 'a option \<Rightarrow> 'a option option" where
  "nullable p v = (case v of None \<Rightarrow> Some None | Some a \<Rightarrow> map_option Some (p a))"

definition revisionSchema :: "zod \<Rightarrow> int \<Rightarrow> int option" where
  "revisionSchema z r = (if z_int_nonnegative z r then Some r else None)"

fun arrayOf :: "('a \<Rightarrow> 'a option) \<Rightarrow> 'a list \<Rightarrow> 'a list option" where
  "arrayOf p [] = Some []"
| "arrayOf p (x # xs) = do { y \<leftarrow> p x; ys \<leftarrow> arrayOf p xs; Some (y # ys) }"

definition arrayMax :: "zod \<Rightarrow> int \<Rightarrow> ('a \<Rightarrow> 'a option) \<Rightarrow> 'a list \<Rightarrow> 'a list option" where
  "arrayMax z n p xs = (if z_array_max z n (length xs) then arrayOf p xs else None)"

text \<open>A schema is normalising when what it returns parses to itself: parsing twice is parsing once.\<close>

definition normalising :: "('a \<Rightarrow> 'a option) \<Rightarrow> bool" where
  "normalising p \<longleftrightarrow> (\<forall>x y. p x = Some y \<longrightarrow> p y = Some y)"

named_theorems schema_normalising \<open>schemas whose result parses to itself\<close>

lemma normalisingD: "normalising p \<Longrightarrow> p x = Some y \<Longrightarrow> p y = Some y"
  by (auto simp: normalising_def)

lemma idSchema_trim: "idSchema z v = Some t \<Longrightarrow> t = js_trim v"
  by (auto simp: idSchema_def Let_def split: if_splits)

lemma idSchema_normalising [schema_normalising]: "normalising (idSchema z)"
  by (auto simp: normalising_def idSchema_def Let_def split: if_splits)

lemma stateSchema_normalising [schema_normalising]: "normalising (stateSchema z)"
  by (auto simp: normalising_def stateSchema_def Let_def split: if_splits)

lemma labelSchema_normalising [schema_normalising]: "normalising (labelSchema z)"
  by (auto simp: normalising_def labelSchema_def Let_def split: if_splits)

lemma revisionSchema_normalising [schema_normalising]: "normalising (revisionSchema z)"
  by (auto simp: normalising_def revisionSchema_def split: if_splits)

lemma nullable_normalising [schema_normalising]: "normalising p \<Longrightarrow> normalising (nullable p)"
  by (auto simp: normalising_def nullable_def split: option.splits)

lemma arrayOf_length: "arrayOf p xs = Some ys \<Longrightarrow> length ys = length xs"
  by (induction xs arbitrary: ys) (auto split: Option.bind_splits)

lemma arrayOf_normalising:
  assumes "normalising p"
  shows "normalising (arrayOf p)"
proof -
  have "arrayOf p xs = Some ys \<Longrightarrow> arrayOf p ys = Some ys" for xs ys
    by (induction xs arbitrary: ys) (auto split: Option.bind_splits simp: normalisingD [OF assms])
  then show ?thesis by (simp add: normalising_def)
qed

lemma arrayOf_map:
  "arrayOf p xs = Some ys \<Longrightarrow> (\<And>x y. p x = Some y \<Longrightarrow> f y = g x) \<Longrightarrow> map f ys = map g xs"
  by (induction xs arbitrary: ys) (auto split: Option.bind_splits)

lemma arrayMax_map:
  "arrayMax z n p xs = Some ys \<Longrightarrow> (\<And>x y. p x = Some y \<Longrightarrow> f y = g x) \<Longrightarrow> map f ys = map g xs"
  by (auto simp: arrayMax_def split: if_splits intro: arrayOf_map)

lemma arrayMax_normalising [schema_normalising]: "normalising p \<Longrightarrow> normalising (arrayMax z n p)"
  by (auto simp: normalising_def arrayMax_def split: if_splits
      dest: arrayOf_length normalisingD [OF arrayOf_normalising, rotated] simp: normalising_def)

lemma idSchema_nonempty: "zod_documented z \<Longrightarrow> idSchema z v = Some t \<Longrightarrow> t \<noteq> []"
  by (auto simp: idSchema_def Let_def zod_documented_def split: if_splits)

lemma idSchema_length: "zod_documented z \<Longrightarrow> idSchema z v = Some t \<Longrightarrow> length t \<le> 256"
  by (auto simp: idSchema_def Let_def zod_documented_def MAX_ID_LENGTH_def split: if_splits)

lemma idSchema_fixed: "zod_documented z \<Longrightarrow> js_trim v = v \<Longrightarrow> v \<noteq> [] \<Longrightarrow> length v \<le> 256 \<Longrightarrow> idSchema z v = Some v"
  by (cases v) (auto simp: idSchema_def zod_documented_def MAX_ID_LENGTH_def Let_def)

lemma labelSchema_fixed: "zod_documented z \<Longrightarrow> js_trim v = v \<Longrightarrow> v \<noteq> [] \<Longrightarrow> length v \<le> 240 \<Longrightarrow> labelSchema z v = Some v"
  by (cases v) (auto simp: labelSchema_def zod_documented_def MAX_LABEL_LENGTH_def Let_def)

text \<open>A point in time as callers give it: a \<open>Date\<close>, or a text for \<open>Date.parse\<close>.\<close>

datatype date_input = DateValue timestamp | DateText string

section \<open>Node scope (data/scope.ts)\<close>

record scope =
  scope_hypervisor_id :: string
  scope_node_id :: string

definition DEFAULT_SPATIAL_NODE_SCOPE :: scope where
  "DEFAULT_SPATIAL_NODE_SCOPE = \<lparr> scope_hypervisor_id = ''local-hypervisor'', scope_node_id = ''local-node'' \<rparr>"

definition normalizeSpatialNodeScope :: "zod \<Rightarrow> scope \<Rightarrow> scope option" where
  "normalizeSpatialNodeScope z sc = do {
     hypervisor \<leftarrow> idSchema z (scope_hypervisor_id sc);
     node \<leftarrow> idSchema z (scope_node_id sc);
     Some \<lparr> scope_hypervisor_id = hypervisor, scope_node_id = node \<rparr> }"

definition spatialScopeKey :: "zod \<Rightarrow> scope \<Rightarrow> string option" where
  "spatialScopeKey z sc = do {
     normalized \<leftarrow> normalizeSpatialNodeScope z sc;
     Some (scope_hypervisor_id normalized @ '':'' @ scope_node_id normalized) }"

lemma normalizeSpatialNodeScope_normalising [schema_normalising]:
  "normalising (normalizeSpatialNodeScope z)"
  by (auto simp: normalising_def normalizeSpatialNodeScope_def split: Option.bind_splits
      dest: normalisingD [OF idSchema_normalising])

section \<open>Primary Agent Slot contract\<close>

datatype lifecycle = UNASSIGNED | BINDING | CONNECTED | DEGRADED | DISCONNECTED | REVOKED

record slot_provenance =
  prov_actor_ref :: string
  prov_operation_id :: string
  prov_recorded_at :: timestamp

record slot =
  slot_id :: string
  slot_node_id :: string
  slot_current_binding_id :: "string option"
  slot_lifecycle_state :: lifecycle
  slot_revision :: int
  slot_assigned_at :: "timestamp option"
  slot_assigned_by :: "string option"
  slot_last_seen_at :: "timestamp option"
  slot_capability_grant_ref :: "string option"
  slot_hook_subscription_ref :: "string option"
  slot_durable_inbox_ref :: "string option"
  slot_changed_at :: "timestamp option"
  slot_provenance_of :: "slot_provenance option"

definition slotProvenanceSchema :: "zod \<Rightarrow> slot_provenance \<Rightarrow> slot_provenance option" where
  "slotProvenanceSchema z p = do {
     actor \<leftarrow> idSchema z (prov_actor_ref p);
     operation \<leftarrow> idSchema z (prov_operation_id p);
     Some \<lparr> prov_actor_ref = actor, prov_operation_id = operation, prov_recorded_at = prov_recorded_at p \<rparr> }"

definition parseSpatialPrimaryAgentSlot :: "zod \<Rightarrow> slot \<Rightarrow> slot option" where
  "parseSpatialPrimaryAgentSlot z s = do {
     sid \<leftarrow> idSchema z (slot_id s);
     node \<leftarrow> idSchema z (slot_node_id s);
     binding \<leftarrow> nullable (idSchema z) (slot_current_binding_id s);
     revision \<leftarrow> revisionSchema z (slot_revision s);
     assigned_by \<leftarrow> nullable (idSchema z) (slot_assigned_by s);
     grant \<leftarrow> nullable (idSchema z) (slot_capability_grant_ref s);
     hook \<leftarrow> nullable (idSchema z) (slot_hook_subscription_ref s);
     inbox \<leftarrow> nullable (idSchema z) (slot_durable_inbox_ref s);
     provenance \<leftarrow> nullable (slotProvenanceSchema z) (slot_provenance_of s);
     Some \<lparr> slot_id = sid, slot_node_id = node, slot_current_binding_id = binding,
       slot_lifecycle_state = slot_lifecycle_state s, slot_revision = revision,
       slot_assigned_at = slot_assigned_at s, slot_assigned_by = assigned_by,
       slot_last_seen_at = slot_last_seen_at s, slot_capability_grant_ref = grant,
       slot_hook_subscription_ref = hook, slot_durable_inbox_ref = inbox,
       slot_changed_at = slot_changed_at s, slot_provenance_of = provenance \<rparr> }"

lemma slotProvenanceSchema_normalising [schema_normalising]: "normalising (slotProvenanceSchema z)"
  by (auto simp: normalising_def slotProvenanceSchema_def split: Option.bind_splits
      dest: normalisingD [OF idSchema_normalising])

lemma parseSpatialPrimaryAgentSlot_normalising [schema_normalising]:
  "normalising (parseSpatialPrimaryAgentSlot z)"
  unfolding normalising_def parseSpatialPrimaryAgentSlot_def
  by (clarsimp simp: bind_eq_Some_conv)
    (intro conjI; erule normalisingD [rotated]; intro schema_normalising)

lemma parseSpatialPrimaryAgentSlot_keeps:
  assumes "parseSpatialPrimaryAgentSlot z s = Some s'"
  shows "slot_node_id s' = js_trim (slot_node_id s)"
    and "slot_revision s' = slot_revision s"
    and "slot_lifecycle_state s' = slot_lifecycle_state s"
    and "slot_current_binding_id s' = map_option js_trim (slot_current_binding_id s)"
  using assms
  by (clarsimp simp: parseSpatialPrimaryAgentSlot_def bind_eq_Some_conv revisionSchema_def nullable_def
      split: if_splits option.splits, auto dest: idSchema_trim)+

end
