(* ===== verification/Slot_Repository.thy ===== *)
theory Slot_Repository
  imports Contracts
begin

text \<open>
  The Primary Agent Slot of \<open>spatial/data/primary-agent-slot.ts\<close>: the lifecycle table, the slot
  constructors and the in-memory repository. The repository state is the record \<open>repository\<close>
  (the class's three Maps and its change log); the constructor options are the record
  \<open>repo_config\<close>. \<open>apply\<close> awaits \<open>getSlot\<close> between reading the slot and committing, so it is
  split where the code suspends: \<open>apply_begin\<close> up to the await, \<open>apply_commit\<close> after it, with
  the captured slot. \<open>apply_slot_operation\<close> is the uninterrupted call.
\<close>

section \<open>Data\<close>

datatype slot_operation_kind =
  Bind | Replace | Detach | Revoke | MarkDegraded | MarkDisconnected | Restore | Transition

datatype slot_error =
    Slot_NODE_MISMATCH | Slot_DUPLICATE_SLOT | Slot_NOT_FOUND | Slot_STALE_REVISION
  | Slot_INVALID_TRANSITION | Slot_CORRUPT_BINDING | Slot_IDEMPOTENCY_CONFLICT
  | Slot_UNAUTHORIZED | Slot_VALIDATION | Slot_ZodError

record binding_record =
  bind_binding_id :: string
  bind_node_id :: string
  bind_agent_identity_ref :: string
  bind_runtime_ref :: string
  bind_revision :: int
  bind_capability_grant_ref :: "string option option"

record slot_operation =
  op_operation_id :: string
  op_idempotency_key :: string
  op_actor_ref :: string
  op_expected_revision :: int
  op_kind :: slot_operation_kind
  op_binding_id :: "string option"
  op_binding :: "binding_record option"
  op_capability_grant_ref :: "string option option"
  op_hook_subscription_ref :: "string option option"
  op_durable_inbox_ref :: "string option option"
  op_lifecycle_state :: "lifecycle option"

record slot_change =
  chg_change_id :: string
  chg_slot_id :: string
  chg_node_id :: string
  chg_revision :: int
  chg_operation_id :: string
  chg_actor_ref :: string
  chg_kind :: slot_operation_kind
  chg_occurred_at :: timestamp

record slot_mutation =
  mut_slot :: slot
  mut_change :: slot_change

record repository =
  repo_slots :: "(string, slot) jsmap"
  repo_bindings :: "(string, binding_record) jsmap"
  repo_operations :: "(string, string \<times> slot_mutation) jsmap"
  repo_changes :: "slot_change list"

record repo_config =
  cfg_zod :: zod
  cfg_authorize :: "(scope \<Rightarrow> slot_operation \<Rightarrow> slot \<Rightarrow> bool) option"

section \<open>The lifecycle table and slot constructors\<close>

fun PRIMARY_AGENT_SLOT_TRANSITIONS :: "lifecycle \<Rightarrow> lifecycle list" where
  "PRIMARY_AGENT_SLOT_TRANSITIONS UNASSIGNED = [BINDING, REVOKED]"
| "PRIMARY_AGENT_SLOT_TRANSITIONS BINDING = [CONNECTED, DEGRADED, DISCONNECTED, UNASSIGNED, REVOKED]"
| "PRIMARY_AGENT_SLOT_TRANSITIONS CONNECTED = [BINDING, DEGRADED, DISCONNECTED, REVOKED]"
| "PRIMARY_AGENT_SLOT_TRANSITIONS DEGRADED = [BINDING, CONNECTED, DISCONNECTED, UNASSIGNED, REVOKED]"
| "PRIMARY_AGENT_SLOT_TRANSITIONS DISCONNECTED = [BINDING, CONNECTED, UNASSIGNED, REVOKED]"
| "PRIMARY_AGENT_SLOT_TRANSITIONS REVOKED = []"

definition lifecycle_allowed :: "lifecycle \<Rightarrow> lifecycle \<Rightarrow> bool" where
  "lifecycle_allowed current target \<longleftrightarrow>
     current = target \<or> target \<in> set (PRIMARY_AGENT_SLOT_TRANSITIONS current)"

definition requireText :: "string \<Rightarrow> slot_error + string" where
  "requireText v = (if js_trim v = [] then Inl Slot_VALIDATION else Inr (js_trim v))"

definition normalizeScope :: "zod \<Rightarrow> scope \<Rightarrow> slot_error + scope" where
  "normalizeScope z sc = (case normalizeSpatialNodeScope z sc of None \<Rightarrow> Inl Slot_ZodError | Some s \<Rightarrow> Inr s)"

definition assertPrimaryAgentSlotOwnership :: "zod \<Rightarrow> slot \<Rightarrow> scope \<Rightarrow> slot_error + unit" where
  "assertPrimaryAgentSlotOwnership z s sc = bindR (normalizeScope z sc) (\<lambda>normalized.
     if slot_node_id s \<noteq> scope_node_id normalized then Inl Slot_NODE_MISMATCH else Inr ())"

definition trimmed_or :: "string option \<Rightarrow> string \<Rightarrow> string" where
  "trimmed_or v d = (case v of None \<Rightarrow> d | Some s \<Rightarrow> if js_trim s = [] then d else js_trim s)"

definition createPrimaryAgentSlot ::
  "zod \<Rightarrow> scope \<Rightarrow> string option \<Rightarrow> string option \<Rightarrow> timestamp \<Rightarrow> slot_error + slot" where
  "createPrimaryAgentSlot z sc slot_id_opt durable_inbox_opt now =
     bindR (normalizeScope z sc) (\<lambda>normalized.
     let slotId = trimmed_or slot_id_opt (''primary-agent-slot-'' @ scope_node_id normalized);
         durableInboxRef = trimmed_or durable_inbox_opt (''inbox-primary-agent-'' @ scope_node_id normalized)
     in bindR (requireText slotId) (\<lambda>sid.
        bindR (requireText (scope_node_id normalized)) (\<lambda>node.
        bindR (requireText durableInboxRef) (\<lambda>inbox.
        (case parseSpatialPrimaryAgentSlot z
           \<lparr> slot_id = sid, slot_node_id = node, slot_current_binding_id = None,
             slot_lifecycle_state = UNASSIGNED, slot_revision = 0, slot_assigned_at = None,
             slot_assigned_by = None, slot_last_seen_at = None, slot_capability_grant_ref = None,
             slot_hook_subscription_ref = None, slot_durable_inbox_ref = Some inbox,
             slot_changed_at = Some now, slot_provenance_of = None \<rparr>
         of None \<Rightarrow> Inl Slot_VALIDATION | Some s \<Rightarrow> Inr s)))))"

definition transitionPrimaryAgentSlot ::
  "slot \<Rightarrow> lifecycle \<Rightarrow> string option \<Rightarrow> string option \<Rightarrow> timestamp \<Rightarrow> slot_error + slot" where
  "transitionPrimaryAgentSlot current target actor_ref operation_id now =
     (if \<not> lifecycle_allowed (slot_lifecycle_state current) target then Inl Slot_INVALID_TRANSITION
      else let next = current \<lparr> slot_lifecycle_state := target,
             slot_revision := slot_revision current + (if slot_lifecycle_state current = target then 0 else 1),
             slot_last_seen_at := (if target = CONNECTED then Some now else slot_last_seen_at current),
             slot_changed_at := Some now \<rparr>
       in Inr (if js_truthy actor_ref \<and> js_truthy operation_id
               then next \<lparr> slot_provenance_of := Some \<lparr> prov_actor_ref = the actor_ref,
                      prov_operation_id = the operation_id, prov_recorded_at = now \<rparr> \<rparr>
               else next))"

definition serializePrimaryAgentSlot :: "zod \<Rightarrow> slot \<Rightarrow> slot_error + slot" where
  "serializePrimaryAgentSlot z s =
     (case parseSpatialPrimaryAgentSlot z s of None \<Rightarrow> Inl Slot_VALIDATION | Some s' \<Rightarrow> Inr s')"

section \<open>Operation validation and the slot transition function\<close>

fun kind_json :: "slot_operation_kind \<Rightarrow> json" where
  "kind_json Bind = JStr ''bind''"
| "kind_json Replace = JStr ''replace''"
| "kind_json Detach = JStr ''detach''"
| "kind_json Revoke = JStr ''revoke''"
| "kind_json MarkDegraded = JStr ''mark-degraded''"
| "kind_json MarkDisconnected = JStr ''mark-disconnected''"
| "kind_json Restore = JStr ''restore''"
| "kind_json Transition = JStr ''transition''"

fun lifecycle_json :: "lifecycle \<Rightarrow> json" where
  "lifecycle_json UNASSIGNED = JStr ''UNASSIGNED''"
| "lifecycle_json BINDING = JStr ''BINDING''"
| "lifecycle_json CONNECTED = JStr ''CONNECTED''"
| "lifecycle_json DEGRADED = JStr ''DEGRADED''"
| "lifecycle_json DISCONNECTED = JStr ''DISCONNECTED''"
| "lifecycle_json REVOKED = JStr ''REVOKED''"

definition null_json :: "string option \<Rightarrow> json" where
  "null_json v = (case v of None \<Rightarrow> JNull | Some s \<Rightarrow> JStr s)"

definition prop_if :: "string \<Rightarrow> ('a \<Rightarrow> json) \<Rightarrow> 'a option \<Rightarrow> (string \<times> json) list" where
  "prop_if name enc v = (case v of None \<Rightarrow> [] | Some a \<Rightarrow> [(name, enc a)])"

definition binding_json :: "binding_record \<Rightarrow> json" where
  "binding_json b = JObj ([(''binding_id'', JStr (bind_binding_id b)), (''node_id'', JStr (bind_node_id b)),
     (''agent_identity_ref'', JStr (bind_agent_identity_ref b)), (''runtime_ref'', JStr (bind_runtime_ref b)),
     (''revision'', JNum (bind_revision b))] @
     prop_if ''capability_grant_ref'' null_json (bind_capability_grant_ref b))"

definition operationFingerprint :: "slot_operation \<Rightarrow> string" where
  "operationFingerprint op = stringify (JObj (
     [(''operation_id'', JStr (op_operation_id op)), (''idempotency_key'', JStr (op_idempotency_key op)),
      (''actor_ref'', JStr (op_actor_ref op)), (''expected_revision'', JNum (op_expected_revision op)),
      (''kind'', kind_json (op_kind op))] @
     prop_if ''binding_id'' JStr (op_binding_id op) @
     prop_if ''binding'' binding_json (op_binding op) @
     prop_if ''capability_grant_ref'' null_json (op_capability_grant_ref op) @
     prop_if ''hook_subscription_ref'' null_json (op_hook_subscription_ref op) @
     prop_if ''durable_inbox_ref'' null_json (op_durable_inbox_ref op) @
     prop_if ''lifecycle_state'' lifecycle_json (op_lifecycle_state op)))"

definition validateOperation :: "slot_operation \<Rightarrow> slot_error + unit" where
  "validateOperation op =
     bindR (requireText (op_operation_id op)) (\<lambda>_.
     bindR (requireText (op_idempotency_key op)) (\<lambda>_.
     bindR (requireText (op_actor_ref op)) (\<lambda>_.
     if op_expected_revision op < 0 then Inl Slot_VALIDATION else Inr ())))"

definition bindingRecordSchema :: "zod \<Rightarrow> binding_record \<Rightarrow> binding_record option" where
  "bindingRecordSchema z b = do {
     bid \<leftarrow> idSchema z (bind_binding_id b);
     node \<leftarrow> idSchema z (bind_node_id b);
     agent \<leftarrow> idSchema z (bind_agent_identity_ref b);
     runtime \<leftarrow> idSchema z (bind_runtime_ref b);
     revision \<leftarrow> revisionSchema z (bind_revision b);
     grant \<leftarrow> nullable (nullable (idSchema z)) (bind_capability_grant_ref b);
     Some \<lparr> bind_binding_id = bid, bind_node_id = node, bind_agent_identity_ref = agent,
       bind_runtime_ref = runtime, bind_revision = revision, bind_capability_grant_ref = grant \<rparr> }"

definition validateBinding :: "zod \<Rightarrow> binding_record \<Rightarrow> slot_error + binding_record" where
  "validateBinding z b = (case bindingRecordSchema z b of None \<Rightarrow> Inl Slot_VALIDATION | Some b' \<Rightarrow> Inr b')"

definition operationBindingId :: "slot_operation \<Rightarrow> string option" where
  "operationBindingId op =
     (case (case op_binding_id op of Some i \<Rightarrow> Some i | None \<Rightarrow> map_option bind_binding_id (op_binding op)) of
        None \<Rightarrow> None
      | Some bindingId \<Rightarrow> if js_trim bindingId = [] then None else Some (js_trim bindingId))"

definition slotForOperation ::
  "slot \<Rightarrow> slot_operation \<Rightarrow> binding_record option \<Rightarrow> timestamp \<Rightarrow> slot_error + slot" where
  "slotForOperation current op binding ts =
     (let next = current \<lparr> slot_revision := slot_revision current + 1, slot_changed_at := Some ts,
            slot_provenance_of := Some \<lparr> prov_actor_ref = js_trim (op_actor_ref op),
              prov_operation_id = js_trim (op_operation_id op), prov_recorded_at = ts \<rparr> \<rparr>;
          attach = (case binding of None \<Rightarrow> Inl Slot_CORRUPT_BINDING
            | Some b \<Rightarrow> Inr (next \<lparr> slot_current_binding_id := Some (bind_binding_id b),
                slot_lifecycle_state := CONNECTED, slot_assigned_at := Some ts,
                slot_assigned_by := Some (js_trim (op_actor_ref op)), slot_last_seen_at := Some ts,
                slot_capability_grant_ref := (case op_capability_grant_ref op of
                    None \<Rightarrow> (case bind_capability_grant_ref b of None \<Rightarrow> None | Some g \<Rightarrow> g) | Some g \<Rightarrow> g),
                slot_hook_subscription_ref := (case op_hook_subscription_ref op of None \<Rightarrow> None | Some h \<Rightarrow> h),
                slot_durable_inbox_ref := (case op_durable_inbox_ref op of
                    None \<Rightarrow> slot_durable_inbox_ref current | Some i \<Rightarrow> i) \<rparr>))
      in case op_kind op of
           Bind \<Rightarrow> attach
         | Replace \<Rightarrow> attach
         | Detach \<Rightarrow> Inr (next \<lparr> slot_current_binding_id := None, slot_lifecycle_state := UNASSIGNED,
             slot_assigned_at := None, slot_assigned_by := None, slot_capability_grant_ref := None,
             slot_hook_subscription_ref := None \<rparr>)
         | Revoke \<Rightarrow> Inr (next \<lparr> slot_current_binding_id := None, slot_lifecycle_state := REVOKED,
             slot_capability_grant_ref := None, slot_hook_subscription_ref := None \<rparr>)
         | MarkDegraded \<Rightarrow> Inr (next \<lparr> slot_lifecycle_state := DEGRADED \<rparr>)
         | MarkDisconnected \<Rightarrow> Inr (next \<lparr> slot_lifecycle_state := DISCONNECTED \<rparr>)
         | Restore \<Rightarrow> Inr (next \<lparr>
             slot_lifecycle_state := (if js_truthy (slot_current_binding_id current) then CONNECTED else UNASSIGNED),
             slot_last_seen_at := (if js_truthy (slot_current_binding_id current) then Some ts
                                   else slot_last_seen_at current) \<rparr>)
         | Transition \<Rightarrow> (case op_lifecycle_state op of
             None \<Rightarrow> Inl Slot_VALIDATION
           | Some target \<Rightarrow>
               if \<not> lifecycle_allowed (slot_lifecycle_state current) target then Inl Slot_INVALID_TRANSITION
               else Inr (next \<lparr> slot_lifecycle_state := target,
                 slot_last_seen_at := (if target = CONNECTED then Some ts else slot_last_seen_at current) \<rparr>)))"

definition assertOperationTransition :: "slot \<Rightarrow> slot_operation \<Rightarrow> slot_error + unit" where
  "assertOperationTransition current op =
     (let state = slot_lifecycle_state current; bound = js_truthy (slot_current_binding_id current) in
      case op_kind op of
        Bind \<Rightarrow> if state \<noteq> UNASSIGNED \<or> bound then Inl Slot_INVALID_TRANSITION else Inr ()
      | Replace \<Rightarrow> if state = UNASSIGNED \<or> state = REVOKED \<or> \<not> bound
                   then Inl Slot_INVALID_TRANSITION else Inr ()
      | Detach \<Rightarrow> if state \<notin> {BINDING, CONNECTED, DEGRADED, DISCONNECTED} \<or> \<not> bound
                  then Inl Slot_INVALID_TRANSITION else Inr ()
      | Revoke \<Rightarrow> if state = REVOKED then Inl Slot_INVALID_TRANSITION else Inr ()
      | MarkDegraded \<Rightarrow> if state = UNASSIGNED \<or> state = REVOKED \<or> \<not> bound
                        then Inl Slot_INVALID_TRANSITION else Inr ()
      | MarkDisconnected \<Rightarrow> if state = UNASSIGNED \<or> state = REVOKED \<or> \<not> bound
                            then Inl Slot_INVALID_TRANSITION else Inr ()
      | Restore \<Rightarrow> if state = REVOKED \<or> state = UNASSIGNED \<or> \<not> bound
                   then Inl Slot_INVALID_TRANSITION else Inr ()
      | Transition \<Rightarrow> (case op_lifecycle_state op of
            None \<Rightarrow> Inl Slot_VALIDATION
          | Some target \<Rightarrow> if \<not> lifecycle_allowed state target then Inl Slot_INVALID_TRANSITION else Inr ()))"

section \<open>The in-memory repository\<close>

definition node_key :: "string \<Rightarrow> string" where
  "node_key n = ''node:'' @ n"

definition slot_key :: "zod \<Rightarrow> scope \<Rightarrow> slot_error + string" where
  "slot_key z sc = bindR (normalizeScope z sc) (\<lambda>n. Inr (node_key (scope_node_id n)))"

definition assertBindingReference :: "repository \<Rightarrow> slot \<Rightarrow> slot_error + unit" where
  "assertBindingReference r s =
     (let requiresBinding = slot_lifecycle_state s \<in> {BINDING, CONNECTED, DEGRADED, DISCONNECTED} in
      if \<not> js_truthy (slot_current_binding_id s)
      then (if requiresBinding then Inl Slot_CORRUPT_BINDING else Inr ())
      else if slot_lifecycle_state s = UNASSIGNED \<or> slot_lifecycle_state s = REVOKED then Inl Slot_CORRUPT_BINDING
      else case jm_get (repo_bindings r) (the (slot_current_binding_id s)) of
             None \<Rightarrow> Inl Slot_CORRUPT_BINDING
           | Some b \<Rightarrow> if bind_node_id b \<noteq> slot_node_id s then Inl Slot_NODE_MISMATCH else Inr ())"

definition insertSlot :: "zod \<Rightarrow> slot \<Rightarrow> repository \<Rightarrow> (slot_error, slot, repository) outcome" where
  "insertSlot z slotInput r =
     (case parseSpatialPrimaryAgentSlot z slotInput of
        None \<Rightarrow> throw Slot_VALIDATION r
      | Some s \<Rightarrow>
          if jm_has (repo_slots r) (node_key (slot_node_id s)) then throw Slot_DUPLICATE_SLOT r
          else liftO (assertBindingReference r s) r (\<lambda>_.
            return s (r \<lparr> repo_slots := jm_set (node_key (slot_node_id s)) s (repo_slots r) \<rparr>)))"

definition registerBinding :: "zod \<Rightarrow> binding_record \<Rightarrow> repository \<Rightarrow> (slot_error, binding_record, repository) outcome" where
  "registerBinding z bindingInput r =
     liftO (validateBinding z bindingInput) r (\<lambda>binding.
     case jm_get (repo_bindings r) (bind_binding_id binding) of
       Some existing \<Rightarrow> if stringify (binding_json existing) \<noteq> stringify (binding_json binding)
                       then throw Slot_IDEMPOTENCY_CONFLICT r else return existing r
     | None \<Rightarrow> return binding (r \<lparr> repo_bindings := jm_set (bind_binding_id binding) binding (repo_bindings r) \<rparr>))"

definition getBinding :: "repository \<Rightarrow> string \<Rightarrow> slot_error + binding_record option" where
  "getBinding r bindingId = bindR (requireText bindingId) (\<lambda>normalizedId.
     Inr (jm_get (repo_bindings r) normalizedId))"

definition createSlot ::
  "zod \<Rightarrow> scope \<Rightarrow> string option \<Rightarrow> string option \<Rightarrow> timestamp \<Rightarrow> repository \<Rightarrow> (slot_error, slot, repository) outcome" where
  "createSlot z sc slot_id_opt inbox_opt now r =
     liftO (slot_key z sc) r (\<lambda>k.
       if jm_has (repo_slots r) k then throw Slot_DUPLICATE_SLOT r
       else liftO (createPrimaryAgentSlot z sc slot_id_opt inbox_opt now) r (\<lambda>s. insertSlot z s r))"

definition getSlot :: "zod \<Rightarrow> repository \<Rightarrow> scope \<Rightarrow> slot_error + slot" where
  "getSlot z r sc = bindR (slot_key z sc) (\<lambda>k.
     case jm_get (repo_slots r) k of
       None \<Rightarrow> Inl Slot_NOT_FOUND
     | Some s \<Rightarrow> bindR (assertPrimaryAgentSlotOwnership z s sc) (\<lambda>_.
         bindR (assertBindingReference r s) (\<lambda>_. Inr s)))"

definition ensureSlot :: "zod \<Rightarrow> scope \<Rightarrow> timestamp \<Rightarrow> repository \<Rightarrow> (slot_error, slot, repository) outcome" where
  "ensureSlot z sc now r = liftO (slot_key z sc) r (\<lambda>k.
     case jm_get (repo_slots r) k of
       Some _ \<Rightarrow> (getSlot z r sc, r)
     | None \<Rightarrow> createSlot z sc None None now r)"

text \<open>\<open>apply\<close>, up to the await of \<open>getSlot\<close>.\<close>

definition apply_begin :: "repo_config \<Rightarrow> repository \<Rightarrow> scope \<Rightarrow> slot_operation \<Rightarrow> slot_error + (scope \<times> slot)" where
  "apply_begin cfg r sc op =
     bindR (normalizeScope (cfg_zod cfg) sc) (\<lambda>normalizedScope.
     bindR (validateOperation op) (\<lambda>_.
     bindR (getSlot (cfg_zod cfg) r normalizedScope) (\<lambda>s. Inr (normalizedScope, s))))"

text \<open>The binding a \<open>bind\<close> or \<open>replace\<close> refers to; \<open>None\<close> for the other kinds.\<close>

definition resolveBinding ::
  "zod \<Rightarrow> repository \<Rightarrow> scope \<Rightarrow> slot_operation \<Rightarrow> slot_error + binding_record option" where
  "resolveBinding z r normalizedScope op =
     (if op_kind op = Bind \<or> op_kind op = Replace then
        (case operationBindingId op of
           None \<Rightarrow> Inl Slot_VALIDATION
         | Some bindingId \<Rightarrow>
             bindR (case op_binding op of
                 None \<Rightarrow> Inr (jm_get (repo_bindings r) bindingId)
               | Some raw \<Rightarrow> bindR (validateBinding z raw) (\<lambda>staged.
                   if bind_binding_id staged \<noteq> bindingId then Inl Slot_VALIDATION
                   else if bind_node_id staged \<noteq> scope_node_id normalizedScope then Inl Slot_NODE_MISMATCH
                   else case jm_get (repo_bindings r) bindingId of
                          Some registered \<Rightarrow>
                            if stringify (binding_json registered) \<noteq> stringify (binding_json staged)
                            then Inl Slot_IDEMPOTENCY_CONFLICT else Inr (Some registered)
                        | None \<Rightarrow> Inr (Some staged)))
               (\<lambda>found. case found of
                  None \<Rightarrow> Inl Slot_CORRUPT_BINDING
                | Some b \<Rightarrow> if bind_node_id b \<noteq> scope_node_id normalizedScope then Inl Slot_NODE_MISMATCH
                            else Inr (Some b)))
      else Inr None)"

definition change_for :: "slot \<Rightarrow> slot_operation \<Rightarrow> timestamp \<Rightarrow> slot_change" where
  "change_for nextSlot op ts = \<lparr>
     chg_change_id = slot_id nextSlot @ '':change:'' @ show_int (slot_revision nextSlot),
     chg_slot_id = slot_id nextSlot, chg_node_id = slot_node_id nextSlot,
     chg_revision = slot_revision nextSlot, chg_operation_id = js_trim (op_operation_id op),
     chg_actor_ref = js_trim (op_actor_ref op), chg_kind = op_kind op, chg_occurred_at = ts \<rparr>"

text \<open>The state a successful \<open>apply\<close> writes: the staged binding if it is new, the slot, the change and the result under its idempotency key.\<close>

definition committed_repo ::
  "slot_operation \<Rightarrow> binding_record option \<Rightarrow> string \<Rightarrow> slot \<Rightarrow> timestamp \<Rightarrow> repository \<Rightarrow> repository" where
  "committed_repo op binding k nextSlot now r = r \<lparr>
     repo_bindings := (case (op_binding op, binding) of
        (Some _, Some b) \<Rightarrow> if jm_has (repo_bindings r) (bind_binding_id b) then repo_bindings r
                           else jm_set (bind_binding_id b) b (repo_bindings r)
      | _ \<Rightarrow> repo_bindings r),
     repo_slots := jm_set k nextSlot (repo_slots r),
     repo_changes := repo_changes r @ [change_for nextSlot op now],
     repo_operations := jm_set (op_idempotency_key op)
       (operationFingerprint op, \<lparr> mut_slot = nextSlot, mut_change = change_for nextSlot op now \<rparr>)
       (repo_operations r) \<rparr>"

text \<open>\<open>apply\<close>, from the resumption after the await: \<open>captured\<close> is the slot read before it.\<close>

definition apply_commit ::
  "repo_config \<Rightarrow> timestamp \<Rightarrow> scope \<Rightarrow> slot_operation \<Rightarrow> slot \<Rightarrow> repository
   \<Rightarrow> (slot_error, slot_mutation, repository) outcome" where
  "apply_commit cfg now normalizedScope op captured r =
     (case jm_get (repo_operations r) (op_idempotency_key op) of
        Some (fingerprint, result) \<Rightarrow>
          if fingerprint \<noteq> operationFingerprint op then throw Slot_IDEMPOTENCY_CONFLICT r
          else if chg_actor_ref (mut_change result) \<noteq> js_trim (op_actor_ref op) then throw Slot_UNAUTHORIZED r
          else return result r
      | None \<Rightarrow>
          if (case cfg_authorize cfg of None \<Rightarrow> False | Some auth \<Rightarrow> \<not> auth normalizedScope op captured)
          then throw Slot_UNAUTHORIZED r
          else if op_expected_revision op \<noteq> slot_revision captured then throw Slot_STALE_REVISION r
          else liftO (assertOperationTransition captured op) r (\<lambda>_.
          liftO (resolveBinding (cfg_zod cfg) r normalizedScope op) r (\<lambda>binding.
          liftO (slot_key (cfg_zod cfg) normalizedScope) r (\<lambda>k.
          case jm_get (repo_slots r) k of
            None \<Rightarrow> throw Slot_STALE_REVISION r
          | Some currentAtCommit \<Rightarrow>
              if slot_revision currentAtCommit \<noteq> slot_revision captured then throw Slot_STALE_REVISION r
              else liftO (slotForOperation captured op binding now) r (\<lambda>nextSlot.
                return \<lparr> mut_slot = nextSlot, mut_change = change_for nextSlot op now \<rparr>
                  (committed_repo op binding k nextSlot now r))))))"

definition apply_slot_operation ::
  "repo_config \<Rightarrow> timestamp \<Rightarrow> scope \<Rightarrow> slot_operation \<Rightarrow> repository \<Rightarrow> (slot_error, slot_mutation, repository) outcome" where
  "apply_slot_operation cfg now sc op r =
     (case apply_begin cfg r sc op of
        Inl e \<Rightarrow> throw e r
      | Inr (normalizedScope, captured) \<Rightarrow> apply_commit cfg now normalizedScope op captured r)"

definition getChanges :: "zod \<Rightarrow> repository \<Rightarrow> scope \<Rightarrow> int \<Rightarrow> slot_error + slot_change list" where
  "getChanges z r sc afterRevision = bindR (getSlot z r sc) (\<lambda>s.
     if afterRevision < 0 then Inl Slot_VALIDATION
     else Inr (filter (\<lambda>c. chg_node_id c = slot_node_id s \<and> afterRevision < chg_revision c) (repo_changes r)))"

section \<open>Serialisation and restart\<close>

record repository_state =
  st_slots :: "slot list"
  st_bindings :: "binding_record list"
  st_operations :: "(string \<times> string \<times> slot_mutation) list"
  st_changes :: "slot_change list"

definition empty_repository :: repository where
  "empty_repository = \<lparr> repo_slots = [], repo_bindings = [], repo_operations = [], repo_changes = [] \<rparr>"

definition serialize_repository :: "repository \<Rightarrow> repository_state" where
  "serialize_repository r = \<lparr> st_slots = jm_values (repo_slots r), st_bindings = jm_values (repo_bindings r),
     st_operations = repo_operations r, st_changes = repo_changes r \<rparr>"

fun registerAll :: "zod \<Rightarrow> binding_record list \<Rightarrow> repository \<Rightarrow> slot_error + repository" where
  "registerAll z [] r = Inr r"
| "registerAll z (b # bs) r = (case registerBinding z b r of (Inl e, _) \<Rightarrow> Inl e | (Inr _, r') \<Rightarrow> registerAll z bs r')"

fun insertAll :: "zod \<Rightarrow> slot list \<Rightarrow> repository \<Rightarrow> slot_error + repository" where
  "insertAll z [] r = Inr r"
| "insertAll z (s # ss) r = (case insertSlot z s r of (Inl e, _) \<Rightarrow> Inl e | (Inr _, r') \<Rightarrow> insertAll z ss r')"

text \<open>The class constructor: register the bindings, then insert the initial slots.\<close>

definition newRepository :: "zod \<Rightarrow> slot list \<Rightarrow> binding_record list \<Rightarrow> slot_error + repository" where
  "newRepository z initial bindings = bindR (registerAll z bindings empty_repository) (insertAll z initial)"

definition fromState :: "zod \<Rightarrow> repository_state \<Rightarrow> slot_error + repository" where
  "fromState z st =
     bindR (newRepository z [] (st_bindings st)) (\<lambda>r0.
     bindR (insertAll z (st_slots st) r0) (\<lambda>r1.
     Inr (r1 \<lparr> repo_operations := fold (\<lambda>(k, v). jm_set k v) (st_operations st) (repo_operations r1),
               repo_changes := repo_changes r1 @ st_changes st \<rparr>)))"

definition restart_repository :: "zod \<Rightarrow> repository \<Rightarrow> slot_error + repository" where
  "restart_repository z r = fromState z (serialize_repository r)"

end
