(* ===== verification/Slot_Lemmas.thy ===== *)
theory Slot_Lemmas
  imports Slot_Repository
begin

text \<open>
  Lemmas about the slot repository: the frame of each operation, the case analysis of a
  successful \<open>apply\<close>, the repository invariant and its preservation.
\<close>

section \<open>Frames and inversion\<close>

lemma node_key_inject [simp]: "node_key a = node_key b \<longleftrightarrow> a = b"
  by (simp add: node_key_def)

lemma slotForOperation_frame:
  assumes "slotForOperation cur op b ts = Inr nxt"
  shows "slot_revision nxt = slot_revision cur + 1"
    and "slot_node_id nxt = slot_node_id cur"
    and "slot_id nxt = slot_id cur"
  using assms
  by (auto simp: slotForOperation_def Let_def split: slot_operation_kind.splits option.splits if_splits)

lemma apply_commit_error_frame: "apply_commit cfg now ns op cap r = (Inl e, r') \<Longrightarrow> r' = r"
  by (auto simp: apply_commit_def outcome_simps split: option.splits if_splits prod.splits)

lemma apply_operation_error_frame: "apply_slot_operation cfg now sc op r = (Inl e, r') \<Longrightarrow> r' = r"
  by (auto simp: apply_slot_operation_def split: sum.splits prod.splits dest: apply_commit_error_frame)

lemma apply_commit_success:
  assumes "apply_commit cfg now ns op cap r = (Inr m, r')"
  obtains (replay) "jm_get (repo_operations r) (op_idempotency_key op) = Some (operationFingerprint op, m)"
      "chg_actor_ref (mut_change m) = js_trim (op_actor_ref op)" "r' = r"
    | (commit) binding k cur nextSlot where
      "jm_get (repo_operations r) (op_idempotency_key op) = None"
      "op_expected_revision op = slot_revision cap"
      "assertOperationTransition cap op = Inr ()"
      "resolveBinding (cfg_zod cfg) r ns op = Inr binding"
      "slot_key (cfg_zod cfg) ns = Inr k"
      "jm_get (repo_slots r) k = Some cur"
      "slot_revision cur = slot_revision cap"
      "slotForOperation cap op binding now = Inr nextSlot"
      "m = \<lparr> mut_slot = nextSlot, mut_change = change_for nextSlot op now \<rparr>"
      "r' = committed_repo op binding k nextSlot now r"
proof (cases "jm_get (repo_operations r) (op_idempotency_key op)")
  case None
  then show ?thesis
    using assms commit
    by (fastforce simp: apply_commit_def outcome_simps split: option.splits if_splits)
next
  case (Some a)
  then show ?thesis
    using assms replay
    by (cases a) (auto simp: apply_commit_def split: if_splits)
qed

lemma committed_repo_simps [simp]:
  "repo_slots (committed_repo op b k n now r) = jm_set k n (repo_slots r)"
  "repo_changes (committed_repo op b k n now r) = repo_changes r @ [change_for n op now]"
  "repo_operations (committed_repo op b k n now r) =
     jm_set (op_idempotency_key op) (operationFingerprint op, \<lparr> mut_slot = n, mut_change = change_for n op now \<rparr>)
       (repo_operations r)"
  by (simp_all add: committed_repo_def)

lemma change_for_simps [simp]:
  "chg_node_id (change_for n op now) = slot_node_id n"
  "chg_revision (change_for n op now) = slot_revision n"
  "chg_actor_ref (change_for n op now) = js_trim (op_actor_ref op)"
  "chg_kind (change_for n op now) = op_kind op"
  by (simp_all add: change_for_def)

lemma committed_bindings_get:
  "jm_get (repo_bindings r) i = Some b \<Longrightarrow> jm_get (repo_bindings (committed_repo op bo k n now r)) i = Some b"
  by (auto simp: committed_repo_def jm_get_set jm_has_def split: option.splits)

lemma normalizeScope_idem: "normalizeScope z sc = Inr ns \<Longrightarrow> normalizeScope z ns = Inr ns"
  by (auto simp: normalizeScope_def split: option.splits
      dest: normalisingD [OF normalizeSpatialNodeScope_normalising])

lemma slot_key_normalized: "normalizeScope z ns = Inr ns \<Longrightarrow> slot_key z ns = Inr (node_key (scope_node_id ns))"
  by (simp add: slot_key_def)

lemma getSlot_Inr:
  assumes "getSlot z r sc = Inr s"
  obtains ns where "normalizeScope z sc = Inr ns" "jm_get (repo_slots r) (node_key (scope_node_id ns)) = Some s"
    "slot_node_id s = scope_node_id ns" "assertBindingReference r s = Inr ()"
  using assms that
  by (auto simp: getSlot_def slot_key_def assertPrimaryAgentSlotOwnership_def outcome_simps
      split: option.splits if_splits)

lemma getSlot_normalized:
  assumes "normalizeScope z ns = Inr ns" "jm_get (repo_slots r) (node_key (scope_node_id ns)) = Some s"
    "slot_node_id s = scope_node_id ns"
  shows "getSlot z r ns = bindR (assertBindingReference r s) (\<lambda>_. Inr s)"
  using assms by (simp add: getSlot_def slot_key_def assertPrimaryAgentSlotOwnership_def)

lemma apply_begin_Inr:
  assumes "apply_begin cfg r sc op = Inr (ns, s)"
  shows "normalizeScope (cfg_zod cfg) sc = Inr ns" "normalizeScope (cfg_zod cfg) ns = Inr ns"
    "validateOperation op = Inr ()" "getSlot (cfg_zod cfg) r ns = Inr s"
  using assms by (auto simp: apply_begin_def outcome_simps dest: normalizeScope_idem)

lemma apply_begin_slot:
  assumes "apply_begin cfg r sc op = Inr (ns, s)"
  shows "jm_get (repo_slots r) (node_key (scope_node_id ns)) = Some s"
    and "slot_node_id s = scope_node_id ns" and "assertBindingReference r s = Inr ()"
  using apply_begin_Inr [OF assms] by (auto elim!: getSlot_Inr)

section \<open>The repository invariant\<close>

text \<open>
  Every slot and binding is stored under its own key, and the changes logged for a Node are
  numbered without gaps up to the revision of its slot; a Node without a slot has no changes.
\<close>

definition node_log :: "repository \<Rightarrow> string \<Rightarrow> slot_change list" where
  "node_log r n = filter (\<lambda>c. chg_node_id c = n) (repo_changes r)"

definition log_contiguous :: "repository \<Rightarrow> slot \<Rightarrow> bool" where
  "log_contiguous r s \<longleftrightarrow>
     (\<exists>base. base \<le> slot_revision s \<and> map chg_revision (node_log r (slot_node_id s)) = [base + 1 .. slot_revision s])"

definition repo_inv :: "repository \<Rightarrow> bool" where
  "repo_inv r \<longleftrightarrow> jm_wf (repo_slots r) \<and> jm_wf (repo_bindings r) \<and> jm_wf (repo_operations r) \<and>
     (\<forall>k s. jm_get (repo_slots r) k = Some s \<longrightarrow> k = node_key (slot_node_id s) \<and> log_contiguous r s) \<and>
     (\<forall>k b. jm_get (repo_bindings r) k = Some b \<longrightarrow> k = bind_binding_id b) \<and>
     (\<forall>n. jm_get (repo_slots r) (node_key n) = None \<longrightarrow> node_log r n = [])"

lemma repo_inv_slot:
  "repo_inv r \<Longrightarrow> jm_get (repo_slots r) k = Some s \<Longrightarrow> k = node_key (slot_node_id s) \<and> log_contiguous r s"
  by (simp add: repo_inv_def)

lemma repo_inv_binding: "repo_inv r \<Longrightarrow> jm_get (repo_bindings r) k = Some b \<Longrightarrow> k = bind_binding_id b"
  by (simp add: repo_inv_def)

lemma empty_repository_inv: "repo_inv empty_repository"
  by (simp add: repo_inv_def empty_repository_def node_log_def)

lemma node_log_committed:
  "node_log (committed_repo op b k n now r) m =
     node_log r m @ (if slot_node_id n = m then [change_for n op now] else [])"
  by (simp add: node_log_def)

lemma log_contiguous_extend:
  assumes "log_contiguous r cur" "slot_node_id n = slot_node_id cur" "slot_revision n = slot_revision cur + 1"
  shows "log_contiguous (committed_repo op b k n now r) n"
proof -
  from assms(1) obtain base where base: "base \<le> slot_revision cur"
    "map chg_revision (node_log r (slot_node_id cur)) = [base + 1 .. slot_revision cur]"
    by (auto simp: log_contiguous_def)
  have "[base + 1 .. slot_revision cur + 1] = [base + 1 .. slot_revision cur] @ [slot_revision cur + 1]"
    using base(1) by (simp add: upto_rec2)
  with base assms(2,3) show ?thesis
    by (auto simp: log_contiguous_def node_log_committed intro!: exI [of _ base])
qed

lemma committed_repo_inv:
  assumes inv: "repo_inv r" and cur: "jm_get (repo_slots r) (node_key (slot_node_id cap)) = Some cur"
    and rev: "slot_revision cur = slot_revision cap" and nxt: "slotForOperation cap op b now = Inr n"
  shows "repo_inv (committed_repo op b (node_key (slot_node_id cap)) n now r)"
proof -
  note frame = slotForOperation_frame [OF nxt]
  let ?r = "committed_repo op b (node_key (slot_node_id cap)) n now r"
  have cur': "slot_node_id cur = slot_node_id cap" and log: "log_contiguous r cur"
    using repo_inv_slot [OF inv cur] by simp_all
  have own: "log_contiguous ?r n"
    by (rule log_contiguous_extend [OF log]) (simp_all add: frame cur' rev)
  have slots: "k = node_key (slot_node_id s) \<and> log_contiguous ?r s" if *: "jm_get (repo_slots ?r) k = Some s" for k s
  proof (cases "k = node_key (slot_node_id cap)")
    case True
    with * own frame(2) show ?thesis by auto
  next
    case False
    with * have "k = node_key (slot_node_id s)" "log_contiguous r s" "slot_node_id s \<noteq> slot_node_id cap"
      using repo_inv_slot [OF inv, of k s] by auto
    then show ?thesis by (auto simp: log_contiguous_def node_log_committed frame)
  qed
  have "jm_wf (repo_bindings ?r) \<and> (\<forall>k b. jm_get (repo_bindings ?r) k = Some b \<longrightarrow> k = bind_binding_id b)"
    using inv by (auto simp: committed_repo_def repo_inv_def jm_get_set intro: jm_wf_set split: option.splits if_splits)
  moreover have "jm_wf (repo_slots ?r)" "jm_wf (repo_operations ?r)"
    using inv by (auto simp: repo_inv_def intro: jm_wf_set)
  moreover have "node_log ?r m = []" if "jm_get (repo_slots ?r) (node_key m) = None" for m
    using that inv by (auto simp: jm_get_set node_log_committed frame repo_inv_def split: if_splits)
  ultimately show ?thesis using slots unfolding repo_inv_def by blast
qed

section \<open>Growth of a repository\<close>

text \<open>A repository grows when its bindings persist and each stored slot is kept or superseded.\<close>

definition repo_grows :: "repository \<Rightarrow> repository \<Rightarrow> bool" where
  "repo_grows r r' \<longleftrightarrow>
     (\<forall>i b. jm_get (repo_bindings r) i = Some b \<longrightarrow> jm_get (repo_bindings r') i = Some b) \<and>
     (\<forall>k s. jm_get (repo_slots r) k = Some s \<longrightarrow>
        (\<exists>s'. jm_get (repo_slots r') k = Some s' \<and> (s' = s \<or> slot_revision s < slot_revision s')))"

lemma repo_grows_refl [simp]: "repo_grows r r"
  by (simp add: repo_grows_def)

lemma assertBindingReference_grows:
  "repo_grows r r' \<Longrightarrow> assertBindingReference r s = Inr () \<Longrightarrow> assertBindingReference r' s = Inr ()"
  by (auto simp: assertBindingReference_def repo_grows_def Let_def split: if_splits option.splits elim!: js_truthyE)

lemma registerBinding_effect:
  assumes "registerBinding z b r = (res, r')"
  shows "r' = r \<or> (\<exists>b'. bindingRecordSchema z b = Some b' \<and> jm_get (repo_bindings r) (bind_binding_id b') = None \<and>
     r' = r \<lparr> repo_bindings := jm_set (bind_binding_id b') b' (repo_bindings r) \<rparr>)"
  using assms
  by (auto simp: registerBinding_def validateBinding_def liftO_def split: option.splits if_splits)

lemma insertSlot_effect:
  assumes "insertSlot z s r = (res, r')"
  shows "r' = r \<or> (\<exists>s'. parseSpatialPrimaryAgentSlot z s = Some s' \<and> res = Inr s' \<and>
     \<not> jm_has (repo_slots r) (node_key (slot_node_id s')) \<and> assertBindingReference r s' = Inr () \<and>
     r' = r \<lparr> repo_slots := jm_set (node_key (slot_node_id s')) s' (repo_slots r) \<rparr>)"
  using assms
  by (auto simp: insertSlot_def liftO_def split: option.splits if_splits sum.splits)

lemma createSlot_effect:
  assumes "createSlot z sc sid inbox now r = (res, r')"
  shows "r' = r \<or> (\<exists>s'. res = Inr s' \<and> \<not> jm_has (repo_slots r) (node_key (slot_node_id s')) \<and>
     assertBindingReference r s' = Inr () \<and>
     r' = r \<lparr> repo_slots := jm_set (node_key (slot_node_id s')) s' (repo_slots r) \<rparr>)"
  using assms
  by (fastforce simp: createSlot_def liftO_def split: if_splits sum.splits dest: insertSlot_effect)

lemma registerBinding_inv: "registerBinding z b r = (res, r') \<Longrightarrow> repo_inv r \<Longrightarrow> repo_inv r'"
  by (drule registerBinding_effect) (auto simp: repo_inv_def jm_get_set log_contiguous_def node_log_def intro: jm_wf_set split: if_splits)

lemma registerBinding_grows: "registerBinding z b r = (res, r') \<Longrightarrow> repo_grows r r'"
  by (drule registerBinding_effect) (auto simp: repo_grows_def jm_get_set)

lemma insert_fresh_slot_inv:
  assumes "repo_inv r" "\<not> jm_has (repo_slots r) (node_key (slot_node_id s))"
  shows "repo_inv (r \<lparr> repo_slots := jm_set (node_key (slot_node_id s)) s (repo_slots r) \<rparr>)"
proof -
  from assms have "node_log r (slot_node_id s) = []" by (simp add: repo_inv_def jm_has_def)
  then have "log_contiguous r s" by (auto simp: log_contiguous_def intro!: exI [of _ "slot_revision s"])
  with assms show ?thesis
    by (auto simp: repo_inv_def jm_get_set log_contiguous_def node_log_def intro: jm_wf_set split: if_splits)
qed

lemma createSlot_inv: "createSlot z sc sid inbox now r = (res, r') \<Longrightarrow> repo_inv r \<Longrightarrow> repo_inv r'"
  by (drule createSlot_effect) (auto intro: insert_fresh_slot_inv)

lemma createSlot_grows: "createSlot z sc sid inbox now r = (res, r') \<Longrightarrow> repo_grows r r'"
  by (drule createSlot_effect) (auto simp: repo_grows_def jm_get_set jm_has_def)

lemma committed_repo_grows:
  assumes "jm_get (repo_slots r) k = Some cur" "slot_revision cur < slot_revision n"
  shows "repo_grows r (committed_repo op b k n now r)"
  using assms by (auto simp: repo_grows_def jm_get_set intro: committed_bindings_get)

section \<open>The constructor and the change feed\<close>

lemma registerAll_inv: "registerAll z bs r = Inr r' \<Longrightarrow> repo_inv r \<Longrightarrow> repo_inv r'"
  by (induction bs arbitrary: r) (auto split: prod.splits sum.splits dest: registerBinding_inv)

lemma insertSlot_inv: "insertSlot z s r = (res, r') \<Longrightarrow> repo_inv r \<Longrightarrow> repo_inv r'"
  by (drule insertSlot_effect) (auto intro: insert_fresh_slot_inv)

lemma insertAll_inv: "insertAll z ss r = Inr r' \<Longrightarrow> repo_inv r \<Longrightarrow> repo_inv r'"
  by (induction ss arbitrary: r) (auto split: prod.splits sum.splits dest: insertSlot_inv)

lemma newRepository_inv: "newRepository z initial bindings = Inr r \<Longrightarrow> repo_inv r"
  by (auto simp: newRepository_def outcome_simps)
    (metis insertAll_inv registerAll_inv empty_repository_inv)

lemma apply_normalized:
  assumes "normalizeScope (cfg_zod cfg) ns = Inr ns" "validateOperation op = Inr ()"
    "jm_get (repo_slots r) (node_key (scope_node_id ns)) = Some s" "slot_node_id s = scope_node_id ns"
    "assertBindingReference r s = Inr ()"
  shows "apply_slot_operation cfg now ns op r = apply_commit cfg now ns op s r"
  using assms by (simp add: apply_slot_operation_def apply_begin_def getSlot_normalized)

section \<open>Idempotent application\<close>

abbreviation apply_call :: "repo_config \<Rightarrow> repository \<Rightarrow> timestamp \<times> scope \<times> slot_operation \<Rightarrow> (slot_error, slot_mutation, repository) outcome" where
  "apply_call cfg r call \<equiv> (case call of (now, sc, op) \<Rightarrow> apply_slot_operation cfg now sc op r)"

lemma apply_success_begin:
  assumes "apply_slot_operation cfg now sc op r = (Inr m, r')"
  obtains ns cap where "apply_begin cfg r sc op = Inr (ns, cap)" "apply_commit cfg now ns op cap r = (Inr m, r')"
  using assms that by (auto simp: apply_slot_operation_def split: sum.splits prod.splits)

lemma apply_recorded:
  assumes "apply_slot_operation cfg now sc op r = (Inr m, r')"
  shows "jm_get (repo_operations r') (op_idempotency_key op) = Some (operationFingerprint op, m)"
  using assms by (rule apply_success_begin) (erule apply_commit_success, auto)

lemma apply_keeps_recorded:
  assumes "jm_get (repo_operations r) k = Some v"
  shows "jm_get (repo_operations (snd (apply_slot_operation cfg now sc op r))) k = Some v"
proof (cases "apply_slot_operation cfg now sc op r")
  case (Pair res r')
  show ?thesis
  proof (cases res)
    case (Inl e)
    with Pair assms show ?thesis by (auto dest: apply_operation_error_frame)
  next
    case (Inr m)
    from Pair Inr have "apply_slot_operation cfg now sc op r = (Inr m, r')" by simp
    then have "jm_get (repo_operations r') k = Some v"
      by (rule apply_success_begin) (erule apply_commit_success, use assms in \<open>auto simp: jm_get_set\<close>)
    with Pair show ?thesis by simp
  qed
qed

lemma apply_actor:
  assumes "apply_slot_operation cfg now sc op r = (Inr m, r')"
  shows "chg_actor_ref (mut_change m) = js_trim (op_actor_ref op)"
  using assms
  by (auto simp: apply_slot_operation_def apply_commit_def change_for_def liftO_def
      split: sum.splits prod.splits option.splits if_splits)

lemma apply_on_recorded:
  assumes "jm_get (repo_operations r) (op_idempotency_key op) = Some (fp, m)"
  shows "snd (apply_slot_operation cfg now sc op r) = r"
    and "apply_slot_operation cfg now sc op r = (Inr m', r') \<Longrightarrow> m' = m \<and> fp = operationFingerprint op"
proof -
  show "snd (apply_slot_operation cfg now sc op r) = r"
    using assms by (auto simp: apply_slot_operation_def apply_commit_def split: sum.splits prod.splits)
  assume "apply_slot_operation cfg now sc op r = (Inr m', r')"
  then show "m' = m \<and> fp = operationFingerprint op"
    by (rule apply_success_begin) (erule apply_commit_success, use assms in auto)
qed

interpretation slot_command: idempotent_command "apply_call cfg" "\<lambda>(now, sc, op). op_idempotency_key op"
  "\<lambda>r k. jm_has (repo_operations r) k" "\<lambda>_. True" for cfg
proof unfold_locales
  fix s :: repository and op :: "timestamp \<times> scope \<times> slot_operation" and e s' r k
  show "apply_call cfg s op = (Inl e, s') \<Longrightarrow> s' = s"
    by (cases op) (auto dest: apply_operation_error_frame)
  show "jm_has (repo_operations s) (case op of (now, sc, op) \<Rightarrow> op_idempotency_key op) \<Longrightarrow> snd (apply_call cfg s op) = s"
    by (cases op) (auto simp: jm_has_def intro: apply_on_recorded)
  show "apply_call cfg s op = (Inr r, s') \<Longrightarrow>
      jm_has (repo_operations s') (case op of (now, sc, op) \<Rightarrow> op_idempotency_key op)"
    by (cases op) (auto simp: jm_has_def dest: apply_recorded)
  show "jm_has (repo_operations s) k \<Longrightarrow> jm_has (repo_operations (snd (apply_call cfg s op))) k"
    by (cases op) (auto simp: jm_has_def dest: apply_keeps_recorded)
qed auto

lemma recorded_run_stable:
  "jm_get (repo_operations r) k = Some v \<Longrightarrow>
   jm_get (repo_operations (run (\<lambda>r c. snd (apply_call cfg r c)) r calls)) k = Some v"
  by (induction calls arbitrary: r) (auto simp: apply_keeps_recorded)

section \<open>References from slots to bindings\<close>

definition refs_intact :: "repository \<Rightarrow> bool" where
  "refs_intact r \<longleftrightarrow> (\<forall>k s. jm_get (repo_slots r) k = Some s \<longrightarrow> assertBindingReference r s = Inr ())"

lemma resolveBinding_found:
  assumes inv: "repo_inv r" and res: "resolveBinding z r ns op = Inr (Some b)"
  shows "bind_node_id b = scope_node_id ns" and "bind_binding_id b \<noteq> []"
    and "jm_get (repo_bindings (committed_repo op (Some b) k n now r)) (bind_binding_id b) = Some b"
proof -
  from res obtain i where i: "operationBindingId op = Some i" and node: "bind_node_id b = scope_node_id ns"
    and b: "jm_get (repo_bindings r) i = Some b \<or> jm_get (repo_bindings r) i = None \<and> bind_binding_id b = i \<and> op_binding op \<noteq> None"
    by (cases "jm_get (repo_bindings r) (the (operationBindingId op))")
      (auto simp: resolveBinding_def outcome_simps split: option.splits if_splits)
  from i have "i \<noteq> []" by (auto simp: operationBindingId_def split: option.splits if_splits)
  moreover from b have "bind_binding_id b = i" using repo_inv_binding [OF inv] by blast
  ultimately show "bind_node_id b = scope_node_id ns" "bind_binding_id b \<noteq> []"
    "jm_get (repo_bindings (committed_repo op (Some b) k n now r)) (bind_binding_id b) = Some b"
    using b node by (auto simp: committed_repo_def jm_has_def split: option.split)
qed

lemma resolveBinding_Bind: "resolveBinding z r ns op = Inr None \<Longrightarrow> op_kind op \<noteq> Bind \<and> op_kind op \<noteq> Replace"
  by (auto simp: resolveBinding_def outcome_simps split: option.splits if_splits)

text \<open>What an operation does to the pair of binding and lifecycle state.\<close>

lemma slotForOperation_reference:
  assumes "repo_inv r" "resolveBinding z r ns op = Inr b" "slot_node_id cap = scope_node_id ns"
    "assertOperationTransition cap op = Inr ()" "slotForOperation cap op b now = Inr n"
    "assertBindingReference r cap = Inr ()" "op_kind op \<noteq> Transition"
  shows "assertBindingReference (committed_repo op b k n now r) n = Inr ()"
proof (cases b)
  case (Some bd)
  note found = resolveBinding_found [OF assms(1) assms(2) [unfolded Some]]
  from assms(2) Some have "op_kind op = Bind \<or> op_kind op = Replace"
    by (auto simp: resolveBinding_def split: if_splits)
  then show ?thesis
    using assms(3,5) found Some slotForOperation_frame [OF assms(5)]
    by (auto simp: slotForOperation_def Let_def assertBindingReference_def)
next
  case None
  with assms(2) have k: "op_kind op \<noteq> Bind" "op_kind op \<noteq> Replace" by (auto dest: resolveBinding_Bind)
  have b: "repo_bindings (committed_repo op b k n now r) = repo_bindings r" by (simp add: None committed_repo_def split: option.split)
  show ?thesis
    using assms(4-7) k slotForOperation_frame(2) [OF assms(5)]
    by (cases "op_kind op")
      (auto simp: slotForOperation_def assertOperationTransition_def Let_def assertBindingReference_def b
        split: if_splits option.splits elim!: js_truthyE)
qed

lemma committed_bindings_refs:
  "assertBindingReference r s = Inr () \<Longrightarrow> assertBindingReference (committed_repo op b k n now r) s = Inr ()"
  by (auto simp: assertBindingReference_def Let_def split: if_splits option.splits elim!: js_truthyE
      dest: committed_bindings_get [of r _ _ op b k n now])

lemma apply_commit_on_slot:
  assumes "apply_slot_operation cfg now sc op r = (Inr m, r')" "r' \<noteq> r"
  obtains ns cap b n where "normalizeScope (cfg_zod cfg) sc = Inr ns"
    "jm_get (repo_slots r) (node_key (scope_node_id ns)) = Some cap" "slot_node_id cap = scope_node_id ns"
    "assertBindingReference r cap = Inr ()"
    "op_expected_revision op = slot_revision cap" "assertOperationTransition cap op = Inr ()"
    "resolveBinding (cfg_zod cfg) r ns op = Inr b" "slotForOperation cap op b now = Inr n"
    "m = \<lparr> mut_slot = n, mut_change = change_for n op now \<rparr>"
    "r' = committed_repo op b (node_key (scope_node_id ns)) n now r"
proof -
  from assms(1) obtain ns cap where b: "apply_begin cfg r sc op = Inr (ns, cap)"
    and c: "apply_commit cfg now ns op cap r = (Inr m, r')" by (rule apply_success_begin)
  note bs = apply_begin_Inr [OF b] apply_begin_slot [OF b]
  from c show ?thesis
    by (rule apply_commit_success)
      (use assms(2) bs that [of ns cap] in \<open>auto simp: slot_key_normalized\<close>)
qed

lemma apply_effect_cases:
  obtains (same) "snd (apply_slot_operation cfg now sc op r) = r"
  | (commit) m r' where "apply_slot_operation cfg now sc op r = (Inr m, r')" "r' \<noteq> r"
  by (cases "apply_slot_operation cfg now sc op r"; cases "fst (apply_slot_operation cfg now sc op r)")
    (auto dest: apply_operation_error_frame)

lemma apply_inv:
  assumes "repo_inv r"
  shows "repo_inv (snd (apply_slot_operation cfg now sc op r))"
proof (cases rule: apply_effect_cases [of cfg now sc op r])
  case same
  with assms show ?thesis by simp
next
  case (commit m r')
  from commit show ?thesis
    by (rule apply_commit_on_slot) (use committed_repo_inv [OF assms] commit in \<open>metis snd_conv\<close>)
qed

lemma refs_intact_code:
  "list_all (\<lambda>(k, s). assertBindingReference r s = Inr ()) (repo_slots r) \<Longrightarrow> refs_intact r"
  by (auto simp: refs_intact_def jm_get_def list_all_iff dest!: map_of_SomeD)

section \<open>Revoked slots\<close>

definition revoked_at :: "string \<Rightarrow> repository \<Rightarrow> bool" where
  "revoked_at n r \<longleftrightarrow> (\<exists>s. jm_get (repo_slots r) (node_key n) = Some s \<and> slot_lifecycle_state s = REVOKED)"

definition revision_at :: "string \<Rightarrow> repository \<Rightarrow> int" where
  "revision_at n r = (case jm_get (repo_slots r) (node_key n) of None \<Rightarrow> 0 | Some s \<Rightarrow> slot_revision s)"

lemma revoked_stays:
  assumes "slot_lifecycle_state cap = REVOKED" "assertOperationTransition cap op = Inr ()"
    "slotForOperation cap op b now = Inr n"
  shows "slot_lifecycle_state n = REVOKED"
  using assms
  by (auto simp: assertOperationTransition_def slotForOperation_def Let_def lifecycle_allowed_def
      split: slot_operation_kind.splits option.splits if_splits)

lemma apply_revoked:
  assumes "revoked_at n r"
  shows "revoked_at n (snd (apply_slot_operation cfg now sc op r))"
proof (cases rule: apply_effect_cases [of cfg now sc op r])
  case same
  with assms show ?thesis by simp
next
  case (commit m r')
  from commit show ?thesis
    by (rule apply_commit_on_slot)
      (use assms in \<open>auto simp: revoked_at_def jm_get_set commit dest: revoked_stays\<close>)
qed

lemma apply_revision_mono: "revision_at n r \<le> revision_at n (snd (apply_slot_operation cfg now sc op r))"
proof (cases rule: apply_effect_cases [of cfg now sc op r])
  case same
  then show ?thesis by simp
next
  case (commit m r')
  from commit show ?thesis
    by (rule apply_commit_on_slot)
      (auto simp: revision_at_def jm_get_set commit dest: slotForOperation_frame(1))
qed

interpretation revoked_slot: monotone_machine "\<lambda>r c. snd (apply_call cfg r c)" "revoked_at n" "revision_at n" for cfg n
  by unfold_locales (auto simp: apply_revoked apply_revision_mono split: prod.splits)

section \<open>Restart\<close>

lemma assertBindingReference_cong:
  "repo_bindings r = repo_bindings r' \<Longrightarrow> assertBindingReference r s = assertBindingReference r' s"
  by (simp add: assertBindingReference_def)

lemma assertBindingReference_slots [simp]:
  "assertBindingReference (r \<lparr> repo_slots := x \<rparr>) s = assertBindingReference r s"
  by (simp add: assertBindingReference_def)


definition contract_clean :: "zod \<Rightarrow> repository \<Rightarrow> bool" where
  "contract_clean z r \<longleftrightarrow>
     (\<forall>s \<in> set (jm_values (repo_slots r)). parseSpatialPrimaryAgentSlot z s = Some s) \<and>
     (\<forall>b \<in> set (jm_values (repo_bindings r)). bindingRecordSchema z b = Some b)"

lemma registerAll_values:
  assumes "jm_wf (done @ m)" "\<forall>(k, b) \<in> set m. k = bind_binding_id b \<and> bindingRecordSchema z b = Some b"
    "repo_bindings r = done"
  shows "registerAll z (jm_values m) r = Inr (r \<lparr> repo_bindings := done @ m \<rparr>)"
  using assms
proof (induction m arbitrary: r "done")
  case Nil
  then show ?case by (simp add: jm_values_def)
next
  case (Cons kb m)
  obtain k b where kb: "kb = (k, b)" by force
  from Cons.prems have k: "k = bind_binding_id b" "bindingRecordSchema z b = Some b"
    "\<not> jm_has done k" by (auto simp: kb jm_wf_def jm_keys_def jm_has_iff)
  let ?r = "r \<lparr> repo_bindings := done @ [(k, b)] \<rparr>"
  have "registerBinding z b r = (Inr b, ?r)"
    using k Cons.prems(3) by (simp add: registerBinding_def validateBinding_def jm_has_def jm_set_fresh)
  moreover have "registerAll z (jm_values m) ?r = Inr (?r \<lparr> repo_bindings := (done @ [(k, b)]) @ m \<rparr>)"
    by (rule Cons.IH) (use Cons.prems in \<open>auto simp: kb\<close>)
  ultimately show ?case by (simp add: kb jm_values_def)
qed

lemma insertAll_values:
  assumes "jm_wf (done @ m)" "\<forall>(k, s) \<in> set m. k = node_key (slot_node_id s) \<and> parseSpatialPrimaryAgentSlot z s = Some s"
    "\<forall>(k, s) \<in> set m. assertBindingReference r s = Inr ()" "repo_slots r = done"
  shows "insertAll z (jm_values m) r = Inr (r \<lparr> repo_slots := done @ m \<rparr>)"
  using assms
proof (induction m arbitrary: r "done")
  case Nil
  then show ?case by (simp add: jm_values_def)
next
  case (Cons ks m)
  obtain k s where ks: "ks = (k, s)" by force
  from Cons.prems have k: "k = node_key (slot_node_id s)" "parseSpatialPrimaryAgentSlot z s = Some s"
    "\<not> jm_has done k" "assertBindingReference r s = Inr ()"
    by (auto simp: ks jm_wf_def jm_keys_def jm_has_iff)
  let ?r = "r \<lparr> repo_slots := done @ [(k, s)] \<rparr>"
  have "insertSlot z s r = (Inr s, ?r)"
    using k Cons.prems(4) by (simp add: insertSlot_def jm_set_fresh)
  moreover have "insertAll z (jm_values m) ?r = Inr (?r \<lparr> repo_slots := (done @ [(k, s)]) @ m \<rparr>)"
    by (rule Cons.IH) (use Cons.prems in \<open>auto simp: ks\<close>)
  ultimately show ?case by (simp add: ks jm_values_def)
qed

lemma fold_jm_set_wf: "jm_wf (done @ m) \<Longrightarrow> fold (\<lambda>(k, v). jm_set k v) m done = done @ m"
proof (induction m arbitrary: "done")
  case Nil
  then show ?case by simp
next
  case (Cons kv m)
  obtain k v where kv: "kv = (k, v)" by force
  with Cons.prems have "\<not> jm_has done k" by (auto simp: jm_wf_def jm_keys_def jm_has_iff)
  then show ?case using Cons by (simp add: kv jm_set_fresh)
qed

end
