(* ===== verification/Slot_Concurrency.thy ===== *)
theory Slot_Concurrency
  imports Slot_Lemmas
begin

text \<open>
  Interleaved calls of the slot repository. A call of \<open>apply\<close> suspends at its await; between its
  two halves any other call may run. \<open>slot_system\<close> is the repository together with the suspended
  calls, \<open>slot_step\<close> one scheduling step, \<open>slot_reachable\<close> what any schedule can reach from a newly
  constructed repository. The invariant relates each suspended call to the stored slot.
\<close>

section \<open>Interleaved calls\<close>

record pending_call =
  pc_scope :: scope
  pc_operation :: slot_operation
  pc_captured :: slot

record slot_system =
  sys_repo :: repository
  sys_pending :: "pending_call list"

inductive slot_step :: "repo_config \<Rightarrow> slot_system \<Rightarrow> slot_system \<Rightarrow> bool" for cfg where
  begin_call: "apply_begin cfg (sys_repo s) sc op = Inr (ns, captured) \<Longrightarrow>
     slot_step cfg s (s \<lparr> sys_pending := \<lparr> pc_scope = ns, pc_operation = op, pc_captured = captured \<rparr> # sys_pending s \<rparr>)"
| resume_call: "c \<in> set (sys_pending s) \<Longrightarrow>
     apply_commit cfg now (pc_scope c) (pc_operation c) (pc_captured c) (sys_repo s) = (res, r') \<Longrightarrow>
     slot_step cfg s \<lparr> sys_repo = r', sys_pending = remove1 c (sys_pending s) \<rparr>"
| register_call: "registerBinding (cfg_zod cfg) b (sys_repo s) = (res, r') \<Longrightarrow>
     slot_step cfg s (s \<lparr> sys_repo := r' \<rparr>)"
| create_call: "createSlot (cfg_zod cfg) sc sid inbox now (sys_repo s) = (res, r') \<Longrightarrow>
     slot_step cfg s (s \<lparr> sys_repo := r' \<rparr>)"

inductive slot_reachable :: "repo_config \<Rightarrow> slot_system \<Rightarrow> bool" for cfg where
  start: "newRepository (cfg_zod cfg) initial bindings = Inr r \<Longrightarrow>
     slot_reachable cfg \<lparr> sys_repo = r, sys_pending = [] \<rparr>"
| step: "slot_reachable cfg s \<Longrightarrow> slot_step cfg s t \<Longrightarrow> slot_reachable cfg t"

inductive_cases slot_stepE: "slot_step cfg s t"

text \<open>
  What a suspended call still knows: its scope is normalised, its slot belongs to that Node, the
  binding the slot refers to is registered, and the stored slot is either the captured one or has
  a higher revision.
\<close>

definition call_ok :: "repo_config \<Rightarrow> repository \<Rightarrow> pending_call \<Rightarrow> bool" where
  "call_ok cfg r c \<longleftrightarrow> normalizeScope (cfg_zod cfg) (pc_scope c) = Inr (pc_scope c) \<and>
     validateOperation (pc_operation c) = Inr () \<and>
     slot_node_id (pc_captured c) = scope_node_id (pc_scope c) \<and>
     assertBindingReference r (pc_captured c) = Inr () \<and>
     (\<exists>cur. jm_get (repo_slots r) (node_key (scope_node_id (pc_scope c))) = Some cur \<and>
        (cur = pc_captured c \<or> slot_revision (pc_captured c) < slot_revision cur))"

definition system_inv :: "repo_config \<Rightarrow> slot_system \<Rightarrow> bool" where
  "system_inv cfg s \<longleftrightarrow> repo_inv (sys_repo s) \<and> (\<forall>c \<in> set (sys_pending s). call_ok cfg (sys_repo s) c)"

lemma call_ok_grows: "repo_grows r r' \<Longrightarrow> call_ok cfg r c \<Longrightarrow> call_ok cfg r' c"
  using assertBindingReference_grows [of r r' "pc_captured c"]
  by (fastforce simp: call_ok_def repo_grows_def)

text \<open>A resumed call either leaves the repository alone or commits on the slot it captured.\<close>

lemma resume_on_captured:
  assumes inv: "system_inv cfg s" and mem: "c \<in> set (sys_pending s)"
    and com: "apply_commit cfg now (pc_scope c) (pc_operation c) (pc_captured c) (sys_repo s) = (Inr m, r')"
    and changed: "r' \<noteq> sys_repo s"
  shows "jm_get (repo_slots (sys_repo s)) (node_key (scope_node_id (pc_scope c))) = Some (pc_captured c)"
    and "\<exists>b n. slotForOperation (pc_captured c) (pc_operation c) b now = Inr n \<and>
      r' = committed_repo (pc_operation c) b (node_key (scope_node_id (pc_scope c))) n now (sys_repo s)"
proof -
  from inv mem have ok: "call_ok cfg (sys_repo s) c" by (simp add: system_inv_def)
  then have key: "slot_key (cfg_zod cfg) (pc_scope c) = Inr (node_key (scope_node_id (pc_scope c)))"
    by (simp add: call_ok_def slot_key_normalized)
  from com show "jm_get (repo_slots (sys_repo s)) (node_key (scope_node_id (pc_scope c))) = Some (pc_captured c)"
    by (rule apply_commit_success) (use changed ok key in \<open>auto simp: call_ok_def\<close>)
  from com show "\<exists>b n. slotForOperation (pc_captured c) (pc_operation c) b now = Inr n \<and>
      r' = committed_repo (pc_operation c) b (node_key (scope_node_id (pc_scope c))) n now (sys_repo s)"
    by (rule apply_commit_success) (use changed key in auto)
qed

lemma resume_inv_grows:
  assumes inv: "system_inv cfg s" and mem: "c \<in> set (sys_pending s)"
    and com: "apply_commit cfg now (pc_scope c) (pc_operation c) (pc_captured c) (sys_repo s) = (res, r')"
  shows "repo_inv r' \<and> repo_grows (sys_repo s) r'"
proof (cases "r' = sys_repo s")
  case True
  with inv show ?thesis by (simp add: system_inv_def)
next
  case False
  with com obtain m where m: "res = Inr m" by (cases res) (auto dest: apply_commit_error_frame)
  note on = resume_on_captured [OF inv mem com [unfolded m] False]
  from inv mem have node: "slot_node_id (pc_captured c) = scope_node_id (pc_scope c)"
    by (auto simp: system_inv_def call_ok_def)
  from on(2) obtain b n where n: "slotForOperation (pc_captured c) (pc_operation c) b now = Inr n"
    and r': "r' = committed_repo (pc_operation c) b (node_key (scope_node_id (pc_scope c))) n now (sys_repo s)"
    by blast
  have "repo_inv (committed_repo (pc_operation c) b (node_key (slot_node_id (pc_captured c))) n now (sys_repo s))"
    by (rule committed_repo_inv [OF _ _ refl n]) (use inv on(1) node in \<open>auto simp: system_inv_def\<close>)
  moreover have "repo_grows (sys_repo s) r'"
    unfolding r' by (rule committed_repo_grows [OF on(1)]) (simp add: slotForOperation_frame [OF n])
  ultimately show ?thesis by (simp add: r' node)
qed

lemma begin_call_ok:
  "apply_begin cfg r sc op = Inr (ns, s) \<Longrightarrow> call_ok cfg r \<lparr> pc_scope = ns, pc_operation = op, pc_captured = s \<rparr>"
  using apply_begin_Inr [of cfg r sc op ns s] apply_begin_slot [of cfg r sc op ns s]
  by (auto simp: call_ok_def)

lemma slot_step_inv: "slot_step cfg s t \<Longrightarrow> system_inv cfg s \<Longrightarrow> system_inv cfg t"
proof (induction rule: slot_step.induct)
  case (begin_call s sc op ns captured)
  then show ?case by (auto simp: system_inv_def dest: begin_call_ok)
next
  case (resume_call c s now res r')
  from resume_inv_grows [OF resume_call.prems resume_call.hyps]
  have "repo_inv r'" "repo_grows (sys_repo s) r'" by simp_all
  with resume_call.prems show ?case
    by (auto simp: system_inv_def dest: notin_set_remove1 intro: call_ok_grows dest!: set_remove1_subset [THEN subsetD])
next
  case (register_call b s res r')
  with registerBinding_inv registerBinding_grows show ?case
    by (fastforce simp: system_inv_def intro: call_ok_grows)
next
  case (create_call sc sid inbox now s res r')
  with createSlot_inv createSlot_grows show ?case
    by (fastforce simp: system_inv_def intro: call_ok_grows)
qed

lemma reachable_system_inv: "slot_reachable cfg s \<Longrightarrow> system_inv cfg s"
proof (induction rule: slot_reachable.induct)
  case (start initial bindings r)
  then show ?case by (simp add: system_inv_def newRepository_inv)
next
  case (step s t)
  then show ?case by (blast intro: slot_step_inv)
qed

section \<open>The change feed\<close>

text \<open>
  A Node's slot and its log, seen from a cursor: the log is a gap-free run of revisions that starts at or
  before the cursor and ends at the revision of the slot.
\<close>

definition logged_since :: "string \<Rightarrow> int \<Rightarrow> repository \<Rightarrow> bool" where
  "logged_since n cursor r \<longleftrightarrow> (\<exists>s base. jm_get (repo_slots r) (node_key n) = Some s \<and> base \<le> cursor \<and>
     base \<le> slot_revision s \<and> map chg_revision (node_log r n) = [base + 1 .. slot_revision s])"

lemma logged_since_slot:
  assumes "repo_inv r" "jm_get (repo_slots r) (node_key n) = Some s"
  shows "logged_since n (slot_revision s) r"
  using repo_inv_slot [OF assms] assms(2) by (auto simp: logged_since_def log_contiguous_def)

lemma logged_since_commit:
  assumes log: "logged_since n cursor r" and cur: "jm_get (repo_slots r) (node_key (slot_node_id cap)) = Some cap"
    and nxt: "slotForOperation cap op b now = Inr nx"
  shows "logged_since n cursor (committed_repo op b (node_key (slot_node_id cap)) nx now r)"
proof -
  note frame = slotForOperation_frame [OF nxt]
  from log obtain s base where *: "jm_get (repo_slots r) (node_key n) = Some s" "base \<le> cursor"
    "base \<le> slot_revision s" "map chg_revision (node_log r n) = [base + 1 .. slot_revision s]"
    by (auto simp: logged_since_def)
  show ?thesis
  proof (cases "slot_node_id cap = n")
    case True
    with cur * have "s = cap" by simp
    with * True show ?thesis
      by (auto simp: logged_since_def node_log_committed frame upto_rec2 intro!: exI [of _ base])
  next
    case False
    with * show ?thesis
      by (auto simp: logged_since_def node_log_committed frame jm_get_set intro!: exI [of _ base])
  qed
qed

lemma slot_step_grows: "slot_step cfg s t \<Longrightarrow> system_inv cfg s \<Longrightarrow> repo_grows (sys_repo s) (sys_repo t)"
  by (induction rule: slot_step.induct) (auto dest: resume_inv_grows registerBinding_grows createSlot_grows)

lemma slot_step_logged_since:
  "slot_step cfg s t \<Longrightarrow> system_inv cfg s \<Longrightarrow> logged_since n cursor (sys_repo s) \<Longrightarrow> logged_since n cursor (sys_repo t)"
proof (induction rule: slot_step.induct)
  case (resume_call c s now res r')
  show ?case
  proof (cases "r' = sys_repo s")
    case True
    with resume_call.prems show ?thesis by simp
  next
    case False
    with resume_call.hyps(2) obtain m where m: "res = Inr m" by (cases res) (auto dest: apply_commit_error_frame)
    note on = resume_on_captured [OF resume_call.prems(1) resume_call.hyps(1) resume_call.hyps(2) [unfolded m] False]
    have "slot_node_id (pc_captured c) = scope_node_id (pc_scope c)"
      using resume_call by (auto simp: system_inv_def call_ok_def)
    with on resume_call.prems(2) logged_since_commit [of n cursor "sys_repo s" "pc_captured c"] show ?thesis by auto
  qed
next
  case (register_call b s res r')
  with registerBinding_effect [OF register_call.hyps] show ?case by (auto simp: logged_since_def node_log_def)
next
  case (create_call sc sid inbox now s res r')
  with createSlot_effect [OF create_call.hyps] show ?case
    by (auto simp: logged_since_def node_log_def jm_get_set jm_has_def)
qed simp

lemma slot_steps_logged_since:
  assumes "(slot_step cfg)\<^sup>*\<^sup>* s t" "system_inv cfg s" "logged_since n cursor (sys_repo s)"
  shows "system_inv cfg t \<and> logged_since n cursor (sys_repo t)"
  using assms by (induction rule: rtranclp_induct) (auto intro: slot_step_inv slot_step_logged_since)

lemma getChanges_since:
  assumes "logged_since (slot_node_id s) cursor r" "getChanges z r sc cursor = Inr cs" "getSlot z r sc = Inr s"
  shows "map chg_revision cs = [cursor + 1 .. slot_revision s]"
proof -
  from assms(3) have "jm_get (repo_slots r) (node_key (slot_node_id s)) = Some s" by (auto elim: getSlot_Inr)
  with assms(1) obtain base where base: "base \<le> cursor"
    "map chg_revision (node_log r (slot_node_id s)) = [base + 1 .. slot_revision s]"
    by (auto simp: logged_since_def)
  have "cs = filter (\<lambda>c. cursor < chg_revision c) (node_log r (slot_node_id s))"
    using assms(2,3) by (auto simp: getChanges_def node_log_def conj_commute split: if_splits)
  then have "map chg_revision cs = filter (\<lambda>x. cursor < x) (map chg_revision (node_log r (slot_node_id s)))"
    by (simp add: filter_map comp_def)
  with base show ?thesis by (simp add: filter_upto max_def)
qed

lemma slot_steps_revision:
  assumes "(slot_step cfg)\<^sup>*\<^sup>* s t" "system_inv cfg s"
    "jm_get (repo_slots (sys_repo s)) k = Some sl" "jm_get (repo_slots (sys_repo t)) k = Some sl'"
  shows "slot_revision sl \<le> slot_revision sl'"
proof -
  have "system_inv cfg t \<and> (\<exists>u. jm_get (repo_slots (sys_repo t)) k = Some u \<and> slot_revision sl \<le> slot_revision u)"
    using assms(1-3)
  proof (induction rule: rtranclp_induct)
    case (step t u)
    then have "repo_grows (sys_repo t) (sys_repo u)" by (blast intro: slot_step_grows)
    with step show ?case by (fastforce simp: repo_grows_def intro: slot_step_inv)
  qed simp
  with assms(4) show ?thesis by simp
qed

end
