(* ===== verification/Slot_Properties.thy ===== *)
theory Slot_Properties
  imports Slot_Concurrency
begin

text \<open>
  The properties of the Primary Agent Slot repository, and the concrete repository the witnesses
  use: one Node \<open>n\<close>, its slot created, bound and then marked degraded.
\<close>

section \<open>A concrete repository\<close>

definition demo_cfg :: repo_config where
  "demo_cfg = \<lparr> cfg_zod = zod_ref, cfg_authorize = None \<rparr>"

definition demo_scope :: scope where
  "demo_scope = \<lparr> scope_hypervisor_id = ''h'', scope_node_id = ''n'' \<rparr>"

definition demo_binding :: binding_record where
  "demo_binding = \<lparr> bind_binding_id = ''b'', bind_node_id = ''n'', bind_agent_identity_ref = ''a'',
     bind_runtime_ref = ''r'', bind_revision = 1, bind_capability_grant_ref = None \<rparr>"

definition demo_op :: "slot_operation_kind \<Rightarrow> string \<Rightarrow> int \<Rightarrow> slot_operation" where
  "demo_op kind key expected = \<lparr> op_operation_id = ''o'', op_idempotency_key = key, op_actor_ref = ''u'',
     op_expected_revision = expected, op_kind = kind, op_binding_id = None,
     op_binding = (if kind = Bind then Some demo_binding else None),
     op_capability_grant_ref = None, op_hook_subscription_ref = None, op_durable_inbox_ref = None,
     op_lifecycle_state = (if kind = Transition then Some UNASSIGNED else None) \<rparr>"

definition demo_repo0 :: repository where
  "demo_repo0 = snd (createSlot zod_ref demo_scope None None 5 empty_repository)"

definition demo_repo1 :: repository where
  "demo_repo1 = snd (apply_slot_operation demo_cfg 6 demo_scope (demo_op Bind ''k1'' 0) demo_repo0)"

definition demo_repo2 :: repository where
  "demo_repo2 = snd (apply_slot_operation demo_cfg 7 demo_scope (demo_op MarkDegraded ''k2'' 1) demo_repo1)"

definition demo_slot0 :: slot where
  "demo_slot0 = projr (getSlot zod_ref demo_repo0 demo_scope)"

definition demo_call :: pending_call where
  "demo_call = \<lparr> pc_scope = demo_scope, pc_operation = demo_op Bind ''k1'' 0, pc_captured = demo_slot0 \<rparr>"

definition demo_system :: slot_system where
  "demo_system = \<lparr> sys_repo = demo_repo0, sys_pending = [demo_call] \<rparr>"

lemma demo_inv: "repo_inv demo_repo0" "repo_inv demo_repo1" "repo_inv demo_repo2"
proof -
  show 0: "repo_inv demo_repo0"
    unfolding demo_repo0_def by (rule createSlot_inv [OF prod.collapse [symmetric] empty_repository_inv])
  show 1: "repo_inv demo_repo1" unfolding demo_repo1_def by (rule apply_inv [OF 0])
  show "repo_inv demo_repo2" unfolding demo_repo2_def by (rule apply_inv [OF 1])
qed

lemma demo_reachable0: "slot_reachable demo_cfg \<lparr> sys_repo = demo_repo0, sys_pending = [] \<rparr>"
proof -
  have 0: "slot_reachable demo_cfg \<lparr> sys_repo = empty_repository, sys_pending = [] \<rparr>"
    by (rule slot_reachable.start [of _ "[]" "[]"]) (simp add: newRepository_def)
  have "createSlot (cfg_zod demo_cfg) demo_scope None None 5 empty_repository =
      (fst (createSlot zod_ref demo_scope None None 5 empty_repository), demo_repo0)"
    by (simp add: demo_repo0_def demo_cfg_def)
  from slot_step.create_call [of demo_cfg demo_scope None None 5
      "\<lparr> sys_repo = empty_repository, sys_pending = [] \<rparr>" _ demo_repo0, simplified, OF this]
  show ?thesis using 0 by (rule slot_reachable.step [rotated])
qed

lemma demo_reachable: "slot_reachable demo_cfg demo_system"
proof -
  have b: "apply_begin demo_cfg demo_repo0 demo_scope (demo_op Bind ''k1'' 0) = Inr (demo_scope, demo_slot0)"
    by code_simp
  show ?thesis
    using slot_step.begin_call [of demo_cfg "\<lparr> sys_repo = demo_repo0, sys_pending = [] \<rparr>", simplified, OF b]
    by (auto simp: demo_system_def demo_call_def intro: slot_reachable.step [OF demo_reachable0])
qed

section \<open>Interleaving\<close>

text \<open>
  (C1) Linearizability. Whatever other calls ran while a call of \<open>apply\<close> was suspended at its
  await, if it then changes the repository it does exactly what an uninterrupted \<open>apply\<close> started
  at the commit point does: same result, same repository. No update is lost.
\<close>

theorem resumed_apply_linearizes:
  assumes "slot_reachable cfg s" and "c \<in> set (sys_pending s)"
    and "apply_commit cfg now (pc_scope c) (pc_operation c) (pc_captured c) (sys_repo s) = (Inr m, r')"
    and "r' \<noteq> sys_repo s"
  shows "apply_slot_operation cfg now (pc_scope c) (pc_operation c) (sys_repo s) = (Inr m, r')"
proof -
  from assms(1) have inv: "system_inv cfg s" by (rule reachable_system_inv)
  with assms(2) have ok: "call_ok cfg (sys_repo s) c" by (simp add: system_inv_def)
  from resume_on_captured(1) [OF inv assms(2-4)] ok
  have "apply_slot_operation cfg now (pc_scope c) (pc_operation c) (sys_repo s) =
        apply_commit cfg now (pc_scope c) (pc_operation c) (pc_captured c) (sys_repo s)"
    by (intro apply_normalized) (auto simp: call_ok_def)
  with assms(3) show ?thesis by simp
qed

theorem resumed_apply_linearizes_witness:
  "\<exists>m r'. slot_reachable demo_cfg demo_system \<and>
     apply_commit demo_cfg 6 demo_scope (demo_op Bind ''k1'' 0) demo_slot0 demo_repo0 = (Inr m, r') \<and>
     r' \<noteq> demo_repo0 \<and>
     apply_slot_operation demo_cfg 6 demo_scope (demo_op Bind ''k1'' 0) demo_repo0 = (Inr m, r')"
proof -
  let ?x = "apply_commit demo_cfg 6 demo_scope (demo_op Bind ''k1'' 0) demo_slot0 demo_repo0"
  have ok: "?x = (Inr (projr (fst ?x)), snd ?x)" by (rule outcome_ok) code_simp
  have ne: "snd ?x \<noteq> demo_repo0" by code_simp
  have "apply_slot_operation demo_cfg 6 demo_scope (demo_op Bind ''k1'' 0) demo_repo0 = (Inr (projr (fst ?x)), snd ?x)"
    using resumed_apply_linearizes [OF demo_reachable, of demo_call 6 "projr (fst ?x)" "snd ?x"] ok ne
    by (simp add: demo_system_def demo_call_def)
  then show ?thesis using ok ne demo_reachable by blast
qed

lemma node_slots_distinct:
  assumes "repo_inv r"
  shows "distinct (map slot_node_id (jm_values (repo_slots r)))"
proof -
  have "jm_keys (repo_slots r) = map (node_key \<circ> slot_node_id) (jm_values (repo_slots r))"
    using assms by (auto simp: jm_keys_def jm_values_def repo_inv_def jm_get_mem)
  with assms show ?thesis
    by (simp add: repo_inv_def jm_wf_def distinct_map_filter distinct_map flip: map_map)
qed

text \<open>
  (C2) A client that read the slot of a Node at one moment and asks for the changes since that revision at a
  later one, under any interleaving of calls in between, gets every revision from there to the current one, each
  once and in order. At all times a Node has one slot.
\<close>

theorem change_feed_gap_free:
  assumes "slot_reachable cfg s" and "(slot_step cfg)\<^sup>*\<^sup>* s t"
    and "getSlot z (sys_repo s) sc = Inr sl" and "getSlot z (sys_repo t) sc = Inr sl'" and "0 \<le> slot_revision sl"
  shows "\<exists>cs. getChanges z (sys_repo t) sc (slot_revision sl) = Inr cs
    \<and> map chg_revision cs = [slot_revision sl + 1 .. slot_revision sl'] \<and> slot_revision sl \<le> slot_revision sl'
    \<and> distinct (map slot_node_id (jm_values (repo_slots (sys_repo t))))"
proof -
  from assms(1) have inv: "system_inv cfg s" by (rule reachable_system_inv)
  have slots: "jm_get (repo_slots (sys_repo s)) (node_key (slot_node_id sl')) = Some sl"
    "jm_get (repo_slots (sys_repo t)) (node_key (slot_node_id sl')) = Some sl'"
    using assms(3,4) by (auto elim!: getSlot_Inr)
  with inv have "logged_since (slot_node_id sl') (slot_revision sl) (sys_repo s)"
    by (simp add: system_inv_def logged_since_slot)
  from slot_steps_logged_since [OF assms(2) inv this]
  have t: "repo_inv (sys_repo t)" "logged_since (slot_node_id sl') (slot_revision sl) (sys_repo t)"
    by (simp_all add: system_inv_def)
  from assms(4,5) obtain cs where cs: "getChanges z (sys_repo t) sc (slot_revision sl) = Inr cs"
    by (simp add: getChanges_def)
  from getChanges_since [OF t(2) this assms(4)] slot_steps_revision [OF assms(2) inv slots] node_slots_distinct [OF t(1)] cs
  show ?thesis by blast
qed

lemma demo_resume: "slot_step demo_cfg demo_system \<lparr> sys_repo = demo_repo1, sys_pending = [] \<rparr>"
proof -
  have "apply_commit demo_cfg 6 demo_scope (demo_op Bind ''k1'' 0) demo_slot0 demo_repo0 =
      apply_slot_operation demo_cfg 6 demo_scope (demo_op Bind ''k1'' 0) demo_repo0"
    by code_simp
  then have "apply_commit demo_cfg 6 (pc_scope demo_call) (pc_operation demo_call) (pc_captured demo_call) (sys_repo demo_system) =
      (fst (apply_slot_operation demo_cfg 6 demo_scope (demo_op Bind ''k1'' 0) demo_repo0), demo_repo1)"
    by (simp add: demo_call_def demo_system_def demo_repo1_def)
  from slot_step.resume_call [OF _ this] show ?thesis by (simp add: demo_system_def)
qed

theorem change_feed_gap_free_witness:
  "\<exists>cs. slot_reachable demo_cfg demo_system \<and> (slot_step demo_cfg)\<^sup>*\<^sup>* demo_system \<lparr> sys_repo = demo_repo1, sys_pending = [] \<rparr> \<and>
     getChanges zod_ref demo_repo1 demo_scope 0 = Inr cs \<and> map chg_revision cs = [1]"
proof -
  have g: "getSlot zod_ref demo_repo0 demo_scope = Inr demo_slot0" "slot_revision demo_slot0 = 0"
    and g': "getSlot zod_ref demo_repo1 demo_scope = Inr (projr (getSlot zod_ref demo_repo1 demo_scope))"
      "slot_revision (projr (getSlot zod_ref demo_repo1 demo_scope)) = 1"
    by code_simp+
  have r: "(slot_step demo_cfg)\<^sup>*\<^sup>* demo_system \<lparr> sys_repo = demo_repo1, sys_pending = [] \<rparr>"
    using demo_resume by blast
  from change_feed_gap_free [OF demo_reachable r, of zod_ref demo_scope demo_slot0 "projr (getSlot zod_ref demo_repo1 demo_scope)"]
    g g' r demo_reachable
  show ?thesis by (auto simp: demo_system_def)
qed

section \<open>Idempotency and failure\<close>

text \<open>
  (C3) An operation takes effect once. After a successful \<open>apply\<close> and any further calls, the same operation,
  now stale, is answered with the original result and leaves the repository as it is, whenever its slot can be
  read at all; when it cannot, the error of that read is the answer.
\<close>

theorem apply_exactly_once:
  assumes "apply_slot_operation cfg now sc op r = (Inr m, r1)"
    and "r2 = run (\<lambda>r c. snd (apply_call cfg r c)) r1 calls"
  shows "apply_slot_operation cfg now' sc' op r2 =
    (case apply_begin cfg r2 sc' op of Inl e \<Rightarrow> (Inl e, r2) | Inr _ \<Rightarrow> (Inr m, r2))"
proof -
  have "jm_get (repo_operations r2) (op_idempotency_key op) = Some (operationFingerprint op, m)"
    unfolding assms(2) by (intro recorded_run_stable apply_recorded [OF assms(1)])
  with apply_actor [OF assms(1)] show ?thesis
    by (auto simp: apply_slot_operation_def apply_commit_def split: sum.splits)
qed

theorem apply_exactly_once_witness:
  "apply_slot_operation demo_cfg 9 demo_scope (demo_op Bind ''k1'' 0) demo_repo2
     = (Inr (projr (fst (apply_slot_operation demo_cfg 6 demo_scope (demo_op Bind ''k1'' 0) demo_repo0))), demo_repo2)"
proof -
  let ?x = "apply_slot_operation demo_cfg 6 demo_scope (demo_op Bind ''k1'' 0) demo_repo0"
  have ok: "?x = (Inr (projr (fst ?x)), demo_repo1)"
    unfolding demo_repo1_def by (rule outcome_ok) code_simp
  have "demo_repo2 = run (\<lambda>r c. snd (apply_call demo_cfg r c)) demo_repo1
     [(7, demo_scope, demo_op MarkDegraded ''k2'' 1)]"
    by (simp add: demo_repo2_def)
  note once = apply_exactly_once [OF ok this, of 9 demo_scope]
  have "\<not> isl (apply_begin demo_cfg demo_repo2 demo_scope (demo_op Bind ''k1'' 0))"
    by code_simp
  with once show ?thesis by (auto split: sum.splits)
qed

section \<open>References from slots to bindings\<close>

text \<open>
  Every operation except the generic \<open>transition\<close> keeps the references of all slots
  intact: a slot in a bound state names a registered binding of its own Node, and an unassigned
  or revoked slot names none.
\<close>

theorem apply_keeps_references:
  assumes "repo_inv r" "refs_intact r" "op_kind op \<noteq> Transition"
  shows "refs_intact (snd (apply_slot_operation cfg now sc op r))"
proof (cases rule: apply_effect_cases [of cfg now sc op r])
  case same
  with assms show ?thesis by simp
next
  case (commit m r')
  from commit show ?thesis
  proof (rule apply_commit_on_slot)
    fix ns cap b n
    assume *: "slot_node_id cap = scope_node_id ns" "assertBindingReference r cap = Inr ()"
      "assertOperationTransition cap op = Inr ()" "resolveBinding (cfg_zod cfg) r ns op = Inr b"
      "slotForOperation cap op b now = Inr n" "r' = committed_repo op b (node_key (scope_node_id ns)) n now r"
    have "assertBindingReference r' n = Inr ()"
      unfolding *(6) by (rule slotForOperation_reference [OF assms(1) *(4,1,3,5,2) assms(3)])
    with assms(2) *(6) show ?thesis
      by (auto simp: commit refs_intact_def jm_get_set committed_bindings_refs)
  qed
qed

theorem apply_keeps_references_witness:
  "repo_inv demo_repo1 \<and> refs_intact demo_repo1 \<and> refs_intact demo_repo2"
proof -
  have refs: "refs_intact demo_repo1" by (rule refs_intact_code) code_simp
  have k: "op_kind (demo_op MarkDegraded ''k2'' 1) \<noteq> Transition" by (simp add: demo_op_def)
  show ?thesis
    using demo_inv refs apply_keeps_references [OF demo_inv(2) refs k, of demo_cfg 7 demo_scope]
    by (simp add: demo_repo2_def)
qed

text \<open>
  The generic \<open>transition\<close> operation does not clear the binding. When it moves a bound slot
  to \<open>UNASSIGNED\<close> or \<open>REVOKED\<close>, as the lifecycle table allows, the stored slot is one the
  repository itself rejects: from then on \<open>getSlot\<close> throws \<open>CORRUPT_BINDING\<close>, every operation on
  the Node fails and nothing can repair the slot.
\<close>

theorem transition_corrupts_slot:
  assumes "apply_slot_operation cfg now sc op r = (Inr m, r')" and "r' \<noteq> r"
    and "op_kind op = Transition" and "js_truthy (slot_current_binding_id (mut_slot m))"
    and "slot_lifecycle_state (mut_slot m) \<in> {UNASSIGNED, REVOKED}"
  shows "getSlot (cfg_zod cfg) r' sc = Inl Slot_CORRUPT_BINDING
    \<and> apply_slot_operation cfg now' sc op' r' \<in> {(Inl Slot_CORRUPT_BINDING, r'), (Inl Slot_VALIDATION, r')}"
proof -
  from assms(1,2) show ?thesis
  proof (rule apply_commit_on_slot)
    fix ns cap b n
    assume *: "normalizeScope (cfg_zod cfg) sc = Inr ns"
      "slot_node_id cap = scope_node_id ns" "slotForOperation cap op b now = Inr n"
      "m = \<lparr> mut_slot = n, mut_change = change_for n op now \<rparr>"
      "r' = committed_repo op b (node_key (scope_node_id ns)) n now r"
    have ns: "normalizeScope (cfg_zod cfg) ns = Inr ns" using *(1) by (rule normalizeScope_idem)
    have slot: "jm_get (repo_slots r') (node_key (scope_node_id ns)) = Some n" by (simp add: *(5))
    have "assertBindingReference r' n = Inl Slot_CORRUPT_BINDING"
      using assms(4,5) by (auto simp: *(4) assertBindingReference_def Let_def)
    then have get: "getSlot (cfg_zod cfg) r' sc' = Inl Slot_CORRUPT_BINDING"
      if "normalizeScope (cfg_zod cfg) sc' = Inr ns" for sc'
      using that slot slotForOperation_frame(2) [OF *(3)] *(2)
      by (simp add: getSlot_def slot_key_def assertPrimaryAgentSlotOwnership_def)
    have "validateOperation op' = Inl Slot_VALIDATION \<or> validateOperation op' = Inr ()"
      by (auto simp: validateOperation_def requireText_def)
    then show ?thesis
      using get [OF *(1)] get [OF ns] *(1) by (auto simp: apply_slot_operation_def apply_begin_def)
  qed
qed

theorem transition_corrupts_slot_witness:
  "getSlot zod_ref demo_repo2 demo_scope \<noteq> Inl Slot_CORRUPT_BINDING \<and>
   getSlot zod_ref (snd (apply_slot_operation demo_cfg 8 demo_scope (demo_op Transition ''k3'' 2) demo_repo2)) demo_scope
     = Inl Slot_CORRUPT_BINDING"
proof -
  let ?x = "apply_slot_operation demo_cfg 8 demo_scope (demo_op Transition ''k3'' 2) demo_repo2"
  have ok: "?x = (Inr (projr (fst ?x)), snd ?x)" by (rule outcome_ok) code_simp
  have ne: "snd ?x \<noteq> demo_repo2" by code_simp
  have k: "op_kind (demo_op Transition ''k3'' 2) = Transition" by (simp add: demo_op_def)
  have t: "js_truthy (slot_current_binding_id (mut_slot (projr (fst ?x))))" by code_simp
  have l: "slot_lifecycle_state (mut_slot (projr (fst ?x))) \<in> {UNASSIGNED, REVOKED}" by code_simp
  have pre: "getSlot zod_ref demo_repo2 demo_scope \<noteq> Inl Slot_CORRUPT_BINDING" by code_simp
  from transition_corrupts_slot [OF ok ne k t l] pre show ?thesis by (simp add: demo_cfg_def)
qed

section \<open>Lifecycle, privileges and restart\<close>

text \<open>
  (C4) Revocation is final: once the slot of a Node is revoked it stays revoked through any
  sequence of operations, successful or not, and its revision never decreases.
\<close>

theorem revoked_is_terminal:
  assumes "revoked_at n r"
  shows "revoked_at n (run (\<lambda>r c. snd (apply_call cfg r c)) r calls)
    \<and> revision_at n r \<le> revision_at n (run (\<lambda>r c. snd (apply_call cfg r c)) r calls)"
  using assms by (blast intro: revoked_slot.run_inv revoked_slot.run_mono)

definition demo_revoked :: repository where
  "demo_revoked = snd (apply_slot_operation demo_cfg 8 demo_scope (demo_op Revoke ''k4'' 2) demo_repo2)"

theorem revoked_is_terminal_witness:
  "revoked_at ''n'' demo_revoked \<and>
   revoked_at ''n'' (run (\<lambda>r c. snd (apply_call demo_cfg r c)) demo_revoked [(9, demo_scope, demo_op Restore ''k5'' 3)])"
proof -
  have "map_option slot_lifecycle_state (jm_get (repo_slots demo_revoked) (node_key ''n'')) = Some REVOKED"
    by code_simp
  then have rv: "revoked_at ''n'' demo_revoked" by (auto simp: revoked_at_def)
  with revoked_is_terminal [OF rv, of demo_cfg "[(9, demo_scope, demo_op Restore ''k5'' 3)]"] show ?thesis
    by blast
qed

text \<open>
  A new binding inherits no privilege of the previous one: the grant and the hook
  subscription of the slot after \<open>bind\<close> or \<open>replace\<close> are the ones the operation or the new
  binding states, or none; only the durable inbox stays with the slot.
\<close>

theorem replacement_drops_privileges:
  assumes "op_kind op = Bind \<or> op_kind op = Replace"
    and "slotForOperation cur op (Some b) ts = Inr nxt"
  shows "slot_current_binding_id nxt = Some (bind_binding_id b)
    \<and> slot_capability_grant_ref nxt = (case op_capability_grant_ref op of Some g \<Rightarrow> g
         | None \<Rightarrow> (case bind_capability_grant_ref b of Some g \<Rightarrow> g | None \<Rightarrow> None))
    \<and> slot_hook_subscription_ref nxt = (case op_hook_subscription_ref op of Some h \<Rightarrow> h | None \<Rightarrow> None)
    \<and> (op_durable_inbox_ref op = None \<longrightarrow> slot_durable_inbox_ref nxt = slot_durable_inbox_ref cur)"
proof -
  from assms show ?thesis
    by (elim disjE) (clarsimp simp: slotForOperation_def Let_def)+
qed

definition demo_privileged :: slot where
  "demo_privileged = \<lparr> slot_id = ''s'', slot_node_id = ''n'', slot_current_binding_id = Some ''old'',
     slot_lifecycle_state = CONNECTED, slot_revision = 4, slot_assigned_at = Some 1, slot_assigned_by = Some ''u'',
     slot_last_seen_at = Some 1, slot_capability_grant_ref = Some ''old-grant'',
     slot_hook_subscription_ref = Some ''old-hook'', slot_durable_inbox_ref = Some ''inbox'',
     slot_changed_at = Some 1, slot_provenance_of = None \<rparr>"

theorem replacement_drops_privileges_witness:
  "\<exists>nxt. slotForOperation demo_privileged (demo_op Replace ''k'' 4) (Some demo_binding) 9 = Inr nxt \<and>
     slot_capability_grant_ref nxt = None \<and> slot_hook_subscription_ref nxt = None \<and>
     slot_durable_inbox_ref nxt = Some ''inbox''"
proof -
  obtain nxt where n: "slotForOperation demo_privileged (demo_op Replace ''k'' 4) (Some demo_binding) 9 = Inr nxt"
    by (simp add: slotForOperation_def demo_op_def Let_def)
  have k: "op_kind (demo_op Replace ''k'' 4) = Bind \<or> op_kind (demo_op Replace ''k'' 4) = Replace"
    by (simp add: demo_op_def)
  from n replacement_drops_privileges [OF k n] show ?thesis
    by (simp add: demo_op_def demo_binding_def demo_privileged_def)
qed

text \<open>
  (C5) Restart round trip: serialising a repository whose slots and bindings satisfy their
  contracts and whose references are intact, and rebuilding it from that state, gives the same
  repository: slots, bindings, idempotency records and change log.
\<close>

theorem restart_roundtrip:
  assumes inv: "repo_inv r" and refs: "refs_intact r" and clean: "contract_clean z r"
  shows "restart_repository z r = Inr r"
proof -
  let ?r0 = "empty_repository \<lparr> repo_bindings := repo_bindings r \<rparr>"
  let ?r1 = "?r0 \<lparr> repo_slots := repo_slots r \<rparr>"
  have wf: "jm_wf (repo_slots r)" "jm_wf (repo_bindings r)" "jm_wf (repo_operations r)"
    using inv by (simp_all add: repo_inv_def)
  have mb: "\<forall>(k, b) \<in> set (repo_bindings r). k = bind_binding_id b \<and> bindingRecordSchema z b = Some b"
    using clean repo_inv_binding [OF inv] wf(2)
    by (force simp: contract_clean_def jm_values_def jm_get_mem)
  have ms: "\<forall>(k, s) \<in> set (repo_slots r). k = node_key (slot_node_id s) \<and> parseSpatialPrimaryAgentSlot z s = Some s"
    using clean repo_inv_slot [OF inv] wf(1)
    by (force simp: contract_clean_def jm_values_def jm_get_mem)
  have b: "registerAll z (jm_values (repo_bindings r)) empty_repository = Inr ?r0"
    using registerAll_values [of "[]", OF _ mb] wf by (simp add: empty_repository_def)
  have "\<forall>(k, s) \<in> set (repo_slots r). assertBindingReference ?r0 s = Inr ()"
    using refs wf(1) by (auto simp: refs_intact_def jm_get_mem assertBindingReference_cong [of ?r0 r])
  then have s: "insertAll z (jm_values (repo_slots r)) ?r0 = Inr ?r1"
    using insertAll_values [of "[]", OF _ ms] wf by (simp add: empty_repository_def)
  show ?thesis
    using fold_jm_set_wf [of "[]" "repo_operations r"] wf b s
    by (simp add: restart_repository_def fromState_def serialize_repository_def newRepository_def empty_repository_def)
qed

theorem restart_roundtrip_witness:
  "repo_slots demo_repo2 \<noteq> [] \<and> restart_repository zod_ref demo_repo2 = Inr demo_repo2"
proof -
  have ev: "list_all (\<lambda>(k, s). assertBindingReference demo_repo2 s = Inr ()) (repo_slots demo_repo2) \<and>
    list_all (\<lambda>s. parseSpatialPrimaryAgentSlot zod_ref s = Some s) (jm_values (repo_slots demo_repo2)) \<and>
    list_all (\<lambda>b. bindingRecordSchema zod_ref b = Some b) (jm_values (repo_bindings demo_repo2)) \<and>
    repo_slots demo_repo2 \<noteq> []"
    by code_simp
  have "restart_repository zod_ref demo_repo2 = Inr demo_repo2"
    by (rule restart_roundtrip [OF demo_inv(3)])
      (use ev in \<open>auto simp: contract_clean_def list_all_iff intro!: refs_intact_code\<close>)
  with ev show ?thesis by blast
qed

text \<open>
  \<open>apply\<close> stores the references of an operation as given, but restart parses them: a slot
  whose grant reference is blank (an operation may carry one) makes the whole repository
  impossible to restart.
\<close>

theorem blank_grant_blocks_restart:
  assumes "zod_documented z" and "s \<in> set (jm_values (repo_slots r))"
    and "slot_capability_grant_ref s = Some g" and "js_trim g = []"
  shows "restart_repository z r \<noteq> Inr r'"
proof -
  have "idSchema z g = None" using assms(1,4) by (simp add: idSchema_def zod_documented_def)
  then have p: "parseSpatialPrimaryAgentSlot z s = None"
    using assms(3) by (auto simp: parseSpatialPrimaryAgentSlot_def nullable_def bind_eq_None_conv)
  have "s \<in> set ss \<Longrightarrow> insertAll z ss q \<noteq> Inr q'" for ss q q'
    by (induction ss arbitrary: q) (auto simp: insertSlot_def p split: prod.splits sum.splits)
  then show ?thesis
    using assms(2) by (auto simp: restart_repository_def fromState_def serialize_repository_def outcome_simps)
qed

definition demo_blank :: repository where
  "demo_blank = snd (apply_slot_operation demo_cfg 6 demo_scope
     ((demo_op Bind ''k1'' 0) \<lparr> op_capability_grant_ref := Some (Some '' '') \<rparr>) demo_repo0)"

theorem blank_grant_blocks_restart_witness:
  "\<exists>s \<in> set (jm_values (repo_slots demo_blank)). slot_capability_grant_ref s = Some '' '' \<and>
     restart_repository zod_ref demo_blank \<noteq> Inr demo_blank"
proof -
  have "map slot_capability_grant_ref (jm_values (repo_slots demo_blank)) = [Some '' ''] \<and> js_trim '' '' = []"
    by code_simp
  then obtain s where s: "s \<in> set (jm_values (repo_slots demo_blank))" "slot_capability_grant_ref s = Some '' ''"
    "js_trim '' '' = []" by auto
  from blank_grant_blocks_restart [OF zod_ref_documented s] s(1,2) show ?thesis by blast
qed

end
