(* ===== verification/Binding_Api.thy ===== *)
theory Binding_Api
  imports Slot_Concurrency
begin

text \<open>
  \<open>PrimaryAgentBindingApi\<close> of \<open>spatial/data/primary-agent-binding.ts\<close>. The class takes any
  \<open>PrimaryAgentSlotRepository\<close>: the record \<open>repo_ops\<close> holds the methods it calls, and every
  definition here takes it as an argument. \<open>memory_ops\<close> is the in-memory repository of
  \<open>Slot_Repository\<close>. The callbacks \<open>onEvent\<close> and \<open>onBindingRevoked\<close> are the two logs of the state.
  A call is modelled from its start to its end; its awaits are not interleaved with other calls.
\<close>

section \<open>Data\<close>

datatype binding_operation = OpBind | OpReplace | OpSuspend | OpDetach | OpRevoke | OpRecover

record 'r repo_ops =
  ro_getSlot :: "'r \<Rightarrow> scope \<Rightarrow> slot_error + slot"
  ro_ensureSlot :: "scope \<Rightarrow> 'r \<Rightarrow> (slot_error, slot, 'r) outcome"
  ro_apply :: "scope \<Rightarrow> slot_operation \<Rightarrow> 'r \<Rightarrow> (slot_error, slot_mutation, 'r) outcome"
  ro_getBinding :: "('r \<Rightarrow> string \<Rightarrow> slot_error + binding_record option) option"

record binding_plan =
  plan_plan_id :: string
  plan_slot_id :: string
  plan_node_id :: string
  plan_expected_revision :: int
  plan_operation :: binding_operation
  plan_actor_ref :: string
  plan_idempotency_key :: string
  plan_binding :: "binding_record option"
  plan_capability_grant_ref :: "string option option"
  plan_hook_subscription_ref :: "string option option"
  plan_durable_inbox_ref :: "string option option"
  plan_created_at :: timestamp
  plan_expires_at :: "timestamp option option"
  plan_plan_hash :: string

record plan_input =
  in_operation :: binding_operation
  in_actor_ref :: string
  in_idempotency_key :: string
  in_binding :: "binding_record option"
  in_capability_grant_ref :: "string option option"
  in_hook_subscription_ref :: "string option option"
  in_durable_inbox_ref :: "string option option"
  in_plan_id :: "string option"
  in_expires_at :: "timestamp option option"

record binding_audit =
  aud_audit_id :: string
  aud_actor_ref :: string
  aud_operation :: binding_operation
  aud_node_id :: string
  aud_slot_id :: string
  aud_revision :: int
  aud_occurred_at :: timestamp

record binding_event =
  bev_event_id :: string
  bev_node_id :: string
  bev_sequence :: int
  bev_revision :: int
  bev_occurred_at :: timestamp
  bev_correlation_id :: string
  bev_causation_id :: string
  bev_payload :: slot

record command_result =
  res_plan :: binding_plan
  res_mutation :: slot_mutation
  res_audit :: binding_audit
  res_event :: binding_event

datatype health_status = Healthy | HDegraded | HDisconnected | HRevoked | HUnassigned | HUnknown

record binding_health =
  hlt_node_id :: string
  hlt_slot_id :: string
  hlt_binding_id :: "string option"
  hlt_status :: health_status
  hlt_observed_at :: timestamp
  hlt_revision :: int

record 'r binding_api =
  api_repository :: 'r
  api_sequences :: "(string, int) jsmap"
  api_appliedPlans :: "(string, command_result) jsmap"
  api_events :: "binding_event list"
  api_revocations :: "(string \<times> slot) list"

record 'r api_config =
  ac_zod :: zod
  ac_ops :: "'r repo_ops"
  ac_authorize :: "(scope \<Rightarrow> binding_plan \<Rightarrow> slot \<Rightarrow> bool) option"

section \<open>Plans\<close>

fun binding_operation_name :: "binding_operation \<Rightarrow> string" where
  "binding_operation_name OpBind = ''bind''"
| "binding_operation_name OpReplace = ''replace''"
| "binding_operation_name OpSuspend = ''suspend''"
| "binding_operation_name OpDetach = ''detach''"
| "binding_operation_name OpRevoke = ''revoke''"
| "binding_operation_name OpRecover = ''recover''"

definition time_json :: "timestamp option \<Rightarrow> json" where
  "time_json t = (case t of None \<Rightarrow> JNull | Some x \<Rightarrow> JStr (js_toISOString x))"

text \<open>The plan without \<open>plan_hash\<close>, as \<open>computePrimaryAgentBindingPlanHash\<close> hashes it.\<close>

definition plan_json :: "binding_plan \<Rightarrow> json" where
  "plan_json p = JObj ([(''schema_version'', JStr ''spatial.primary-agent-binding-plan.v1''),
     (''plan_id'', JStr (plan_plan_id p)), (''slot_id'', JStr (plan_slot_id p)), (''node_id'', JStr (plan_node_id p)),
     (''expected_revision'', JNum (plan_expected_revision p)),
     (''operation'', JStr (binding_operation_name (plan_operation p))),
     (''actor_ref'', JStr (plan_actor_ref p)), (''idempotency_key'', JStr (plan_idempotency_key p))] @
     prop_if ''binding'' binding_json (plan_binding p) @
     prop_if ''capability_grant_ref'' null_json (plan_capability_grant_ref p) @
     prop_if ''hook_subscription_ref'' null_json (plan_hook_subscription_ref p) @
     prop_if ''durable_inbox_ref'' null_json (plan_durable_inbox_ref p) @
     [(''created_at'', JStr (js_toISOString (plan_created_at p)))] @
     prop_if ''expires_at'' time_json (plan_expires_at p))"

definition computePrimaryAgentBindingPlanHash :: "binding_plan \<Rightarrow> string" where
  "computePrimaryAgentBindingPlanHash p = ''sha256:local-'' @ fnv1a (stableStringify (plan_json p))"

definition safeBinding :: "zod \<Rightarrow> binding_record option \<Rightarrow> slot_error + binding_record option" where
  "safeBinding z b = (case b of None \<Rightarrow> Inr None
     | Some raw \<Rightarrow> (case bindingRecordSchema z raw of None \<Rightarrow> Inl Slot_VALIDATION | Some b' \<Rightarrow> Inr (Some b')))"

definition bindingPlanFields :: "zod \<Rightarrow> binding_plan \<Rightarrow> binding_plan option" where
  "bindingPlanFields z p = do {
     pid \<leftarrow> idSchema z (plan_plan_id p);
     sid \<leftarrow> idSchema z (plan_slot_id p);
     node \<leftarrow> idSchema z (plan_node_id p);
     expected \<leftarrow> revisionSchema z (plan_expected_revision p);
     actor \<leftarrow> idSchema z (plan_actor_ref p);
     key \<leftarrow> idSchema z (plan_idempotency_key p);
     binding \<leftarrow> nullable (bindingRecordSchema z) (plan_binding p);
     grant \<leftarrow> nullable (nullable (idSchema z)) (plan_capability_grant_ref p);
     hook \<leftarrow> nullable (nullable (idSchema z)) (plan_hook_subscription_ref p);
     inbox \<leftarrow> nullable (nullable (idSchema z)) (plan_durable_inbox_ref p);
     Some \<lparr> plan_plan_id = pid, plan_slot_id = sid, plan_node_id = node, plan_expected_revision = expected,
       plan_operation = plan_operation p, plan_actor_ref = actor, plan_idempotency_key = key,
       plan_binding = binding, plan_capability_grant_ref = grant, plan_hook_subscription_ref = hook,
       plan_durable_inbox_ref = inbox, plan_created_at = plan_created_at p,
       plan_expires_at = plan_expires_at p, plan_plan_hash = plan_plan_hash p \<rparr> }"

definition bindingPlanSchema :: "zod \<Rightarrow> binding_plan \<Rightarrow> binding_plan option" where
  "bindingPlanSchema z p = do {
     fields \<leftarrow> bindingPlanFields z p;
     hash \<leftarrow> idSchema z (plan_plan_hash p);
     Some (fields \<lparr> plan_plan_hash := hash \<rparr>) }"

definition normalizePlan :: "zod \<Rightarrow> binding_plan \<Rightarrow> slot_error + binding_plan" where
  "normalizePlan z p = (case bindingPlanSchema z p of
     None \<Rightarrow> Inl Slot_VALIDATION
   | Some parsed \<Rightarrow> if computePrimaryAgentBindingPlanHash parsed \<noteq> plan_plan_hash parsed then Inl Slot_VALIDATION
                   else Inr parsed)"

definition bindingFor :: "'r repo_ops \<Rightarrow> 'r \<Rightarrow> string option \<Rightarrow> slot_error + binding_record option" where
  "bindingFor ops r bindingId =
     (if \<not> js_truthy bindingId then Inr None
      else case ro_getBinding ops of None \<Rightarrow> Inr None | Some get \<Rightarrow> get r (the bindingId))"

fun operationKind :: "binding_operation \<Rightarrow> slot_operation_kind" where
  "operationKind OpSuspend = MarkDisconnected"
| "operationKind OpRecover = Restore"
| "operationKind OpBind = Bind"
| "operationKind OpReplace = Replace"
| "operationKind OpDetach = Detach"
| "operationKind OpRevoke = Revoke"

section \<open>The API\<close>

definition inspectSlot :: "'r api_config \<Rightarrow> scope \<Rightarrow> 'r binding_api
    \<Rightarrow> (slot_error, slot \<times> binding_record option, 'r binding_api) outcome" where
  "inspectSlot ac sc a = (case ro_ensureSlot (ac_ops ac) sc (api_repository a) of
     (Inl e, r) \<Rightarrow> (Inl e, a \<lparr> api_repository := r \<rparr>)
   | (Inr s, r) \<Rightarrow> (case bindingFor (ac_ops ac) r (slot_current_binding_id s) of
        Inl e \<Rightarrow> (Inl e, a \<lparr> api_repository := r \<rparr>)
      | Inr b \<Rightarrow> (Inr (s, b), a \<lparr> api_repository := r \<rparr>)))"

definition planBase :: "timestamp \<Rightarrow> scope \<Rightarrow> slot \<Rightarrow> plan_input \<Rightarrow> binding_record option
    \<Rightarrow> string \<Rightarrow> string \<Rightarrow> string \<Rightarrow> binding_plan" where
  "planBase now ns s input binding pid actor key = \<lparr> plan_plan_id = pid, plan_slot_id = slot_id s,
     plan_node_id = scope_node_id ns, plan_expected_revision = slot_revision s,
     plan_operation = in_operation input, plan_actor_ref = actor, plan_idempotency_key = key,
     plan_binding = binding, plan_capability_grant_ref = in_capability_grant_ref input,
     plan_hook_subscription_ref = in_hook_subscription_ref input,
     plan_durable_inbox_ref = in_durable_inbox_ref input, plan_created_at = now,
     plan_expires_at = in_expires_at input, plan_plan_hash = [] \<rparr>"

text \<open>\<open>createBindingPlan\<close> after the slot was read.\<close>

definition planForSlot :: "zod \<Rightarrow> timestamp \<Rightarrow> scope \<Rightarrow> plan_input \<Rightarrow> slot \<Rightarrow> slot_error + binding_plan" where
  "planForSlot z now ns input s =
     bindR (safeBinding z (in_binding input)) (\<lambda>binding.
     if (in_operation input = OpBind \<or> in_operation input = OpReplace) \<and> binding = None then Inl Slot_VALIDATION
     else if (case binding of None \<Rightarrow> False | Some b \<Rightarrow> bind_node_id b \<noteq> scope_node_id ns) then Inl Slot_NODE_MISMATCH
     else bindR (requireText (case in_plan_id input of Some i \<Rightarrow> i
            | None \<Rightarrow> slot_id s @ '':plan:'' @ in_idempotency_key input)) (\<lambda>pid.
          bindR (requireText (in_actor_ref input)) (\<lambda>actor.
          bindR (requireText (in_idempotency_key input)) (\<lambda>key.
          case bindingPlanFields z (planBase now ns s input binding pid actor key) of
            None \<Rightarrow> Inl Slot_VALIDATION
          | Some p \<Rightarrow> Inr (p \<lparr> plan_plan_hash := computePrimaryAgentBindingPlanHash p \<rparr>)))))"

definition createBindingPlan :: "'r api_config \<Rightarrow> timestamp \<Rightarrow> scope \<Rightarrow> plan_input \<Rightarrow> 'r binding_api
    \<Rightarrow> (slot_error, binding_plan, 'r binding_api) outcome" where
  "createBindingPlan ac now sc input a =
     liftO (normalizeScope (ac_zod ac) sc) a (\<lambda>ns.
     case ro_ensureSlot (ac_ops ac) ns (api_repository a) of
       (Inl e, r) \<Rightarrow> throw e (a \<lparr> api_repository := r \<rparr>)
     | (Inr s, r) \<Rightarrow> (planForSlot (ac_zod ac) now ns input s, a \<lparr> api_repository := r \<rparr>))"

definition plan_slot_operation :: "binding_plan \<Rightarrow> slot_operation" where
  "plan_slot_operation p = \<lparr> op_operation_id = plan_plan_id p, op_idempotency_key = plan_idempotency_key p,
     op_actor_ref = plan_actor_ref p, op_expected_revision = plan_expected_revision p,
     op_kind = operationKind (plan_operation p), op_binding_id = map_option bind_binding_id (plan_binding p),
     op_binding = plan_binding p, op_capability_grant_ref = plan_capability_grant_ref p,
     op_hook_subscription_ref = plan_hook_subscription_ref p, op_durable_inbox_ref = plan_durable_inbox_ref p,
     op_lifecycle_state = None \<rparr>"

text \<open>What a committed plan adds to the state: the sequence number, the event, the revocation and the stored result.\<close>

definition command_result_for :: "scope \<Rightarrow> binding_plan \<Rightarrow> slot_mutation \<Rightarrow> int \<Rightarrow> command_result" where
  "command_result_for ns p m seqno =
     (let c = mut_change m; s = mut_slot m in
      \<lparr> res_plan = p, res_mutation = m,
        res_audit = \<lparr> aud_audit_id = chg_change_id c, aud_actor_ref = chg_actor_ref c, aud_operation = plan_operation p,
          aud_node_id = scope_node_id ns, aud_slot_id = slot_id s, aud_revision = slot_revision s,
          aud_occurred_at = chg_occurred_at c \<rparr>,
        res_event = \<lparr> bev_event_id = chg_change_id c @ '':event'', bev_node_id = scope_node_id ns, bev_sequence = seqno,
          bev_revision = chg_revision c, bev_occurred_at = chg_occurred_at c, bev_correlation_id = plan_plan_id p,
          bev_causation_id = chg_operation_id c, bev_payload = s \<rparr> \<rparr>)"

definition binding_was_removed :: "slot \<Rightarrow> binding_plan \<Rightarrow> slot_mutation \<Rightarrow> bool" where
  "binding_was_removed before p m \<longleftrightarrow> js_truthy (slot_current_binding_id before) \<and>
     plan_operation p \<in> {OpReplace, OpDetach, OpRevoke} \<and>
     slot_current_binding_id before \<noteq> slot_current_binding_id (mut_slot m)"

text \<open>\<open>applyBindingPlan\<close> after its checks: the call of \<open>repository.apply\<close> and what a committed plan adds.\<close>

definition commitBindingPlan :: "'r api_config \<Rightarrow> scope \<Rightarrow> binding_plan \<Rightarrow> slot \<Rightarrow> 'r binding_api
    \<Rightarrow> (slot_error, command_result, 'r binding_api) outcome" where
  "commitBindingPlan ac ns plan s a =
     (case ro_apply (ac_ops ac) ns (plan_slot_operation plan) (api_repository a) of
        (Inl e, r) \<Rightarrow> throw e (a \<lparr> api_repository := r \<rparr>)
      | (Inr m, r) \<Rightarrow>
        let seqno = max ((case jm_get (api_sequences a) (scope_node_id ns) of None \<Rightarrow> 0 | Some q \<Rightarrow> q) + 1)
                      (chg_revision (mut_change m));
            result = command_result_for ns plan m seqno
        in return result (a \<lparr> api_repository := r,
             api_sequences := jm_set (scope_node_id ns) seqno (api_sequences a),
             api_events := api_events a @ [res_event result],
             api_revocations := api_revocations a @
               (if binding_was_removed s plan m then [(the (slot_current_binding_id s), mut_slot m)] else []),
             api_appliedPlans := jm_set (plan_idempotency_key plan) result (api_appliedPlans a) \<rparr>))"

definition applyBindingPlan :: "'r api_config \<Rightarrow> scope \<Rightarrow> binding_plan \<Rightarrow> 'r binding_api
    \<Rightarrow> (slot_error, command_result, 'r binding_api) outcome" where
  "applyBindingPlan ac sc input a =
     liftO (normalizeScope (ac_zod ac) sc) a (\<lambda>ns.
     liftO (normalizePlan (ac_zod ac) input) a (\<lambda>plan.
     if plan_node_id plan \<noteq> scope_node_id ns then throw Slot_NODE_MISMATCH a
     else liftO (ro_getSlot (ac_ops ac) (api_repository a) ns) a (\<lambda>s.
     if slot_id s \<noteq> plan_slot_id plan then throw Slot_NODE_MISMATCH a
     else if (case ac_authorize ac of None \<Rightarrow> False | Some auth \<Rightarrow> \<not> auth ns plan s) then throw Slot_UNAUTHORIZED a
     else case jm_get (api_appliedPlans a) (plan_idempotency_key plan) of
       Some applied \<Rightarrow> if plan_plan_hash (res_plan applied) \<noteq> plan_plan_hash plan
                       then throw Slot_IDEMPOTENCY_CONFLICT a else return applied a
     | None \<Rightarrow> commitBindingPlan ac ns plan s a)))"

fun health_of :: "lifecycle \<Rightarrow> health_status" where
  "health_of CONNECTED = Healthy"
| "health_of DEGRADED = HDegraded"
| "health_of DISCONNECTED = HDisconnected"
| "health_of REVOKED = HRevoked"
| "health_of UNASSIGNED = HUnassigned"
| "health_of BINDING = HUnknown"

definition verifyHealth :: "'r api_config \<Rightarrow> timestamp \<Rightarrow> scope \<Rightarrow> 'r binding_api
    \<Rightarrow> (slot_error, binding_health, 'r binding_api) outcome" where
  "verifyHealth ac now sc a = seqO (inspectSlot ac sc a) (\<lambda>(s, b) a'.
     return \<lparr> hlt_node_id = slot_node_id s, hlt_slot_id = slot_id s, hlt_binding_id = slot_current_binding_id s,
       hlt_status = health_of (slot_lifecycle_state s), hlt_observed_at = now, hlt_revision = slot_revision s \<rparr> a')"

definition recoverPreviousSafeState :: "'r api_config \<Rightarrow> timestamp \<Rightarrow> scope \<Rightarrow> string \<Rightarrow> string \<Rightarrow> 'r binding_api
    \<Rightarrow> (slot_error, command_result, 'r binding_api) outcome" where
  "recoverPreviousSafeState ac now sc actor_ref idempotency_key a =
     seqO (createBindingPlan ac now sc \<lparr> in_operation = OpRecover, in_actor_ref = actor_ref,
         in_idempotency_key = idempotency_key, in_binding = None, in_capability_grant_ref = None,
         in_hook_subscription_ref = None, in_durable_inbox_ref = None, in_plan_id = None, in_expires_at = None \<rparr> a)
       (\<lambda>plan a'. applyBindingPlan ac sc plan a')"

definition memory_ops :: "repo_config \<Rightarrow> timestamp \<Rightarrow> repository repo_ops" where
  "memory_ops cfg now = \<lparr> ro_getSlot = getSlot (cfg_zod cfg),
     ro_ensureSlot = (\<lambda>sc r. ensureSlot (cfg_zod cfg) sc now r),
     ro_apply = (\<lambda>sc op r. apply_slot_operation cfg now sc op r), ro_getBinding = Some getBinding \<rparr>"

end
