(* ===== verification/Binding_Lemmas.thy ===== *)
theory Binding_Lemmas
  imports Binding_Api
begin

text \<open>
  Case analysis of \<open>applyBindingPlan\<close>, and the contract \<open>slot_repository\<close> that it relies on: a failed
  \<open>apply\<close> leaves the repository as it was. Under it a plan is an idempotent command; the in-memory
  repository satisfies it.
\<close>

section \<open>Case analysis\<close>

lemma commitBindingPlan_error:
  assumes "commitBindingPlan ac ns p s a = (Inl e, a')"
  obtains r where "ro_apply (ac_ops ac) ns (plan_slot_operation p) (api_repository a) = (Inl e, r)"
    "a' = a \<lparr> api_repository := r \<rparr>"
  using assms that by (auto simp: commitBindingPlan_def Let_def split: prod.splits sum.splits)

lemma applyBindingPlan_cases:
  obtains (fail) e where "applyBindingPlan ac sc input a = (Inl e, a)"
  | (replay) plan res where "normalizePlan (ac_zod ac) input = Inr plan"
      "jm_get (api_appliedPlans a) (plan_idempotency_key plan) = Some res"
      "plan_plan_hash (res_plan res) = plan_plan_hash plan" "applyBindingPlan ac sc input a = (Inr res, a)"
  | (commit) ns plan s where "normalizeScope (ac_zod ac) sc = Inr ns"
      "normalizePlan (ac_zod ac) input = Inr plan" "plan_node_id plan = scope_node_id ns"
      "ro_getSlot (ac_ops ac) (api_repository a) ns = Inr s" "slot_id s = plan_slot_id plan"
      "jm_get (api_appliedPlans a) (plan_idempotency_key plan) = None"
      "applyBindingPlan ac sc input a = commitBindingPlan ac ns plan s a"
proof (cases "\<exists>e. applyBindingPlan ac sc input a = (Inl e, a)")
  case True
  then show ?thesis using fail by blast
next
  case F: False
  obtain ns where ns: "normalizeScope (ac_zod ac) sc = Inr ns"
    by (cases "normalizeScope (ac_zod ac) sc") (use F in \<open>auto simp: applyBindingPlan_def\<close>)
  obtain plan where plan: "normalizePlan (ac_zod ac) input = Inr plan"
    by (cases "normalizePlan (ac_zod ac) input") (use F ns in \<open>auto simp: applyBindingPlan_def\<close>)
  have node: "plan_node_id plan = scope_node_id ns"
    by (rule ccontr) (use F ns plan in \<open>simp add: applyBindingPlan_def\<close>)
  obtain s where s: "ro_getSlot (ac_ops ac) (api_repository a) ns = Inr s"
    by (cases "ro_getSlot (ac_ops ac) (api_repository a) ns") (use F ns plan node in \<open>auto simp: applyBindingPlan_def\<close>)
  note known = ns plan node s
  have sid: "slot_id s = plan_slot_id plan"
    by (rule ccontr) (use F known in \<open>simp add: applyBindingPlan_def\<close>)
  have auth: "\<not> (case ac_authorize ac of None \<Rightarrow> False | Some auth \<Rightarrow> \<not> auth ns plan s)"
    by (rule notI) (use F known sid in \<open>simp add: applyBindingPlan_def\<close>)
  show ?thesis
  proof (cases "jm_get (api_appliedPlans a) (plan_idempotency_key plan)")
    case None
    with known sid auth show ?thesis
      by (intro commit [of ns plan s]) (simp_all add: applyBindingPlan_def)
  next
    case (Some res)
    have h: "plan_plan_hash (res_plan res) = plan_plan_hash plan"
      by (rule ccontr) (use F known sid auth Some in \<open>simp add: applyBindingPlan_def\<close>)
    with known sid auth Some show ?thesis
      by (intro replay [of plan res]) (simp_all add: applyBindingPlan_def)
  qed
qed

lemma commitBindingPlan_success:
  assumes "commitBindingPlan ac ns plan s a = (Inr res, a')"
  obtains m r seqno where
      "ro_apply (ac_ops ac) ns (plan_slot_operation plan) (api_repository a) = (Inr m, r)"
      "seqno = max ((case jm_get (api_sequences a) (scope_node_id ns) of None \<Rightarrow> 0 | Some q \<Rightarrow> q) + 1)
                        (chg_revision (mut_change m))"
      "res = command_result_for ns plan m seqno"
      "a' = a \<lparr> api_repository := r,
               api_sequences := jm_set (scope_node_id ns) seqno (api_sequences a),
               api_events := api_events a @ [res_event res],
               api_revocations := api_revocations a @
                 (if binding_was_removed s plan m then [(the (slot_current_binding_id s), mut_slot m)] else []),
               api_appliedPlans := jm_set (plan_idempotency_key plan) res (api_appliedPlans a) \<rparr>"
  using assms that by (auto simp: commitBindingPlan_def Let_def split: prod.splits sum.splits)

lemma normalizePlan_Inr:
  assumes "normalizePlan z p = Inr q"
  shows "bindingPlanSchema z p = Some q" "computePrimaryAgentBindingPlanHash q = plan_plan_hash q"
    "plan_idempotency_key q = js_trim (plan_idempotency_key p)" "plan_operation q = plan_operation p"
  using assms
  by (auto simp: normalizePlan_def bindingPlanSchema_def bindingPlanFields_def
      split: option.splits if_splits Option.bind_splits dest: idSchema_trim)

section \<open>What the API needs of a repository\<close>

locale slot_repository =
  fixes ac :: "'r api_config"
  assumes failed_apply_frame: "ro_apply (ac_ops ac) sc op r = (Inl e, r') \<Longrightarrow> r' = r"
begin

lemma applyBindingPlan_error_frame:
  assumes "applyBindingPlan ac sc p a = (Inl e, a')"
  shows "a' = a"
  using assms
proof (cases rule: applyBindingPlan_cases [of ac sc p a])
  case (commit ns plan s)
  with assms obtain r where "ro_apply (ac_ops ac) ns (plan_slot_operation plan) (api_repository a) = (Inl e, r)"
    "a' = a \<lparr> api_repository := r \<rparr>" by (auto elim: commitBindingPlan_error)
  with failed_apply_frame show ?thesis by fastforce
qed simp_all

lemma applied_stays:
  assumes "jm_get (api_appliedPlans a) k = Some res"
  shows "jm_get (api_appliedPlans (snd (applyBindingPlan ac sc p a))) k = Some res"
proof (cases rule: applyBindingPlan_cases [of ac sc p a])
  case (commit ns plan s)
  show ?thesis
  proof (cases "applyBindingPlan ac sc p a")
    case (Pair x a')
    then show ?thesis
    proof (cases x)
      case (Inl e)
      with Pair have "a' = a" by (intro applyBindingPlan_error_frame) simp
      with Pair assms show ?thesis by simp
    next
      case (Inr r)
      with commit Pair have "commitBindingPlan ac ns plan s a = (Inr r, a')" by simp
      then show ?thesis using Pair assms commit(6)
        by (auto elim!: commitBindingPlan_success simp: jm_get_set)
    qed
  qed
qed (simp_all add: assms)

lemma applied_run:
  "jm_get (api_appliedPlans a) k = Some res \<Longrightarrow>
   jm_get (api_appliedPlans (run (\<lambda>a (sc, p). snd (applyBindingPlan ac sc p a)) a calls)) k = Some res"
  by (induction calls arbitrary: a) (auto simp: applied_stays)

lemma applied_recorded:
  assumes "applyBindingPlan ac sc p a = (Inr res, a')"
  shows "jm_get (api_appliedPlans a') (js_trim (plan_idempotency_key p)) = Some res"
proof (cases rule: applyBindingPlan_cases [of ac sc p a])
  case (fail e)
  with assms show ?thesis by simp
next
  case (replay plan res')
  with assms normalizePlan_Inr(3) [OF replay(1)] show ?thesis by simp
next
  case (commit ns plan s)
  with assms have "commitBindingPlan ac ns plan s a = (Inr res, a')" by simp
  then show ?thesis using normalizePlan_Inr(3) [OF commit(2)]
    by (auto elim!: commitBindingPlan_success)
qed

lemma on_applied:
  assumes "jm_get (api_appliedPlans a) (js_trim (plan_idempotency_key p)) = Some res"
  shows "snd (applyBindingPlan ac sc p a) = a"
    and "fst (applyBindingPlan ac sc p a) = Inr res' \<Longrightarrow> res' = res"
proof -
  have "(\<exists>e. applyBindingPlan ac sc p a = (Inl e, a)) \<or> applyBindingPlan ac sc p a = (Inr res, a)"
    using assms normalizePlan_Inr(3) by (cases rule: applyBindingPlan_cases [of ac sc p a]) force+
  then show "snd (applyBindingPlan ac sc p a) = a"
    and "fst (applyBindingPlan ac sc p a) = Inr res' \<Longrightarrow> res' = res" by auto
qed

end

sublocale slot_repository \<subseteq> plan_command: idempotent_command "\<lambda>a (sc, p). applyBindingPlan ac sc p a"
  "\<lambda>(sc, p). js_trim (plan_idempotency_key p)" "\<lambda>a k. jm_has (api_appliedPlans a) k" "\<lambda>_. True"
proof unfold_locales
  fix s :: "'r binding_api" and op :: "scope \<times> binding_plan" and e s' r k
  show "(case op of (sc, p) \<Rightarrow> applyBindingPlan ac sc p s) = (Inl e, s') \<Longrightarrow> s' = s"
    by (cases op) (auto dest: applyBindingPlan_error_frame)
  show "jm_has (api_appliedPlans s) (case op of (sc, p) \<Rightarrow> js_trim (plan_idempotency_key p)) \<Longrightarrow>
      snd (case op of (sc, p) \<Rightarrow> applyBindingPlan ac sc p s) = s"
    by (cases op) (auto simp: jm_has_def on_applied)
  show "(case op of (sc, p) \<Rightarrow> applyBindingPlan ac sc p s) = (Inr r, s') \<Longrightarrow>
      jm_has (api_appliedPlans s') (case op of (sc, p) \<Rightarrow> js_trim (plan_idempotency_key p))"
    by (cases op) (auto simp: jm_has_def dest: applied_recorded)
  show "jm_has (api_appliedPlans s) k \<Longrightarrow>
      jm_has (api_appliedPlans (snd (case op of (sc, p) \<Rightarrow> applyBindingPlan ac sc p s))) k"
    by (cases op) (auto simp: jm_has_def applied_stays)
qed simp

definition memory_api :: "repo_config \<Rightarrow> timestamp \<Rightarrow> (scope \<Rightarrow> binding_plan \<Rightarrow> slot \<Rightarrow> bool) option \<Rightarrow> repository api_config" where
  "memory_api cfg now auth = \<lparr> ac_zod = cfg_zod cfg, ac_ops = memory_ops cfg now, ac_authorize = auth \<rparr>"

interpretation memory_repository: slot_repository "memory_api cfg now auth"
  by unfold_locales (auto simp: memory_api_def memory_ops_def dest: apply_operation_error_frame)

end
