(* ===== verification/Binding_Properties.thy ===== *)
theory Binding_Properties
  imports Slot_Properties Binding_Lemmas
begin

text \<open>
  The properties of the binding API: event sequences, plan validation, revocation callbacks, replay and
  expiry, with the concrete API the witnesses use.
\<close>

section \<open>Event sequences\<close>

definition node_events :: "'r binding_api \<Rightarrow> string \<Rightarrow> binding_event list" where
  "node_events a n = filter (\<lambda>e. bev_node_id e = n) (api_events a)"

definition last_sequence :: "'r binding_api \<Rightarrow> string \<Rightarrow> int" where
  "last_sequence a n = (case jm_get (api_sequences a) n of None \<Rightarrow> 0 | Some q \<Rightarrow> q)"

lemma commit_events:
  assumes "commitBindingPlan ac ns plan s a = (Inr res, a')"
  shows "api_events a' = api_events a @ [res_event res]"
    and "last_sequence a' = (last_sequence a)(bev_node_id (res_event res) := bev_sequence (res_event res))"
    and "last_sequence a (bev_node_id (res_event res)) < bev_sequence (res_event res)"
    and "bev_revision (res_event res) \<le> bev_sequence (res_event res)"
  using assms
  by (auto elim!: commitBindingPlan_success simp: last_sequence_def command_result_for_def Let_def jm_get_set fun_eq_iff)

lemma apply_events:
  obtains (quiet) "api_events (snd (applyBindingPlan ac sc p a)) = api_events a"
      "last_sequence (snd (applyBindingPlan ac sc p a)) = last_sequence a"
  | (event) e where "api_events (snd (applyBindingPlan ac sc p a)) = api_events a @ [e]"
      "last_sequence (snd (applyBindingPlan ac sc p a)) = (last_sequence a)(bev_node_id e := bev_sequence e)"
      "last_sequence a (bev_node_id e) < bev_sequence e" "bev_revision e \<le> bev_sequence e"
proof (cases rule: applyBindingPlan_cases [of ac sc p a])
  case (commit ns plan s)
  obtain x a' where x: "commitBindingPlan ac ns plan s a = (x, a')" by force
  show ?thesis
  proof (cases x)
    case (Inl e)
    with x commit(7) show ?thesis
      by (intro quiet) (auto elim!: commitBindingPlan_error simp: last_sequence_def fun_eq_iff)
  next
    case (Inr r)
    with x commit(7) commit_events [of ac ns plan s a r a'] show ?thesis by (intro event [of "res_event r"]) auto
  qed
qed (auto intro: quiet)

definition api_step :: "'r api_config \<Rightarrow> 'r binding_api \<Rightarrow> scope \<times> binding_plan \<Rightarrow> 'r binding_api" where
  "api_step ac a c = (case c of (sc, p) \<Rightarrow> snd (applyBindingPlan ac sc p a))"

definition new_api :: "'r \<Rightarrow> 'r binding_api" where
  "new_api r = \<lparr> api_repository = r, api_sequences = [], api_appliedPlans = [], api_events = [], api_revocations = [] \<rparr>"

interpretation api_log: sequenced_log "api_step ac" api_events bev_node_id bev_sequence last_sequence for ac
proof
  fix s :: "'a binding_api" and c :: "scope \<times> binding_plan"
  obtain sc p where c: "c = (sc, p)" by force
  show "(api_events (api_step ac s c) = api_events s \<and> last_sequence (api_step ac s c) = last_sequence s) \<or>
     (\<exists>ev. api_events (api_step ac s c) = api_events s @ [ev] \<and> last_sequence s (bev_node_id ev) < bev_sequence ev \<and>
       last_sequence (api_step ac s c) = (last_sequence s)(bev_node_id ev := bev_sequence ev))"
    unfolding c api_step_def prod.case by (rule apply_events [of ac sc p s]) blast+
qed

interpretation api_machine: monotone_machine "api_step ac"
  "\<lambda>a. list_all (\<lambda>e. bev_revision e \<le> bev_sequence e) (api_events a)" "\<lambda>a. last_sequence a n" for ac n
proof
  fix s :: "'a binding_api" and e :: "scope \<times> binding_plan"
  assume inv: "list_all (\<lambda>e. bev_revision e \<le> bev_sequence e) (api_events s)"
  obtain sc p where c: "e = (sc, p)" by force
  show "list_all (\<lambda>e. bev_revision e \<le> bev_sequence e) (api_events (api_step ac s e))"
    unfolding c api_step_def prod.case using inv by (cases rule: apply_events [of ac sc p s]) auto
  show "last_sequence s n \<le> last_sequence (api_step ac s e) n"
    unfolding c api_step_def prod.case by (cases rule: apply_events [of ac sc p s]) auto
qed

text \<open>
  Every \<open>binding-changed\<close> event of a Node carries a larger sequence number than the one before it,
  and never a smaller number than the slot revision it reports, whatever repository the API runs on
  and whatever plans are applied.
\<close>

theorem binding_events_strictly_increase:
  "sorted_wrt (<) (map bev_sequence (node_events (run (api_step ac) (new_api r) calls) n)) \<and>
   list_all (\<lambda>e. bev_revision e \<le> bev_sequence e) (api_events (run (api_step ac) (new_api r) calls))"
  using api_log.strictly_increasing [of "new_api r" n ac calls] api_machine.run_inv [of "new_api r" ac calls]
  by (simp add: node_events_def new_api_def)

section \<open>Plans\<close>

lemma bindingRecordSchema_normalising [schema_normalising]: "normalising (bindingRecordSchema z)"
  unfolding normalising_def bindingRecordSchema_def
  by (clarsimp simp: bind_eq_Some_conv)
    (intro conjI; erule normalisingD [rotated]; intro schema_normalising)

lemma bindingPlanFields_normalising [schema_normalising]: "normalising (bindingPlanFields z)"
  unfolding normalising_def bindingPlanFields_def
  by (clarsimp simp: bind_eq_Some_conv)
    (intro conjI; erule normalisingD [rotated]; intro schema_normalising)

lemma plan_hash_irrelevant:
  "computePrimaryAgentBindingPlanHash (p \<lparr> plan_plan_hash := h \<rparr>) = computePrimaryAgentBindingPlanHash p"
  by (simp add: computePrimaryAgentBindingPlanHash_def plan_json_def)

lemma bindingPlanFields_hash:
  "bindingPlanFields z (p \<lparr> plan_plan_hash := h \<rparr>) = map_option (\<lambda>q. q \<lparr> plan_plan_hash := h \<rparr>) (bindingPlanFields z p)"
  by (simp add: bindingPlanFields_def map_option_case split: Option.bind_splits option.splits)

lemma planHash_trim: "js_trim (computePrimaryAgentBindingPlanHash p) = computePrimaryAgentBindingPlanHash p"
proof -
  let ?n = "uint (foldl fnv1a_step 2166136261 (stableStringify (plan_json p)))"
  have "hex8 (Suc 7) ?n = hex8 7 (?n div 16) @ [hex_digit (?n mod 16)]" by (rule hex8.simps)
  then have n: "fnv1a (stableStringify (plan_json p)) = hex8 7 (?n div 16) @ [hex_digit (?n mod 16)]"
    by (simp only: fnv1a_def Suc_numeral num.simps semiring_norm)
  have "\<not> js_space (CHR ''s'')" by code_simp
  moreover have "\<not> js_space (hex_digit (?n mod 16))" by (rule hex_digit_not_space) simp_all
  ultimately show ?thesis
    using js_trim_fixed [of "CHR ''s''" "hex_digit (?n mod 16)" "''ha256:local-'' @ hex8 7 (?n div 16)"]
    by (simp add: computePrimaryAgentBindingPlanHash_def n)
qed

lemma planHash_id:
  assumes "zod_documented z"
  shows "idSchema z (computePrimaryAgentBindingPlanHash p) = Some (computePrimaryAgentBindingPlanHash p)"
proof -
  have "length (computePrimaryAgentBindingPlanHash p) = 21"
    by (simp add: computePrimaryAgentBindingPlanHash_def)
  with assms show ?thesis
    by (simp add: idSchema_def planHash_trim zod_documented_def MAX_ID_LENGTH_def)
qed

lemma createBindingPlan_fields:
  assumes "createBindingPlan ac now sc input a = (Inr p, a')"
  obtains q raw where "bindingPlanFields (ac_zod ac) raw = Some q"
    "p = q \<lparr> plan_plan_hash := computePrimaryAgentBindingPlanHash q \<rparr>"
    "plan_operation q = in_operation input" "plan_created_at q = now" "plan_expires_at q = in_expires_at input"
proof -
  from assms obtain ns where "normalizeScope (ac_zod ac) sc = Inr ns"
    by (auto simp: createBindingPlan_def outcome_simps)
  with assms obtain s where "planForSlot (ac_zod ac) now ns input s = Inr p"
    by (auto simp: createBindingPlan_def split: prod.splits sum.splits)
  then obtain b pid actor key q where
    q: "bindingPlanFields (ac_zod ac) (planBase now ns s input b pid actor key) = Some q"
    "p = q \<lparr> plan_plan_hash := computePrimaryAgentBindingPlanHash q \<rparr>"
    by (auto simp: planForSlot_def outcome_simps split: if_splits option.splits)
  have "plan_operation q = in_operation input" "plan_created_at q = now" "plan_expires_at q = in_expires_at input"
    using q(1) by (auto simp: bindingPlanFields_def planBase_def split: Option.bind_splits)
  with q that show thesis by blast
qed

text \<open>
  A plan that \<open>createBindingPlan\<close> returns passes the validation of \<open>applyBindingPlan\<close> unchanged:
  its schema holds, its hash is the hash of its content, and it keeps the requested operation and expiry.
\<close>

theorem created_plan_roundtrip:
  assumes "zod_documented (ac_zod ac)" and "createBindingPlan ac now sc input a = (Inr p, a')"
  shows "normalizePlan (ac_zod ac) p = Inr p \<and> plan_operation p = in_operation input \<and>
    plan_created_at p = now \<and> plan_expires_at p = in_expires_at input"
proof -
  from assms(2) obtain raw q where q: "bindingPlanFields (ac_zod ac) raw = Some q"
    "p = q \<lparr> plan_plan_hash := computePrimaryAgentBindingPlanHash q \<rparr>"
    "plan_operation q = in_operation input" "plan_created_at q = now" "plan_expires_at q = in_expires_at input"
    by (rule createBindingPlan_fields)
  from q(1) have "bindingPlanFields (ac_zod ac) q = Some q"
    by (rule normalisingD [OF bindingPlanFields_normalising])
  then show ?thesis using q planHash_id [OF assms(1)]
    by (simp add: normalizePlan_def bindingPlanSchema_def bindingPlanFields_hash plan_hash_irrelevant)
qed

section \<open>Revocation\<close>

lemma plan_operation_keeps_binding:
  assumes "assertOperationTransition cap op = Inr ()" "slotForOperation cap op b now = Inr n"
    "js_truthy (slot_current_binding_id cap)" "slot_current_binding_id n \<noteq> slot_current_binding_id cap"
  shows "op_kind op \<in> {Replace, Detach, Revoke}"
  using assms
  by (auto simp: assertOperationTransition_def slotForOperation_def Let_def split: slot_operation_kind.splits option.splits if_splits)

lemma operationKind_removes: "operationKind k \<in> {Replace, Detach, Revoke} \<longleftrightarrow> k \<in> {OpReplace, OpDetach, OpRevoke}"
  by (cases k) auto

lemma fresh_apply_changes:
  assumes "apply_slot_operation cfg now sc op r = (Inr m, r')" "jm_get (repo_operations r) (op_idempotency_key op) = None"
  shows "r' \<noteq> r"
  using apply_recorded [OF assms(1)] assms(2) by auto

text \<open>
  No binding loses a slot silently. When a plan is applied for the first time, \<open>onBindingRevoked\<close> is
  called exactly when the slot was bound and is bound differently afterwards, once, with the binding that
  lost the slot and the slot as it is now.
\<close>

theorem binding_loss_is_reported:
  assumes "applyBindingPlan (memory_api cfg now auth) sc p a = (Inr res, a')"
    and "\<not> jm_has (api_appliedPlans a) (js_trim (plan_idempotency_key p))"
    and "\<not> jm_has (repo_operations (api_repository a)) (js_trim (plan_idempotency_key p))"
    and "getSlot (cfg_zod cfg) (api_repository a) sc = Inr before"
  shows "api_revocations a' = api_revocations a @
    (if js_truthy (slot_current_binding_id before) \<and>
        slot_current_binding_id before \<noteq> slot_current_binding_id (mut_slot (res_mutation res))
     then [(the (slot_current_binding_id before), mut_slot (res_mutation res))] else [])"
proof (cases rule: applyBindingPlan_cases [of "memory_api cfg now auth" sc p a])
  case (commit ns plan s)
  note key = normalizePlan_Inr(3) [OF commit(2)]
  from assms(1) commit(7) have "commitBindingPlan (memory_api cfg now auth) ns plan s a = (Inr res, a')" by simp
  then obtain m r seqno where m: "apply_slot_operation cfg now ns (plan_slot_operation plan) (api_repository a) = (Inr m, r)"
    "res = command_result_for ns plan m seqno"
    "api_revocations a' = api_revocations a @
       (if binding_was_removed s plan m then [(the (slot_current_binding_id s), mut_slot m)] else [])"
    by (rule commitBindingPlan_success) (auto simp: memory_api_def memory_ops_def)
  have "r \<noteq> api_repository a"
    by (rule fresh_apply_changes [OF m(1)]) (use assms(3) key in \<open>simp add: plan_slot_operation_def jm_has_iff jm_get_None\<close>)
  with m(1) obtain cap b n ns' where c: "normalizeScope (cfg_zod cfg) ns = Inr ns'"
    "jm_get (repo_slots (api_repository a)) (node_key (scope_node_id ns')) = Some cap"
    "assertOperationTransition cap (plan_slot_operation plan) = Inr ()"
    "slotForOperation cap (plan_slot_operation plan) b now = Inr n" "mut_slot m = n"
    by (rule apply_commit_on_slot) auto
  from commit(1) have ns: "normalizeScope (cfg_zod cfg) sc = Inr ns" "ns' = ns"
    using c(1) normalizeScope_idem by (auto simp: memory_api_def)
  from commit(4) c(2) ns have s: "s = cap"
    by (auto simp: memory_api_def memory_ops_def normalizeScope_idem elim!: getSlot_Inr)
  from assms(4) ns c(2) s have "before = s" by (auto elim!: getSlot_Inr)
  moreover have "mut_slot (res_mutation res) = mut_slot m" using m(2) by (simp add: command_result_for_def Let_def)
  moreover have "binding_was_removed s plan m \<longleftrightarrow> js_truthy (slot_current_binding_id s) \<and>
      slot_current_binding_id s \<noteq> slot_current_binding_id (mut_slot m)"
    using plan_operation_keeps_binding [OF c(3,4)] c(5) s operationKind_removes [of "plan_operation plan"]
    by (auto simp: binding_was_removed_def plan_slot_operation_def)
  ultimately show ?thesis using m(3) by simp
next
  case (fail e)
  with assms(1) show ?thesis by simp
next
  case (replay plan res')
  with assms(2) normalizePlan_Inr(3) [OF replay(1)] show ?thesis by (simp add: jm_has_def)
qed

section \<open>Replay and expiry\<close>


definition demo_input :: "binding_operation \<Rightarrow> string \<Rightarrow> plan_input" where
  "demo_input opn key = \<lparr> in_operation = opn, in_actor_ref = ''u'', in_idempotency_key = key, in_binding = None,
     in_capability_grant_ref = None, in_hook_subscription_ref = None, in_durable_inbox_ref = None,
     in_plan_id = None, in_expires_at = Some (Some 100) \<rparr>"

text \<open>A repository constructed with one bound slot, the API on it and a plan to detach its binding.\<close>

definition demo_slot1 :: slot where
  "demo_slot1 = \<lparr> slot_id = ''s'', slot_node_id = ''n'', slot_current_binding_id = Some ''b'',
     slot_lifecycle_state = CONNECTED, slot_revision = 1, slot_assigned_at = Some 6, slot_assigned_by = Some ''u'',
     slot_last_seen_at = Some 6, slot_capability_grant_ref = None, slot_hook_subscription_ref = None,
     slot_durable_inbox_ref = Some ''i'', slot_changed_at = Some 6, slot_provenance_of = None \<rparr>"

definition demo_bound_repo :: repository where
  "demo_bound_repo = \<lparr> repo_slots = [(''node:n'', demo_slot1)], repo_bindings = [(''b'', demo_binding)],
     repo_operations = [], repo_changes = [] \<rparr>"

definition demo_api :: "repository binding_api" where
  "demo_api = new_api demo_bound_repo"

definition demo_plan_base :: binding_plan where
  "demo_plan_base = planBase 50 demo_scope demo_slot1 (demo_input OpDetach ''d1'') None ''s:plan:d1'' ''u'' ''d1''"

definition demo_plan :: binding_plan where
  "demo_plan = demo_plan_base \<lparr> plan_plan_hash := computePrimaryAgentBindingPlanHash demo_plan_base \<rparr>"

definition demo_detached :: "slot_mutation \<times> repository" where
  "demo_detached = (let x = apply_slot_operation demo_cfg 200 demo_scope (plan_slot_operation demo_plan_base) demo_bound_repo
     in (projr (fst x), snd x))"

lemma demo_plan_facts:
  "normalizeScope zod_ref demo_scope = Inr demo_scope"
  "getSlot zod_ref demo_bound_repo demo_scope = Inr demo_slot1"
  "ensureSlot zod_ref demo_scope 50 demo_bound_repo = (Inr demo_slot1, demo_bound_repo)"
  "requireText ''s:plan:d1'' = Inr ''s:plan:d1''" "requireText ''u'' = Inr ''u''" "requireText ''d1'' = Inr ''d1''"
  "bindingPlanFields zod_ref demo_plan_base = Some demo_plan_base"
  "slot_current_binding_id (mut_slot (fst demo_detached)) = None"
  "newRepository zod_ref [demo_slot1] [demo_binding] = Inr demo_bound_repo"
  by code_simp+

lemma demo_detach:
  "apply_slot_operation demo_cfg 200 demo_scope (plan_slot_operation demo_plan_base) demo_bound_repo =
     (Inr (fst demo_detached), snd demo_detached)"
proof -
  have "\<not> isl (fst (apply_slot_operation demo_cfg 200 demo_scope (plan_slot_operation demo_plan_base) demo_bound_repo))"
    by code_simp
  then show ?thesis by (simp add: demo_detached_def Let_def outcome_ok)
qed

lemma demo_created:
  "createBindingPlan (memory_api demo_cfg 50 None) 50 demo_scope (demo_input OpDetach ''d1'') demo_api = (Inr demo_plan, demo_api)"
proof -
  have "planForSlot zod_ref 50 demo_scope (demo_input OpDetach ''d1'') demo_slot1 = Inr demo_plan"
    using demo_plan_facts(4-7) unfolding planForSlot_def demo_plan_def demo_plan_base_def
    by (simp add: safeBinding_def demo_input_def demo_slot1_def)
  then show ?thesis
    by (simp add: createBindingPlan_def memory_api_def memory_ops_def demo_cfg_def demo_api_def new_api_def demo_plan_facts)
qed

lemma demo_normalized: "normalizePlan zod_ref demo_plan = Inr demo_plan"
  using demo_plan_facts(7) planHash_id [OF zod_ref_documented]
  by (simp add: normalizePlan_def bindingPlanSchema_def bindingPlanFields_hash plan_hash_irrelevant demo_plan_def)

lemma demo_plan_simps [simp]:
  "plan_node_id demo_plan = ''n''" "plan_slot_id demo_plan = ''s''" "plan_idempotency_key demo_plan = ''d1''"
  "plan_expires_at demo_plan = Some (Some 100)" "plan_operation demo_plan = OpDetach"
  "plan_slot_operation demo_plan = plan_slot_operation demo_plan_base"
  by (simp_all add: demo_plan_def demo_plan_base_def planBase_def demo_scope_def demo_slot1_def demo_input_def
      plan_slot_operation_def)

definition demo_result :: "command_result \<times> repository binding_api" where
  "demo_result = (let x = commitBindingPlan (memory_api demo_cfg 200 None) demo_scope demo_plan demo_slot1 demo_api
     in (projr (fst x), snd x))"

lemma demo_applied:
  "applyBindingPlan (memory_api demo_cfg 200 None) demo_scope demo_plan demo_api = (Inr (fst demo_result), snd demo_result)"
  "mut_slot (res_mutation (fst demo_result)) = mut_slot (fst demo_detached)"
proof -
  have c: "commitBindingPlan (memory_api demo_cfg 200 None) demo_scope demo_plan demo_slot1 demo_api =
      (Inr (fst demo_result), snd demo_result)"
    unfolding demo_result_def Let_def
    by (simp add: commitBindingPlan_def memory_api_def memory_ops_def demo_api_def new_api_def demo_detach Let_def)
  have "plan_node_id demo_plan = scope_node_id demo_scope" "slot_id demo_slot1 = plan_slot_id demo_plan"
    by (simp_all add: demo_scope_def demo_slot1_def)
  with c show "applyBindingPlan (memory_api demo_cfg 200 None) demo_scope demo_plan demo_api =
      (Inr (fst demo_result), snd demo_result)"
    by (simp add: applyBindingPlan_def memory_api_def memory_ops_def demo_cfg_def demo_plan_facts
        demo_normalized demo_api_def new_api_def)
  show "mut_slot (res_mutation (fst demo_result)) = mut_slot (fst demo_detached)"
    by (simp add: demo_result_def Let_def commitBindingPlan_def memory_api_def memory_ops_def demo_api_def new_api_def
        demo_detach command_result_for_def)
qed

theorem created_plan_roundtrip_witness:
  "createBindingPlan (memory_api demo_cfg 50 None) 50 demo_scope (demo_input OpDetach ''d1'') demo_api = (Inr demo_plan, demo_api) \<and>
   normalizePlan zod_ref demo_plan = Inr demo_plan \<and> plan_expires_at demo_plan = Some (Some 100)"
  using created_plan_roundtrip [OF _ demo_created] demo_created
  by (simp add: memory_api_def demo_cfg_def demo_input_def)

theorem binding_loss_is_reported_witness:
  "applyBindingPlan (memory_api demo_cfg 200 None) demo_scope demo_plan demo_api = (Inr (fst demo_result), snd demo_result) \<and>
   api_revocations (snd demo_result) = [(''b'', mut_slot (res_mutation (fst demo_result)))]"
proof -
  have "getSlot (cfg_zod demo_cfg) (api_repository demo_api) demo_scope = Inr demo_slot1"
    by (simp add: demo_cfg_def demo_api_def new_api_def demo_plan_facts)
  from binding_loss_is_reported [OF demo_applied(1) _ _ this] demo_applied show ?thesis
    by (simp add: demo_api_def new_api_def demo_bound_repo_def jm_has_def demo_plan_facts) (simp add: demo_slot1_def)
qed


text \<open>
  The expiry of a plan is not enforced. A plan created at 50 that expires at 100 is applied at 200 and
  detaches the binding.
\<close>

theorem expired_plan_is_applied:
  "\<exists>p res. normalizePlan zod_ref p = Inr p \<and> plan_created_at p = 50 \<and> plan_expires_at p = Some (Some 100) \<and>
     fst (applyBindingPlan (memory_api demo_cfg 200 None) demo_scope p demo_api) = Inr res \<and>
     slot_current_binding_id (mut_slot (res_mutation res)) = None \<and> chg_occurred_at (mut_change (res_mutation res)) = 200"
proof -
  have "mut_change (res_mutation (fst demo_result)) = mut_change (fst demo_detached)"
    by (simp add: demo_result_def Let_def commitBindingPlan_def memory_api_def memory_ops_def demo_api_def new_api_def
        demo_detach command_result_for_def)
  moreover have "chg_occurred_at (mut_change (fst demo_detached)) = 200" by code_simp
  moreover have "plan_created_at demo_plan = 50" by (simp add: demo_plan_def demo_plan_base_def planBase_def)
  ultimately show ?thesis
    using demo_applied demo_normalized demo_plan_facts(8) by (intro exI [of _ demo_plan] exI [of _ "fst demo_result"]) simp
qed

end
