(* ===== verification/Delivery.thy ===== *)
theory Delivery
  imports Slot_Repository
begin

text \<open>
  \<open>InMemoryPrimaryAgentDeliveryService\<close> of \<open>spatial/data/primary-agent-delivery.ts\<close>: capability grants,
  hook subscriptions, the durable inbox and its deliveries. The record \<open>delivery_service\<close> holds the class's
  six Maps and the log of the \<open>onGrantEvent\<close> callback. The argument \<open>rd\<close> is the repository's
  \<open>getSlot\<close> as the awaited call answers it; everything after that await runs without interruption. A method
  that reads the clock several times takes \<open>clk\<close>, whose indices are its reading points in program order.
\<close>

section \<open>Data\<close>

datatype delivery_state = DPENDING | DDELIVERED | DACKED | DDEAD_LETTER
datatype hook_state = HookACTIVE | HookPAUSED | HookREVOKED
datatype capability_category = CapRead | CapWrite | CapAction
datatype grant_state = GrantACTIVE | GrantREVOKED | GrantEXPIRED
datatype attention_severity = SevNONE | SevINFO | SevWARNING | SevCRITICAL

record redaction_profile =
  rp_profile_id :: string
  rp_redact_keys :: "string list"
  rp_redact_paths :: "string list option"
  rp_replacement :: "string option"

record hook_filter =
  hf_event_types :: "string list option"
  hf_resource_refs :: "string list option"
  hf_severities :: "attention_severity list option"

record hook_subscription =
  sub_subscription_id :: string
  sub_node_id :: string
  sub_binding_id :: string
  sub_revision :: int
  sub_filter :: hook_filter
  sub_redaction_profile :: redaction_profile
  sub_delivery_cursor :: int
  sub_state :: hook_state
  sub_created_at :: timestamp
  sub_updated_at :: timestamp

record inbox_event =
  ev_event_id :: string
  ev_node_id :: string
  ev_event_type :: string
  ev_resource_ref :: "string option"
  ev_severity :: "attention_severity option"
  ev_sequence :: int
  ev_payload :: json
  ev_occurred_at :: "timestamp option"

record inbox_record =
  ib_inbox_id :: string
  ib_event_id :: string
  ib_node_id :: string
  ib_slot_id :: string
  ib_binding_id :: "string option"
  ib_event_type :: string
  ib_resource_ref :: "string option"
  ib_severity :: attention_severity
  ib_sequence :: int
  ib_state :: delivery_state
  ib_attempts :: int
  ib_available_at :: timestamp
  ib_last_delivery_id :: "string option"
  ib_last_error :: "string option"

record internal_inbox_record = inbox_record +
  ib_payload :: json

record delivery =
  dv_delivery_id :: string
  dv_inbox_id :: string
  dv_event_id :: string
  dv_node_id :: string
  dv_slot_id :: string
  dv_binding_id :: string
  dv_event_type :: string
  dv_resource_ref :: "string option"
  dv_severity :: attention_severity
  dv_sequence :: int
  dv_attempt :: int
  dv_payload :: json
  dv_delivered_at :: timestamp
  dv_redaction_profile_ref :: string

record grant =
  gr_grant_id :: string
  gr_node_id :: string
  gr_binding_id :: string
  gr_revision :: int
  gr_categories :: "capability_category list"
  gr_allowlisted_tools :: "string list"
  gr_redaction_profile_ref :: "string option"
  gr_state :: grant_state
  gr_issued_at :: timestamp
  gr_issued_by :: string
  gr_expires_at :: "timestamp option"

record grant_event =
  ge_event_id :: string
  ge_node_id :: string
  ge_sequence :: int
  ge_revision :: int
  ge_occurred_at :: timestamp
  ge_correlation_id :: string
  ge_payload :: grant

datatype delivery_error =
    Dl_NODE_MISMATCH | Dl_NOT_FOUND | Dl_UNAUTHORIZED | Dl_GRANT_REVOKED | Dl_HOOK_REVOKED
  | Dl_ACK_CONFLICT | Dl_FILTERED | Dl_VALIDATION | Dl_ZodError | Dl_Repository slot_error

record delivery_service =
  dl_grants :: "(string, grant) jsmap"
  dl_subscriptions :: "(string, hook_subscription) jsmap"
  dl_inbox :: "(string, internal_inbox_record) jsmap"
  dl_deliveries :: "(string, delivery) jsmap"
  dl_grantSequences :: "(string, int) jsmap"
  dl_eventRecords :: "(string, string) jsmap"
  dl_grantEvents :: "grant_event list"

record delivery_config =
  dcf_zod :: zod
  dcf_maxAttempts :: "int option"

record grant_input =
  gi_grant_id :: string
  gi_binding_id :: string
  gi_categories :: "capability_category list"
  gi_allowlisted_tools :: "string list"
  gi_redaction_profile_ref :: "string option"
  gi_issued_by :: string
  gi_expires_at :: "timestamp option"

record subscribe_input =
  si_subscription_id :: string
  si_binding_id :: string
  si_filter :: "hook_filter option"
  si_redaction_profile :: "redaction_profile option"

section \<open>Filters and redaction\<close>

definition dl_text :: "string \<Rightarrow> delivery_error + string" where
  "dl_text v = (if js_trim v = [] then Inl Dl_VALIDATION else Inr (js_trim v))"

fun dl_texts :: "string list \<Rightarrow> delivery_error + string list" where
  "dl_texts [] = Inr []"
| "dl_texts (v # vs) = bindR (dl_text v) (\<lambda>t. bindR (dl_texts vs) (\<lambda>ts. Inr (t # ts)))"

definition opt_texts :: "string list option \<Rightarrow> delivery_error + string list option" where
  "opt_texts v = (case v of None \<Rightarrow> Inr None | Some vs \<Rightarrow> bindR (dl_texts vs) (\<lambda>ts. Inr (Some ts)))"

definition safeFilter :: "hook_filter option \<Rightarrow> delivery_error + hook_filter" where
  "safeFilter f = (case f of
     None \<Rightarrow> Inr \<lparr> hf_event_types = None, hf_resource_refs = None, hf_severities = None \<rparr>
   | Some fl \<Rightarrow> bindR (opt_texts (hf_event_types fl)) (\<lambda>ts. bindR (opt_texts (hf_resource_refs fl)) (\<lambda>rs.
       Inr \<lparr> hf_event_types = ts, hf_resource_refs = rs, hf_severities = hf_severities fl \<rparr>)))"

definition excludes :: "'a list option \<Rightarrow> 'a \<Rightarrow> bool" where
  "excludes xs x = (case xs of None \<Rightarrow> False | Some ys \<Rightarrow> ys \<noteq> [] \<and> x \<notin> set ys)"

definition matchesFilter :: "hook_filter \<Rightarrow> inbox_event \<Rightarrow> bool" where
  "matchesFilter f e =
     (if excludes (hf_event_types f) (ev_event_type e) then False
      else if excludes (hf_resource_refs f) (case ev_resource_ref e of None \<Rightarrow> [] | Some r \<Rightarrow> r) then False
      else if excludes (hf_severities f) (case ev_severity e of None \<Rightarrow> SevNONE | Some s \<Rightarrow> s) then False
      else True)"

definition rp_replaced :: "redaction_profile \<Rightarrow> json" where
  "rp_replaced p = JStr (case rp_replacement p of None \<Rightarrow> ''[REDACTED]'' | Some r \<Rightarrow> r)"

definition rp_key :: "redaction_profile \<Rightarrow> string \<Rightarrow> bool" where
  "rp_key p k \<longleftrightarrow> js_toLowerCase k \<in> set (map js_toLowerCase (rp_redact_keys p))"

definition rp_path :: "redaction_profile \<Rightarrow> string \<Rightarrow> bool" where
  "rp_path p path \<longleftrightarrow> js_toLowerCase path \<in>
     set (map js_toLowerCase (case rp_redact_paths p of None \<Rightarrow> [] | Some ps \<Rightarrow> ps))"

definition sub_path :: "string \<Rightarrow> string \<Rightarrow> string" where
  "sub_path path k = (if path = [] then k else path @ ''.'' @ k)"

fun redactValue :: "redaction_profile \<Rightarrow> string \<Rightarrow> json \<Rightarrow> json"
and redactItems :: "redaction_profile \<Rightarrow> string \<Rightarrow> int \<Rightarrow> json list \<Rightarrow> json list"
and redactEntries :: "redaction_profile \<Rightarrow> string \<Rightarrow> (string \<times> json) list \<Rightarrow> (string \<times> json) list" where
  "redactValue p path v = (if rp_path p path then rp_replaced p
     else case v of JArr xs \<Rightarrow> JArr (redactItems p path 0 xs)
       | JObj kvs \<Rightarrow> JObj (redactEntries p path kvs)
       | _ \<Rightarrow> v)"
| "redactItems p path i [] = []"
| "redactItems p path i (x # xs) = redactValue p (sub_path path (show_int i)) x # redactItems p path (i + 1) xs"
| "redactEntries p path [] = []"
| "redactEntries p path ((k, v) # kvs) =
     (k, if rp_key p k \<or> rp_path p (sub_path path k) then rp_replaced p else redactValue p (sub_path path k) v)
     # redactEntries p path kvs"

declare redactValue.simps [simp del]

definition publicRecord :: "internal_inbox_record \<Rightarrow> inbox_record" where
  "publicRecord r = \<lparr> ib_inbox_id = ib_inbox_id r, ib_event_id = ib_event_id r, ib_node_id = ib_node_id r,
     ib_slot_id = ib_slot_id r, ib_binding_id = ib_binding_id r, ib_event_type = ib_event_type r,
     ib_resource_ref = ib_resource_ref r, ib_severity = ib_severity r, ib_sequence = ib_sequence r,
     ib_state = ib_state r, ib_attempts = ib_attempts r, ib_available_at = ib_available_at r,
     ib_last_delivery_id = ib_last_delivery_id r, ib_last_error = ib_last_error r \<rparr>"

section \<open>Slots and grants\<close>

definition maxAttempts :: "delivery_config \<Rightarrow> int" where
  "maxAttempts cfg = max 1 (case dcf_maxAttempts cfg of None \<Rightarrow> 3 | Some n \<Rightarrow> n)"

definition dl_scope :: "delivery_config \<Rightarrow> scope \<Rightarrow> delivery_error + scope" where
  "dl_scope cfg sc = (case normalizeSpatialNodeScope (dcf_zod cfg) sc of None \<Rightarrow> Inl Dl_ZodError | Some ns \<Rightarrow> Inr ns)"

definition dl_slot :: "delivery_config \<Rightarrow> (scope \<Rightarrow> slot_error + slot) \<Rightarrow> scope \<Rightarrow> delivery_error + slot" where
  "dl_slot cfg rd sc = bindR (dl_scope cfg sc) (\<lambda>ns. case rd ns of Inl e \<Rightarrow> Inl (Dl_Repository e) | Inr s \<Rightarrow> Inr s)"

definition activeBinding :: "slot \<Rightarrow> string \<Rightarrow> delivery_error + unit" where
  "activeBinding s bindingId =
     (if \<not> js_truthy (slot_current_binding_id s) \<or> slot_current_binding_id s \<noteq> Some bindingId then Inl Dl_UNAUTHORIZED
      else if slot_lifecycle_state s = REVOKED \<or> slot_lifecycle_state s = UNASSIGNED then Inl Dl_UNAUTHORIZED
      else Inr ())"

definition activeGrant :: "timestamp \<Rightarrow> delivery_service \<Rightarrow> slot \<Rightarrow> string \<Rightarrow> delivery_error + grant" where
  "activeGrant now d s bindingId =
     (if \<not> js_truthy (slot_capability_grant_ref s) then Inl Dl_GRANT_REVOKED
      else case jm_get (dl_grants d) (the (slot_capability_grant_ref s)) of
        None \<Rightarrow> Inl Dl_GRANT_REVOKED
      | Some g \<Rightarrow>
          if gr_binding_id g \<noteq> bindingId \<or> gr_state g \<noteq> GrantACTIVE then Inl Dl_GRANT_REVOKED
          else if (case gr_expires_at g of None \<Rightarrow> False | Some t \<Rightarrow> t \<le> now) then Inl Dl_GRANT_REVOKED
          else Inr g)"

definition parseSpatialPrimaryAgentGrant :: "zod \<Rightarrow> grant \<Rightarrow> grant option" where
  "parseSpatialPrimaryAgentGrant z g = do {
     gid \<leftarrow> idSchema z (gr_grant_id g);
     node \<leftarrow> idSchema z (gr_node_id g);
     binding \<leftarrow> idSchema z (gr_binding_id g);
     revision \<leftarrow> revisionSchema z (gr_revision g);
     categories \<leftarrow> arrayMax z 32 Some (gr_categories g);
     tools \<leftarrow> arrayMax z 256 (idSchema z) (gr_allowlisted_tools g);
     profile \<leftarrow> nullable (idSchema z) (gr_redaction_profile_ref g);
     issued_by \<leftarrow> idSchema z (gr_issued_by g);
     Some \<lparr> gr_grant_id = gid, gr_node_id = node, gr_binding_id = binding, gr_revision = revision,
       gr_categories = categories, gr_allowlisted_tools = tools, gr_redaction_profile_ref = profile,
       gr_state = gr_state g, gr_issued_at = gr_issued_at g, gr_issued_by = issued_by,
       gr_expires_at = gr_expires_at g \<rparr> }"

definition next_sequence :: "(string, int) jsmap \<Rightarrow> string \<Rightarrow> int" where
  "next_sequence m node = (case jm_get m node of None \<Rightarrow> 0 | Some q \<Rightarrow> q) + 1"

text \<open>Storing a grant, advancing the Node's grant sequence and calling \<open>onGrantEvent\<close>.\<close>

definition store_grant :: "string \<Rightarrow> string \<Rightarrow> grant \<Rightarrow> timestamp \<Rightarrow> delivery_service \<Rightarrow> grant_event \<times> delivery_service" where
  "store_grant k node g ts d =
     (let seqno = next_sequence (dl_grantSequences d) node;
          event = \<lparr> ge_event_id = gr_grant_id g @ '':grant:'' @ show_int (gr_revision g), ge_node_id = node,
            ge_sequence = seqno, ge_revision = gr_revision g, ge_occurred_at = ts,
            ge_correlation_id = gr_grant_id g, ge_payload = g \<rparr>
      in (event, d \<lparr> dl_grants := jm_set k g (dl_grants d),
            dl_grantSequences := jm_set node seqno (dl_grantSequences d),
            dl_grantEvents := dl_grantEvents d @ [event] \<rparr>))"

definition issueGrant :: "delivery_config \<Rightarrow> (scope \<Rightarrow> slot_error + slot) \<Rightarrow> timestamp \<Rightarrow> scope \<Rightarrow> grant_input
    \<Rightarrow> delivery_service \<Rightarrow> (delivery_error, grant \<times> grant_event, delivery_service) outcome" where
  "issueGrant cfg rd now sc input d =
     liftO (dl_scope cfg sc) d (\<lambda>ns.
     liftO (dl_slot cfg rd ns) d (\<lambda>s.
     liftO (activeBinding s (gi_binding_id input)) d (\<lambda>_.
     liftO (dl_text (gi_grant_id input)) d (\<lambda>gid.
     liftO (dl_text (gi_binding_id input)) d (\<lambda>bid.
     liftO (dl_texts (js_uniq (gi_allowlisted_tools input))) d (\<lambda>tools.
     liftO (dl_text (gi_issued_by input)) d (\<lambda>by.
     case parseSpatialPrimaryAgentGrant (dcf_zod cfg)
        \<lparr> gr_grant_id = gid, gr_node_id = scope_node_id ns, gr_binding_id = bid,
          gr_revision = (case jm_get (dl_grants d) (gi_grant_id input) of None \<Rightarrow> 0 | Some g \<Rightarrow> gr_revision g) + 1,
          gr_categories = js_uniq (gi_categories input), gr_allowlisted_tools = tools,
          gr_redaction_profile_ref = gi_redaction_profile_ref input, gr_state = GrantACTIVE,
          gr_issued_at = now, gr_issued_by = by, gr_expires_at = gi_expires_at input \<rparr> of
       None \<Rightarrow> throw Dl_VALIDATION d
     | Some g \<Rightarrow> (let (event, d') = store_grant (gr_grant_id g) (scope_node_id ns) g now d
                 in return (g, event) d'))))))))"

definition revokeGrant :: "delivery_config \<Rightarrow> timestamp \<Rightarrow> scope \<Rightarrow> string \<Rightarrow> string
    \<Rightarrow> delivery_service \<Rightarrow> (delivery_error, grant, delivery_service) outcome" where
  "revokeGrant cfg now sc grantId issuedBy d =
     liftO (dl_scope cfg sc) d (\<lambda>ns.
     liftO (dl_text grantId) d (\<lambda>gid.
     case jm_get (dl_grants d) gid of
       None \<Rightarrow> throw Dl_NOT_FOUND d
     | Some current \<Rightarrow>
         if gr_node_id current \<noteq> scope_node_id ns then throw Dl_NOT_FOUND d
         else liftO (dl_text issuedBy) d (\<lambda>by.
           let next = current \<lparr> gr_revision := gr_revision current + 1, gr_state := GrantREVOKED,
                        gr_issued_by := by, gr_issued_at := now \<rparr>
           in return next (snd (store_grant gid (scope_node_id ns) next now d)))))"

definition getGrant :: "delivery_service \<Rightarrow> string \<Rightarrow> delivery_error + grant option" where
  "getGrant d grantId = bindR (dl_text grantId) (\<lambda>gid. Inr (jm_get (dl_grants d) gid))"

section \<open>Subscriptions\<close>

definition default_redaction_profile :: redaction_profile where
  "default_redaction_profile = \<lparr> rp_profile_id = ''redaction-default'',
     rp_redact_keys = [''secret'', ''token'', ''password'', ''private_key'', ''credential'', ''authorization''],
     rp_redact_paths = None, rp_replacement = Some ''[REDACTED]'' \<rparr>"

definition subscribe :: "delivery_config \<Rightarrow> (scope \<Rightarrow> slot_error + slot) \<Rightarrow> (nat \<Rightarrow> timestamp) \<Rightarrow> scope \<Rightarrow> subscribe_input
    \<Rightarrow> delivery_service \<Rightarrow> (delivery_error, hook_subscription, delivery_service) outcome" where
  "subscribe cfg rd clk sc input d =
     liftO (dl_scope cfg sc) d (\<lambda>ns.
     liftO (dl_slot cfg rd ns) d (\<lambda>s.
     liftO (activeBinding s (si_binding_id input)) d (\<lambda>_.
     liftO (activeGrant (clk 0) d s (si_binding_id input)) d (\<lambda>_.
     liftO (dl_text (si_subscription_id input)) d (\<lambda>sid.
     liftO (dl_text (si_binding_id input)) d (\<lambda>bid.
     liftO (safeFilter (si_filter input)) d (\<lambda>fl.
     let sub = \<lparr> sub_subscription_id = sid, sub_node_id = scope_node_id ns, sub_binding_id = bid,
           sub_revision = (case jm_get (dl_subscriptions d) (si_subscription_id input) of
               None \<Rightarrow> 0 | Some x \<Rightarrow> sub_revision x) + 1,
           sub_filter = fl,
           sub_redaction_profile = (case si_redaction_profile input of
               None \<Rightarrow> default_redaction_profile | Some p \<Rightarrow> p),
           sub_delivery_cursor = 0, sub_state = HookACTIVE, sub_created_at = clk 1, sub_updated_at = clk 1 \<rparr>
     in return sub (d \<lparr> dl_subscriptions := jm_set sid sub (dl_subscriptions d) \<rparr>))))))))"

definition setSubscriptionState :: "delivery_config \<Rightarrow> timestamp \<Rightarrow> scope \<Rightarrow> string \<Rightarrow> hook_state
    \<Rightarrow> delivery_service \<Rightarrow> (delivery_error, hook_subscription, delivery_service) outcome" where
  "setSubscriptionState cfg now sc subscriptionId st d =
     liftO (dl_scope cfg sc) d (\<lambda>ns.
     liftO (dl_text subscriptionId) d (\<lambda>sid.
     case jm_get (dl_subscriptions d) sid of
       None \<Rightarrow> throw Dl_NOT_FOUND d
     | Some current \<Rightarrow>
         if sub_node_id current \<noteq> scope_node_id ns then throw Dl_NOT_FOUND d
         else let next = current \<lparr> sub_state := st, sub_revision := sub_revision current + 1, sub_updated_at := now \<rparr>
              in return next (d \<lparr> dl_subscriptions := jm_set sid next (dl_subscriptions d) \<rparr>)))"

definition getSubscription :: "delivery_service \<Rightarrow> string \<Rightarrow> delivery_error + hook_subscription option" where
  "getSubscription d subscriptionId = bindR (dl_text subscriptionId) (\<lambda>sid. Inr (jm_get (dl_subscriptions d) sid))"

text \<open>The loop of \<open>onBindingRevoked\<close> rewrites entries in place; the clock is read once per entry.\<close>

fun revoke_entries :: "string \<Rightarrow> (nat \<Rightarrow> timestamp) \<Rightarrow> nat \<Rightarrow> (string, hook_subscription) jsmap \<Rightarrow> (string, hook_subscription) jsmap" where
  "revoke_entries bid clk i [] = []"
| "revoke_entries bid clk i ((k, sub) # rest) =
     (if sub_binding_id sub \<noteq> bid then (k, sub) # revoke_entries bid clk i rest
      else (k, sub \<lparr> sub_state := HookREVOKED, sub_revision := sub_revision sub + 1, sub_updated_at := clk i \<rparr>)
           # revoke_entries bid clk (i + 1) rest)"

definition onBindingRevoked :: "(nat \<Rightarrow> timestamp) \<Rightarrow> string \<Rightarrow> delivery_service
    \<Rightarrow> (delivery_error, unit, delivery_service) outcome" where
  "onBindingRevoked clk bindingId d = liftO (dl_text bindingId) d (\<lambda>bid.
     return () (d \<lparr> dl_subscriptions := revoke_entries bid clk 0 (dl_subscriptions d) \<rparr>))"

section \<open>The inbox\<close>

definition event_key :: "string \<Rightarrow> string \<Rightarrow> string" where
  "event_key node eventId = node @ '':'' @ eventId"

definition publish :: "delivery_config \<Rightarrow> (scope \<Rightarrow> slot_error + slot) \<Rightarrow> timestamp \<Rightarrow> scope \<Rightarrow> inbox_event
    \<Rightarrow> delivery_service \<Rightarrow> (delivery_error, inbox_record, delivery_service) outcome" where
  "publish cfg rd now sc event d =
     liftO (dl_scope cfg sc) d (\<lambda>ns.
     liftO (dl_slot cfg rd ns) d (\<lambda>s.
     if ev_node_id event \<noteq> scope_node_id ns then throw Dl_NODE_MISMATCH d
     else liftO (dl_text (ev_event_id event)) d (\<lambda>eventId.
     let key = event_key (scope_node_id ns) eventId;
         existing = (if js_truthy (jm_get (dl_eventRecords d) key)
                     then jm_get (dl_inbox d) (the (jm_get (dl_eventRecords d) key)) else None) in
     case existing of
       Some rec \<Rightarrow> return (publicRecord rec) d
     | None \<Rightarrow>
         liftO (dl_text (ev_event_type event)) d (\<lambda>etype.
         case revisionSchema (dcf_zod cfg) (ev_sequence event) of
           None \<Rightarrow> throw Dl_ZodError d
         | Some seqno \<Rightarrow>
             let inboxId = slot_id s @ '':inbox:'' @ eventId;
                 rec = \<lparr> ib_inbox_id = inboxId, ib_event_id = eventId, ib_node_id = scope_node_id ns,
                   ib_slot_id = slot_id s, ib_binding_id = slot_current_binding_id s, ib_event_type = etype,
                   ib_resource_ref = ev_resource_ref event,
                   ib_severity = (case ev_severity event of None \<Rightarrow> SevNONE | Some v \<Rightarrow> v), ib_sequence = seqno,
                   ib_state = DPENDING, ib_attempts = 0,
                   ib_available_at = (case ev_occurred_at event of None \<Rightarrow> now | Some t \<Rightarrow> t),
                   ib_last_delivery_id = None, ib_last_error = None, ib_payload = ev_payload event \<rparr>
             in return (publicRecord rec) (d \<lparr> dl_inbox := jm_set inboxId rec (dl_inbox d),
                  dl_eventRecords := jm_set key inboxId (dl_eventRecords d) \<rparr>)))))"

definition record_event :: "internal_inbox_record \<Rightarrow> inbox_event" where
  "record_event rec = \<lparr> ev_event_id = ib_event_id rec, ev_node_id = ib_node_id rec, ev_event_type = ib_event_type rec,
     ev_resource_ref = ib_resource_ref rec, ev_severity = Some (ib_severity rec), ev_sequence = ib_sequence rec,
     ev_payload = ib_payload rec, ev_occurred_at = None \<rparr>"

definition delivery_for :: "internal_inbox_record \<Rightarrow> string \<Rightarrow> hook_subscription \<Rightarrow> grant \<Rightarrow> timestamp \<Rightarrow> delivery" where
  "delivery_for rec bid sub g ts =
     (let attempt = ib_attempts rec + 1 in
      \<lparr> dv_delivery_id = ib_inbox_id rec @ '':delivery:'' @ show_int attempt, dv_inbox_id = ib_inbox_id rec,
        dv_event_id = ib_event_id rec, dv_node_id = ib_node_id rec, dv_slot_id = ib_slot_id rec, dv_binding_id = bid,
        dv_event_type = ib_event_type rec, dv_resource_ref = ib_resource_ref rec, dv_severity = ib_severity rec,
        dv_sequence = ib_sequence rec, dv_attempt = attempt,
        dv_payload = redactValue (sub_redaction_profile sub) [] (ib_payload rec), dv_delivered_at = ts,
        dv_redaction_profile_ref = (case gr_redaction_profile_ref g of
            None \<Rightarrow> rp_profile_id (sub_redaction_profile sub) | Some r \<Rightarrow> r) \<rparr>)"

text \<open>
  The loop of \<open>readInbox\<close> over the records sorted by sequence; the records are the Map's own objects, so a
  change to one is a change to its entry. \<open>clk 1\<close> is the instant the loop compares with; delivery \<open>i\<close> reads
  the clock at \<open>2 * i + 2\<close> and \<open>2 * i + 3\<close>.
\<close>

fun deliver_loop :: "delivery_config \<Rightarrow> (nat \<Rightarrow> timestamp) \<Rightarrow> string \<Rightarrow> string \<Rightarrow> grant \<Rightarrow> int
    \<Rightarrow> (string \<times> internal_inbox_record) list \<Rightarrow> hook_subscription \<Rightarrow> delivery list \<Rightarrow> delivery_service
    \<Rightarrow> hook_subscription \<times> delivery list \<times> delivery_service" where
  "deliver_loop cfg clk node bid g limit [] sub ds d = (sub, ds, d)"
| "deliver_loop cfg clk node bid g limit ((k, rec) # rest) sub ds d =
     (if max 1 limit \<le> int (length ds) then (sub, ds, d)
      else if ib_node_id rec \<noteq> node \<or> ib_binding_id rec \<noteq> Some bid \<or> ib_state rec \<noteq> DPENDING
        then deliver_loop cfg clk node bid g limit rest sub ds d
      else if clk 1 < ib_available_at rec then deliver_loop cfg clk node bid g limit rest sub ds d
      else if \<not> matchesFilter (sub_filter sub) (record_event rec)
        then deliver_loop cfg clk node bid g limit rest sub ds d
      else if maxAttempts cfg \<le> ib_attempts rec
        then deliver_loop cfg clk node bid g limit rest sub ds (d \<lparr> dl_inbox := jm_set k
               (rec \<lparr> ib_state := DDEAD_LETTER, ib_last_error := Some ''delivery attempts exhausted'' \<rparr>) (dl_inbox d) \<rparr>)
      else let dv = delivery_for rec bid sub g (clk (2 * length ds + 2));
               sub' = sub \<lparr> sub_delivery_cursor := max (sub_delivery_cursor sub) (ib_sequence rec),
                 sub_updated_at := clk (2 * length ds + 3) \<rparr>;
               rec' = rec \<lparr> ib_attempts := ib_attempts rec + 1, ib_state := DDELIVERED,
                 ib_last_delivery_id := Some (dv_delivery_id dv) \<rparr>
           in deliver_loop cfg clk node bid g limit rest sub' (ds @ [dv])
                (d \<lparr> dl_inbox := jm_set k rec' (dl_inbox d),
                     dl_deliveries := jm_set (dv_delivery_id dv) dv (dl_deliveries d) \<rparr>))"

definition active_subscription :: "delivery_service \<Rightarrow> string \<Rightarrow> string \<Rightarrow> hook_subscription option" where
  "active_subscription d node bid = find (\<lambda>c. sub_node_id c = node \<and> sub_binding_id c = bid \<and> sub_state c = HookACTIVE)
     (jm_values (dl_subscriptions d))"

definition by_sequence :: "delivery_service \<Rightarrow> (string \<times> internal_inbox_record) list" where
  "by_sequence d = sort_key (\<lambda>(k, rec). ib_sequence rec) (dl_inbox d)"

definition readInbox :: "delivery_config \<Rightarrow> (scope \<Rightarrow> slot_error + slot) \<Rightarrow> (nat \<Rightarrow> timestamp) \<Rightarrow> scope \<Rightarrow> string \<Rightarrow> int
    \<Rightarrow> delivery_service \<Rightarrow> (delivery_error, delivery list, delivery_service) outcome" where
  "readInbox cfg rd clk sc bindingId limit d =
     liftO (dl_scope cfg sc) d (\<lambda>ns.
     liftO (dl_slot cfg rd ns) d (\<lambda>s.
     liftO (dl_text bindingId) d (\<lambda>bid.
     liftO (activeBinding s bid) d (\<lambda>_.
     liftO (activeGrant (clk 0) d s bid) d (\<lambda>g.
     case active_subscription d (scope_node_id ns) bid of
       None \<Rightarrow> throw Dl_HOOK_REVOKED d
     | Some sub \<Rightarrow>
         let (sub', ds, d') = deliver_loop cfg clk (scope_node_id ns) bid g limit (by_sequence d) sub [] d
         in return ds (d' \<lparr> dl_subscriptions := jm_set (sub_subscription_id sub') sub' (dl_subscriptions d') \<rparr>))))))"

definition acknowledge :: "delivery_config \<Rightarrow> (scope \<Rightarrow> slot_error + slot) \<Rightarrow> scope \<Rightarrow> string \<Rightarrow> string
    \<Rightarrow> delivery_service \<Rightarrow> (delivery_error, inbox_record, delivery_service) outcome" where
  "acknowledge cfg rd sc bindingId deliveryId d =
     liftO (dl_scope cfg sc) d (\<lambda>ns.
     liftO (dl_slot cfg rd ns) d (\<lambda>s.
     liftO (dl_text bindingId) d (\<lambda>bid.
     liftO (activeBinding s bid) d (\<lambda>_.
     liftO (dl_text deliveryId) d (\<lambda>did.
     case jm_get (dl_deliveries d) did of
       None \<Rightarrow> throw Dl_NOT_FOUND d
     | Some dv \<Rightarrow>
         if dv_node_id dv \<noteq> scope_node_id ns then throw Dl_NOT_FOUND d
         else if dv_binding_id dv \<noteq> bid then throw Dl_ACK_CONFLICT d
         else (case jm_get (dl_inbox d) (dv_inbox_id dv) of
           None \<Rightarrow> throw Dl_NOT_FOUND d
         | Some rec \<Rightarrow>
             if ib_state rec = DACKED then return (publicRecord rec) d
             else if ib_state rec \<noteq> DDELIVERED then throw Dl_ACK_CONFLICT d
             else let rec' = rec \<lparr> ib_state := DACKED \<rparr>
                  in return (publicRecord rec') (d \<lparr> dl_inbox := jm_set (dv_inbox_id dv) rec' (dl_inbox d) \<rparr>)))))))"

text \<open>The lookup \<open>retry\<close> and \<open>replay\<close> share: the inbox entry of an event of the caller's binding.\<close>

definition inbox_entry :: "delivery_config \<Rightarrow> (scope \<Rightarrow> slot_error + slot) \<Rightarrow> scope \<Rightarrow> string \<Rightarrow> string
    \<Rightarrow> delivery_service \<Rightarrow> delivery_error + (string \<times> internal_inbox_record)" where
  "inbox_entry cfg rd sc bindingId eventId d =
     bindR (dl_scope cfg sc) (\<lambda>ns.
     bindR (dl_slot cfg rd ns) (\<lambda>s.
     bindR (dl_text bindingId) (\<lambda>bid.
     bindR (activeBinding s bid) (\<lambda>_.
     bindR (dl_text eventId) (\<lambda>eid.
     let inboxId = jm_get (dl_eventRecords d) (event_key (scope_node_id ns) eid);
         rec = (if js_truthy inboxId then jm_get (dl_inbox d) (the inboxId) else None) in
     case rec of
       None \<Rightarrow> Inl Dl_NOT_FOUND
     | Some rc \<Rightarrow> if ib_binding_id rc \<noteq> Some bid then Inl Dl_NOT_FOUND else Inr (the inboxId, rc))))))"

definition retry :: "delivery_config \<Rightarrow> (scope \<Rightarrow> slot_error + slot) \<Rightarrow> timestamp \<Rightarrow> scope \<Rightarrow> string \<Rightarrow> string
    \<Rightarrow> delivery_service \<Rightarrow> (delivery_error, inbox_record, delivery_service) outcome" where
  "retry cfg rd now sc bindingId eventId d =
     liftO (inbox_entry cfg rd sc bindingId eventId d) d (\<lambda>(k, rec).
     if ib_state rec = DACKED then throw Dl_ACK_CONFLICT d
     else let rec' = rec \<lparr> ib_state := (if maxAttempts cfg \<le> ib_attempts rec then DDEAD_LETTER else DPENDING),
                ib_available_at := now \<rparr>
          in return (publicRecord rec') (d \<lparr> dl_inbox := jm_set k rec' (dl_inbox d) \<rparr>))"

definition replay :: "delivery_config \<Rightarrow> (scope \<Rightarrow> slot_error + slot) \<Rightarrow> timestamp \<Rightarrow> scope \<Rightarrow> string \<Rightarrow> string
    \<Rightarrow> delivery_service \<Rightarrow> (delivery_error, inbox_record, delivery_service) outcome" where
  "replay cfg rd now sc bindingId eventId d =
     liftO (inbox_entry cfg rd sc bindingId eventId d) d (\<lambda>(k, rec).
     let rec' = rec \<lparr> ib_state := DPENDING, ib_attempts := 0, ib_last_error := None, ib_available_at := now \<rparr>
     in return (publicRecord rec') (d \<lparr> dl_inbox := jm_set k rec' (dl_inbox d) \<rparr>))"

definition listDeadLetters :: "delivery_config \<Rightarrow> delivery_service \<Rightarrow> scope \<Rightarrow> delivery_error + inbox_record list" where
  "listDeadLetters cfg d sc = bindR (dl_scope cfg sc) (\<lambda>ns.
     Inr (map publicRecord (filter (\<lambda>rec. ib_node_id rec = scope_node_id ns \<and> ib_state rec = DDEAD_LETTER)
       (jm_values (dl_inbox d)))))"

definition getInboxRecord :: "delivery_config \<Rightarrow> delivery_service \<Rightarrow> scope \<Rightarrow> string \<Rightarrow> delivery_error + inbox_record option" where
  "getInboxRecord cfg d sc eventId = bindR (dl_scope cfg sc) (\<lambda>ns. bindR (dl_text eventId) (\<lambda>eid.
     let inboxId = jm_get (dl_eventRecords d) (event_key (scope_node_id ns) eid) in
     Inr (map_option publicRecord (if js_truthy inboxId then jm_get (dl_inbox d) (the inboxId) else None))))"

definition empty_delivery :: delivery_service where
  "empty_delivery = \<lparr> dl_grants = [], dl_subscriptions = [], dl_inbox = [], dl_deliveries = [],
     dl_grantSequences = [], dl_eventRecords = [], dl_grantEvents = [] \<rparr>"

end
