(* ===== verification/Delivery_Properties.thy ===== *)
theory Delivery_Properties
  imports Delivery
begin

text \<open>
  The delivery service: redaction, the exact result of a read, the invariant of its runs, and two defects.
  \<open>delivery_step\<close> is any call of the service; \<open>delivery_step_cases\<close> classifies its effect, and the
  proofs about runs go through that classification and the shared locales.
\<close>

section \<open>Redaction\<close>

text \<open>A payload with everything the profile's keys protect taken out.\<close>

fun conceal :: "redaction_profile \<Rightarrow> json \<Rightarrow> json" where
  "conceal p (JArr xs) = JArr (map (conceal p) xs)"
| "conceal p (JObj kvs) = JObj (map (\<lambda>(k, v). (k, if rp_key p k then JNull else conceal p v)) kvs)"
| "conceal p v = v"

text \<open>Every value under a protected key, at any depth, is the replacement.\<close>

fun concealed :: "redaction_profile \<Rightarrow> json \<Rightarrow> bool" where
  "concealed p (JArr xs) = list_all (concealed p) xs"
| "concealed p (JObj kvs) = list_all (\<lambda>(k, v). if rp_key p k then v = rp_replaced p else concealed p v) kvs"
| "concealed p v = True"

lemma concealed_replaced [simp]: "concealed p (rp_replaced p)"
  by (simp add: rp_replaced_def)

lemma redact_conceals:
  "concealed p (redactValue p path v)"
  "list_all (concealed p) (redactItems p path i xs)"
  "list_all (\<lambda>(k, v). if rp_key p k then v = rp_replaced p else concealed p v) (redactEntries p path kvs)"
  by (induction p path v and p path i xs and p path kvs rule: redactValue_redactItems_redactEntries.induct)
    (auto simp: redactValue.simps split: json.splits)

lemma redact_depends_on_concealed:
  "redactValue p path (conceal p v) = redactValue p path v"
  "redactItems p path i (map (conceal p) xs) = redactItems p path i xs"
  "redactEntries p path (map (\<lambda>(k, v). (k, if rp_key p k then JNull else conceal p v)) kvs) = redactEntries p path kvs"
  by (induction p path v and p path i xs and p path kvs rule: redactValue_redactItems_redactEntries.induct)
    (auto simp: redactValue.simps split: json.splits)

text \<open>
  (C7) Redaction does not leak. Two payloads that differ only in values under the profile's keys, at any
  depth and in any letter case, are redacted to the same payload.
\<close>

theorem redaction_noninterference:
  assumes "conceal p v = conceal p w"
  shows "redactValue p path v = redactValue p path w \<and> concealed p (redactValue p path v)"
  using assms redact_depends_on_concealed(1) [of p path v] redact_depends_on_concealed(1) [of p path w]
    redact_conceals(1) by metis

section \<open>Reading the inbox\<close>

definition deliverable :: "delivery_config \<Rightarrow> (nat \<Rightarrow> timestamp) \<Rightarrow> string \<Rightarrow> string \<Rightarrow> hook_subscription
    \<Rightarrow> internal_inbox_record \<Rightarrow> bool" where
  "deliverable cfg clk node bid sub rec \<longleftrightarrow> ib_node_id rec = node \<and> ib_binding_id rec = Some bid \<and>
     ib_state rec = DPENDING \<and> ib_available_at rec \<le> clk 1 \<and> matchesFilter (sub_filter sub) (record_event rec) \<and>
     ib_attempts rec < maxAttempts cfg"

lemma delivery_for_cong:
  "sub_redaction_profile sub = sub_redaction_profile sub' \<Longrightarrow> delivery_for rec bid sub g t = delivery_for rec bid sub' g t"
  by (cases "gr_redaction_profile_ref g") (simp_all add: delivery_for_def Let_def)

lemma deliverable_cong:
  "sub_filter sub = sub_filter sub' \<Longrightarrow> deliverable cfg clk node bid sub = deliverable cfg clk node bid sub'"
  by (auto simp: deliverable_def fun_eq_iff)

definition deliveries_from :: "(nat \<Rightarrow> timestamp) \<Rightarrow> string \<Rightarrow> hook_subscription \<Rightarrow> grant \<Rightarrow> nat
    \<Rightarrow> (string \<times> internal_inbox_record) list \<Rightarrow> delivery list" where
  "deliveries_from clk bid sub g n recs =
     map (\<lambda>(i, k, rec). delivery_for rec bid sub g (clk (2 * i + 2))) (enumerate n recs)"

lemma deliver_loop_Cons:
  obtains (stop) "max 1 limit \<le> int (length ds)"
      "deliver_loop cfg clk node bid g limit ((k, rec) # rs) sub ds d = (sub, ds, d)"
  | (skip) "int (length ds) < max 1 limit" "\<not> deliverable cfg clk node bid sub rec"
      "deliver_loop cfg clk node bid g limit ((k, rec) # rs) sub ds d = deliver_loop cfg clk node bid g limit rs sub ds d"
  | (dead) "int (length ds) < max 1 limit" "\<not> deliverable cfg clk node bid sub rec"
      "deliver_loop cfg clk node bid g limit ((k, rec) # rs) sub ds d =
       deliver_loop cfg clk node bid g limit rs sub ds (d \<lparr> dl_inbox := jm_set k
         (rec \<lparr> ib_state := DDEAD_LETTER, ib_last_error := Some ''delivery attempts exhausted'' \<rparr>) (dl_inbox d) \<rparr>)"
  | (send) "int (length ds) < max 1 limit" "deliverable cfg clk node bid sub rec"
      "deliver_loop cfg clk node bid g limit ((k, rec) # rs) sub ds d =
       deliver_loop cfg clk node bid g limit rs
         (sub \<lparr> sub_delivery_cursor := max (sub_delivery_cursor sub) (ib_sequence rec),
                 sub_updated_at := clk (2 * length ds + 3) \<rparr>)
         (ds @ [delivery_for rec bid sub g (clk (2 * length ds + 2))])
         (d \<lparr> dl_inbox := jm_set k (rec \<lparr> ib_attempts := ib_attempts rec + 1, ib_state := DDELIVERED,
                 ib_last_delivery_id := Some (dv_delivery_id (delivery_for rec bid sub g (clk (2 * length ds + 2)))) \<rparr>) (dl_inbox d),
              dl_deliveries := jm_set (dv_delivery_id (delivery_for rec bid sub g (clk (2 * length ds + 2))))
                 (delivery_for rec bid sub g (clk (2 * length ds + 2))) (dl_deliveries d) \<rparr>)"
proof (cases "max 1 limit \<le> int (length ds)")
  case True
  then show ?thesis by (intro stop) auto
next
  case F: False
  show ?thesis
  proof (cases "deliverable cfg clk node bid sub rec")
    case True
    with F show ?thesis by (intro send) (auto simp: deliverable_def Let_def)
  next
    case nd: False
    show ?thesis
    proof (cases "ib_node_id rec \<noteq> node \<or> ib_binding_id rec \<noteq> Some bid \<or> ib_state rec \<noteq> DPENDING \<or>
        clk 1 < ib_available_at rec \<or> \<not> matchesFilter (sub_filter sub) (record_event rec)")
      case True
      with F nd show ?thesis by (intro skip) auto
    next
      case False
      with F nd show ?thesis by (intro dead) (auto simp: deliverable_def)
    qed
  qed
qed

lemma deliver_loop_exact:
  assumes "deliver_loop cfg clk node bid g limit rs sub ds d = (sub', ds', d')"
  shows "ds' = ds @ deliveries_from clk bid sub g (length ds)
     (take (nat (max 1 limit) - length ds) (filter (deliverable cfg clk node bid sub \<circ> snd) rs))"
  using assms
proof (induction rs arbitrary: sub ds d)
  case Nil
  then show ?case by (simp add: deliveries_from_def)
next
  case (Cons kr rs)
  obtain k rec where kr: "kr = (k, rec)" by force
  note run = Cons.prems [unfolded kr]
  show ?case
  proof (cases rule: deliver_loop_Cons [of limit ds cfg clk node bid g k rec rs sub d])
    case stop
    then have "nat (max 1 limit) - length ds = 0" by linarith
    with stop run kr show ?thesis by (simp add: deliveries_from_def)
  next
    case skip
    with run Cons.IH kr show ?thesis by (simp del: deliver_loop.simps)
  next
    case dead
    with run Cons.IH kr show ?thesis by (simp del: deliver_loop.simps)
  next
    case send
    let ?sub = "sub \<lparr> sub_delivery_cursor := max (sub_delivery_cursor sub) (ib_sequence rec),
                 sub_updated_at := clk (2 * length ds + 3) \<rparr>"
    have room: "nat (max 1 limit) - length ds = Suc (nat (max 1 limit) - length ds - 1)" using send(1) by linarith
    from Cons.IH [OF run [unfolded send(3)]] send(2) kr show ?thesis
      by (subst room) (simp add: comp_def deliveries_from_def delivery_for_cong [of ?sub sub] deliverable_cong [of ?sub sub])
  qed
qed

lemma readInbox_success:
  assumes "readInbox cfg rd clk sc b limit d = (Inr ds, d')"
  obtains ns s g sub sub' d2 where "dl_scope cfg sc = Inr ns" "dl_slot cfg rd ns = Inr s"
    "activeBinding s (js_trim b) = Inr ()" "activeGrant (clk 0) d s (js_trim b) = Inr g"
    "active_subscription d (scope_node_id ns) (js_trim b) = Some sub"
    "deliver_loop cfg clk (scope_node_id ns) (js_trim b) g limit (by_sequence d) sub [] d = (sub', ds, d2)"
    "d' = d2 \<lparr> dl_subscriptions := jm_set (sub_subscription_id sub') sub' (dl_subscriptions d2) \<rparr>"
  using assms that
  by (auto simp: readInbox_def outcome_simps dl_text_def split: option.splits if_splits prod.splits)

text \<open>
  (C8) What a read of the inbox returns. Only the active binding of the Node's slot, with an active
  unexpired grant and an active subscription, gets deliveries; it gets, in sequence order and up to
  the limit, exactly the pending records of its own binding that are due, pass its filter and have
  attempts left, each redacted with the subscription's profile.
\<close>

theorem readInbox_exact:
  assumes "readInbox cfg rd clk sc b limit d = (Inr ds, d')"
  shows "\<exists>ns s g sub. dl_scope cfg sc = Inr ns \<and> dl_slot cfg rd ns = Inr s \<and>
    slot_current_binding_id s = Some (js_trim b) \<and> slot_lifecycle_state s \<notin> {REVOKED, UNASSIGNED} \<and>
    activeGrant (clk 0) d s (js_trim b) = Inr g \<and>
    active_subscription d (scope_node_id ns) (js_trim b) = Some sub \<and>
    ds = deliveries_from clk (js_trim b) sub g 0 (take (nat (max 1 limit))
      (filter (deliverable cfg clk (scope_node_id ns) (js_trim b) sub \<circ> snd) (by_sequence d)))"
  using assms
proof (rule readInbox_success)
  fix ns s g sub sub' d2
  assume c: "dl_scope cfg sc = Inr ns" "dl_slot cfg rd ns = Inr s" "activeBinding s (js_trim b) = Inr ()"
    "activeGrant (clk 0) d s (js_trim b) = Inr g" "active_subscription d (scope_node_id ns) (js_trim b) = Some sub"
    "deliver_loop cfg clk (scope_node_id ns) (js_trim b) g limit (by_sequence d) sub [] d = (sub', ds, d2)"
  from c(3) have "slot_current_binding_id s = Some (js_trim b)" "slot_lifecycle_state s \<notin> {REVOKED, UNASSIGNED}"
    by (auto simp: activeBinding_def split: if_splits)
  with c deliver_loop_exact [OF c(6)] show ?thesis by auto
qed

section \<open>Attempts\<close>

definition record_ok :: "delivery_config \<Rightarrow> string \<times> internal_inbox_record \<Rightarrow> bool" where
  "record_ok cfg kr \<longleftrightarrow> (case kr of (k, rec) \<Rightarrow> k = ib_inbox_id rec \<and> 0 \<le> ib_attempts rec \<and>
     ib_attempts rec \<le> maxAttempts cfg \<and> (ib_state rec = DPENDING \<longrightarrow> ib_attempts rec < maxAttempts cfg))"

definition delivery_ok :: "delivery_config \<Rightarrow> string \<times> delivery \<Rightarrow> bool" where
  "delivery_ok cfg kd \<longleftrightarrow> (case kd of (k, dv) \<Rightarrow> k = dv_delivery_id dv \<and> 1 \<le> dv_attempt dv \<and> dv_attempt dv \<le> maxAttempts cfg)"

definition delivery_inv :: "delivery_config \<Rightarrow> delivery_service \<Rightarrow> bool" where
  "delivery_inv cfg d \<longleftrightarrow> list_all (record_ok cfg) (dl_inbox d) \<and> list_all (delivery_ok cfg) (dl_deliveries d)"

lemma maxAttempts_pos: "1 \<le> maxAttempts cfg"
  by (simp add: maxAttempts_def)

lemma record_ok_updates:
  assumes "record_ok cfg (k, rec)"
  shows "record_ok cfg (k, rec \<lparr> ib_state := DDEAD_LETTER, ib_last_error := e \<rparr>)"
    and "ib_attempts rec < maxAttempts cfg \<Longrightarrow>
      record_ok cfg (k, rec \<lparr> ib_attempts := ib_attempts rec + 1, ib_state := DDELIVERED, ib_last_delivery_id := i \<rparr>)"
    and "ib_attempts rec < maxAttempts cfg \<Longrightarrow>
      delivery_ok cfg (dv_delivery_id (delivery_for rec bid sub g t), delivery_for rec bid sub g t)"
    and "record_ok cfg (k, rec \<lparr> ib_state := DACKED \<rparr>)"
    and "record_ok cfg (k, rec \<lparr> ib_state := (if maxAttempts cfg \<le> ib_attempts rec then DDEAD_LETTER else DPENDING),
      ib_available_at := now \<rparr>)"
    and "record_ok cfg (k, rec \<lparr> ib_state := DPENDING, ib_attempts := 0, ib_last_error := None, ib_available_at := now \<rparr>)"
  using assms maxAttempts_pos [of cfg] by (auto simp: record_ok_def delivery_ok_def delivery_for_def Let_def)

lemma deliver_loop_inv:
  assumes "deliver_loop cfg clk node bid g limit rs sub ds d = (sub', ds', d')"
    "delivery_inv cfg d" "list_all (record_ok cfg) rs"
  shows "delivery_inv cfg d' \<and> dl_grantEvents d' = dl_grantEvents d \<and> dl_grantSequences d' = dl_grantSequences d"
  using assms
proof (induction rs arbitrary: sub ds d)
  case Nil
  then show ?case by simp
next
  case (Cons kr rs)
  obtain k rec where kr: "kr = (k, rec)" by force
  note run = Cons.prems(1) [unfolded kr]
  from Cons.prems(3) kr have ok: "record_ok cfg (k, rec)" and rs: "list_all (record_ok cfg) rs" by auto
  show ?case
  proof (cases rule: deliver_loop_Cons [of limit ds cfg clk node bid g k rec rs sub d])
    case stop
    with run Cons.prems(2) show ?thesis by (simp del: deliver_loop.simps)
  next
    case skip
    with run Cons.IH [OF _ Cons.prems(2) rs] show ?thesis by (simp del: deliver_loop.simps)
  next
    case dead
    from Cons.IH [OF run [unfolded dead(3)] _ rs] Cons.prems(2) record_ok_updates(1) [OF ok] show ?thesis
      by (simp add: delivery_inv_def list_all_jm_set)
  next
    case send
    then have "ib_attempts rec < maxAttempts cfg" by (simp add: deliverable_def)
    with Cons.IH [OF run [unfolded send(3)] _ rs] Cons.prems(2) record_ok_updates(2,3) [OF ok] show ?thesis
      by (simp add: delivery_inv_def list_all_jm_set)
  qed
qed

section \<open>Runs of the service\<close>

type_synonym slot_reader = "scope \<Rightarrow> slot_error + slot"

datatype delivery_call =
    CIssueGrant slot_reader timestamp scope grant_input
  | CRevokeGrant timestamp scope string string
  | CSubscribe slot_reader "nat \<Rightarrow> timestamp" scope subscribe_input
  | CSetSubscriptionState timestamp scope string hook_state
  | CBindingRevoked "nat \<Rightarrow> timestamp" string
  | CPublish slot_reader timestamp scope inbox_event
  | CReadInbox slot_reader "nat \<Rightarrow> timestamp" scope string int
  | CAcknowledge slot_reader scope string string
  | CRetry slot_reader timestamp scope string string
  | CReplay slot_reader timestamp scope string string

definition delivery_step :: "delivery_config \<Rightarrow> delivery_service \<Rightarrow> delivery_call \<Rightarrow> delivery_service" where
  "delivery_step cfg d c = (case c of
     CIssueGrant rd now sc input \<Rightarrow> snd (issueGrant cfg rd now sc input d)
   | CRevokeGrant now sc gid by \<Rightarrow> snd (revokeGrant cfg now sc gid by d)
   | CSubscribe rd clk sc input \<Rightarrow> snd (subscribe cfg rd clk sc input d)
   | CSetSubscriptionState now sc sid st \<Rightarrow> snd (setSubscriptionState cfg now sc sid st d)
   | CBindingRevoked clk bid \<Rightarrow> snd (onBindingRevoked clk bid d)
   | CPublish rd now sc ev \<Rightarrow> snd (publish cfg rd now sc ev d)
   | CReadInbox rd clk sc bid limit \<Rightarrow> snd (readInbox cfg rd clk sc bid limit d)
   | CAcknowledge rd sc bid did \<Rightarrow> snd (acknowledge cfg rd sc bid did d)
   | CRetry rd now sc bid eid \<Rightarrow> snd (retry cfg rd now sc bid eid d)
   | CReplay rd now sc bid eid \<Rightarrow> snd (replay cfg rd now sc bid eid d))"

text \<open>What each call does to the state: nothing, or one of these effects.\<close>

lemma issueGrant_effect:
  "snd (issueGrant cfg rd now sc input d) = d \<or>
   (\<exists>k node g. snd (issueGrant cfg rd now sc input d) = snd (store_grant k node g now d))"
  by (auto simp: issueGrant_def liftO_def Let_def case_prod_beta split: sum.splits option.splits)

lemma revokeGrant_effect:
  "snd (revokeGrant cfg now sc gid by d) = d \<or>
   (\<exists>k node g. snd (revokeGrant cfg now sc gid by d) = snd (store_grant k node g now d))"
  by (auto simp: revokeGrant_def liftO_def Let_def split: sum.splits option.splits)

lemma subscription_effects:
  "\<exists>subs. snd (subscribe cfg rd clk sc si d) = d \<lparr> dl_subscriptions := subs \<rparr>"
  "\<exists>subs. snd (setSubscriptionState cfg now sc sid st d) = d \<lparr> dl_subscriptions := subs \<rparr>"
  "\<exists>subs. snd (onBindingRevoked clk bid d) = d \<lparr> dl_subscriptions := subs \<rparr>"
proof -
  have same: "\<exists>subs. d = d \<lparr> dl_subscriptions := subs \<rparr>" by (rule exI [of _ "dl_subscriptions d"]) simp
  show "\<exists>subs. snd (subscribe cfg rd clk sc si d) = d \<lparr> dl_subscriptions := subs \<rparr>"
    using same by (auto simp: subscribe_def liftO_def Let_def split: sum.splits)
  show "\<exists>subs. snd (setSubscriptionState cfg now sc sid st d) = d \<lparr> dl_subscriptions := subs \<rparr>"
    using same by (auto simp: setSubscriptionState_def liftO_def Let_def split: sum.splits option.splits)
  show "\<exists>subs. snd (onBindingRevoked clk bid d) = d \<lparr> dl_subscriptions := subs \<rparr>"
    using same by (auto simp: onBindingRevoked_def liftO_def Let_def split: sum.splits)
qed

text \<open>An inbox entry of the caller's event.\<close>

lemma inbox_entry_get: "inbox_entry cfg rd sc bid eid d = Inr (k, rec) \<Longrightarrow> jm_get (dl_inbox d) k = Some rec"
  by (auto simp: inbox_entry_def outcome_simps Let_def split: option.splits if_splits)

lemma inbox_write_effects:
  "snd (acknowledge cfg rd sc bid did d) = d \<or>
   (\<exists>k rec. jm_get (dl_inbox d) k = Some rec \<and>
     snd (acknowledge cfg rd sc bid did d) = d \<lparr> dl_inbox := jm_set k (rec \<lparr> ib_state := DACKED \<rparr>) (dl_inbox d) \<rparr>)"
  "snd (retry cfg rd now sc bid eid d) = d \<or>
   (\<exists>k rec. jm_get (dl_inbox d) k = Some rec \<and> snd (retry cfg rd now sc bid eid d) = d \<lparr> dl_inbox := jm_set k
     (rec \<lparr> ib_state := (if maxAttempts cfg \<le> ib_attempts rec then DDEAD_LETTER else DPENDING), ib_available_at := now \<rparr>)
     (dl_inbox d) \<rparr>)"
  "snd (replay cfg rd now sc bid eid d) = d \<or>
   (\<exists>k rec. jm_get (dl_inbox d) k = Some rec \<and> snd (replay cfg rd now sc bid eid d) = d \<lparr> dl_inbox := jm_set k
     (rec \<lparr> ib_state := DPENDING, ib_attempts := 0, ib_last_error := None, ib_available_at := now \<rparr>) (dl_inbox d) \<rparr>)"
proof -
  show "snd (acknowledge cfg rd sc bid did d) = d \<or>
   (\<exists>k rec. jm_get (dl_inbox d) k = Some rec \<and>
     snd (acknowledge cfg rd sc bid did d) = d \<lparr> dl_inbox := jm_set k (rec \<lparr> ib_state := DACKED \<rparr>) (dl_inbox d) \<rparr>)"
    by (auto simp: acknowledge_def liftO_def Let_def split: sum.splits option.splits)
  show "snd (retry cfg rd now sc bid eid d) = d \<or>
   (\<exists>k rec. jm_get (dl_inbox d) k = Some rec \<and> snd (retry cfg rd now sc bid eid d) = d \<lparr> dl_inbox := jm_set k
     (rec \<lparr> ib_state := (if maxAttempts cfg \<le> ib_attempts rec then DDEAD_LETTER else DPENDING), ib_available_at := now \<rparr>)
     (dl_inbox d) \<rparr>)"
    by (cases "inbox_entry cfg rd sc bid eid d") (force simp: retry_def Let_def dest: inbox_entry_get)+
  show "snd (replay cfg rd now sc bid eid d) = d \<or>
   (\<exists>k rec. jm_get (dl_inbox d) k = Some rec \<and> snd (replay cfg rd now sc bid eid d) = d \<lparr> dl_inbox := jm_set k
     (rec \<lparr> ib_state := DPENDING, ib_attempts := 0, ib_last_error := None, ib_available_at := now \<rparr>) (dl_inbox d) \<rparr>)"
    by (cases "inbox_entry cfg rd sc bid eid d") (force simp: replay_def Let_def dest: inbox_entry_get)+
qed

text \<open>The event key of a publication is taken when it leads to a stored record.\<close>

definition published :: "string \<Rightarrow> delivery_service \<Rightarrow> bool" where
  "published key d \<longleftrightarrow> (\<exists>i. jm_get (dl_eventRecords d) key = Some i \<and> i \<noteq> [] \<and> jm_has (dl_inbox d) i)"

lemma publish_cases:
  obtains (same) "snd (publish cfg rd now sc ev d) = d"
  | (store) ns eid rec i where "dl_scope cfg sc = Inr ns" "dl_text (ev_event_id ev) = Inr eid"
      "\<not> published (event_key (scope_node_id ns) eid) d"
      "ib_inbox_id rec = i" "ib_state rec = DPENDING" "ib_attempts rec = 0" "i \<noteq> []"
      "snd (publish cfg rd now sc ev d) = d \<lparr> dl_inbox := jm_set i rec (dl_inbox d),
         dl_eventRecords := jm_set (event_key (scope_node_id ns) eid) i (dl_eventRecords d) \<rparr>"
proof (cases "snd (publish cfg rd now sc ev d) = d")
  case True
  then show ?thesis by (rule same)
next
  case F: False
  obtain ns where ns: "dl_scope cfg sc = Inr ns" using F by (cases "dl_scope cfg sc") (auto simp: publish_def)
  obtain s where s: "dl_slot cfg rd ns = Inr s" using F ns by (cases "dl_slot cfg rd ns") (auto simp: publish_def)
  have node: "ev_node_id ev = scope_node_id ns" by (rule ccontr) (use F ns s in \<open>simp add: publish_def\<close>)
  obtain eid where eid: "dl_text (ev_event_id ev) = Inr eid"
    using F ns s node by (cases "dl_text (ev_event_id ev)") (auto simp: publish_def)
  have np: "\<not> published (event_key (scope_node_id ns) eid) d"
    by (rule notI) (use F ns s node eid in \<open>auto simp: publish_def published_def jm_has_def\<close>)
  then have none: "(if js_truthy (jm_get (dl_eventRecords d) (event_key (scope_node_id ns) eid))
      then jm_get (dl_inbox d) (the (jm_get (dl_eventRecords d) (event_key (scope_node_id ns) eid))) else None) = None"
    by (auto simp: published_def jm_has_def elim!: js_truthyE)
  note known = ns s node eid none
  obtain ty where ty: "dl_text (ev_event_type ev) = Inr ty"
    using F known by (cases "dl_text (ev_event_type ev)") (auto simp: publish_def Let_def)
  obtain n where n: "revisionSchema (dcf_zod cfg) (ev_sequence ev) = Some n"
    using F known ty by (cases "revisionSchema (dcf_zod cfg) (ev_sequence ev)") (auto simp: publish_def Let_def)
  show ?thesis
    by (rule store [OF ns eid np _ _ _ _ trans [OF arg_cong [of _ _ snd, OF publish_def]]])
      (simp_all add: known ty n Let_def)
qed

lemma store_grant_simps [simp]:
  "dl_inbox (snd (store_grant k node g now d)) = dl_inbox d"
  "dl_deliveries (snd (store_grant k node g now d)) = dl_deliveries d"
  "dl_eventRecords (snd (store_grant k node g now d)) = dl_eventRecords d"
  by (simp_all add: store_grant_def Let_def)

lemma readInbox_effect:
  obtains (same) "snd (readInbox cfg rd clk sc bid limit d) = d"
  | (loop) node b g sub sub' ds d' where
      "deliver_loop cfg clk node b g limit (by_sequence d) sub [] d = (sub', ds, d')"
      "snd (readInbox cfg rd clk sc bid limit d) =
         d' \<lparr> dl_subscriptions := jm_set (sub_subscription_id sub') sub' (dl_subscriptions d') \<rparr>"
proof (cases "readInbox cfg rd clk sc bid limit d")
  case (Pair x d')
  show ?thesis
  proof (cases x)
    case (Inl e)
    with Pair have "d' = d"
      by (auto simp: readInbox_def outcome_simps case_prod_beta split: option.splits)
    with Pair same show ?thesis by simp
  next
    case (Inr ds)
    with Pair have "readInbox cfg rd clk sc bid limit d = (Inr ds, d')" by simp
    then show ?thesis by (rule readInbox_success) (use Pair loop in auto)
  qed
qed

lemma by_sequence_ok: "delivery_inv cfg d \<Longrightarrow> list_all (record_ok cfg) (by_sequence d)"
  by (simp add: delivery_inv_def by_sequence_def list_all_iff)

lemma deliver_loop_frame:
  assumes "deliver_loop cfg clk node bid g limit rs sub ds d = (sub', ds', d')"
  shows "dl_grantEvents d' = dl_grantEvents d" "dl_grantSequences d' = dl_grantSequences d"
    "dl_eventRecords d' = dl_eventRecords d" "jm_has (dl_inbox d) i \<Longrightarrow> jm_has (dl_inbox d') i"
proof -
  have "dl_grantEvents d' = dl_grantEvents d \<and> dl_grantSequences d' = dl_grantSequences d \<and>
    dl_eventRecords d' = dl_eventRecords d \<and> (jm_has (dl_inbox d) i \<longrightarrow> jm_has (dl_inbox d') i)"
    using assms
  proof (induction rs arbitrary: sub ds d)
    case (Cons kr rs)
    obtain k rec where kr: "kr = (k, rec)" by force
    show ?case
      by (cases rule: deliver_loop_Cons [of limit ds cfg clk node bid g k rec rs sub d])
        (use Cons.prems [unfolded kr] Cons.IH in \<open>fastforce simp del: deliver_loop.simps\<close>)+
  qed simp
  then show "dl_grantEvents d' = dl_grantEvents d" "dl_grantSequences d' = dl_grantSequences d"
    "dl_eventRecords d' = dl_eventRecords d" "jm_has (dl_inbox d) i \<Longrightarrow> jm_has (dl_inbox d') i" by blast+
qed

text \<open>Every call leaves the state as it is or has one of five effects.\<close>

lemma delivery_step_cases:
  obtains (same) "delivery_step cfg d c = d"
  | (grant) k node g now where "delivery_step cfg d c = snd (store_grant k node g now d)"
  | (subscription) subs where "delivery_step cfg d c = d \<lparr> dl_subscriptions := subs \<rparr>"
  | (publication) key rec i where "\<not> published key d" "ib_inbox_id rec = i" "ib_state rec = DPENDING"
      "ib_attempts rec = 0" "i \<noteq> []"
      "delivery_step cfg d c = d \<lparr> dl_inbox := jm_set i rec (dl_inbox d), dl_eventRecords := jm_set key i (dl_eventRecords d) \<rparr>"
  | (reading) clk node b g limit sub sub' ds d' subs where
      "deliver_loop cfg clk node b g limit (by_sequence d) sub [] d = (sub', ds, d')"
      "delivery_step cfg d c = d' \<lparr> dl_subscriptions := subs \<rparr>"
  | (inbox) k rec rec' where "jm_get (dl_inbox d) k = Some rec" "record_ok cfg (k, rec) \<Longrightarrow> record_ok cfg (k, rec')"
      "delivery_step cfg d c = d \<lparr> dl_inbox := jm_set k rec' (dl_inbox d) \<rparr>"
proof (cases c)
  case (CIssueGrant rd now sc input)
  with issueGrant_effect [of cfg rd now sc input d] same grant show ?thesis by (auto simp: delivery_step_def)
next
  case (CRevokeGrant now sc gid issuer)
  with revokeGrant_effect [of cfg now sc gid issuer d] same grant show ?thesis by (auto simp: delivery_step_def)
next
  case (CSubscribe rd clk sc si)
  with subscription_effects(1) [of cfg rd clk sc si d] subscription show ?thesis by (auto simp: delivery_step_def)
next
  case (CSetSubscriptionState now sc sid st)
  with subscription_effects(2) [of cfg now sc sid st d] subscription show ?thesis by (auto simp: delivery_step_def)
next
  case (CBindingRevoked clk bid)
  with subscription_effects(3) [of clk bid d] subscription show ?thesis by (auto simp: delivery_step_def)
next
  case (CPublish rd now sc ev)
  then show ?thesis
    by (cases rule: publish_cases [of cfg rd now sc ev d]) (auto simp: delivery_step_def intro: same publication)
next
  case (CReadInbox rd clk sc bid limit)
  then show ?thesis
    by (cases rule: readInbox_effect [of cfg rd clk sc bid limit d]) (auto simp: delivery_step_def intro: same reading)
next
  case (CAcknowledge rd sc bid did)
  with inbox_write_effects(1) [of cfg rd sc bid did d] record_ok_updates(4) same inbox show ?thesis
    by (fastforce simp: delivery_step_def)
next
  case (CRetry rd now sc bid eid)
  with inbox_write_effects(2) [of cfg rd now sc bid eid d] show ?thesis
    by (auto simp: delivery_step_def simp del: if_split intro: same inbox [OF _ record_ok_updates(5)])
next
  case (CReplay rd now sc bid eid)
  with inbox_write_effects(3) [of cfg rd now sc bid eid d] show ?thesis
    by (auto simp: delivery_step_def intro: same inbox [OF _ record_ok_updates(6)])
qed

lemma delivery_step_inv:
  assumes inv: "delivery_inv cfg d"
  shows "delivery_inv cfg (delivery_step cfg d c)"
proof (cases rule: delivery_step_cases [of cfg d c])
  case (publication key rec i)
  with inv maxAttempts_pos [of cfg] show ?thesis
    by (auto simp: delivery_inv_def record_ok_def intro!: list_all_jm_set)
next
  case (reading clk node b g limit sub sub' ds d' subs)
  with deliver_loop_inv [OF reading(1) inv by_sequence_ok [OF inv]] show ?thesis by (simp add: delivery_inv_def)
next
  case (inbox k rec rec')
  with inv have "record_ok cfg (k, rec')" by (auto simp: delivery_inv_def dest: list_all_jm_get)
  with inv inbox(3) show ?thesis by (auto simp: delivery_inv_def intro: list_all_jm_set)
qed (use inv in \<open>simp_all add: delivery_inv_def\<close>)

lemma published_step:
  assumes p: "published key d"
  shows "published key (delivery_step cfg d c)"
proof (cases rule: delivery_step_cases [of cfg d c])
  case (publication key' rec i)
  with p show ?thesis by (auto simp: published_def jm_get_set)
next
  case (reading clk node b g limit sub sub' ds d' subs)
  with p deliver_loop_frame(3,4) [OF reading(1)] show ?thesis by (auto simp: published_def)
qed (use p in \<open>auto simp: published_def\<close>)

definition grant_sequence :: "delivery_service \<Rightarrow> string \<Rightarrow> int" where
  "grant_sequence d n = (case jm_get (dl_grantSequences d) n of None \<Rightarrow> 0 | Some q \<Rightarrow> q)"

lemma grant_sequence_frame [simp]:
  "grant_sequence (d \<lparr> dl_subscriptions := subs \<rparr>) = grant_sequence d"
  "grant_sequence (d \<lparr> dl_inbox := m \<rparr>) = grant_sequence d"
  "grant_sequence (d \<lparr> dl_eventRecords := es \<rparr>) = grant_sequence d"
  by (simp_all add: grant_sequence_def fun_eq_iff)

lemma store_grant_log:
  "\<exists>e. dl_grantEvents (snd (store_grant k node g now d)) = dl_grantEvents d @ [e] \<and> grant_sequence d (ge_node_id e) < ge_sequence e \<and>
    grant_sequence (snd (store_grant k node g now d)) = (grant_sequence d)(ge_node_id e := ge_sequence e)"
  by (simp add: store_grant_def Let_def grant_sequence_def next_sequence_def fun_eq_iff jm_get_set)

lemma quiet_log:
  "dl_grantEvents d' = dl_grantEvents d \<Longrightarrow> dl_grantSequences d' = dl_grantSequences d \<Longrightarrow>
   dl_grantEvents d' = dl_grantEvents d \<and> grant_sequence d' = grant_sequence d"
  by (simp add: grant_sequence_def fun_eq_iff)

interpretation grant_log: sequenced_log "delivery_step cfg" dl_grantEvents ge_node_id ge_sequence grant_sequence for cfg
proof
  fix d c
  show "(dl_grantEvents (delivery_step cfg d c) = dl_grantEvents d \<and> grant_sequence (delivery_step cfg d c) = grant_sequence d) \<or>
     (\<exists>ev. dl_grantEvents (delivery_step cfg d c) = dl_grantEvents d @ [ev] \<and> grant_sequence d (ge_node_id ev) < ge_sequence ev \<and>
       grant_sequence (delivery_step cfg d c) = (grant_sequence d)(ge_node_id ev := ge_sequence ev))"
  proof (cases rule: delivery_step_cases [of cfg d c])
    case (grant k node g now)
    with store_grant_log show ?thesis by auto
  next
    case (reading clk node b g limit sub sub' ds d' subs)
    with quiet_log [OF deliver_loop_frame(1,2) [OF reading(1)]] show ?thesis by simp
  qed simp_all
qed

lemma grant_sequence_mono: "grant_sequence d n \<le> grant_sequence (delivery_step cfg d c) n"
  using grant_log.step_log [of cfg d c] by auto

interpretation delivery_machine: monotone_machine "delivery_step cfg" "delivery_inv cfg" "\<lambda>d. grant_sequence d n" for cfg n
  by unfold_locales (auto intro: delivery_step_inv grant_sequence_mono)

interpretation publication: monotone_machine "delivery_step cfg" "published key" "\<lambda>d. grant_sequence d n" for cfg key n
  by unfold_locales (auto intro: published_step grant_sequence_mono)

text \<open>
  (C9) Delivery attempts are bounded and grant events ordered. In every run of the service each inbox
  record has at most \<open>maxAttempts\<close> attempts, a pending record has an attempt left, each delivery is one of
  attempts 1 to \<open>maxAttempts\<close>, and the grant events of a Node carry strictly increasing sequence numbers.
\<close>

theorem attempts_bounded:
  "delivery_inv cfg (run (delivery_step cfg) empty_delivery calls) \<and>
   sorted_wrt (<) (map ge_sequence (filter (\<lambda>e. ge_node_id e = n) (dl_grantEvents (run (delivery_step cfg) empty_delivery calls))))"
  using delivery_machine.run_inv [of cfg empty_delivery calls] grant_log.strictly_increasing [of empty_delivery n cfg calls]
  by (simp add: delivery_inv_def empty_delivery_def)

lemma publish_published:
  assumes "publish cfg rd now sc ev d = (Inr r, d')" "dl_scope cfg sc = Inr ns" "dl_text (ev_event_id ev) = Inr eid"
  shows "published (event_key (scope_node_id ns) eid) d'"
proof (cases rule: publish_cases [of cfg rd now sc ev d])
  case same
  show ?thesis
  proof (rule ccontr)
    assume np: "\<not> published (event_key (scope_node_id ns) eid) d'"
    with same assms(1) have "\<not> published (event_key (scope_node_id ns) eid) d" by simp
    then have none: "(if js_truthy (jm_get (dl_eventRecords d) (event_key (scope_node_id ns) eid))
      then jm_get (dl_inbox d) (the (jm_get (dl_eventRecords d) (event_key (scope_node_id ns) eid))) else None) = None"
      by (auto simp: published_def jm_has_def elim!: js_truthyE)
    from assms(1) np show False
      by (simp add: publish_def outcome_simps assms(2,3) none Let_def split: option.splits)
        (auto simp: published_def jm_has_def)
  qed
next
  case (store ns' eid' rec i)
  with assms show ?thesis by (auto simp: published_def)
qed

lemma publish_on_published:
  assumes "dl_scope cfg sc = Inr ns" "dl_text (ev_event_id ev) = Inr eid" "published (event_key (scope_node_id ns) eid) d"
  shows "snd (publish cfg rd now sc ev d) = d"
  by (cases rule: publish_cases [of cfg rd now sc ev d]) (use assms in auto)

lemma publish_ids:
  assumes "publish cfg rd now sc ev d = (Inr r, d')"
  obtains ns eid where "dl_scope cfg sc = Inr ns" "dl_text (ev_event_id ev) = Inr eid"
  using assms that by (auto simp: publish_def outcome_simps split: if_splits)

text \<open>
  An event is enqueued once. After an event was published, and whatever calls were made since,
  publishing an event with the same id for the same Node changes nothing.
\<close>

theorem event_enqueued_once:
  assumes "publish cfg rd now sc ev d = (Inr r, d')"
    and "later = run (delivery_step cfg) d' calls" and "ev_event_id ev' = ev_event_id ev"
  shows "snd (publish cfg rd' now' sc ev' later) = later"
proof -
  from assms(1) obtain ns eid where ids: "dl_scope cfg sc = Inr ns" "dl_text (ev_event_id ev) = Inr eid"
    by (rule publish_ids)
  from publish_published [OF assms(1) ids] have "published (event_key (scope_node_id ns) eid) later"
    unfolding assms(2) by (rule publication.run_inv)
  then show ?thesis using ids assms(3) by (intro publish_on_published) auto
qed

section \<open>Revoked bindings\<close>

lemma revoke_entries_state:
  "list_all (\<lambda>(k, sub). sub_binding_id sub = bid \<longrightarrow> sub_state sub = HookREVOKED) (revoke_entries bid clk i m)"
  by (induction bid clk i m rule: revoke_entries.induct) simp_all

text \<open>
  A binding that lost the slot gets nothing more. After \<open>onBindingRevoked\<close> every read of the inbox by
  that binding fails and leaves the service as it is, whatever slot the repository returns.
\<close>

theorem revoked_binding_reads_nothing:
  assumes "onBindingRevoked clk bid d = (Inr (), d')" and "js_trim b = js_trim bid"
  shows "\<exists>e. readInbox cfg rd clk' sc b limit d' = (Inl e, d')"
proof -
  from assms(1) have d': "dl_subscriptions d' = revoke_entries (js_trim bid) clk 0 (dl_subscriptions d)"
    by (auto simp: onBindingRevoked_def outcome_simps dl_text_def split: if_splits)
  have "active_subscription d' node (js_trim b) = None" for node
    using revoke_entries_state [of "js_trim bid" clk 0 "dl_subscriptions d"] unfolding active_subscription_def find_None_iff
    by (auto simp: d' assms(2) jm_values_def list_all_iff)
  then show ?thesis by (auto simp: readInbox_def liftO_def dl_text_def split: sum.splits)
qed

section \<open>A concrete service\<close>

definition demo_dcfg :: delivery_config where
  "demo_dcfg = \<lparr> dcf_zod = zod_ref, dcf_maxAttempts = None \<rparr>"

definition demo_node :: "string \<Rightarrow> scope" where
  "demo_node n = \<lparr> scope_hypervisor_id = ''h'', scope_node_id = n \<rparr>"

text \<open>Slots of two Nodes that were created with the same explicit slot id, bound to \<open>b\<close> with grant \<open>g\<close>.\<close>

definition demo_reader :: slot_reader where
  "demo_reader sc = Inr \<lparr> slot_id = ''s'', slot_node_id = scope_node_id sc, slot_current_binding_id = Some ''b'',
     slot_lifecycle_state = CONNECTED, slot_revision = 1, slot_assigned_at = None, slot_assigned_by = None,
     slot_last_seen_at = None, slot_capability_grant_ref = Some ''g'', slot_hook_subscription_ref = None,
     slot_durable_inbox_ref = None, slot_changed_at = None, slot_provenance_of = None \<rparr>"

definition demo_grant :: "string \<Rightarrow> grant_input" where
  "demo_grant g = \<lparr> gi_grant_id = g, gi_binding_id = ''b'', gi_categories = [CapRead], gi_allowlisted_tools = [],
     gi_redaction_profile_ref = None, gi_issued_by = ''u'', gi_expires_at = None \<rparr>"

definition demo_event :: "string \<Rightarrow> inbox_event" where
  "demo_event n = \<lparr> ev_event_id = ''e'', ev_node_id = n, ev_event_type = ''t'', ev_resource_ref = None, ev_severity = None,
     ev_sequence = 1, ev_payload = JObj [(''Token'', JStr ''x''), (''a'', JNum 1)], ev_occurred_at = Some 3 \<rparr>"

text \<open>A service with an active grant, an active subscription and one pending record for binding \<open>b\<close>.\<close>

definition demo_published :: delivery_service where
  "demo_published = \<lparr>
     dl_grants = [(''g'', \<lparr> gr_grant_id = ''g'', gr_node_id = ''n'', gr_binding_id = ''b'', gr_revision = 1,
       gr_categories = [CapRead], gr_allowlisted_tools = [], gr_redaction_profile_ref = None, gr_state = GrantACTIVE,
       gr_issued_at = 1, gr_issued_by = ''u'', gr_expires_at = None \<rparr>)],
     dl_subscriptions = [(''h'', \<lparr> sub_subscription_id = ''h'', sub_node_id = ''n'', sub_binding_id = ''b'', sub_revision = 1,
       sub_filter = \<lparr> hf_event_types = None, hf_resource_refs = None, hf_severities = None \<rparr>,
       sub_redaction_profile = default_redaction_profile, sub_delivery_cursor = 0, sub_state = HookACTIVE,
       sub_created_at = 2, sub_updated_at = 2 \<rparr>)],
     dl_inbox = [(''s:inbox:e'', \<lparr> ib_inbox_id = ''s:inbox:e'', ib_event_id = ''e'', ib_node_id = ''n'', ib_slot_id = ''s'',
       ib_binding_id = Some ''b'', ib_event_type = ''t'', ib_resource_ref = None, ib_severity = SevNONE, ib_sequence = 1,
       ib_state = DPENDING, ib_attempts = 0, ib_available_at = 3, ib_last_delivery_id = None, ib_last_error = None,
       ib_payload = JObj [(''Token'', JStr ''x''), (''a'', JNum 1)] \<rparr>)],
     dl_deliveries = [], dl_grantSequences = [(''n'', 1)], dl_eventRecords = [(''n:e'', ''s:inbox:e'')],
     dl_grantEvents = [] \<rparr>"

definition demo_enqueued :: delivery_service where
  "demo_enqueued = snd (publish demo_dcfg demo_reader 3 (demo_node ''n'') (demo_event ''n'') empty_delivery)"

definition demo_revoked :: delivery_service where
  "demo_revoked = run (delivery_step demo_dcfg) empty_delivery
     [CIssueGrant demo_reader 1 (demo_node ''n'') (demo_grant ''g''), CRevokeGrant 5 (demo_node ''n'') ''g'' ''u'']"

theorem redaction_noninterference_witness:
  "conceal default_redaction_profile (JObj [(''Token'', JStr ''x'')]) = conceal default_redaction_profile (JObj [(''Token'', JStr ''y'')]) \<and>
   redactValue default_redaction_profile [] (JObj [(''Token'', JStr ''x'')]) =
   redactValue default_redaction_profile [] (JObj [(''Token'', JStr ''y'')])"
proof -
  have c: "conceal default_redaction_profile (JObj [(''Token'', JStr ''x'')]) =
      conceal default_redaction_profile (JObj [(''Token'', JStr ''y'')])" by code_simp
  from redaction_noninterference [OF this, of "[]"] c show ?thesis by blast
qed

theorem readInbox_exact_witness:
  "\<exists>ds d' g. readInbox demo_dcfg demo_reader (\<lambda>_. 9) (demo_node ''n'') ''b'' 50 demo_published = (Inr ds, d') \<and>
     map dv_payload ds = [JObj [(''Token'', JStr ''[REDACTED]''), (''a'', JNum 1)]] \<and> 
     activeGrant 9 demo_published (projr (demo_reader (demo_node ''n''))) ''b'' = Inr g"
proof -
  let ?x = "readInbox demo_dcfg demo_reader (\<lambda>_. 9) (demo_node ''n'') ''b'' 50 demo_published"
  have ok: "?x = (Inr (projr (fst ?x)), snd ?x)" by (rule outcome_ok) code_simp
  have p: "map dv_payload (projr (fst ?x)) = [JObj [(''Token'', JStr ''[REDACTED]''), (''a'', JNum 1)]]" by code_simp
  have s: "dl_scope demo_dcfg (demo_node ''n'') = Inr (demo_node ''n'')" "js_trim ''b'' = ''b''" by code_simp+
  from readInbox_exact [OF ok] s obtain g where "activeGrant 9 demo_published (projr (demo_reader (demo_node ''n''))) ''b'' = Inr g"
    by (auto simp: dl_slot_def outcome_simps split: sum.splits)
  then show ?thesis by (intro exI conjI) (rule ok, rule p)
qed

theorem event_enqueued_once_witness:
  "\<exists>r. publish demo_dcfg demo_reader 3 (demo_node ''n'') (demo_event ''n'') empty_delivery = (Inr r, demo_enqueued) \<and>
     snd (publish demo_dcfg demo_reader 4 (demo_node ''n'') (demo_event ''n'') demo_enqueued) = demo_enqueued"
proof -
  let ?x = "publish demo_dcfg demo_reader 3 (demo_node ''n'') (demo_event ''n'') empty_delivery"
  have "?x = (Inr (projr (fst ?x)), snd ?x)" by (rule outcome_ok) code_simp
  then have ok: "?x = (Inr (projr (fst ?x)), demo_enqueued)" by (simp add: demo_enqueued_def)
  from event_enqueued_once [OF ok, of demo_enqueued "[]" "demo_event ''n''" demo_reader 4] ok show ?thesis by auto
qed

theorem revoked_binding_reads_nothing_witness:
  "\<exists>d' e. onBindingRevoked (\<lambda>_. 5) ''b'' demo_published = (Inr (), d') \<and>
     readInbox demo_dcfg demo_reader (\<lambda>_. 9) (demo_node ''n'') ''b'' 50 d' = (Inl e, d')"
proof -
  have "\<not> isl (fst (onBindingRevoked (\<lambda>_. 5) ''b'' demo_published))" by code_simp
  then obtain d' where d': "onBindingRevoked (\<lambda>_. 5) ''b'' demo_published = (Inr (), d')" using outcome_ok by fastforce
  from revoked_binding_reads_nothing [OF d' refl] d' show ?thesis by blast
qed

section \<open>Defects\<close>

text \<open>
  Two Nodes whose slots were given the same slot id share inbox ids. Publishing the second Node's
  event replaces the first Node's pending record: the inbox then holds one record, and looking up the first
  Node's event returns the record of the second.
\<close>

theorem shared_slot_id_loses_event:
  "let d2 = snd (publish demo_dcfg demo_reader 4 (demo_node ''m'') (demo_event ''m'') demo_enqueued) in
     map (ib_node_id \<circ> snd) (dl_inbox demo_enqueued) = [''n''] \<and> map (ib_node_id \<circ> snd) (dl_inbox d2) = [''m''] \<and>
     map_option ib_node_id (projr (getInboxRecord demo_dcfg d2 (demo_node ''n'') ''e'')) = Some ''m''"
  by code_simp

text \<open>
  The revision of a reissued grant is looked up under the untrimmed id but stored under the trimmed
  one. After grant \<open>g\<close> was issued and revoked (revision 2), issuing it as \<open>g\<close> with a trailing space stores
  an active grant \<open>g\<close> of revision 1 and repeats the event id of the first issue.
\<close>

theorem reissued_grant_revision_goes_back:
  "let d2 = snd (issueGrant demo_dcfg demo_reader 6 (demo_node ''n'') (demo_grant ''g '') demo_revoked) in
     map (\<lambda>(k, g). (k, gr_revision g, gr_state g)) (dl_grants demo_revoked) = [(''g'', 2, GrantREVOKED)] \<and>
     map (\<lambda>(k, g). (k, gr_revision g, gr_state g)) (dl_grants d2) = [(''g'', 1, GrantACTIVE)] \<and>
     map ge_event_id (dl_grantEvents d2) = [''g:grant:1'', ''g:grant:2'', ''g:grant:1'']"
  by code_simp

end
