(* ===== verification/Session_Graph.thy ===== *)
theory Session_Graph
  imports Contracts
begin

text \<open>
  \<open>WorkspaceSessionGraph\<close> of \<open>spatial/interaction/session-graph.ts\<close> and the session and context-node contracts
  it parses. Session objects are mutated in place while a Map holds them, and one object can be stored under
  two keys (\<open>createSession\<close> files it under the id as given, \<open>appendTurn\<close> again under the trimmed id), so the
  sessions live in a store: \<open>sg_sessions\<close> maps a key to an address, \<open>sg_heap\<close> holds the objects. The
  clock and the id factory are streams of the configuration; the state counts how far each was read.
\<close>

section \<open>Contracts\<close>

datatype session_state = SSEED | SCOMPOSING | SSUBMITTING | SACTIVE | SFAILED | SCANCELLED | SCOLLAPSED | SARCHIVED
datatype context_kind = KROOT | KBRANCH | KTURN | KARTIFACT

record session =
  ws_session_id :: string
  ws_workspace_id :: string
  ws_node_id :: string
  ws_revision :: int
  ws_state :: session_state
  ws_root_intent_id :: string
  ws_parent_session_id :: "string option"
  ws_structural_parent_ref :: "string option"
  ws_semantic_anchor :: string
  ws_title :: string
  ws_summary :: string
  ws_turn_refs :: "string list"
  ws_object_refs :: "string list"
  ws_context_root_ref :: string
  ws_artifact_ref :: "string option"
  ws_created_at :: timestamp
  ws_updated_at :: timestamp

record context_node =
  cn_context_node_id :: string
  cn_session_id :: string
  cn_workspace_id :: string
  cn_node_id :: string
  cn_revision :: int
  cn_kind :: context_kind
  cn_parent_ref :: "string option"
  cn_context_refs :: "string list"
  cn_source_ref :: "string option"
  cn_target_revisions :: "(string \<times> int) list"
  cn_created_at :: timestamp
  cn_updated_at :: timestamp

definition sessionTitleSchema :: "zod \<Rightarrow> string \<Rightarrow> string option" where
  "sessionTitleSchema z v = (let t = js_trim v in
     if z_string_min z 1 t \<and> z_string_max z MAX_LABEL_LENGTH t then Some t else None)"

definition textMax :: "zod \<Rightarrow> int \<Rightarrow> string \<Rightarrow> string option" where
  "textMax z n v = (let t = js_trim v in if z_string_max z n t then Some t else None)"

definition parseSpatialWorkspaceSession :: "zod \<Rightarrow> session \<Rightarrow> session option" where
  "parseSpatialWorkspaceSession z s = do {
     sid \<leftarrow> idSchema z (ws_session_id s);
     workspace \<leftarrow> idSchema z (ws_workspace_id s);
     node \<leftarrow> idSchema z (ws_node_id s);
     revision \<leftarrow> revisionSchema z (ws_revision s);
     root \<leftarrow> idSchema z (ws_root_intent_id s);
     parent \<leftarrow> nullable (idSchema z) (ws_parent_session_id s);
     structural \<leftarrow> nullable (idSchema z) (ws_structural_parent_ref s);
     anchor \<leftarrow> idSchema z (ws_semantic_anchor s);
     title \<leftarrow> sessionTitleSchema z (ws_title s);
     summary \<leftarrow> textMax z 2000 (ws_summary s);
     turns \<leftarrow> arrayMax z 10000 (idSchema z) (ws_turn_refs s);
     objects \<leftarrow> arrayMax z 10000 (idSchema z) (ws_object_refs s);
     context_root \<leftarrow> idSchema z (ws_context_root_ref s);
     artifact \<leftarrow> nullable (idSchema z) (ws_artifact_ref s);
     Some \<lparr> ws_session_id = sid, ws_workspace_id = workspace, ws_node_id = node, ws_revision = revision,
       ws_state = ws_state s, ws_root_intent_id = root, ws_parent_session_id = parent,
       ws_structural_parent_ref = structural, ws_semantic_anchor = anchor, ws_title = title,
       ws_summary = summary, ws_turn_refs = turns, ws_object_refs = objects,
       ws_context_root_ref = context_root, ws_artifact_ref = artifact,
       ws_created_at = ws_created_at s, ws_updated_at = ws_updated_at s \<rparr> }"

definition revisionEntry :: "zod \<Rightarrow> string \<times> int \<Rightarrow> (string \<times> int) option" where
  "revisionEntry z kv = do { k \<leftarrow> idSchema z (fst kv); v \<leftarrow> revisionSchema z (snd kv); Some (k, v) }"

definition parseSpatialContextNode :: "zod \<Rightarrow> context_node \<Rightarrow> context_node option" where
  "parseSpatialContextNode z c = do {
     cid \<leftarrow> idSchema z (cn_context_node_id c);
     sid \<leftarrow> idSchema z (cn_session_id c);
     workspace \<leftarrow> idSchema z (cn_workspace_id c);
     node \<leftarrow> idSchema z (cn_node_id c);
     revision \<leftarrow> revisionSchema z (cn_revision c);
     parent \<leftarrow> nullable (idSchema z) (cn_parent_ref c);
     refs \<leftarrow> arrayMax z 256 (idSchema z) (cn_context_refs c);
     source \<leftarrow> nullable (idSchema z) (cn_source_ref c);
     targets \<leftarrow> arrayOf (revisionEntry z) (cn_target_revisions c);
     Some \<lparr> cn_context_node_id = cid, cn_session_id = sid, cn_workspace_id = workspace, cn_node_id = node,
       cn_revision = revision, cn_kind = cn_kind c, cn_parent_ref = parent, cn_context_refs = refs,
       cn_source_ref = source, cn_target_revisions = targets, cn_created_at = cn_created_at c,
       cn_updated_at = cn_updated_at c \<rparr> }"

section \<open>Data\<close>

datatype context_relation_type =
  CONTINUES_FROM | USES_CONTEXT | PRODUCED | DELEGATED_TO | USED_ENDPOINT | RELATED_PROTOCOL_SESSION

record context_relation =
  rel_relation_id :: string
  rel_type :: context_relation_type
  rel_workspace_id :: string
  rel_node_id :: string
  rel_source_ref :: string
  rel_target_ref :: string
  rel_source_revision :: int
  rel_target_revision :: int
  rel_actor_ref :: string
  rel_created_at :: timestamp

datatype graph_error =
    Graph_SESSION_NOT_FOUND | Graph_WRONG_WORKSPACE | Graph_WRONG_NODE | Graph_PARENT_ALREADY_SET
  | Graph_CYCLE_DETECTED | Graph_UNAUTHORIZED_REFERENCE | Graph_STALE_REFERENCE
  | Graph_PROTOCOL_SESSION_NOT_CHAT | Graph_INVALID_GRAPH_RECORD

record create_input =
  ci_sessionId :: "string option"
  ci_rootIntentId :: string
  ci_actorRef :: string
  ci_title :: "string option"
  ci_summary :: "string option"
  ci_semanticAnchor :: "string option"
  ci_parentSessionId :: "string option"
  ci_structuralParentRef :: "string option"
  ci_contextRefs :: "string list option"
  ci_initialRevision :: "int option"

record relation_input =
  ri_relationId :: "string option"
  ri_type :: context_relation_type
  ri_sourceRef :: string
  ri_targetRef :: string
  ri_sourceRevision :: int
  ri_targetRevision :: int
  ri_actorRef :: string

text \<open>
  A value of the context-node Map: a parsed node, or what \<open>appendTurn\<close> stores when the session's context root
  is not in the Map (the spread of \<open>undefined\<close> leaves only the two fields it sets).
\<close>

datatype context_entry = ContextNode context_node | ContextFields int timestamp

record graph_config =
  gc_zod :: zod
  gc_workspaceId :: string
  gc_nodeId :: string
  gc_now :: "nat \<Rightarrow> timestamp"
  gc_idFactory :: "nat \<Rightarrow> string \<Rightarrow> string"
  gc_authorizeReference :: "(string \<Rightarrow> string \<Rightarrow> string \<Rightarrow> context_relation_type \<Rightarrow> bool) option"

record session_graph =
  sg_heap :: "session list"
  sg_sessions :: "(string, nat) jsmap"
  sg_contextNodes :: "(string, context_entry) jsmap"
  sg_relations :: "(string, context_relation) jsmap"
  sg_clock :: nat
  sg_ids :: nat

record graph_snapshot =
  snap_sessions :: "session list"
  snap_contextNodes :: "context_entry list"
  snap_relations :: "context_relation list"

section \<open>Lookups\<close>

definition session_at :: "session_graph \<Rightarrow> string \<Rightarrow> session option" where
  "session_at g k = map_option (\<lambda>a. sg_heap g ! a) (jm_get (sg_sessions g) k)"

definition graph_iso :: "graph_config \<Rightarrow> session_graph \<Rightarrow> timestamp \<times> session_graph" where
  "graph_iso cfg g = (gc_now cfg (sg_clock g), g \<lparr> sg_clock := sg_clock g + 1 \<rparr>)"

definition graph_id :: "graph_config \<Rightarrow> string \<Rightarrow> session_graph \<Rightarrow> string \<times> session_graph" where
  "graph_id cfg prefix g = (gc_idFactory cfg (sg_ids g) prefix, g \<lparr> sg_ids := sg_ids g + 1 \<rparr>)"

definition relationsFor :: "context_relation list \<Rightarrow> context_relation_type \<Rightarrow> string \<Rightarrow> context_relation list" where
  "relationsFor rels ty src = filter (\<lambda>r. rel_type r = ty \<and> rel_source_ref r = src) rels"

definition parents :: "context_relation list \<Rightarrow> string \<Rightarrow> string list" where
  "parents rels x = map rel_target_ref (relationsFor rels CONTINUES_FROM x)"

lemma parents_Nil: "x \<notin> rel_source_ref ` set rels \<Longrightarrow> parents rels x = []"
  by (auto simp: parents_def relationsFor_def filter_empty_conv)

text \<open>
  \<open>reachable\<close>: the recursion visits the start, then its parents in order, depth first, with one shared
  \<open>visited\<close> set; the stack holds what the pending \<open>some\<close> calls have still to visit.
\<close>

function reachable_from :: "context_relation list \<Rightarrow> string \<Rightarrow> string list \<Rightarrow> string list \<Rightarrow> bool" where
  "reachable_from rels target [] visited = False"
| "reachable_from rels target (x # stack) visited =
     (if x = target then True
      else if x \<in> set visited then reachable_from rels target stack visited
      else reachable_from rels target (parents rels x @ stack) (x # visited))"
  by pat_completeness auto

termination
proof (relation "measures [\<lambda>(rels, target, stack, visited). card (rel_source_ref ` set rels - set visited),
    \<lambda>(rels, target, stack, visited). length stack]", goal_cases)
  case (3 rels target x stack visited)
  show ?case
  proof (cases "x \<in> rel_source_ref ` set rels")
    case True
    with 3 have "card (rel_source_ref ` set rels - set (x # visited)) < card (rel_source_ref ` set rels - set visited)"
      by (intro psubset_card_mono) auto
    then show ?thesis by simp
  next
    case False
    then have "rel_source_ref ` set rels - set (x # visited) = rel_source_ref ` set rels - set visited" by auto
    with False show ?thesis by (simp add: parents_Nil)
  qed
qed simp_all

definition reachable :: "session_graph \<Rightarrow> string \<Rightarrow> string \<Rightarrow> bool" where
  "reachable g startRef targetRef = reachable_from (jm_values (sg_relations g)) targetRef [startRef] []"

section \<open>Relations\<close>

definition relation_check :: "graph_config \<Rightarrow> relation_input \<Rightarrow> session_graph \<Rightarrow> graph_error + unit" where
  "relation_check cfg input g =
     (let src = session_at g (ri_sourceRef input); tgt = session_at g (ri_targetRef input);
          rels = jm_values (sg_relations g) in
      if ri_sourceRef input = ri_targetRef input then Inl Graph_CYCLE_DETECTED
      else if ri_type input = RELATED_PROTOCOL_SESSION \<and> src = None \<and> tgt = None then Inl Graph_SESSION_NOT_FOUND
      else if ri_type input = CONTINUES_FROM \<and> (src = None \<or> tgt = None) then Inl Graph_SESSION_NOT_FOUND
      else bindR (case (src, tgt) of
          (Some s, Some t) \<Rightarrow>
            if ri_type input = CONTINUES_FROM \<and> 0 < length (relationsFor rels CONTINUES_FROM (ri_sourceRef input))
            then Inl Graph_PARENT_ALREADY_SET
            else if ri_type input = CONTINUES_FROM \<and> reachable g (ri_targetRef input) (ri_sourceRef input)
            then Inl Graph_CYCLE_DETECTED
            else if ri_sourceRevision input < ws_revision s \<or> ri_targetRevision input < ws_revision t
            then Inl Graph_STALE_REFERENCE
            else Inr ()
        | _ \<Rightarrow> Inr ())
      (\<lambda>_. if (case gc_authorizeReference cfg of None \<Rightarrow> False
             | Some auth \<Rightarrow> \<not> auth (ri_actorRef input) (ri_sourceRef input) (ri_targetRef input) (ri_type input))
           then Inl Graph_UNAUTHORIZED_REFERENCE else Inr ()))"

definition new_relation :: "graph_config \<Rightarrow> relation_input \<Rightarrow> string \<Rightarrow> timestamp \<Rightarrow> context_relation" where
  "new_relation cfg input rid ts = \<lparr> rel_relation_id = rid, rel_type = ri_type input, rel_workspace_id = gc_workspaceId cfg,
     rel_node_id = gc_nodeId cfg, rel_source_ref = ri_sourceRef input, rel_target_ref = ri_targetRef input,
     rel_source_revision = max 0 (ri_sourceRevision input), rel_target_revision = max 0 (ri_targetRevision input),
     rel_actor_ref = ri_actorRef input, rel_created_at = ts \<rparr>"

definition addRelation :: "graph_config \<Rightarrow> relation_input \<Rightarrow> session_graph
    \<Rightarrow> (graph_error, context_relation, session_graph) outcome" where
  "addRelation cfg input g =
     (case (if js_truthy (ri_relationId input) then jm_get (sg_relations g) (the (ri_relationId input)) else None) of
        Some existing \<Rightarrow> return existing g
      | None \<Rightarrow> liftO (relation_check cfg input g) g (\<lambda>_.
          let (rid, g1) = (case ri_relationId input of Some i \<Rightarrow> (i, g) | None \<Rightarrow> graph_id cfg ''relation'' g);
              (ts, g2) = graph_iso cfg g1;
              rel = new_relation cfg input rid ts
          in return rel (g2 \<lparr> sg_relations := jm_set rid rel (sg_relations g2) \<rparr>)))"

definition relation_for :: "context_relation_type \<Rightarrow> string \<Rightarrow> string \<Rightarrow> string \<Rightarrow> int \<Rightarrow> int \<Rightarrow> relation_input" where
  "relation_for ty src tgt actor srcRev tgtRev = \<lparr> ri_relationId = None, ri_type = ty, ri_sourceRef = src,
     ri_targetRef = tgt, ri_sourceRevision = srcRev, ri_targetRevision = tgtRev, ri_actorRef = actor \<rparr>"

section \<open>Sessions\<close>

fun addContextRelations :: "graph_config \<Rightarrow> string \<Rightarrow> string \<Rightarrow> int \<Rightarrow> string list \<Rightarrow> session_graph
    \<Rightarrow> (graph_error, unit, session_graph) outcome" where
  "addContextRelations cfg sid actor revno [] g = return () g"
| "addContextRelations cfg sid actor revno (c # cs) g =
     seqO (addRelation cfg (relation_for USES_CONTEXT sid c actor revno 0) g)
       (\<lambda>_ g'. addContextRelations cfg sid actor revno cs g')"

definition nonblank_or :: "string option \<Rightarrow> string \<Rightarrow> string" where
  "nonblank_or v d = (case v of None \<Rightarrow> d | Some s \<Rightarrow> if js_trim s = [] then d else js_trim s)"

definition new_session :: "graph_config \<Rightarrow> create_input \<Rightarrow> string \<Rightarrow> string \<Rightarrow> timestamp \<Rightarrow> session" where
  "new_session cfg input sid cid ts = \<lparr> ws_session_id = sid, ws_workspace_id = gc_workspaceId cfg, ws_node_id = gc_nodeId cfg,
     ws_revision = max 0 (case ci_initialRevision input of None \<Rightarrow> 0 | Some r \<Rightarrow> r), ws_state = SACTIVE,
     ws_root_intent_id = ci_rootIntentId input, ws_parent_session_id = ci_parentSessionId input,
     ws_structural_parent_ref = ci_structuralParentRef input,
     ws_semantic_anchor = (case ci_semanticAnchor input of Some a \<Rightarrow> a
       | None \<Rightarrow> ''session:'' @ (case ci_sessionId input of None \<Rightarrow> ''new'' | Some i \<Rightarrow> i)),
     ws_title = nonblank_or (ci_title input) ''New interaction'', ws_summary = nonblank_or (ci_summary input) [],
     ws_turn_refs = [], ws_object_refs = [], ws_context_root_ref = cid, ws_artifact_ref = None,
     ws_created_at = ts, ws_updated_at = ts \<rparr>"

definition new_context_root :: "graph_config \<Rightarrow> create_input \<Rightarrow> session \<Rightarrow> string \<Rightarrow> timestamp \<Rightarrow> context_node" where
  "new_context_root cfg input s cid ts = \<lparr> cn_context_node_id = cid, cn_session_id = ws_session_id s,
     cn_workspace_id = gc_workspaceId cfg, cn_node_id = gc_nodeId cfg, cn_revision = ws_revision s, cn_kind = KROOT,
     cn_parent_ref = None, cn_context_refs = (case ci_contextRefs input of None \<Rightarrow> [] | Some rs \<Rightarrow> rs),
     cn_source_ref = Some (ci_rootIntentId input), cn_target_revisions = [], cn_created_at = ts, cn_updated_at = ts \<rparr>"

text \<open>\<open>createSession\<close> from the point where both records are stored: the relations, then the parsed session.\<close>

definition relate_session :: "graph_config \<Rightarrow> create_input \<Rightarrow> session \<Rightarrow> session \<Rightarrow> session_graph
    \<Rightarrow> (graph_error, session, session_graph) outcome" where
  "relate_session cfg input s parsed g =
     seqO (addContextRelations cfg (ws_session_id s) (ci_actorRef input) (ws_revision s)
             (case ci_contextRefs input of None \<Rightarrow> [] | Some rs \<Rightarrow> rs) g) (\<lambda>_ g1.
     if js_truthy (ci_parentSessionId input) then
       seqO (addRelation cfg (relation_for CONTINUES_FROM (ws_session_id s) (the (ci_parentSessionId input))
               (ci_actorRef input) (ws_revision s)
               (case session_at g1 (the (ci_parentSessionId input)) of None \<Rightarrow> 0 | Some p \<Rightarrow> ws_revision p)) g1)
         (\<lambda>_ g2. return parsed g2)
     else return parsed g1)"

definition createSession :: "graph_config \<Rightarrow> create_input \<Rightarrow> session_graph
    \<Rightarrow> (graph_error, session, session_graph) outcome" where
  "createSession cfg input g =
     (case (if js_truthy (ci_sessionId input) then session_at g (the (ci_sessionId input)) else None) of
        Some existing \<Rightarrow> return existing g
      | None \<Rightarrow>
          let (ts, g1) = graph_iso cfg g;
              (sid, g2) = (case ci_sessionId input of Some i \<Rightarrow> (i, g1) | None \<Rightarrow> graph_id cfg ''session'' g1);
              (cid, g3) = graph_id cfg ''context'' g2;
              s = new_session cfg input sid cid ts in
          (case (parseSpatialWorkspaceSession (gc_zod cfg) s,
                 parseSpatialContextNode (gc_zod cfg) (new_context_root cfg input s cid ts)) of
             (Some parsed, Some rootNode) \<Rightarrow>
               relate_session cfg input s parsed (g3 \<lparr>
                 sg_heap := sg_heap g3 @ [parsed], sg_sessions := jm_set sid (length (sg_heap g3)) (sg_sessions g3),
                 sg_contextNodes := jm_set cid (ContextNode rootNode) (sg_contextNodes g3) \<rparr>)
           | _ \<Rightarrow> throw Graph_INVALID_GRAPH_RECORD g3))"

definition branchSession :: "graph_config \<Rightarrow> string \<Rightarrow> create_input \<Rightarrow> session_graph
    \<Rightarrow> (graph_error, session, session_graph) outcome" where
  "branchSession cfg parentSessionId input g =
     (if \<not> jm_has (sg_sessions g) parentSessionId then throw Graph_SESSION_NOT_FOUND g
      else createSession cfg (input \<lparr> ci_parentSessionId := Some parentSessionId,
             ci_structuralParentRef := Some (case ci_structuralParentRef input of None \<Rightarrow> parentSessionId | Some r \<Rightarrow> r) \<rparr>) g)"

definition getSession :: "session_graph \<Rightarrow> string \<Rightarrow> session option" where
  "getSession g sessionId = session_at g sessionId"

definition listSessions :: "session_graph \<Rightarrow> session list" where
  "listSessions g = map (\<lambda>a. sg_heap g ! a) (jm_values (sg_sessions g))"

text \<open>Writing a mutated session object back: in place, and once more under its own id.\<close>

definition put_session :: "nat \<Rightarrow> session \<Rightarrow> string \<Rightarrow> session_graph \<Rightarrow> session_graph" where
  "put_session a s k g = g \<lparr> sg_heap := (sg_heap g)[a := s], sg_sessions := jm_set k a (sg_sessions g) \<rparr>"

definition add_ref :: "string \<Rightarrow> string list \<Rightarrow> string list" where
  "add_ref r rs = (if r \<in> set rs then rs else rs @ [r])"

definition next_revision :: "int \<Rightarrow> int option \<Rightarrow> int" where
  "next_revision current given = max (current + 1) (case given of None \<Rightarrow> 0 | Some r \<Rightarrow> r)"

definition appendTurn :: "graph_config \<Rightarrow> string \<Rightarrow> string \<Rightarrow> string \<Rightarrow> int option \<Rightarrow> session_graph
    \<Rightarrow> (graph_error, session, session_graph) outcome" where
  "appendTurn cfg sessionId turnRef actorRef revision g =
     (case jm_get (sg_sessions g) sessionId of
        None \<Rightarrow> throw Graph_SESSION_NOT_FOUND g
      | Some a \<Rightarrow>
          let s = sg_heap g ! a; (ts, g1) = graph_iso cfg g;
              s' = s \<lparr> ws_turn_refs := add_ref turnRef (ws_turn_refs s),
                     ws_revision := next_revision (ws_revision s) revision, ws_updated_at := ts \<rparr>;
              g2 = put_session a s' (ws_session_id s) g1;
              entry = (case jm_get (sg_contextNodes g2) (ws_context_root_ref s') of
                  Some (ContextNode c) \<Rightarrow> ContextNode (c \<lparr> cn_revision := ws_revision s', cn_updated_at := ts \<rparr>)
                | _ \<Rightarrow> ContextFields (ws_revision s') ts);
              g3 = g2 \<lparr> sg_contextNodes := jm_set (ws_context_root_ref s') entry (sg_contextNodes g2) \<rparr>
          in seqO (addRelation cfg (relation_for PRODUCED sessionId turnRef actorRef (ws_revision s')
                     (case revision of None \<Rightarrow> 0 | Some r \<Rightarrow> r)) g3)
               (\<lambda>_ g4. return s' g4))"

definition appendObject :: "graph_config \<Rightarrow> string \<Rightarrow> string \<Rightarrow> string \<Rightarrow> int option \<Rightarrow> session_graph
    \<Rightarrow> (graph_error, session, session_graph) outcome" where
  "appendObject cfg sessionId objectRef actorRef revision g =
     (case jm_get (sg_sessions g) sessionId of
        None \<Rightarrow> throw Graph_SESSION_NOT_FOUND g
      | Some a \<Rightarrow>
          let s = sg_heap g ! a; (ts, g1) = graph_iso cfg g;
              s' = s \<lparr> ws_object_refs := add_ref objectRef (ws_object_refs s),
                     ws_revision := next_revision (ws_revision s) revision, ws_updated_at := ts \<rparr>
          in seqO (addRelation cfg (relation_for PRODUCED sessionId objectRef actorRef (ws_revision s')
                     (case revision of None \<Rightarrow> 0 | Some r \<Rightarrow> r)) (put_session a s' (ws_session_id s) g1))
               (\<lambda>_ g2. return s' g2))"

record session_patch =
  sp_state :: "session_state option"
  sp_title :: "string option"
  sp_summary :: "string option"
  sp_artifact_ref :: "string option option"

definition assign_patch :: "session_patch \<Rightarrow> session \<Rightarrow> session" where
  "assign_patch p s = s \<lparr>
     ws_state := (case sp_state p of None \<Rightarrow> ws_state s | Some x \<Rightarrow> x),
     ws_title := (case sp_title p of None \<Rightarrow> ws_title s | Some x \<Rightarrow> x),
     ws_summary := (case sp_summary p of None \<Rightarrow> ws_summary s | Some x \<Rightarrow> x),
     ws_artifact_ref := (case sp_artifact_ref p of None \<Rightarrow> ws_artifact_ref s | Some x \<Rightarrow> x) \<rparr>"

definition updateSession :: "graph_config \<Rightarrow> string \<Rightarrow> session_patch \<Rightarrow> int option \<Rightarrow> session_graph
    \<Rightarrow> (graph_error, session, session_graph) outcome" where
  "updateSession cfg sessionId patch expectedRevision g =
     (case jm_get (sg_sessions g) sessionId of
        None \<Rightarrow> throw Graph_SESSION_NOT_FOUND g
      | Some a \<Rightarrow>
          let s = sg_heap g ! a in
          if (case expectedRevision of None \<Rightarrow> False | Some r \<Rightarrow> r \<noteq> ws_revision s) then throw Graph_STALE_REFERENCE g
          else let (ts, g1) = graph_iso cfg g;
                   s' = (assign_patch patch s) \<lparr> ws_revision := ws_revision s + 1, ws_updated_at := ts \<rparr>
               in return s' (put_session a s' sessionId g1))"

section \<open>Snapshots\<close>

definition graph_snapshot_of :: "session_graph \<Rightarrow> graph_snapshot" where
  "graph_snapshot_of g = \<lparr> snap_sessions = listSessions g, snap_contextNodes = jm_values (sg_contextNodes g),
     snap_relations = jm_values (sg_relations g) \<rparr>"

definition assertScope :: "graph_config \<Rightarrow> string \<Rightarrow> string \<Rightarrow> graph_error + unit" where
  "assertScope cfg workspaceId nodeId =
     (if workspaceId \<noteq> gc_workspaceId cfg then Inl Graph_WRONG_WORKSPACE
      else if nodeId \<noteq> gc_nodeId cfg then Inl Graph_WRONG_NODE else Inr ())"

fun restoreSessions :: "graph_config \<Rightarrow> session list \<Rightarrow> session_graph \<Rightarrow> (graph_error, unit, session_graph) outcome" where
  "restoreSessions cfg [] g = return () g"
| "restoreSessions cfg (s # ss) g =
     (case parseSpatialWorkspaceSession (gc_zod cfg) s of
        None \<Rightarrow> throw Graph_INVALID_GRAPH_RECORD g
      | Some p \<Rightarrow> liftO (assertScope cfg (ws_workspace_id p) (ws_node_id p)) g (\<lambda>_.
          restoreSessions cfg ss (g \<lparr> sg_heap := sg_heap g @ [p],
            sg_sessions := jm_set (ws_session_id p) (length (sg_heap g)) (sg_sessions g) \<rparr>)))"

fun restoreContexts :: "graph_config \<Rightarrow> context_entry list \<Rightarrow> session_graph \<Rightarrow> (graph_error, unit, session_graph) outcome" where
  "restoreContexts cfg [] g = return () g"
| "restoreContexts cfg (c # cs) g =
     (case (case c of ContextNode n \<Rightarrow> parseSpatialContextNode (gc_zod cfg) n | ContextFields _ _ \<Rightarrow> None) of
        None \<Rightarrow> throw Graph_INVALID_GRAPH_RECORD g
      | Some p \<Rightarrow> liftO (assertScope cfg (cn_workspace_id p) (cn_node_id p)) g (\<lambda>_.
          restoreContexts cfg cs (g \<lparr> sg_contextNodes := jm_set (cn_context_node_id p) (ContextNode p) (sg_contextNodes g) \<rparr>)))"

definition restore_graph :: "graph_config \<Rightarrow> graph_snapshot \<Rightarrow> session_graph \<Rightarrow> (graph_error, unit, session_graph) outcome" where
  "restore_graph cfg snap g =
     seqO (restoreSessions cfg (snap_sessions snap)
             (g \<lparr> sg_sessions := [], sg_contextNodes := [], sg_relations := [] \<rparr>)) (\<lambda>_ g1.
     seqO (restoreContexts cfg (snap_contextNodes snap) g1) (\<lambda>_ g2.
     return () (g2 \<lparr> sg_relations := fold (\<lambda>r. jm_set (rel_relation_id r) r) (snap_relations snap) (sg_relations g2) \<rparr>)))"

definition empty_graph :: session_graph where
  "empty_graph = \<lparr> sg_heap = [], sg_sessions = [], sg_contextNodes = [], sg_relations = [], sg_clock = 0, sg_ids = 0 \<rparr>"

end
