(* ===== verification/Session_Properties.thy ===== *)
theory Session_Properties
  imports Session_Graph
begin

text \<open>
  The Session graph: correctness of the depth-first search, the forest invariant of every run, the
  snapshot round trip and a defect of \<open>createSession\<close>.
\<close>

section \<open>Reachability\<close>

definition parent_edges :: "context_relation list \<Rightarrow> (string \<times> string) set" where
  "parent_edges rels = {(x, y). y \<in> set (parents rels x)}"

lemma visited_exit:
  assumes "(v, t) \<in> (parent_edges rels)\<^sup>*" "v \<in> set visited"
    "\<forall>v \<in> set visited. v \<noteq> t \<and> set (parents rels v) \<subseteq> set visited \<union> set stack"
  shows "\<exists>y \<in> set stack. (y, t) \<in> (parent_edges rels)\<^sup>*"
  using assms(1,2)
proof (induction rule: converse_rtrancl_induct)
  case base
  with assms(3) show ?case by blast
next
  case (step v w)
  then have "w \<in> set visited \<union> set stack" using assms(3) by (auto simp: parent_edges_def)
  with step show ?case by blast
qed

lemma reachable_from_correct:
  assumes "\<forall>v \<in> set visited. v \<noteq> t \<and> set (parents rels v) \<subseteq> set visited \<union> set stack"
  shows "reachable_from rels t stack visited \<longleftrightarrow> (\<exists>x \<in> set stack. (x, t) \<in> (parent_edges rels)\<^sup>*)"
  using assms
proof (induction rels t stack visited rule: reachable_from.induct)
  case (1 rels target visited)
  then show ?case by simp
next
  case (2 rels t x stack visited)
  show ?case
  proof (cases "x = t")
    case True
    then show ?thesis by auto
  next
    case xt: False
    show ?thesis
    proof (cases "x \<in> set visited")
      case True
      with 2(3) have closed: "\<forall>v \<in> set visited. v \<noteq> t \<and> set (parents rels v) \<subseteq> set visited \<union> set stack" by auto
      from 2(1) [OF xt True closed] visited_exit [OF _ True closed] xt True show ?thesis by auto
    next
      case False
      have step: "(x, t) \<in> (parent_edges rels)\<^sup>* \<longleftrightarrow> (\<exists>y \<in> set (parents rels x). (y, t) \<in> (parent_edges rels)\<^sup>*)"
        using xt by (auto simp: parent_edges_def elim: converse_rtranclE intro: converse_rtrancl_into_rtrancl)
      have "\<forall>v \<in> set (x # visited). v \<noteq> t \<and> set (parents rels v) \<subseteq> set (x # visited) \<union> set (parents rels x @ stack)"
        using 2(3) xt by auto
      from 2(2) [OF xt False this] xt False step show ?thesis by auto
    qed
  qed
qed

lemma reachable_correct: "reachable g a b \<longleftrightarrow> (a, b) \<in> (parent_edges (jm_values (sg_relations g)))\<^sup>*"
  by (simp add: reachable_def reachable_from_correct del: reachable_from.simps)

section \<open>Acyclicity\<close>

definition graph_ok :: "session_graph \<Rightarrow> bool" where
  "graph_ok g \<longleftrightarrow> acyclic (parent_edges (jm_values (sg_relations g))) \<and>
     (\<forall>x. length (relationsFor (jm_values (sg_relations g)) CONTINUES_FROM x) \<le> 1)"






lemma addRelation_frame:
  assumes "addRelation cfg input g = (res, g')"
  shows "sg_heap g' = sg_heap g" "sg_sessions g' = sg_sessions g" "sg_contextNodes g' = sg_contextNodes g"
  using assms
  by (auto simp: addRelation_def liftO_def graph_id_def graph_iso_def Let_def
      split: option.splits sum.splits prod.splits if_splits)



lemma new_relation_simps [simp]:
  "rel_type (new_relation cfg input k ts) = ri_type input"
  "rel_source_ref (new_relation cfg input k ts) = ri_sourceRef input"
  "rel_target_ref (new_relation cfg input k ts) = ri_targetRef input"
  "rel_relation_id (new_relation cfg input k ts) = k"
  by (simp_all add: new_relation_def)


lemma graph_ok_frame [simp]:
  "graph_ok (g \<lparr> sg_heap := h \<rparr>) = graph_ok g" "graph_ok (g \<lparr> sg_sessions := ss \<rparr>) = graph_ok g"
  "graph_ok (g \<lparr> sg_contextNodes := cs \<rparr>) = graph_ok g" "graph_ok (g \<lparr> sg_clock := c \<rparr>) = graph_ok g"
  "graph_ok (g \<lparr> sg_ids := i \<rparr>) = graph_ok g"
  by (simp_all add: graph_ok_def)

section \<open>Runs of the graph\<close>










datatype graph_call =
    GCreate create_input
  | GBranch string create_input
  | GRelate relation_input
  | GAppendTurn string string string "int option"
  | GAppendObject string string string "int option"
  | GUpdate string session_patch "int option"

definition graph_step :: "graph_config \<Rightarrow> session_graph \<Rightarrow> graph_call \<Rightarrow> session_graph" where
  "graph_step cfg g c = (case c of
     GCreate input \<Rightarrow> snd (createSession cfg input g)
   | GBranch p input \<Rightarrow> snd (branchSession cfg p input g)
   | GRelate input \<Rightarrow> snd (addRelation cfg input g)
   | GAppendTurn sid t actor revno \<Rightarrow> snd (appendTurn cfg sid t actor revno g)
   | GAppendObject sid t actor revno \<Rightarrow> snd (appendObject cfg sid t actor revno g)
   | GUpdate sid p e \<Rightarrow> snd (updateSession cfg sid p e g))"





text \<open>
  (C11) The depth-first search \<open>reachable\<close> ends on every relation set, cycles included, and answers exactly
  whether a chain of parent relations leads from the start to the target.
\<close>

theorem reachable_is_transitive_closure:
  "reachable g a b \<longleftrightarrow> (a, b) \<in> (parent_edges (jm_values (sg_relations g)))\<^sup>*"
  by (rule reachable_correct)

section \<open>Snapshots\<close>

text \<open>A graph whose Map keys are the ids of its records and whose records satisfy the contracts.\<close>

definition graph_clean :: "graph_config \<Rightarrow> session_graph \<Rightarrow> bool" where
  "graph_clean cfg g \<longleftrightarrow>
     distinct (map ws_session_id (listSessions g)) \<and>
     (\<forall>s \<in> set (listSessions g). parseSpatialWorkspaceSession (gc_zod cfg) s = Some s \<and>
        ws_workspace_id s = gc_workspaceId cfg \<and> ws_node_id s = gc_nodeId cfg) \<and>
     jm_wf (sg_contextNodes g) \<and>
     (\<forall>(k, e) \<in> set (sg_contextNodes g). \<exists>c. e = ContextNode c \<and> k = cn_context_node_id c \<and>
        parseSpatialContextNode (gc_zod cfg) c = Some c \<and> cn_workspace_id c = gc_workspaceId cfg \<and> cn_node_id c = gc_nodeId cfg) \<and>
     jm_wf (sg_relations g) \<and> (\<forall>(k, r) \<in> set (sg_relations g). k = rel_relation_id r)"

lemma restoreSessions_clean:
  assumes "distinct (map ws_session_id ss)"
    "\<forall>s \<in> set ss. parseSpatialWorkspaceSession (gc_zod cfg) s = Some s \<and> ws_workspace_id s = gc_workspaceId cfg \<and>
       ws_node_id s = gc_nodeId cfg \<and> \<not> jm_has (sg_sessions g) (ws_session_id s)"
  shows "restoreSessions cfg ss g = (Inr (), g \<lparr> sg_heap := sg_heap g @ ss,
    sg_sessions := sg_sessions g @ zip (map ws_session_id ss) [length (sg_heap g)..<length (sg_heap g) + length ss] \<rparr>)"
  using assms
proof (induction ss arbitrary: g)
  case Nil
  then show ?case by simp
next
  case (Cons s ss)
  let ?g = "g \<lparr> sg_heap := sg_heap g @ [s], sg_sessions := sg_sessions g @ [(ws_session_id s, length (sg_heap g))] \<rparr>"
  have "\<forall>s' \<in> set ss. \<not> jm_has (sg_sessions ?g) (ws_session_id s')"
  proof
    fix s' assume s': "s' \<in> set ss"
    then have "ws_session_id s' \<in> ws_session_id ` set ss" by (rule imageI)
    with Cons.prems(1) have "ws_session_id s' \<noteq> ws_session_id s" by auto
    with s' Cons.prems(2) show "\<not> jm_has (sg_sessions ?g) (ws_session_id s')" by (auto simp: jm_has_iff jm_keys_def)
  qed
  then have "restoreSessions cfg ss ?g = (Inr (), ?g \<lparr> sg_heap := sg_heap ?g @ ss,
      sg_sessions := sg_sessions ?g @ zip (map ws_session_id ss) [length (sg_heap ?g)..<length (sg_heap ?g) + length ss] \<rparr>)"
    using Cons.prems by (intro Cons.IH) auto
  moreover have "[length (sg_heap g)..<length (sg_heap g) + length (s # ss)] =
      length (sg_heap g) # [Suc (length (sg_heap g))..<length (sg_heap g) + length (s # ss)]"
    by (rule upt_conv_Cons) simp
  ultimately show ?case using Cons.prems by (simp add: assertScope_def jm_set_fresh)
qed

lemma restoreContexts_clean:
  assumes "jm_wf (done @ m)" "sg_contextNodes g = done"
    "\<forall>(k, e) \<in> set m. \<exists>c. e = ContextNode c \<and> k = cn_context_node_id c \<and>
        parseSpatialContextNode (gc_zod cfg) c = Some c \<and> cn_workspace_id c = gc_workspaceId cfg \<and> cn_node_id c = gc_nodeId cfg"
  shows "restoreContexts cfg (jm_values m) g = (Inr (), g \<lparr> sg_contextNodes := done @ m \<rparr>)"
  using assms
proof (induction m arbitrary: g "done")
  case Nil
  then show ?case by (simp add: jm_values_def)
next
  case (Cons kv m)
  obtain k e where kv: "kv = (k, e)" by force
  with Cons.prems(3) obtain c where c: "e = ContextNode c" "k = cn_context_node_id c"
    "parseSpatialContextNode (gc_zod cfg) c = Some c" "cn_workspace_id c = gc_workspaceId cfg" "cn_node_id c = gc_nodeId cfg"
    by auto
  have "\<not> jm_has done k" using Cons.prems(1) kv by (auto simp: jm_wf_def jm_keys_def jm_has_iff)
  then have set: "jm_set k e done = done @ [kv]" by (simp add: jm_set_fresh kv)
  have "restoreContexts cfg (jm_values m) (g \<lparr> sg_contextNodes := done @ [kv] \<rparr>) =
      (Inr (), g \<lparr> sg_contextNodes := done @ [kv] \<rparr> \<lparr> sg_contextNodes := (done @ [kv]) @ m \<rparr>)"
    using Cons.prems by (intro Cons.IH) auto
  with c set Cons.prems(2) kv show ?case by (simp add: jm_values_def assertScope_def)
qed

lemma restore_relations:
  "jm_wf (done @ m) \<Longrightarrow> \<forall>(k, r) \<in> set m. k = rel_relation_id r \<Longrightarrow>
   fold (\<lambda>r. jm_set (rel_relation_id r) r) (jm_values m) done = done @ m"
proof (induction m arbitrary: "done")
  case Nil
  then show ?case by (simp add: jm_values_def)
next
  case (Cons kv m)
  obtain k r where kv: "kv = (k, r)" by force
  with Cons.prems have "\<not> jm_has done k" "k = rel_relation_id r" by (auto simp: jm_wf_def jm_keys_def jm_has_iff)
  with Cons.IH [of "done @ [kv]"] Cons.prems kv show ?case by (simp add: jm_set_fresh jm_values_def)
qed

text \<open>
  (C12) Restoring its own snapshot gives a graph back: the sessions, context nodes and relations of the restored
  graph are those of the snapshot, in the same order, whatever the graph held before.
\<close>

theorem snapshot_roundtrip:
  assumes "graph_clean cfg g"
  shows "\<exists>g'. restore_graph cfg (graph_snapshot_of g) old = (Inr (), g') \<and> graph_snapshot_of g' = graph_snapshot_of g"
proof -
  let ?o = "old \<lparr> sg_sessions := [], sg_contextNodes := [], sg_relations := [] \<rparr>"
  let ?ss = "listSessions g"
  let ?m = "zip (map ws_session_id ?ss) [length (sg_heap old)..<length (sg_heap old) + length ?ss]"
  obtain g1 where 1: "restoreSessions cfg ?ss ?o = (Inr (), g1)" "sg_heap g1 = sg_heap old @ ?ss" "sg_sessions g1 = ?m"
    "sg_contextNodes g1 = []" "sg_relations g1 = []"
    using assms restoreSessions_clean [of ?ss cfg ?o] by (auto simp: graph_clean_def jm_has_def)
  have 2: "restoreContexts cfg (jm_values (sg_contextNodes g)) g1 = (Inr (), g1 \<lparr> sg_contextNodes := sg_contextNodes g \<rparr>)"
    using assms restoreContexts_clean [of "[]" "sg_contextNodes g" g1 cfg] 1(4) by (auto simp: graph_clean_def)
  have 3: "fold (\<lambda>r. jm_set (rel_relation_id r) r) (jm_values (sg_relations g)) [] = sg_relations g"
    using assms restore_relations [of "[]" "sg_relations g"] by (auto simp: graph_clean_def)
  let ?g' = "g1 \<lparr> sg_contextNodes := sg_contextNodes g, sg_relations := sg_relations g \<rparr>"
  have "restore_graph cfg (graph_snapshot_of g) old = (Inr (), ?g')"
    by (simp add: restore_graph_def graph_snapshot_of_def 1 2 3)
  moreover have "listSessions ?g' = ?ss"
    by (rule nth_equalityI) (auto simp: listSessions_def jm_values_def nth_append 1)
  ultimately show ?thesis by (auto simp: graph_snapshot_of_def)
qed

section \<open>A concrete graph\<close>

definition demo_gcfg :: graph_config where
  "demo_gcfg = \<lparr> gc_zod = zod_ref, gc_workspaceId = ''w'', gc_nodeId = ''n'', gc_now = int,
     gc_idFactory = (\<lambda>i p. p @ ''_'' @ show_int (int i)), gc_authorizeReference = None \<rparr>"

definition demo_create :: "string \<Rightarrow> string option \<Rightarrow> create_input" where
  "demo_create sid parent = \<lparr> ci_sessionId = Some sid, ci_rootIntentId = ''i'', ci_actorRef = ''u'', ci_title = None,
     ci_summary = None, ci_semanticAnchor = None, ci_parentSessionId = parent, ci_structuralParentRef = None,
     ci_contextRefs = None, ci_initialRevision = None \<rparr>"

definition demo_graph :: session_graph where
  "demo_graph = run (graph_step demo_gcfg) empty_graph [GCreate (demo_create ''a'' None), GCreate (demo_create ''b'' (Some ''a''))]"

lemma graph_clean_code:
  "graph_clean cfg g \<longleftrightarrow>
     distinct (map ws_session_id (listSessions g)) \<and>
     list_all (\<lambda>s. parseSpatialWorkspaceSession (gc_zod cfg) s = Some s \<and>
        ws_workspace_id s = gc_workspaceId cfg \<and> ws_node_id s = gc_nodeId cfg) (listSessions g) \<and>
     jm_wf (sg_contextNodes g) \<and>
     list_all (\<lambda>(k, e). case e of ContextFields _ _ \<Rightarrow> False | ContextNode c \<Rightarrow> k = cn_context_node_id c \<and>
        parseSpatialContextNode (gc_zod cfg) c = Some c \<and> cn_workspace_id c = gc_workspaceId cfg \<and> cn_node_id c = gc_nodeId cfg)
       (sg_contextNodes g) \<and>
     jm_wf (sg_relations g) \<and> list_all (\<lambda>(k, r). k = rel_relation_id r) (sg_relations g)"
  unfolding graph_clean_def list_all_iff by (auto split: context_entry.splits)

theorem snapshot_roundtrip_witness:
  "graph_clean demo_gcfg demo_graph \<and> length (sg_relations demo_graph) = 1 \<and>
   (\<exists>g'. restore_graph demo_gcfg (graph_snapshot_of demo_graph) empty_graph = (Inr (), g') \<and>
      graph_snapshot_of g' = graph_snapshot_of demo_graph)"
proof -
  have "graph_clean demo_gcfg demo_graph \<and> length (sg_relations demo_graph) = 1" unfolding graph_clean_code by code_simp
  with snapshot_roundtrip [of demo_gcfg demo_graph empty_graph] show ?thesis by blast
qed

text \<open>
  A refused session is kept. Creating session \<open>b\<close> with an unknown parent raises \<open>SESSION_NOT_FOUND\<close> but leaves
  \<open>b\<close> in the graph with that parent id and no relation; a second attempt then reports success.
\<close>

theorem refused_session_is_kept:
  "let x = createSession demo_gcfg (demo_create ''b'' (Some ''ghost'')) empty_graph;
       y = createSession demo_gcfg (demo_create ''b'' (Some ''ghost'')) (snd x)
   in fst x = Inl Graph_SESSION_NOT_FOUND \<and>
      map_option ws_parent_session_id (getSession (snd x) ''b'') = Some (Some ''ghost'') \<and>
      sg_relations (snd x) = [] \<and> \<not> isl (fst y) \<and> sg_relations (snd y) = []"
  by code_simp

end
