(* ===== verification/Multi_Device.thy ===== *)
theory Multi_Device
  imports Contracts
begin

text \<open>
  \<open>SpatialMultiDeviceWorkspaceService\<close> of \<open>spatial/multidevice/service.ts\<close> and the M9 contracts it parses: the
  shared world and its mutation stream, the device viewports, the offline queues and the share views. The
  clock is a stream of the configuration. Coordinates are carried and never computed with; the model's numbers
  are integers, so every number is finite. \<open>localeCompare\<close> depends on the host's collation and is the parameter
  \<open>mdc_collate\<close>. \<open>createWorkspaceWorldFromSnapshot\<close> and \<open>createPresentationGeometry\<close> are not modelled.
\<close>

section \<open>Contracts\<close>

datatype device_profile = DESKTOP | TABLET | MOBILE
datatype quality_profile = QLOW | QMOBILE | QDESKTOP | QHIGH
datatype gesture_state = GIDLE | GPANNING | GPINCHING | GLONG_PRESS_PENDING | GSEED_READY | GCANCELLED
datatype mutation_operation = MOVE_ANCHOR | PIN | UNPIN | CREATE_BRANCH | EDIT_CLUSTER | UPSERT_RELATION | REMOVE_ENTITY
datatype conflict_category = CNONE | CSTALE_REVISION | CTOPOLOGY_CONFLICT | CAUTHORIZATION | CREMOVED_ENTITY | CINVALID_TARGET | CVIEWPORT_NOT_SHARED
datatype result_state = RAPPLIED | RREJECTED | RCONFLICT | RIDEMPOTENT
datatype connectivity = ONLINE | OFFLINE | RECONNECTING
datatype entry_state = EPENDING | EREBASED | ECONFLICT | EREJECTED | EDISCARDED
datatype share_state = SHPENDING | SHACCEPTED | SHDECLINED | SHLEFT | SHEXPIRED

record position =
  pos_x :: int
  pos_y :: int
  pos_z :: int

record world_object =
  wo_canonical_ref :: string
  wo_semantic_anchor :: position
  wo_region :: string
  wo_manual_override :: bool
  wo_pinned :: bool
  wo_revision :: int
  wo_available :: bool

record world_relation =
  wr_relation_ref :: string
  wr_source_ref :: string
  wr_target_ref :: string
  wr_revision :: int
  wr_active :: bool

record world_cluster =
  wc_cluster_ref :: string
  wc_member_refs :: "string list"
  wc_revision :: int
  wc_collapsed :: bool

record world =
  ww_workspace_id :: string
  ww_node_id :: string
  ww_workspace_revision :: int
  ww_world_revision :: int
  ww_primary_agent_ref :: "string option"
  ww_semantic_objects :: "world_object list"
  ww_relations :: "world_relation list"
  ww_clusters :: "world_cluster list"
  ww_session_refs :: "string list"
  ww_pins :: "string list"
  ww_updated_at :: timestamp

record camera =
  cam_x :: int
  cam_y :: int
  cam_zoom :: int
  cam_orientation :: position
  cam_focus_ref :: "string option"

record viewport =
  vp_workspace_id :: string
  vp_node_id :: string
  vp_device_id :: string
  vp_profile :: device_profile
  vp_camera :: camera
  vp_focus_region :: string
  vp_focus_anchor_ref :: "string option"
  vp_selection_refs :: "string list"
  vp_expanded_refs :: "string list"
  vp_opened_frame_refs :: "string list"
  vp_quality_profile :: quality_profile
  vp_gesture_state :: gesture_state
  vp_local_layout_revision :: int
  vp_updated_at :: timestamp

record mutation =
  mu_event_id :: string
  mu_operation_id :: string
  mu_idempotency_key :: string
  mu_workspace_id :: string
  mu_node_id :: string
  mu_device_id :: string
  mu_actor_ref :: string
  mu_base_revision :: int
  mu_operation :: mutation_operation
  mu_target_refs :: "string list"
  mu_conflict_category :: conflict_category
  mu_payload :: "(string \<times> json) list"
  mu_logical_clock :: int
  mu_created_at :: timestamp

record mutation_result =
  mr_event_id :: string
  mr_operation_id :: string
  mr_workspace_id :: string
  mr_node_id :: string
  mr_state :: result_state
  mr_conflict_category :: conflict_category
  mr_server_result_revision :: int
  mr_evidence_revision :: int
  mr_evidence_targets :: "string list"
  mr_evidence_winner :: "string option"
  mr_evidence_reason :: "string option"
  mr_world :: world
  mr_audit_ref :: string
  mr_resolved_at :: timestamp

record offline_entry =
  oe_mutation :: mutation
  oe_queued_at :: timestamp
  oe_attempts :: int
  oe_state :: entry_state
  oe_conflict_reason :: "string option"

record offline_queue =
  oq_workspace_id :: string
  oq_node_id :: string
  oq_device_id :: string
  oq_connectivity :: connectivity
  oq_last_consistent_revision :: int
  oq_pending :: "offline_entry list"
  oq_updated_at :: timestamp

record share_view =
  sh_share_id :: string
  sh_workspace_id :: string
  sh_node_id :: string
  sh_owner_device_id :: string
  sh_audience_device_ids :: "string list"
  sh_target_ref :: "string option"
  sh_state :: share_state
  sh_focus_authorized :: bool
  sh_expires_at :: timestamp
  sh_created_at :: timestamp
  sh_updated_at :: timestamp

definition worldObjectSchema :: "zod \<Rightarrow> world_object \<Rightarrow> world_object option" where
  "worldObjectSchema z w = do {
     cref \<leftarrow> idSchema z (wo_canonical_ref w);
     region \<leftarrow> stateSchema z (wo_region w);
     revision \<leftarrow> revisionSchema z (wo_revision w);
     Some (w \<lparr> wo_canonical_ref := cref, wo_region := region, wo_revision := revision \<rparr>) }"

definition worldRelationSchema :: "zod \<Rightarrow> world_relation \<Rightarrow> world_relation option" where
  "worldRelationSchema z w = do {
     rref \<leftarrow> idSchema z (wr_relation_ref w);
     src \<leftarrow> idSchema z (wr_source_ref w);
     tgt \<leftarrow> idSchema z (wr_target_ref w);
     revision \<leftarrow> revisionSchema z (wr_revision w);
     Some (w \<lparr> wr_relation_ref := rref, wr_source_ref := src, wr_target_ref := tgt, wr_revision := revision \<rparr>) }"

definition worldClusterSchema :: "zod \<Rightarrow> world_cluster \<Rightarrow> world_cluster option" where
  "worldClusterSchema z w = do {
     cref \<leftarrow> idSchema z (wc_cluster_ref w);
     members \<leftarrow> arrayMax z 10000 (idSchema z) (wc_member_refs w);
     revision \<leftarrow> revisionSchema z (wc_revision w);
     Some (w \<lparr> wc_cluster_ref := cref, wc_member_refs := members, wc_revision := revision \<rparr>) }"

definition parseSpatialWorkspaceWorld :: "zod \<Rightarrow> world \<Rightarrow> world option" where
  "parseSpatialWorkspaceWorld z w = do {
     workspace \<leftarrow> idSchema z (ww_workspace_id w);
     node \<leftarrow> idSchema z (ww_node_id w);
     workspace_revision \<leftarrow> revisionSchema z (ww_workspace_revision w);
     world_revision \<leftarrow> revisionSchema z (ww_world_revision w);
     agent \<leftarrow> nullable (idSchema z) (ww_primary_agent_ref w);
     objects \<leftarrow> arrayMax z 10000 (worldObjectSchema z) (ww_semantic_objects w);
     relations \<leftarrow> arrayMax z 20000 (worldRelationSchema z) (ww_relations w);
     clusters \<leftarrow> arrayMax z 10000 (worldClusterSchema z) (ww_clusters w);
     sessions \<leftarrow> arrayMax z 10000 (idSchema z) (ww_session_refs w);
     pins \<leftarrow> arrayMax z 10000 (idSchema z) (ww_pins w);
     Some \<lparr> ww_workspace_id = workspace, ww_node_id = node, ww_workspace_revision = workspace_revision,
       ww_world_revision = world_revision, ww_primary_agent_ref = agent, ww_semantic_objects = objects,
       ww_relations = relations, ww_clusters = clusters, ww_session_refs = sessions, ww_pins = pins,
       ww_updated_at = ww_updated_at w \<rparr> }"

definition parseSpatialDeviceViewport :: "zod \<Rightarrow> viewport \<Rightarrow> viewport option" where
  "parseSpatialDeviceViewport z v = do {
     workspace \<leftarrow> idSchema z (vp_workspace_id v);
     node \<leftarrow> idSchema z (vp_node_id v);
     device \<leftarrow> idSchema z (vp_device_id v);
     focus \<leftarrow> nullable (idSchema z) (cam_focus_ref (vp_camera v));
     cam \<leftarrow> (if z_number_positive z (cam_zoom (vp_camera v)) then Some ((vp_camera v) \<lparr> cam_focus_ref := focus \<rparr>) else None);
     region \<leftarrow> stateSchema z (vp_focus_region v);
     anchor \<leftarrow> nullable (idSchema z) (vp_focus_anchor_ref v);
     selection \<leftarrow> arrayMax z 256 (idSchema z) (vp_selection_refs v);
     expanded \<leftarrow> arrayMax z 256 (idSchema z) (vp_expanded_refs v);
     opened \<leftarrow> arrayMax z 256 (idSchema z) (vp_opened_frame_refs v);
     revision \<leftarrow> revisionSchema z (vp_local_layout_revision v);
     Some (v \<lparr> vp_workspace_id := workspace, vp_node_id := node, vp_device_id := device, vp_camera := cam,
       vp_focus_region := region, vp_focus_anchor_ref := anchor, vp_selection_refs := selection,
       vp_expanded_refs := expanded, vp_opened_frame_refs := opened, vp_local_layout_revision := revision \<rparr>) }"

definition parseSpatialWorkspaceMutation :: "zod \<Rightarrow> mutation \<Rightarrow> mutation option" where
  "parseSpatialWorkspaceMutation z m = do {
     event \<leftarrow> idSchema z (mu_event_id m);
     oid \<leftarrow> idSchema z (mu_operation_id m);
     key \<leftarrow> idSchema z (mu_idempotency_key m);
     workspace \<leftarrow> idSchema z (mu_workspace_id m);
     node \<leftarrow> idSchema z (mu_node_id m);
     device \<leftarrow> idSchema z (mu_device_id m);
     actor \<leftarrow> idSchema z (mu_actor_ref m);
     base \<leftarrow> revisionSchema z (mu_base_revision m);
     targets \<leftarrow> arrayMax z 256 (idSchema z) (mu_target_refs m);
     clock \<leftarrow> revisionSchema z (mu_logical_clock m);
     Some (m \<lparr> mu_event_id := event, mu_operation_id := oid, mu_idempotency_key := key, mu_workspace_id := workspace,
       mu_node_id := node, mu_device_id := device, mu_actor_ref := actor, mu_base_revision := base,
       mu_target_refs := targets, mu_logical_clock := clock \<rparr>) }"

definition parseSpatialWorkspaceMutationResult :: "zod \<Rightarrow> mutation_result \<Rightarrow> mutation_result option" where
  "parseSpatialWorkspaceMutationResult z r = do {
     event \<leftarrow> idSchema z (mr_event_id r);
     oid \<leftarrow> idSchema z (mr_operation_id r);
     workspace \<leftarrow> idSchema z (mr_workspace_id r);
     node \<leftarrow> idSchema z (mr_node_id r);
     revision \<leftarrow> revisionSchema z (mr_server_result_revision r);
     evidence \<leftarrow> revisionSchema z (mr_evidence_revision r);
     targets \<leftarrow> arrayMax z 256 (idSchema z) (mr_evidence_targets r);
     winner \<leftarrow> nullable (idSchema z) (mr_evidence_winner r);
     reason \<leftarrow> nullable (labelSchema z) (mr_evidence_reason r);
     w \<leftarrow> parseSpatialWorkspaceWorld z (mr_world r);
     audit \<leftarrow> idSchema z (mr_audit_ref r);
     Some (r \<lparr> mr_event_id := event, mr_operation_id := oid, mr_workspace_id := workspace, mr_node_id := node,
       mr_server_result_revision := revision, mr_evidence_revision := evidence, mr_evidence_targets := targets,
       mr_evidence_winner := winner, mr_evidence_reason := reason, mr_world := w, mr_audit_ref := audit \<rparr>) }"

definition parseSpatialShareView :: "zod \<Rightarrow> share_view \<Rightarrow> share_view option" where
  "parseSpatialShareView z s = do {
     sid \<leftarrow> idSchema z (sh_share_id s);
     workspace \<leftarrow> idSchema z (sh_workspace_id s);
     node \<leftarrow> idSchema z (sh_node_id s);
     owner \<leftarrow> idSchema z (sh_owner_device_id s);
     audience \<leftarrow> arrayMax z 256 (idSchema z) (sh_audience_device_ids s);
     target \<leftarrow> nullable (idSchema z) (sh_target_ref s);
     Some (s \<lparr> sh_share_id := sid, sh_workspace_id := workspace, sh_node_id := node, sh_owner_device_id := owner,
       sh_audience_device_ids := audience, sh_target_ref := target \<rparr>) }"

section \<open>The service\<close>

datatype multi_device_error =
  Md_VALIDATION | Md_UNAUTHORIZED | Md_STALE_REVISION | Md_INVALID_TARGET | Md_VIEWPORT_NOT_SHARED | Md_EXPIRED_SHARE

record mutation_record =
  hr_operation_id :: string
  hr_base_revision :: int
  hr_target_refs :: "string list"

record multi_device =
  md_world :: world
  md_viewports :: "(string, viewport) jsmap"
  md_operations :: "(string, mutation_result) jsmap"
  md_mutationHistory :: "mutation_record list"
  md_queues :: "(string, offline_queue) jsmap"
  md_shares :: "(string, share_view) jsmap"
  md_clock :: nat

record md_config =
  mdc_zod :: zod
  mdc_now :: "nat \<Rightarrow> timestamp"
  mdc_authorizeMutation :: "(mutation \<Rightarrow> bool) option"
  mdc_collate :: "string \<Rightarrow> string \<Rightarrow> bool"

definition md_nowIso :: "md_config \<Rightarrow> multi_device \<Rightarrow> timestamp \<times> multi_device" where
  "md_nowIso cfg d = (mdc_now cfg (md_clock d), d \<lparr> md_clock := md_clock d + 1 \<rparr>)"

definition sameTargets :: "string list \<Rightarrow> string list \<Rightarrow> bool" where
  "sameTargets left right = list_ex (\<lambda>r. r \<in> set right) left"

definition newService :: "md_config \<Rightarrow> world \<Rightarrow> multi_device_error + multi_device" where
  "newService cfg worldInput = (case parseSpatialWorkspaceWorld (mdc_zod cfg) worldInput of
     None \<Rightarrow> Inl Md_VALIDATION
   | Some w \<Rightarrow> Inr \<lparr> md_world = w, md_viewports = [], md_operations = [], md_mutationHistory = [],
       md_queues = [], md_shares = [], md_clock = 0 \<rparr>)"

subsection \<open>Viewports\<close>

definition defaultViewport :: "world \<Rightarrow> string \<Rightarrow> device_profile \<Rightarrow> timestamp \<Rightarrow> viewport" where
  "defaultViewport w deviceId profile now = \<lparr> vp_workspace_id = ww_workspace_id w, vp_node_id = ww_node_id w,
     vp_device_id = deviceId, vp_profile = profile,
     vp_camera = \<lparr> cam_x = 0, cam_y = 0, cam_zoom = 1, cam_orientation = \<lparr> pos_x = 0, pos_y = 0, pos_z = 0 \<rparr>,
       cam_focus_ref = None \<rparr>,
     vp_focus_region = ''HOME'', vp_focus_anchor_ref = ww_primary_agent_ref w, vp_selection_refs = [],
     vp_expanded_refs = [], vp_opened_frame_refs = [],
     vp_quality_profile = (case profile of MOBILE \<Rightarrow> QMOBILE | TABLET \<Rightarrow> QLOW | DESKTOP \<Rightarrow> QDESKTOP),
     vp_gesture_state = GIDLE, vp_local_layout_revision = 0, vp_updated_at = now \<rparr>"

definition registerDevice :: "md_config \<Rightarrow> string \<Rightarrow> device_profile \<Rightarrow> multi_device
    \<Rightarrow> (multi_device_error, viewport, multi_device) outcome" where
  "registerDevice cfg deviceId profile d =
     (if js_trim deviceId = [] then throw Md_VALIDATION d
      else case jm_get (md_viewports d) deviceId of
        Some existing \<Rightarrow> return existing d
      | None \<Rightarrow>
          let (ts, d1) = md_nowIso cfg d in
          (case parseSpatialDeviceViewport (mdc_zod cfg) (defaultViewport (md_world d) deviceId profile ts) of
             None \<Rightarrow> throw Md_VALIDATION d1
           | Some v \<Rightarrow> return v (d1 \<lparr> md_viewports := jm_set deviceId v (md_viewports d1) \<rparr>)))"

definition getViewport :: "md_config \<Rightarrow> string \<Rightarrow> multi_device \<Rightarrow> (multi_device_error, viewport, multi_device) outcome" where
  "getViewport cfg deviceId d = (case jm_get (md_viewports d) deviceId of
     Some v \<Rightarrow> return v d | None \<Rightarrow> registerDevice cfg deviceId DESKTOP d)"

record viewport_patch =
  pt_profile :: "device_profile option"
  pt_camera :: "camera option"
  pt_focus_region :: "string option"
  pt_focus_anchor_ref :: "string option option"
  pt_selection_refs :: "string list option"
  pt_expanded_refs :: "string list option"
  pt_opened_frame_refs :: "string list option"
  pt_quality_profile :: "quality_profile option"
  pt_gesture_state :: "gesture_state option"

definition opt_or :: "'a option \<Rightarrow> 'a \<Rightarrow> 'a" where
  "opt_or v d = (case v of None \<Rightarrow> d | Some x \<Rightarrow> x)"

definition patched_viewport :: "viewport \<Rightarrow> viewport_patch \<Rightarrow> timestamp \<Rightarrow> viewport" where
  "patched_viewport current patch ts = current \<lparr>
     vp_profile := opt_or (pt_profile patch) (vp_profile current),
     vp_camera := opt_or (pt_camera patch) (vp_camera current),
     vp_focus_region := opt_or (pt_focus_region patch) (vp_focus_region current),
     vp_focus_anchor_ref := opt_or (pt_focus_anchor_ref patch) (vp_focus_anchor_ref current),
     vp_selection_refs := opt_or (map_option js_uniq (pt_selection_refs patch)) (vp_selection_refs current),
     vp_expanded_refs := opt_or (map_option js_uniq (pt_expanded_refs patch)) (vp_expanded_refs current),
     vp_opened_frame_refs := opt_or (map_option js_uniq (pt_opened_frame_refs patch)) (vp_opened_frame_refs current),
     vp_quality_profile := opt_or (pt_quality_profile patch) (vp_quality_profile current),
     vp_gesture_state := opt_or (pt_gesture_state patch) (vp_gesture_state current),
     vp_local_layout_revision := vp_local_layout_revision current + 1, vp_updated_at := ts \<rparr>"

definition updateViewport :: "md_config \<Rightarrow> string \<Rightarrow> viewport_patch \<Rightarrow> multi_device
    \<Rightarrow> (multi_device_error, viewport, multi_device) outcome" where
  "updateViewport cfg deviceId patch d = seqO (getViewport cfg deviceId d) (\<lambda>current d1.
     let (ts, d2) = md_nowIso cfg d1 in
     case parseSpatialDeviceViewport (mdc_zod cfg) (patched_viewport current patch ts) of
       None \<Rightarrow> throw Md_VALIDATION d2
     | Some v \<Rightarrow> return v (d2 \<lparr> md_viewports := jm_set deviceId v (md_viewports d2) \<rparr>))"

subsection \<open>Mutations\<close>

fun update_first :: "('a \<Rightarrow> bool) \<Rightarrow> ('a \<Rightarrow> 'a) \<Rightarrow> 'a list \<Rightarrow> 'a list option" where
  "update_first p f [] = None"
| "update_first p f (x # xs) = (if p x then Some (f x # xs) else map_option ((#) x) (update_first p f xs))"

definition payload_string :: "(string \<times> json) list \<Rightarrow> string \<Rightarrow> string option" where
  "payload_string p k = (case map_of p k of Some (JStr s) \<Rightarrow> Some s | _ \<Rightarrow> None)"

fun digits_value :: "int \<Rightarrow> string \<Rightarrow> int option" where
  "digits_value acc [] = Some acc"
| "digits_value acc (c # cs) = (let n = of_char c :: int in
     if 48 \<le> n \<and> n \<le> 57 then digits_value (acc * 10 + (n - 48)) cs else None)"

definition string_number :: "string \<Rightarrow> int option" where
  "string_number s = (case js_trim s of [] \<Rightarrow> Some 0
     | c # cs \<Rightarrow> if c = CHR ''-'' then (if cs = [] then None else map_option uminus (digits_value 0 cs))
                else if c = CHR ''+'' then (if cs = [] then None else digits_value 0 cs)
                else digits_value 0 (c # cs))"

text \<open>
  \<open>Number(value)\<close> on a JSON value: \<open>None\<close> is NaN. A string is read as a signed decimal integer; the
  other numerals (fractions, exponents, prefixes) have no integer value in this model.
\<close>

fun js_Number :: "json \<Rightarrow> int option" where
  "js_Number JNull = Some 0"
| "js_Number (JBool b) = Some (if b then 1 else 0)"
| "js_Number (JNum n) = Some n"
| "js_Number (JStr s) = string_number s"
| "js_Number (JArr xs) = (case xs of [] \<Rightarrow> Some 0
     | [x] \<Rightarrow> (case x of JNull \<Rightarrow> Some 0 | JNum n \<Rightarrow> Some n | JStr s \<Rightarrow> string_number s | JArr ys \<Rightarrow> js_Number (JArr ys) | _ \<Rightarrow> None)
     | _ \<Rightarrow> None)"
| "js_Number (JObj kvs) = None"

text \<open>\<open>Number(anchor.x ?? 0)\<close>; a coordinate that is NaN fails the world contract, which is \<open>None\<close> here.\<close>

definition coordinate :: "(string \<times> json) list \<Rightarrow> string \<Rightarrow> int option" where
  "coordinate kvs k = (case map_of kvs k of None \<Rightarrow> Some 0 | Some JNull \<Rightarrow> Some 0 | Some v \<Rightarrow> js_Number v)"

datatype operation_effect = Unchanged | Changed world | Malformed_world

definition applyOperation :: "world \<Rightarrow> mutation \<Rightarrow> operation_effect" where
  "applyOperation w m =
     (let targets = js_uniq (mu_target_refs m);
          first = (case targets of [] \<Rightarrow> None | t # _ \<Rightarrow> Some t);
          on_object = (\<lambda>p f g. case update_first (\<lambda>x. Some (wo_canonical_ref x) = first \<and> p x) f (ww_semantic_objects w) of
              None \<Rightarrow> Unchanged | Some xs \<Rightarrow> Changed (g (w \<lparr> ww_semantic_objects := xs \<rparr>))) in
      case mu_operation m of
        CREATE_BRANCH \<Rightarrow>
          (case (case payload_string (mu_payload m) ''canonical_ref'' of Some r \<Rightarrow> Some r | None \<Rightarrow> first) of
             None \<Rightarrow> Unchanged
           | Some r \<Rightarrow>
               if r = [] \<or> list_ex (\<lambda>x. wo_canonical_ref x = r) (ww_semantic_objects w) then Unchanged
               else let anchor = (case map_of (mu_payload m) ''semantic_anchor'' of
                          Some (JObj kvs) \<Rightarrow> do { x \<leftarrow> coordinate kvs ''x''; y \<leftarrow> coordinate kvs ''y''; c \<leftarrow> coordinate kvs ''z'';
                            Some \<lparr> pos_x = x, pos_y = y, pos_z = c \<rparr> }
                        | _ \<Rightarrow> Some \<lparr> pos_x = 0, pos_y = 0, pos_z = 0 \<rparr>)
                    in case anchor of None \<Rightarrow> Malformed_world
                       | Some a \<Rightarrow> Changed (w \<lparr> ww_semantic_objects := ww_semantic_objects w @
                           [\<lparr> wo_canonical_ref = r, wo_semantic_anchor = a, wo_region = ''BRANCH'', wo_manual_override = True,
                              wo_pinned = False, wo_revision = ww_workspace_revision w + 1, wo_available = True \<rparr>] \<rparr>))
      | MOVE_ANCHOR \<Rightarrow>
          (case map_of (mu_payload m) ''semantic_anchor'' of
             Some (JObj kvs) \<Rightarrow>
               (case (map_of kvs ''x'', map_of kvs ''y'', map_of kvs ''z'') of
                  (Some (JNum x), Some (JNum y), Some (JNum c)) \<Rightarrow>
                    on_object wo_available (\<lambda>t. t \<lparr> wo_semantic_anchor := \<lparr> pos_x = x, pos_y = y, pos_z = c \<rparr>,
                      wo_manual_override := True, wo_revision := wo_revision t + 1 \<rparr>) id
                | _ \<Rightarrow> Unchanged)
           | _ \<Rightarrow> Unchanged)
      | PIN \<Rightarrow> on_object wo_available (\<lambda>t. t \<lparr> wo_pinned := True, wo_revision := wo_revision t + 1 \<rparr>)
                (\<lambda>w'. w' \<lparr> ww_pins := js_uniq (ww_pins w' @ [the first]) \<rparr>)
      | UNPIN \<Rightarrow> on_object wo_available (\<lambda>t. t \<lparr> wo_pinned := False, wo_revision := wo_revision t + 1 \<rparr>)
                (\<lambda>w'. w' \<lparr> ww_pins := filter (\<lambda>r. r \<noteq> the first) (ww_pins w') \<rparr>)
      | EDIT_CLUSTER \<Rightarrow>
          (case update_first (\<lambda>c. Some (wc_cluster_ref c) = first) (\<lambda>c. c \<lparr>
               wc_member_refs := (case map_of (mu_payload m) ''member_refs'' of
                   Some (JArr xs) \<Rightarrow> js_uniq (List.map_filter (\<lambda>x. case x of JStr s \<Rightarrow> Some s | _ \<Rightarrow> None) xs)
                 | _ \<Rightarrow> wc_member_refs c),
               wc_collapsed := (case map_of (mu_payload m) ''collapsed'' of Some (JBool b) \<Rightarrow> b | _ \<Rightarrow> wc_collapsed c),
               wc_revision := wc_revision c + 1 \<rparr>) (ww_clusters w) of
             None \<Rightarrow> Unchanged | Some cs \<Rightarrow> Changed (w \<lparr> ww_clusters := cs \<rparr>))
      | UPSERT_RELATION \<Rightarrow>
          (case map_of (mu_payload m) ''relation'' of
             Some (JObj kvs) \<Rightarrow>
               (case (payload_string kvs ''relation_ref'', payload_string kvs ''source_ref'', payload_string kvs ''target_ref'') of
                  (Some r, Some s, Some t) \<Rightarrow>
                    let rel = \<lparr> wr_relation_ref = r, wr_source_ref = s, wr_target_ref = t,
                          wr_revision = ww_workspace_revision w + 1, wr_active = (map_of kvs ''active'' \<noteq> Some (JBool False)) \<rparr>
                    in Changed (w \<lparr> ww_relations := (case update_first (\<lambda>x. wr_relation_ref x = r) (\<lambda>_. rel) (ww_relations w) of
                         None \<Rightarrow> ww_relations w @ [rel] | Some rs \<Rightarrow> rs) \<rparr>)
                | _ \<Rightarrow> Unchanged)
           | _ \<Rightarrow> Unchanged)
      | REMOVE_ENTITY \<Rightarrow> on_object (\<lambda>_. True) (\<lambda>t. t \<lparr> wo_available := False, wo_pinned := False, wo_revision := wo_revision t + 1 \<rparr>)
                (\<lambda>w'. w' \<lparr> ww_pins := filter (\<lambda>r. r \<noteq> the first) (ww_pins w') \<rparr>))"

definition resultFor :: "md_config \<Rightarrow> mutation \<Rightarrow> result_state \<Rightarrow> conflict_category \<Rightarrow> string option \<Rightarrow> string option
    \<Rightarrow> multi_device \<Rightarrow> (multi_device_error, mutation_result, multi_device) outcome" where
  "resultFor cfg m st category reason winner d =
     (let (ts, d1) = md_nowIso cfg d; w = md_world d in
      case parseSpatialWorkspaceMutationResult (mdc_zod cfg) \<lparr> mr_event_id = mu_event_id m, mr_operation_id = mu_operation_id m,
          mr_workspace_id = ww_workspace_id w, mr_node_id = ww_node_id w, mr_state = st, mr_conflict_category = category,
          mr_server_result_revision = ww_workspace_revision w, mr_evidence_revision = ww_workspace_revision w,
          mr_evidence_targets = js_uniq (mu_target_refs m), mr_evidence_winner = winner, mr_evidence_reason = reason,
          mr_world = w, mr_audit_ref = ''audit:'' @ mu_operation_id m, mr_resolved_at = ts \<rparr> of
        None \<Rightarrow> throw Md_VALIDATION d1
      | Some r \<Rightarrow> return r d1)"

text \<open>\<open>applyMutation\<close> once the mutation passed its checks: the operation on a clone of the world, then the commit.\<close>

definition commitMutation :: "md_config \<Rightarrow> mutation \<Rightarrow> multi_device
    \<Rightarrow> (multi_device_error, mutation_result, multi_device) outcome" where
  "commitMutation cfg m d =
     (case applyOperation (md_world d) m of
        Unchanged \<Rightarrow> resultFor cfg m RREJECTED CINVALID_TARGET (Some ''Mutation target is unavailable or malformed.'') None d
      | Malformed_world \<Rightarrow> throw Md_VALIDATION (snd (md_nowIso cfg d))
      | Changed next \<Rightarrow>
          let (ts, d1) = md_nowIso cfg d; revision = ww_workspace_revision (md_world d) + 1 in
          case parseSpatialWorkspaceWorld (mdc_zod cfg)
                 (next \<lparr> ww_workspace_revision := revision, ww_world_revision := revision, ww_updated_at := ts \<rparr>) of
            None \<Rightarrow> throw Md_VALIDATION d1
          | Some w \<Rightarrow>
              seqO (resultFor cfg m RAPPLIED CNONE None None (d1 \<lparr> md_world := w \<rparr>)) (\<lambda>result d2.
                return result (d2 \<lparr> md_operations := jm_set (mu_idempotency_key m) result (md_operations d2),
                  md_mutationHistory := md_mutationHistory d2 @ [\<lparr> hr_operation_id = mu_operation_id m,
                    hr_base_revision = mu_base_revision m, hr_target_refs = js_uniq (mu_target_refs m) \<rparr>] \<rparr>)))"

definition related_mutations :: "mutation \<Rightarrow> multi_device \<Rightarrow> mutation_record list" where
  "related_mutations m d = filter (\<lambda>r. mu_base_revision m \<le> hr_base_revision r \<and>
     sameTargets (hr_target_refs r) (js_uniq (mu_target_refs m))) (md_mutationHistory d)"

definition applyMutation :: "md_config \<Rightarrow> mutation \<Rightarrow> multi_device
    \<Rightarrow> (multi_device_error, mutation_result, multi_device) outcome" where
  "applyMutation cfg input d =
     (case parseSpatialWorkspaceMutation (mdc_zod cfg) input of
        None \<Rightarrow> throw Md_VALIDATION d
      | Some m \<Rightarrow>
          if mu_workspace_id m \<noteq> ww_workspace_id (md_world d) \<or> mu_node_id m \<noteq> ww_node_id (md_world d)
          then throw Md_INVALID_TARGET d
          else case jm_get (md_operations d) (mu_idempotency_key m) of
            Some prior \<Rightarrow>
              (case parseSpatialWorkspaceMutationResult (mdc_zod cfg) (prior \<lparr> mr_state := RIDEMPOTENT \<rparr>) of
                 None \<Rightarrow> throw Md_VALIDATION d | Some r \<Rightarrow> return r d)
          | None \<Rightarrow>
              if (case mdc_authorizeMutation cfg of None \<Rightarrow> False | Some auth \<Rightarrow> \<not> auth m)
              then resultFor cfg m RREJECTED CAUTHORIZATION (Some ''Actor is not authorized; device identity does not grant authority.'') None d
              else if ww_workspace_revision (md_world d) < mu_base_revision m
              then resultFor cfg m RREJECTED CSTALE_REVISION (Some ''Mutation base revision is ahead of the current Workspace revision.'') None d
              else if mu_base_revision m < ww_workspace_revision (md_world d) \<and> related_mutations m d \<noteq> []
              then resultFor cfg m RCONFLICT CTOPOLOGY_CONFLICT (Some ''A concurrent mutation touched the same semantic target.'')
                     (Some (hr_operation_id (last (related_mutations m d)))) d
              else if js_uniq (mu_target_refs m) = [] \<and> mu_operation m \<noteq> CREATE_BRANCH
              then resultFor cfg m RREJECTED CINVALID_TARGET (Some ''Semantic mutations require at least one target reference.'') None d
              else commitMutation cfg m d)"

subsection \<open>Offline queues\<close>

definition getOfflineQueue :: "md_config \<Rightarrow> string \<Rightarrow> multi_device \<Rightarrow> offline_queue \<times> multi_device" where
  "getOfflineQueue cfg deviceId d = (case jm_get (md_queues d) deviceId of
     Some q \<Rightarrow> (q, d)
   | None \<Rightarrow>
       let (ts, d1) = md_nowIso cfg d;
           q = \<lparr> oq_workspace_id = ww_workspace_id (md_world d), oq_node_id = ww_node_id (md_world d), oq_device_id = deviceId,
             oq_connectivity = ONLINE, oq_last_consistent_revision = ww_workspace_revision (md_world d),
             oq_pending = [], oq_updated_at = ts \<rparr>
       in (q, d1 \<lparr> md_queues := jm_set deviceId q (md_queues d1) \<rparr>))"

definition setConnectivity :: "md_config \<Rightarrow> string \<Rightarrow> connectivity \<Rightarrow> multi_device \<Rightarrow> offline_queue \<times> multi_device" where
  "setConnectivity cfg deviceId c d =
     (let (q, d1) = getOfflineQueue cfg deviceId d; (ts, d2) = md_nowIso cfg d1;
          q' = q \<lparr> oq_connectivity := c, oq_updated_at := ts \<rparr>
      in (q', d2 \<lparr> md_queues := jm_set deviceId q' (md_queues d2) \<rparr>))"

definition queueOfflineMutation :: "md_config \<Rightarrow> mutation \<Rightarrow> multi_device
    \<Rightarrow> (multi_device_error, offline_queue, multi_device) outcome" where
  "queueOfflineMutation cfg input d =
     (case parseSpatialWorkspaceMutation (mdc_zod cfg) input of
        None \<Rightarrow> throw Md_VALIDATION d
      | Some m \<Rightarrow>
          let (q, d1) = getOfflineQueue cfg (mu_device_id m) d in
          if list_ex (\<lambda>e. mu_idempotency_key (oe_mutation e) = mu_idempotency_key m) (oq_pending q) then return q d1
          else let (t1, d2) = md_nowIso cfg d1; (t2, d3) = md_nowIso cfg d2;
                   e = \<lparr> oe_mutation = m, oe_queued_at = t1, oe_attempts = 0, oe_state = EPENDING, oe_conflict_reason = None \<rparr>;
                   q' = q \<lparr> oq_pending := oq_pending q @ [e], oq_connectivity := OFFLINE, oq_updated_at := t2 \<rparr>
               in return q' (d3 \<lparr> md_queues := jm_set (mu_device_id m) q' (md_queues d3) \<rparr>))"

fun insert_by :: "('a \<Rightarrow> 'a \<Rightarrow> bool) \<Rightarrow> 'a \<Rightarrow> 'a list \<Rightarrow> 'a list" where
  "insert_by le x [] = [x]"
| "insert_by le x (y # ys) = (if le x y then x # y # ys else y # insert_by le x ys)"

definition sort_by :: "('a \<Rightarrow> 'a \<Rightarrow> bool) \<Rightarrow> 'a list \<Rightarrow> 'a list" where
  "sort_by le xs = foldr (insert_by le) xs []"

text \<open>
  The order of \<open>replayOffline\<close>: by \<open>queued_at\<close> (ISO strings of one width, so their order is that of the
  instants), then by \<open>operation_id\<close> in the host's collation.
\<close>

definition replay_order :: "md_config \<Rightarrow> nat \<times> offline_entry \<Rightarrow> nat \<times> offline_entry \<Rightarrow> bool" where
  "replay_order cfg x y = (let a = snd x; b = snd y in oe_queued_at a < oe_queued_at b \<or>
     (oe_queued_at a = oe_queued_at b \<and>
      mdc_collate cfg (mu_operation_id (oe_mutation a)) (mu_operation_id (oe_mutation b))))"

definition replayed_entry :: "offline_entry \<Rightarrow> mutation_result \<Rightarrow> offline_entry" where
  "replayed_entry e r = (let e' = e \<lparr> oe_attempts := oe_attempts e + 1 \<rparr> in
     case mr_state r of
       RAPPLIED \<Rightarrow> e' \<lparr> oe_state := EREBASED \<rparr>
     | RIDEMPOTENT \<Rightarrow> e' \<lparr> oe_state := EREBASED \<rparr>
     | RCONFLICT \<Rightarrow> e' \<lparr> oe_state := ECONFLICT, oe_conflict_reason := mr_evidence_reason r \<rparr>
     | RREJECTED \<Rightarrow> e' \<lparr> oe_state := EREJECTED, oe_conflict_reason := mr_evidence_reason r \<rparr>)"

text \<open>The loop of \<open>replayOffline\<close> over the sorted entries, each with its place in \<open>queue.pending\<close>; when \<open>applyMutation\<close> throws, the changed copy of the queue is lost.\<close>

fun replay_loop :: "md_config \<Rightarrow> (nat \<times> offline_entry) list \<Rightarrow> offline_queue \<Rightarrow> mutation_result list \<Rightarrow> multi_device
    \<Rightarrow> (multi_device_error, mutation_result list \<times> offline_queue, multi_device) outcome" where
  "replay_loop cfg [] q rs d = return (rs, q) d"
| "replay_loop cfg ((i, e) # es) q rs d =
     (if oe_state e = EDISCARDED \<or> oe_state e = EREJECTED then replay_loop cfg es q rs d
      else seqO (applyMutation cfg (oe_mutation e) d) (\<lambda>r d1.
        replay_loop cfg es (q \<lparr> oq_pending := (oq_pending q)[i := replayed_entry e r],
            oq_last_consistent_revision := (if mr_state r = RAPPLIED \<or> mr_state r = RIDEMPOTENT
              then mr_server_result_revision r else oq_last_consistent_revision q) \<rparr>) (rs @ [r]) d1))"

definition replayOffline :: "md_config \<Rightarrow> string \<Rightarrow> multi_device
    \<Rightarrow> (multi_device_error, mutation_result list, multi_device) outcome" where
  "replayOffline cfg deviceId d =
     (let (q, d1) = getOfflineQueue cfg deviceId d in
      seqO (replay_loop cfg (sort_by (replay_order cfg) (List.enumerate 0 (oq_pending q))) q [] d1) (\<lambda>(rs, q') d2.
      let (ts, d3) = md_nowIso cfg d2 in
      return rs (d3 \<lparr> md_queues := jm_set deviceId (q' \<lparr> oq_connectivity := ONLINE, oq_updated_at := ts \<rparr>) (md_queues d3) \<rparr>)))"

definition discardOfflineMutation :: "md_config \<Rightarrow> string \<Rightarrow> string \<Rightarrow> multi_device \<Rightarrow> offline_queue \<times> multi_device" where
  "discardOfflineMutation cfg deviceId key d =
     (let (q, d1) = getOfflineQueue cfg deviceId d; (ts, d2) = md_nowIso cfg d1;
          marked = map (\<lambda>e. if mu_idempotency_key (oe_mutation e) = key then e \<lparr> oe_state := EDISCARDED \<rparr> else e) (oq_pending q);
          q' = q \<lparr> oq_pending := filter (\<lambda>e. oe_state e \<noteq> EDISCARDED) marked, oq_updated_at := ts \<rparr>
      in (q', d2 \<lparr> md_queues := jm_set deviceId q' (md_queues d2) \<rparr>))"

subsection \<open>Share views\<close>

record share_options =
  so_audienceDeviceIds :: "string list"
  so_targetRef :: "string option"
  so_ttlMs :: "int option"
  so_focusAuthorized :: "bool option"

definition createShareView :: "md_config \<Rightarrow> string \<Rightarrow> share_options \<Rightarrow> multi_device
    \<Rightarrow> (multi_device_error, share_view, multi_device) outcome" where
  "createShareView cfg owner opts d = seqO (getViewport cfg owner d) (\<lambda>_ d1.
     let (created, d2) = md_nowIso cfg d1; (t, d3) = md_nowIso cfg d2;
         sid = ''share:'' @ owner @ '':'' @ show_int (int (length (md_shares d3)) + 1) in
     case parseSpatialShareView (mdc_zod cfg) \<lparr> sh_share_id = sid, sh_workspace_id = ww_workspace_id (md_world d3),
         sh_node_id = ww_node_id (md_world d3), sh_owner_device_id = owner,
         sh_audience_device_ids = js_uniq (so_audienceDeviceIds opts), sh_target_ref = so_targetRef opts,
         sh_state = SHPENDING, sh_focus_authorized = opt_or (so_focusAuthorized opts) False,
         sh_expires_at = t + max 1 (opt_or (so_ttlMs opts) 60000), sh_created_at = created, sh_updated_at = created \<rparr> of
       None \<Rightarrow> throw Md_VALIDATION d3
     | Some s \<Rightarrow> return s (d3 \<lparr> md_shares := jm_set sid s (md_shares d3) \<rparr>))"

definition getShareView :: "multi_device \<Rightarrow> string \<Rightarrow> share_view option" where
  "getShareView d shareId = jm_get (md_shares d) shareId"

definition put_share :: "string \<Rightarrow> share_view \<Rightarrow> share_state \<Rightarrow> timestamp \<Rightarrow> multi_device \<Rightarrow> multi_device" where
  "put_share k s st ts d = d \<lparr> md_shares := jm_set k (s \<lparr> sh_state := st, sh_updated_at := ts \<rparr>) (md_shares d) \<rparr>"

text \<open>\<open>assertShareLive\<close> marks an expired share before it throws.\<close>

definition assertShareLive :: "md_config \<Rightarrow> string \<Rightarrow> share_view \<Rightarrow> multi_device
    \<Rightarrow> (multi_device_error, unit, multi_device) outcome" where
  "assertShareLive cfg k s d =
     (let (now, d1) = md_nowIso cfg d in
      if sh_expires_at s \<le> now then let (ts, d2) = md_nowIso cfg d1 in throw Md_EXPIRED_SHARE (put_share k s SHEXPIRED ts d2)
      else return () d1)"

definition moveShare :: "md_config \<Rightarrow> string \<Rightarrow> share_view \<Rightarrow> share_state \<Rightarrow> multi_device
    \<Rightarrow> (multi_device_error, share_view, multi_device) outcome" where
  "moveShare cfg k s st d = (let (ts, d1) = md_nowIso cfg d in
     return (s \<lparr> sh_state := st, sh_updated_at := ts \<rparr>) (put_share k s st ts d1))"

definition acceptShareView :: "md_config \<Rightarrow> string \<Rightarrow> string \<Rightarrow> multi_device
    \<Rightarrow> (multi_device_error, share_view, multi_device) outcome" where
  "acceptShareView cfg shareId deviceId d = (case jm_get (md_shares d) shareId of
     None \<Rightarrow> throw Md_INVALID_TARGET d
   | Some s \<Rightarrow> seqO (assertShareLive cfg shareId s d) (\<lambda>_ d1.
       if deviceId \<notin> set (sh_audience_device_ids s) then throw Md_UNAUTHORIZED d1
       else moveShare cfg shareId s SHACCEPTED d1))"

definition declineShareView :: "md_config \<Rightarrow> string \<Rightarrow> string \<Rightarrow> multi_device
    \<Rightarrow> (multi_device_error, share_view, multi_device) outcome" where
  "declineShareView cfg shareId deviceId d = (case jm_get (md_shares d) shareId of
     None \<Rightarrow> throw Md_INVALID_TARGET d
   | Some s \<Rightarrow> if deviceId \<notin> set (sh_audience_device_ids s) then throw Md_UNAUTHORIZED d
              else moveShare cfg shareId s SHDECLINED d)"

definition leaveShareView :: "md_config \<Rightarrow> string \<Rightarrow> string \<Rightarrow> multi_device
    \<Rightarrow> (multi_device_error, share_view, multi_device) outcome" where
  "leaveShareView cfg shareId deviceId d = (case jm_get (md_shares d) shareId of
     None \<Rightarrow> throw Md_INVALID_TARGET d
   | Some s \<Rightarrow> if deviceId \<noteq> sh_owner_device_id s \<and> deviceId \<notin> set (sh_audience_device_ids s) then throw Md_UNAUTHORIZED d
              else moveShare cfg shareId s SHLEFT d)"

fun expire_entries :: "timestamp \<Rightarrow> (nat \<Rightarrow> timestamp) \<Rightarrow> nat \<Rightarrow> (string, share_view) jsmap
    \<Rightarrow> (string, share_view) jsmap \<times> share_view list \<times> nat" where
  "expire_entries now clk i [] = ([], [], i)"
| "expire_entries now clk i ((k, s) # rest) =
     (if (sh_state s = SHPENDING \<or> sh_state s = SHACCEPTED) \<and> sh_expires_at s \<le> now then
        let s' = s \<lparr> sh_state := SHEXPIRED, sh_updated_at := clk i \<rparr>;
            (m, expired, j) = expire_entries now clk (i + 1) rest
        in ((k, s') # m, s' # expired, j)
      else let (m, expired, j) = expire_entries now clk i rest in ((k, s) # m, expired, j))"

definition expireShareViews :: "md_config \<Rightarrow> multi_device \<Rightarrow> share_view list \<times> multi_device" where
  "expireShareViews cfg d =
     (let (now, d1) = md_nowIso cfg d; (m, expired, i) = expire_entries now (mdc_now cfg) (md_clock d1) (md_shares d1)
      in (expired, d1 \<lparr> md_shares := m, md_clock := i \<rparr>))"

definition focus_patch :: "camera \<Rightarrow> string \<Rightarrow> viewport_patch" where
  "focus_patch c targetRef = \<lparr> pt_profile = None, pt_camera = Some (c \<lparr> cam_focus_ref := Some targetRef \<rparr>),
     pt_focus_region = None, pt_focus_anchor_ref = Some (Some targetRef), pt_selection_refs = Some [targetRef],
     pt_expanded_refs = None, pt_opened_frame_refs = None, pt_quality_profile = None, pt_gesture_state = None \<rparr>"

definition applySharedFocus :: "md_config \<Rightarrow> string \<Rightarrow> string \<Rightarrow> string \<Rightarrow> multi_device
    \<Rightarrow> (multi_device_error, viewport, multi_device) outcome" where
  "applySharedFocus cfg shareId deviceId targetRef d = (case jm_get (md_shares d) shareId of
     None \<Rightarrow> throw Md_INVALID_TARGET d
   | Some s \<Rightarrow> seqO (assertShareLive cfg shareId s d) (\<lambda>_ d1.
       if sh_state s \<noteq> SHACCEPTED \<or> \<not> sh_focus_authorized s \<or> deviceId \<notin> set (sh_audience_device_ids s)
       then throw Md_VIEWPORT_NOT_SHARED d1
       else if js_truthy (sh_target_ref s) \<and> sh_target_ref s \<noteq> Some targetRef then throw Md_INVALID_TARGET d1
       else if \<not> list_ex (\<lambda>x. wo_canonical_ref x = targetRef \<and> wo_available x) (ww_semantic_objects (md_world d1))
       then throw Md_INVALID_TARGET d1
       else seqO (getViewport cfg deviceId d1) (\<lambda>v d2. updateViewport cfg deviceId (focus_patch (vp_camera v) targetRef) d2)))"

end
