(* ===== verification/Multi_Device_Properties.thy ===== *)
theory Multi_Device_Properties
  imports Multi_Device
begin

text \<open>
  What the multi-device service guarantees: the case analyses of a mutation (\<open>commitMutation_cases\<close>,
  \<open>applyMutation_cases\<close>), what every command keeps (\<open>md_step_keeps\<close>, read through \<open>service_machine\<close>), at-most-once
  application of mutations, what an answer means, shared focus, and two defects of conflict detection and recording.
\<close>

section \<open>Frames\<close>

text \<open>Two states that differ in how far the clock was read.\<close>

definition same_state :: "multi_device \<Rightarrow> multi_device \<Rightarrow> bool" where
  "same_state d d' \<longleftrightarrow> (\<exists>n. d' = d \<lparr> md_clock := n \<rparr>)"

lemma same_state_refl [simp]: "same_state d d"
  by (auto simp: same_state_def intro!: exI [of _ "md_clock d"])

lemma same_state_clock [simp]: "same_state d (d \<lparr> md_clock := n \<rparr>)"
  by (auto simp: same_state_def)

lemma same_state_keeps:
  assumes "same_state d d'"
  shows "md_world d' = md_world d" "md_operations d' = md_operations d" "md_shares d' = md_shares d"
    "md_viewports d' = md_viewports d" "md_queues d' = md_queues d" "md_mutationHistory d' = md_mutationHistory d"
  using assms by (auto simp: same_state_def)

lemma resultFor_frame: "same_state d (snd (resultFor cfg m st cat reason winner d))"
  by (simp add: resultFor_def md_nowIso_def Let_def split: option.splits)

lemma resultFor_state: "resultFor cfg m st cat reason winner d = (Inr r, d') \<Longrightarrow> mr_state r = st"
  by (auto simp: resultFor_def md_nowIso_def Let_def parseSpatialWorkspaceMutationResult_def
      split: option.splits Option.bind_splits)

lemma parse_world_ids:
  "parseSpatialWorkspaceWorld z w = Some w' \<Longrightarrow> ww_workspace_id w' = js_trim (ww_workspace_id w) \<and> ww_node_id w' = js_trim (ww_node_id w)"
  by (auto simp: parseSpatialWorkspaceWorld_def dest: idSchema_trim split: Option.bind_splits)

lemma applyOperation_ids:
  "applyOperation w m = Changed w' \<Longrightarrow> ww_workspace_id w' = ww_workspace_id w \<and> ww_node_id w' = ww_node_id w"
  by (auto simp: applyOperation_def Let_def split: mutation_operation.splits option.splits if_splits json.splits list.splits)

text \<open>The world after a committed mutation: one revision further, with the same normalised identity.\<close>

definition next_world :: "world \<Rightarrow> world \<Rightarrow> bool" where
  "next_world w w' \<longleftrightarrow> ww_workspace_revision w' = ww_workspace_revision w + 1 \<and>
     ww_workspace_id w' = js_trim (ww_workspace_id w) \<and> ww_node_id w' = js_trim (ww_node_id w)"

text \<open>What a mutation does to the state: nothing, a world that was not recorded, or a recorded commit.\<close>

lemma commitMutation_cases:
  obtains (frame) "same_state d (snd (commitMutation cfg m d))"
      "\<And>r. fst (commitMutation cfg m d) = Inr r \<Longrightarrow> mr_state r = RREJECTED"
  | (unrecorded) w n where "next_world (md_world d) w"
      "fst (commitMutation cfg m d) = Inl Md_VALIDATION"
      "snd (commitMutation cfg m d) = d \<lparr> md_world := w, md_clock := n \<rparr>"
  | (commit) w n r where "next_world (md_world d) w"
      "fst (commitMutation cfg m d) = Inr r" "mr_state r = RAPPLIED"
      "snd (commitMutation cfg m d) = d \<lparr> md_world := w, md_clock := n,
         md_operations := jm_set (mu_idempotency_key m) r (md_operations d),
         md_mutationHistory := md_mutationHistory d @ [\<lparr> hr_operation_id = mu_operation_id m,
           hr_base_revision = mu_base_revision m, hr_target_refs = js_uniq (mu_target_refs m) \<rparr>] \<rparr>"
proof (cases "applyOperation (md_world d) m")
  case Unchanged
  show ?thesis
  proof (rule frame)
    show "same_state d (snd (commitMutation cfg m d))"
      using resultFor_frame by (simp add: commitMutation_def Unchanged)
    show "mr_state r = RREJECTED" if "fst (commitMutation cfg m d) = Inr r" for r
      using that resultFor_state [of cfg m RREJECTED CINVALID_TARGET _ None d r]
      by (metis (no_types, lifting) Unchanged commitMutation_def operation_effect.simps(8) prod.collapse)
  qed
next
  case Malformed_world
  then show ?thesis by (intro frame) (simp_all add: commitMutation_def md_nowIso_def)
next
  case (Changed nw)
  let ?v = "ww_workspace_revision (md_world d) + 1"
  let ?next = "nw \<lparr> ww_workspace_revision := ?v, ww_world_revision := ?v, ww_updated_at := mdc_now cfg (md_clock d) \<rparr>"
  show ?thesis
  proof (cases "parseSpatialWorkspaceWorld (mdc_zod cfg) ?next")
    case None
    with Changed show ?thesis by (intro frame) (simp_all add: commitMutation_def md_nowIso_def Let_def)
  next
    case (Some w)
    have "ww_workspace_revision w = ?v" using Some
      by (auto simp: parseSpatialWorkspaceWorld_def revisionSchema_def split: Option.bind_splits if_splits)
    with parse_world_ids [OF Some] applyOperation_ids [OF Changed] have w: "next_world (md_world d) w"
      by (simp add: next_world_def)
    let ?d = "d \<lparr> md_clock := md_clock d + 1, md_world := w \<rparr>"
    obtain x d2 where x: "resultFor cfg m RAPPLIED CNONE None None ?d = (x, d2)" by force
    with resultFor_frame [of ?d cfg m RAPPLIED CNONE None None] obtain n where n: "d2 = ?d \<lparr> md_clock := n \<rparr>"
      by (auto simp: same_state_def)
    have run: "commitMutation cfg m d = seqO (x, d2) (\<lambda>result d2.
        return result (d2 \<lparr> md_operations := jm_set (mu_idempotency_key m) result (md_operations d2),
          md_mutationHistory := md_mutationHistory d2 @ [\<lparr> hr_operation_id = mu_operation_id m,
            hr_base_revision = mu_base_revision m, hr_target_refs = js_uniq (mu_target_refs m) \<rparr>] \<rparr>))"
      using Changed Some x by (simp add: commitMutation_def md_nowIso_def Let_def)
    show ?thesis
    proof (cases x)
      case (Inl e)
      with x have "e = Md_VALIDATION" by (auto simp: resultFor_def md_nowIso_def Let_def split: option.splits)
      with Inl run n w show ?thesis by (intro unrecorded [of w n]) simp_all
    next
      case (Inr r)
      with x have "mr_state r = RAPPLIED" by (auto dest: resultFor_state)
      with Inr run n w show ?thesis by (intro commit [of w r n]) simp_all
    qed
  qed
qed


section \<open>What every operation keeps\<close>

text \<open>
  The identity of the workspace once it is normalised, its revision up to increments, and every recorded
  mutation result.
\<close>

definition normal_ids :: "world \<Rightarrow> bool" where
  "normal_ids w \<longleftrightarrow> js_trim (ww_workspace_id w) = ww_workspace_id w \<and> js_trim (ww_node_id w) = ww_node_id w"

definition keeps :: "multi_device \<Rightarrow> multi_device \<Rightarrow> bool" where
  "keeps d d' \<longleftrightarrow> (\<forall>k r. jm_get (md_operations d) k = Some r \<longrightarrow> jm_get (md_operations d') k = Some r) \<and>
     (normal_ids (md_world d) \<longrightarrow> ww_workspace_id (md_world d') = ww_workspace_id (md_world d) \<and>
        ww_node_id (md_world d') = ww_node_id (md_world d)) \<and>
     ww_workspace_revision (md_world d) \<le> ww_workspace_revision (md_world d')"

lemma keeps_refl [simp]: "keeps d d"
  by (simp add: keeps_def)

lemma keeps_trans: "keeps d d' \<Longrightarrow> keeps d' d'' \<Longrightarrow> keeps d d''"
  by (auto simp: keeps_def normal_ids_def)

lemma keeps_frame: "md_world d' = md_world d \<Longrightarrow> md_operations d' = md_operations d \<Longrightarrow> keeps d d'"
  by (simp add: keeps_def)

lemma same_state_keeps_all: "same_state d d' \<Longrightarrow> keeps d d'"
  by (rule keeps_frame) (simp_all add: same_state_keeps)

lemma keeps_world:
  "next_world (md_world d) w \<Longrightarrow> md_world d' = w \<Longrightarrow> md_operations d' = md_operations d \<Longrightarrow> keeps d d'"
  by (auto simp: keeps_def next_world_def normal_ids_def)

lemma commitMutation_keeps:
  assumes "jm_get (md_operations d) (mu_idempotency_key m) = None"
  shows "keeps d (snd (commitMutation cfg m d))"
proof (cases rule: commitMutation_cases [of d cfg m])
  case frame
  then show ?thesis by (simp add: same_state_keeps_all)
next
  case (unrecorded w n)
  then show ?thesis by (intro keeps_world [of d w]) simp_all
next
  case (commit w n r)
  with assms show ?thesis by (auto simp: keeps_def next_world_def normal_ids_def jm_get_set)
qed

text \<open>A mutation leaves the state alone (the clock apart), or it passed every check and was committed.\<close>

lemma applyMutation_cases:
  obtains (frame) "same_state d (snd (applyMutation cfg input d))"
      "\<And>r. fst (applyMutation cfg input d) = Inr r \<Longrightarrow> mr_state r \<noteq> RAPPLIED"
  | (admitted) m where "parseSpatialWorkspaceMutation (mdc_zod cfg) input = Some m"
      "mu_workspace_id m = ww_workspace_id (md_world d)" "mu_node_id m = ww_node_id (md_world d)"
      "jm_get (md_operations d) (mu_idempotency_key m) = None"
      "\<And>auth. mdc_authorizeMutation cfg = Some auth \<Longrightarrow> auth m"
      "mu_base_revision m \<le> ww_workspace_revision (md_world d)"
      "mu_base_revision m < ww_workspace_revision (md_world d) \<Longrightarrow> related_mutations m d = []"
      "applyMutation cfg input d = commitMutation cfg m d"
proof -
  note F = frame and A = admitted
  have rf: "mr_state r = st" if "fst (resultFor cfg m st c reason winner d) = Inr r" for m st c reason winner r
    using that by (metis prod.collapse resultFor_state)
  show thesis
  proof (cases "parseSpatialWorkspaceMutation (mdc_zod cfg) input")
    case None
    then show thesis by (intro F) (simp_all add: applyMutation_def)
  next
    case (Some m)
    show thesis
    proof (cases "jm_get (md_operations d) (mu_idempotency_key m)")
      case prior: (Some p)
      have "mr_state r = RIDEMPOTENT"
        if "parseSpatialWorkspaceMutationResult (mdc_zod cfg) (p \<lparr> mr_state := RIDEMPOTENT \<rparr>) = Some r" for r
        using that by (auto simp: parseSpatialWorkspaceMutationResult_def split: Option.bind_splits)
      then show thesis
        by (intro F) (auto simp: applyMutation_def Some prior split: option.splits if_splits)
    next
      case None
      define refused where "refused x \<longleftrightarrow> same_state d (snd x) \<and> (\<forall>r. fst x = Inr r \<longrightarrow> mr_state r \<noteq> RAPPLIED)"
        for x :: "(multi_device_error, mutation_result, multi_device) outcome"
      have [simp]: "refused (throw e d)" for e by (simp add: refused_def)
      have [simp]: "refused (resultFor cfg m st c reason winner d)" if "st \<noteq> RAPPLIED" for st c reason winner
        using that resultFor_frame rf by (auto simp: refused_def)
      have "refused (applyMutation cfg input d) \<or> applyMutation cfg input d = commitMutation cfg m d \<and>
        mu_workspace_id m = ww_workspace_id (md_world d) \<and> mu_node_id m = ww_node_id (md_world d) \<and>
        (\<forall>auth. mdc_authorizeMutation cfg = Some auth \<longrightarrow> auth m) \<and>
        mu_base_revision m \<le> ww_workspace_revision (md_world d) \<and>
        (mu_base_revision m < ww_workspace_revision (md_world d) \<longrightarrow> related_mutations m d = [])"
        by (cases "mdc_authorizeMutation cfg") (simp_all add: applyMutation_def Some None)
      with F A [of m] Some None show thesis by (auto simp: refused_def)
    qed
  qed
qed

lemma applyMutation_keeps: "keeps d (snd (applyMutation cfg input d))"
proof (cases rule: applyMutation_cases [of d cfg input])
  case frame
  then show ?thesis by (simp add: same_state_keeps_all)
next
  case (admitted m)
  then show ?thesis by (simp add: commitMutation_keeps)
qed

lemma replay_loop_keeps: "keeps d (snd (replay_loop cfg es q rs d))"
proof (induction es arbitrary: q rs d)
  case (Cons ie es)
  obtain i e where ie: "ie = (i, e)" by force
  obtain x d1 where x: "applyMutation cfg (oe_mutation e) d = (x, d1)" by force
  with applyMutation_keeps [of d cfg "oe_mutation e"] have "keeps d d1" by simp
  then have "keeps d (snd (replay_loop cfg es q' rs' d1))" for q' rs' using Cons.IH by (rule keeps_trans)
  with x Cons.IH \<open>keeps d d1\<close> show ?case by (cases x) (simp_all add: ie)
qed simp

text \<open>The operations that touch neither the world nor the recorded results.\<close>

definition untouched :: "multi_device \<Rightarrow> multi_device \<Rightarrow> bool" where
  "untouched d d' \<longleftrightarrow> md_world d' = md_world d \<and> md_operations d' = md_operations d \<and>
     md_mutationHistory d' = md_mutationHistory d"

lemma untouched_keeps: "untouched d d' \<Longrightarrow> keeps d d'"
  by (simp add: untouched_def keeps_frame)

lemma untouched_simps [simp]:
  "untouched d d" "untouched d (d' \<lparr> md_clock := n \<rparr>) \<longleftrightarrow> untouched d d'"
  "untouched d (d' \<lparr> md_viewports := vs \<rparr>) \<longleftrightarrow> untouched d d'"
  "untouched d (d' \<lparr> md_queues := qs \<rparr>) \<longleftrightarrow> untouched d d'"
  "untouched d (d' \<lparr> md_shares := ss \<rparr>) \<longleftrightarrow> untouched d d'"
  by (simp_all add: untouched_def)

lemma untouched_seqO:
  assumes "untouched d (snd r)" and "\<And>a d1. untouched d d1 \<Longrightarrow> untouched d (snd (k a d1))"
  shows "untouched d (snd (seqO r k))"
  using assms by (cases r; cases "fst r") auto

lemma md_nowIso_untouched [simp]: "untouched d (snd (md_nowIso cfg d')) \<longleftrightarrow> untouched d d'"
  by (simp add: md_nowIso_def)

lemma getViewport_untouched: "untouched d d' \<Longrightarrow> untouched d (snd (getViewport cfg dev d'))"
  by (simp add: getViewport_def registerDevice_def md_nowIso_def split: option.splits)

lemma registerDevice_untouched: "untouched d (snd (registerDevice cfg dev p d))"
  by (simp add: registerDevice_def md_nowIso_def split: option.splits)

lemma updateViewport_untouched: "untouched d d' \<Longrightarrow> untouched d (snd (updateViewport cfg dev patch d'))"
  unfolding updateViewport_def
  by (rule untouched_seqO) (auto simp: getViewport_untouched md_nowIso_def split: option.splits)

lemma getOfflineQueue_untouched [simp]: "untouched d (snd (getOfflineQueue cfg dev d)) "
  by (simp add: getOfflineQueue_def md_nowIso_def Let_def split: option.splits)

lemma queue_operations_untouched:
  "untouched d (snd (setConnectivity cfg dev c d))"
  "untouched d (snd (queueOfflineMutation cfg m d))"
  "untouched d (snd (discardOfflineMutation cfg dev k d))"
  by (simp_all add: setConnectivity_def queueOfflineMutation_def discardOfflineMutation_def md_nowIso_def case_prod_beta
      Let_def split: option.splits)

lemma moveShare_untouched: "untouched d d' \<Longrightarrow> untouched d (snd (moveShare cfg k s st d'))"
  by (simp add: moveShare_def md_nowIso_def put_share_def)

lemma assertShareLive_untouched: "untouched d d' \<Longrightarrow> untouched d (snd (assertShareLive cfg k s d'))"
  by (simp add: assertShareLive_def md_nowIso_def put_share_def)

lemma createShareView_untouched: "untouched d (snd (createShareView cfg owner opts d))"
  unfolding createShareView_def
  by (rule untouched_seqO) (auto simp: getViewport_untouched md_nowIso_def Let_def split: option.splits)

lemma share_operations_untouched:
  "untouched d (snd (acceptShareView cfg sid dev d))"
  "untouched d (snd (declineShareView cfg sid dev d))"
  "untouched d (snd (leaveShareView cfg sid dev d))"
  "untouched d (snd (expireShareViews cfg d))"
  by (auto simp: acceptShareView_def declineShareView_def leaveShareView_def expireShareViews_def moveShare_untouched
      md_nowIso_def case_prod_beta assertShareLive_untouched intro!: untouched_seqO split: option.splits)

lemma applySharedFocus_untouched: "untouched d (snd (applySharedFocus cfg sid dev tgt d))"
  by (auto simp: applySharedFocus_def assertShareLive_untouched getViewport_untouched updateViewport_untouched
      intro!: untouched_seqO split: option.splits)

section \<open>Runs of the service\<close>

datatype md_command =
    Mutate mutation | QueueOffline mutation | Replay string | Discard string string | Connect string connectivity
  | Register string device_profile | ReadViewport string | UpdateViewport string viewport_patch
  | CreateShare string share_options | AcceptShare string string | DeclineShare string string
  | LeaveShare string string | ExpireShares | SharedFocus string string string

fun md_step :: "md_config \<Rightarrow> multi_device \<Rightarrow> md_command \<Rightarrow> multi_device" where
  "md_step cfg d (Mutate m) = snd (applyMutation cfg m d)"
| "md_step cfg d (QueueOffline m) = snd (queueOfflineMutation cfg m d)"
| "md_step cfg d (Replay dev) = snd (replayOffline cfg dev d)"
| "md_step cfg d (Discard dev k) = snd (discardOfflineMutation cfg dev k d)"
| "md_step cfg d (Connect dev c) = snd (setConnectivity cfg dev c d)"
| "md_step cfg d (Register dev p) = snd (registerDevice cfg dev p d)"
| "md_step cfg d (ReadViewport dev) = snd (getViewport cfg dev d)"
| "md_step cfg d (UpdateViewport dev p) = snd (updateViewport cfg dev p d)"
| "md_step cfg d (CreateShare dev opts) = snd (createShareView cfg dev opts d)"
| "md_step cfg d (AcceptShare sid dev) = snd (acceptShareView cfg sid dev d)"
| "md_step cfg d (DeclineShare sid dev) = snd (declineShareView cfg sid dev d)"
| "md_step cfg d (LeaveShare sid dev) = snd (leaveShareView cfg sid dev d)"
| "md_step cfg d ExpireShares = snd (expireShareViews cfg d)"
| "md_step cfg d (SharedFocus sid dev tgt) = snd (applySharedFocus cfg sid dev tgt d)"

lemma replayOffline_keeps: "keeps d (snd (replayOffline cfg dev d))"
proof -
  obtain q d1 where q: "getOfflineQueue cfg dev d = (q, d1)" by force
  then have d1: "keeps d d1" using getOfflineQueue_untouched [of d cfg dev] by (simp add: untouched_keeps)
  obtain x d2 where x: "replay_loop cfg (sort_by (replay_order cfg) (List.enumerate 0 (oq_pending q))) q [] d1 = (x, d2)"
    by force
  with replay_loop_keeps [of d1 cfg "sort_by (replay_order cfg) (List.enumerate 0 (oq_pending q))" q "[]"]
  have "keeps d d2" using d1 by (auto intro: keeps_trans)
  then show ?thesis
    by (cases x) (auto simp: replayOffline_def q x md_nowIso_def case_prod_beta keeps_def)
qed

lemma md_step_keeps: "keeps d (md_step cfg d c)"
  by (cases c) (simp_all add: applyMutation_keeps replayOffline_keeps untouched_keeps queue_operations_untouched
      registerDevice_untouched getViewport_untouched updateViewport_untouched createShareView_untouched
      share_operations_untouched applySharedFocus_untouched)

text \<open>The workspace this service serves, with a result recorded under a key.\<close>

definition serves :: "string \<Rightarrow> string \<Rightarrow> string \<Rightarrow> mutation_result \<Rightarrow> multi_device \<Rightarrow> bool" where
  "serves ws node k r d \<longleftrightarrow> normal_ids (md_world d) \<and> ww_workspace_id (md_world d) = ws \<and>
     ww_node_id (md_world d) = node \<and> jm_get (md_operations d) k = Some r"

interpretation service_machine: monotone_machine "md_step cfg" "serves ws node k r"
    "\<lambda>d. ww_workspace_revision (md_world d)" for cfg ws node k r
  using md_step_keeps by unfold_locales (fastforce simp: keeps_def serves_def normal_ids_def)+

section \<open>Properties\<close>

lemmas parsed_again =
  normalisingD [OF idSchema_normalising] normalisingD [OF stateSchema_normalising]
  normalisingD [OF revisionSchema_normalising] normalisingD [OF nullable_normalising [OF idSchema_normalising]]
  normalisingD [OF nullable_normalising [OF labelSchema_normalising]]
  normalisingD [OF arrayMax_normalising [OF idSchema_normalising]]

lemma world_parts_normalising [schema_normalising]:
  "normalising (worldObjectSchema z)" "normalising (worldRelationSchema z)" "normalising (worldClusterSchema z)"
  by (auto simp: normalising_def worldObjectSchema_def worldRelationSchema_def worldClusterSchema_def parsed_again
      split: Option.bind_splits)

lemma parseSpatialWorkspaceWorld_normalising [schema_normalising]: "normalising (parseSpatialWorkspaceWorld z)"
  unfolding normalising_def parseSpatialWorkspaceWorld_def
  by (clarsimp simp: bind_eq_Some_conv) (intro conjI; erule normalisingD [rotated]; intro schema_normalising)

lemma parseSpatialWorkspaceMutationResult_normalising [schema_normalising]:
  "normalising (parseSpatialWorkspaceMutationResult z)"
  by (auto simp: normalising_def parseSpatialWorkspaceMutationResult_def parsed_again
      normalisingD [OF parseSpatialWorkspaceWorld_normalising] split: Option.bind_splits)

lemma parse_result_state:
  "parseSpatialWorkspaceMutationResult z (r \<lparr> mr_state := st \<rparr>) =
   map_option (\<lambda>x. x \<lparr> mr_state := st \<rparr>) (parseSpatialWorkspaceMutationResult z r)"
  by (simp add: parseSpatialWorkspaceMutationResult_def split: Option.bind_split)

lemma resultFor_parsed:
  "fst (resultFor cfg m st c reason winner d) = Inr r \<Longrightarrow> parseSpatialWorkspaceMutationResult (mdc_zod cfg) r = Some r"
  by (auto simp: resultFor_def md_nowIso_def Let_def split: option.splits
      dest: normalisingD [OF parseSpatialWorkspaceMutationResult_normalising])

lemma commit_parsed:
  assumes "fst (commitMutation cfg m d) = Inr r"
  shows "parseSpatialWorkspaceMutationResult (mdc_zod cfg) r = Some r"
proof -
  have seq: "fst (resultFor cfg m RAPPLIED CNONE None None d0) = Inr r"
    if "fst (seqO (resultFor cfg m RAPPLIED CNONE None None d0) (\<lambda>r d. return r (f r d))) = Inr r" for d0 f
    using that by (cases "resultFor cfg m RAPPLIED CNONE None None d0"; cases "fst (resultFor cfg m RAPPLIED CNONE None None d0)") auto
  show ?thesis
    using assms resultFor_parsed
    by (auto simp: commitMutation_def md_nowIso_def Let_def dest!: seq split: operation_effect.splits option.splits)
qed

lemma parse_mutation_ids:
  "parseSpatialWorkspaceMutation z i = Some m \<Longrightarrow> js_trim (mu_workspace_id m) = mu_workspace_id m \<and> js_trim (mu_node_id m) = mu_node_id m"
  by (auto simp: parseSpatialWorkspaceMutation_def dest: idSchema_trim split: Option.bind_splits)

text \<open>
  (C13) A mutation that was applied is applied once: after any further commands - the same key sent again, queued
  offline and replayed, other mutations, share views - sending it again returns the recorded result marked as
  IDEMPOTENT and leaves the whole service state as it is.
\<close>

theorem mutation_applied_at_most_once:
  assumes "applyMutation cfg m d = (Inr r, d1)" and "mr_state r = RAPPLIED"
  shows "applyMutation cfg m (run (md_step cfg) d1 cs) = (Inr (r \<lparr> mr_state := RIDEMPOTENT \<rparr>), run (md_step cfg) d1 cs)"
proof (cases rule: applyMutation_cases [of d cfg m])
  case frame
  with assms show ?thesis by simp
next
  case (admitted p)
  note run = admitted(8)
  have parsed: "parseSpatialWorkspaceMutationResult (mdc_zod cfg) r = Some r"
    using assms(1) run by (intro commit_parsed [of cfg p d]) simp
  have ids: "js_trim (ww_workspace_id (md_world d)) = ww_workspace_id (md_world d)"
    "js_trim (ww_node_id (md_world d)) = ww_node_id (md_world d)"
    using parse_mutation_ids [OF admitted(1)] admitted(2,3) by simp_all
  have "serves (mu_workspace_id p) (mu_node_id p) (mu_idempotency_key p) r d1"
  proof (cases rule: commitMutation_cases [of d cfg p])
    case frame
    with assms run show ?thesis by simp
  next
    case (unrecorded w n)
    with assms run show ?thesis by simp
  next
    case (commit w n r')
    with assms run ids admitted(2,3) show ?thesis by (auto simp: serves_def next_world_def normal_ids_def)
  qed
  then have "serves (mu_workspace_id p) (mu_node_id p) (mu_idempotency_key p) r (run (md_step cfg) d1 cs)"
    by (rule service_machine.run_inv)
  with admitted(1) parsed show ?thesis by (simp add: applyMutation_def serves_def parse_result_state)
qed

text \<open>A workspace with two objects, used by the concrete runs below.\<close>

definition sample_object :: "string \<Rightarrow> world_object" where
  "sample_object r = \<lparr> wo_canonical_ref = r, wo_semantic_anchor = \<lparr> pos_x = 0, pos_y = 0, pos_z = 0 \<rparr>, wo_region = ''HOME'',
     wo_manual_override = False, wo_pinned = False, wo_revision = 0, wo_available = True \<rparr>"

definition sample_world :: world where
  "sample_world = \<lparr> ww_workspace_id = ''w'', ww_node_id = ''n'', ww_workspace_revision = 0, ww_world_revision = 0,
     ww_primary_agent_ref = None, ww_semantic_objects = [sample_object ''x'', sample_object ''y''], ww_relations = [],
     ww_clusters = [], ww_session_refs = [], ww_pins = [], ww_updated_at = 0 \<rparr>"

definition sample_service :: multi_device where
  "sample_service = \<lparr> md_world = sample_world, md_viewports = [], md_operations = [], md_mutationHistory = [],
     md_queues = [], md_shares = [], md_clock = 0 \<rparr>"

definition sample_config :: md_config where
  "sample_config = \<lparr> mdc_zod = zod_ref, mdc_now = int, mdc_authorizeMutation = None, mdc_collate = (\<lambda>a b. True) \<rparr>"

definition sample_pin :: "string \<Rightarrow> string \<Rightarrow> int \<Rightarrow> mutation" where
  "sample_pin oid target base = \<lparr> mu_event_id = ''e'', mu_operation_id = oid, mu_idempotency_key = oid,
     mu_workspace_id = ''w'', mu_node_id = ''n'', mu_device_id = ''d'', mu_actor_ref = ''a'', mu_base_revision = base,
     mu_operation = PIN, mu_target_refs = [target], mu_conflict_category = CNONE, mu_payload = [], mu_logical_clock = 0,
     mu_created_at = 0 \<rparr>"

theorem mutation_applied_at_most_once_witness:
  "let r = applyMutation sample_config (sample_pin ''a'' ''x'' 0) sample_service;
       d = run (md_step sample_config) (snd r) [Mutate (sample_pin ''b'' ''y'' 1), QueueOffline (sample_pin ''a'' ''x'' 0), Replay ''d'']
   in mr_state (projr (fst r)) = RAPPLIED \<and>
      applyMutation sample_config (sample_pin ''a'' ''x'' 0) d = (Inr (projr (fst r) \<lparr> mr_state := RIDEMPOTENT \<rparr>), d)"
proof -
  let ?r = "applyMutation sample_config (sample_pin ''a'' ''x'' 0) sample_service"
  have ok: "\<not> isl (fst ?r)" and st: "mr_state (projr (fst ?r)) = RAPPLIED" by code_simp+
  show ?thesis
    unfolding Let_def by (rule conjI [OF st mutation_applied_at_most_once [OF outcome_ok [OF ok] st]])
qed



lemma getViewport_returns:
  assumes "getViewport cfg dev d = (Inr v, d')"
  shows "jm_get (md_viewports d') dev = Some v" "md_world d' = md_world d" "md_shares d' = md_shares d"
    "other \<noteq> dev \<Longrightarrow> jm_get (md_viewports d') other = jm_get (md_viewports d) other"
  using assms by (auto simp: getViewport_def registerDevice_def md_nowIso_def split: option.splits if_splits)

lemma updateViewport_returns:
  assumes "updateViewport cfg dev p d = (Inr v, d')"
  shows "jm_get (md_viewports d') dev = Some v" "md_world d' = md_world d" "md_shares d' = md_shares d"
    "other \<noteq> dev \<Longrightarrow> jm_get (md_viewports d') other = jm_get (md_viewports d) other"
    "pt_focus_anchor_ref p = Some a \<Longrightarrow> vp_focus_anchor_ref v = map_option js_trim a"
proof -
  obtain v0 d1 where g: "getViewport cfg dev d = (Inr v0, d1)"
    and p: "parseSpatialDeviceViewport (mdc_zod cfg) (patched_viewport v0 p (mdc_now cfg (md_clock d1))) = Some v"
    and d': "d' = d1 \<lparr> md_clock := md_clock d1 + 1, md_viewports := jm_set dev v (md_viewports d1) \<rparr>"
    using assms by (auto simp: updateViewport_def seqO_Inr md_nowIso_def split: option.splits)
  note G = getViewport_returns [OF g]
  show "jm_get (md_viewports d') dev = Some v" "md_world d' = md_world d" "md_shares d' = md_shares d"
    "other \<noteq> dev \<Longrightarrow> jm_get (md_viewports d') other = jm_get (md_viewports d) other"
    using G d' by simp_all
  show "vp_focus_anchor_ref v = map_option js_trim a" if "pt_focus_anchor_ref p = Some a"
    using p that by (cases a) (auto simp: parseSpatialDeviceViewport_def patched_viewport_def opt_or_def nullable_def
        bind_eq_Some_conv simp del: if_split dest: idSchema_trim)
qed

lemma applySharedFocus_facts:
  assumes "applySharedFocus cfg shareId deviceId targetRef d = (Inr v, d')"
  shows "\<exists>s. jm_get (md_shares d) shareId = Some s \<and> sh_state s = SHACCEPTED \<and> sh_focus_authorized s \<and>
      deviceId \<in> set (sh_audience_device_ids s) \<and> mdc_now cfg (md_clock d) < sh_expires_at s \<and>
      (js_truthy (sh_target_ref s) \<longrightarrow> sh_target_ref s = Some targetRef)"
    and "\<exists>x \<in> set (ww_semantic_objects (md_world d)). wo_canonical_ref x = targetRef \<and> wo_available x"
    and "vp_focus_anchor_ref v = Some (js_trim targetRef)" and "jm_get (md_viewports d') deviceId = Some v"
    and "\<And>other. other \<noteq> deviceId \<Longrightarrow> jm_get (md_viewports d') other = jm_get (md_viewports d) other"
    and "md_world d' = md_world d" and "md_shares d' = md_shares d"
proof -
  obtain s where s: "jm_get (md_shares d) shareId = Some s"
    using assms by (cases "jm_get (md_shares d) shareId") (simp_all add: applySharedFocus_def)
  let ?d1 = "d \<lparr> md_clock := md_clock d + 1 \<rparr>"
  have live: "mdc_now cfg (md_clock d) < sh_expires_at s"
    by (rule ccontr) (use assms s in \<open>simp add: applySharedFocus_def assertShareLive_def md_nowIso_def\<close>)
  then have run: "applySharedFocus cfg shareId deviceId targetRef d = (
       if sh_state s \<noteq> SHACCEPTED \<or> \<not> sh_focus_authorized s \<or> deviceId \<notin> set (sh_audience_device_ids s)
       then throw Md_VIEWPORT_NOT_SHARED ?d1
       else if js_truthy (sh_target_ref s) \<and> sh_target_ref s \<noteq> Some targetRef then throw Md_INVALID_TARGET ?d1
       else if \<not> list_ex (\<lambda>x. wo_canonical_ref x = targetRef \<and> wo_available x) (ww_semantic_objects (md_world d))
       then throw Md_INVALID_TARGET ?d1
       else seqO (getViewport cfg deviceId ?d1) (\<lambda>v d2. updateViewport cfg deviceId (focus_patch (vp_camera v) targetRef) d2))"
    by (simp add: applySharedFocus_def s assertShareLive_def md_nowIso_def)
  show "\<exists>s. jm_get (md_shares d) shareId = Some s \<and> sh_state s = SHACCEPTED \<and> sh_focus_authorized s \<and>
      deviceId \<in> set (sh_audience_device_ids s) \<and> mdc_now cfg (md_clock d) < sh_expires_at s \<and>
      (js_truthy (sh_target_ref s) \<longrightarrow> sh_target_ref s = Some targetRef)"
    using assms s live unfolding run by (auto split: if_splits)
  show "\<exists>x \<in> set (ww_semantic_objects (md_world d)). wo_canonical_ref x = targetRef \<and> wo_available x"
    using assms unfolding run by (auto simp: list_ex_iff split: if_splits)
  have "seqO (getViewport cfg deviceId ?d1) (\<lambda>v d2. updateViewport cfg deviceId (focus_patch (vp_camera v) targetRef) d2) = (Inr v, d')"
    using assms unfolding run by (simp split: if_splits)
  then obtain v0 d2 where g: "getViewport cfg deviceId ?d1 = (Inr v0, d2)"
    and u: "updateViewport cfg deviceId (focus_patch (vp_camera v0) targetRef) d2 = (Inr v, d')"
    by (auto simp: seqO_Inr)
  note G = getViewport_returns [OF g] and U = updateViewport_returns [OF u]
  show "vp_focus_anchor_ref v = Some (js_trim targetRef)" using U by (simp add: focus_patch_def)
  show "jm_get (md_viewports d') deviceId = Some v" using U by simp
  show "jm_get (md_viewports d') other = jm_get (md_viewports d) other" if "other \<noteq> deviceId" for other
    using G U that by simp
  show "md_world d' = md_world d" "md_shares d' = md_shares d" using G U by simp_all
qed

text \<open>
  A shared focus moves a viewport only under an accepted, unexpired share that authorises focus, names the device
  in its audience and does not pin another target, and only to an available object; it changes the viewport of that
  device alone, and neither the world nor the shares.
\<close>

theorem shared_focus_authorized:
  assumes "applySharedFocus cfg shareId deviceId targetRef d = (Inr v, d')"
  shows "(\<exists>s. jm_get (md_shares d) shareId = Some s \<and> sh_state s = SHACCEPTED \<and> sh_focus_authorized s \<and>
      deviceId \<in> set (sh_audience_device_ids s) \<and> mdc_now cfg (md_clock d) < sh_expires_at s \<and>
      (js_truthy (sh_target_ref s) \<longrightarrow> sh_target_ref s = Some targetRef)) \<and>
    (\<exists>x \<in> set (ww_semantic_objects (md_world d)). wo_canonical_ref x = targetRef \<and> wo_available x) \<and>
    vp_focus_anchor_ref v = Some (js_trim targetRef) \<and> jm_get (md_viewports d') deviceId = Some v \<and>
    (\<forall>other. other \<noteq> deviceId \<longrightarrow> jm_get (md_viewports d') other = jm_get (md_viewports d) other) \<and>
    md_world d' = md_world d \<and> md_shares d' = md_shares d"
  using applySharedFocus_facts [OF assms] by blast

definition sample_share :: multi_device where
  "sample_share = run (md_step sample_config) sample_service
     [CreateShare ''o'' \<lparr> so_audienceDeviceIds = [''d''], so_targetRef = Some ''x'', so_ttlMs = None, so_focusAuthorized = Some True \<rparr>,
      AcceptShare ''share:o:1'' ''d'']"

theorem shared_focus_authorized_witness:
  "let r = applySharedFocus sample_config ''share:o:1'' ''d'' ''x'' sample_share
   in vp_focus_anchor_ref (projr (fst r)) = Some (js_trim ''x'') \<and> jm_get (md_viewports (snd r)) ''d'' = Some (projr (fst r)) \<and>
      jm_get (md_viewports (snd r)) ''o'' = jm_get (md_viewports sample_share) ''o''"
proof -
  let ?r = "applySharedFocus sample_config ''share:o:1'' ''d'' ''x'' sample_share"
  have ok: "\<not> isl (fst ?r)" by code_simp
  have other: "''o'' \<noteq> ''d''" by simp
  from shared_focus_authorized [OF outcome_ok [OF ok]] other show ?thesis unfolding Let_def by (elim conjE) (simp only: simp_thms)
qed

text \<open>
  Conflict detection compares the base revisions the clients sent, not the revisions at which mutations were
  applied: a device that read the world at revision 1 and changes an object another device has changed since, on an
  older base, is applied without a conflict.
\<close>

theorem missed_conflict:
  "let d1 = snd (applyMutation sample_config (sample_pin ''a'' ''x'' 0) sample_service);
       d2 = snd (applyMutation sample_config (sample_pin ''b'' ''y'' 0) d1);
       r = fst (applyMutation sample_config (sample_pin ''c'' ''y'' 1) d2)
   in newService sample_config sample_world = Inr sample_service \<and>
      ww_workspace_revision (md_world d1) = 1 \<and> ww_workspace_revision (md_world d2) = 2 \<and>
      map hr_operation_id (filter (\<lambda>h. ''y'' \<in> set (hr_target_refs h)) (md_mutationHistory d2)) = [''b''] \<and>
      map_sum id mr_state r = Inr RAPPLIED"
  by code_simp

lemma long_operation_id_result:
  assumes "zod_documented (mdc_zod cfg)" and "250 < length (mu_operation_id m)"
    and "js_trim (mu_operation_id m) = mu_operation_id m"
  shows "isl (fst (resultFor cfg m st c reason winner d))"
proof -
  let ?a = "''audit:'' @ mu_operation_id m"
  have ne: "mu_operation_id m \<noteq> []" using assms(2) by auto
  then have "\<not> js_space (last (mu_operation_id m))" using assms(3) js_trim_id_iff by blast
  then have "js_trim ?a = ?a" using ne by (subst js_trim_id_iff) (simp add: js_space_def)
  then have "idSchema (mdc_zod cfg) ?a = None"
    using assms(1,2) idSchema_length [OF assms(1), of ?a] idSchema_trim [of "mdc_zod cfg" ?a]
    by (cases "idSchema (mdc_zod cfg) ?a") auto
  then show ?thesis
    by (simp add: resultFor_def md_nowIso_def Let_def parseSpatialWorkspaceMutationResult_def split: option.splits Option.bind_split)
qed

text \<open>
  An operation id of more than 250 characters passes the envelope contract (limit 256), but its audit
  reference does not: the mutation is never answered and never recorded, although the world it produced may already
  be installed, so that sending it again applies it again.
\<close>

theorem long_operation_id_never_recorded:
  assumes "zod_documented (mdc_zod cfg)" and "parseSpatialWorkspaceMutation (mdc_zod cfg) input = Some m"
    and "250 < length (mu_operation_id m)" and "jm_get (md_operations d) (mu_idempotency_key m) = None"
  shows "isl (fst (applyMutation cfg input d)) \<and>
    md_operations (snd (applyMutation cfg input d)) = md_operations d \<and>
    md_mutationHistory (snd (applyMutation cfg input d)) = md_mutationHistory d"
proof -
  have trim: "js_trim (mu_operation_id m) = mu_operation_id m"
    using assms(2) by (auto simp: parseSpatialWorkspaceMutation_def dest: idSchema_trim split: Option.bind_splits)
  have throws: "isl (fst (resultFor cfg m st c reason winner d'))" for st c reason winner d'
    by (rule long_operation_id_result [OF assms(1,3) trim])
  have seq: "isl (fst (seqO (resultFor cfg m st c reason winner d') k))" for st c reason winner d'
      and k :: "mutation_result \<Rightarrow> multi_device \<Rightarrow> (multi_device_error, mutation_result, multi_device) outcome"
    using throws [of st c reason winner d'] by (simp add: seqO_def split: prod.splits sum.splits) force
  have commit: "isl (fst (commitMutation cfg m d))"
    using throws seq
    by (simp add: commitMutation_def md_nowIso_def Let_def split: operation_effect.splits option.splits)
  have "isl (fst (applyMutation cfg input d))"
    using throws commit assms(2,4) by (auto simp: applyMutation_def split: option.splits)
  moreover have "md_operations (snd (applyMutation cfg input d)) = md_operations d \<and>
    md_mutationHistory (snd (applyMutation cfg input d)) = md_mutationHistory d"
  proof (cases rule: applyMutation_cases [of d cfg input])
    case frame
    then show ?thesis by (simp add: same_state_keeps)
  next
    case (admitted m')
    then have "m' = m" using assms(2) by simp
    then show ?thesis
      using commit by (cases rule: commitMutation_cases [of d cfg m]) (simp_all add: admitted(8) same_state_keeps)
  qed
  ultimately show ?thesis by blast
qed

definition long_pin :: mutation where
  "long_pin = (sample_pin ''k'' ''x'' 0) \<lparr> mu_operation_id := replicate 251 (CHR ''a'') \<rparr>"

theorem long_operation_id_never_recorded_witness:
  "let d1 = snd (applyMutation sample_config long_pin sample_service); d2 = snd (applyMutation sample_config long_pin d1)
   in isl (fst (applyMutation sample_config long_pin sample_service)) \<and> md_operations d1 = [] \<and>
      ww_workspace_revision (md_world d1) = 1 \<and> ww_workspace_revision (md_world d2) = 2"
proof -
  have doc: "zod_documented (mdc_zod sample_config)" by (simp add: sample_config_def)
  have p: "parseSpatialWorkspaceMutation (mdc_zod sample_config) long_pin = Some long_pin"
    and none: "jm_get (md_operations sample_service) (mu_idempotency_key long_pin) = None" by code_simp+
  have long: "250 < length (mu_operation_id long_pin)" by (simp add: long_pin_def)
  have ops: "md_operations sample_service = []" by (simp add: sample_service_def)
  have "let d1 = snd (applyMutation sample_config long_pin sample_service); d2 = snd (applyMutation sample_config long_pin d1)
    in ww_workspace_revision (md_world d1) = 1 \<and> ww_workspace_revision (md_world d2) = 2" by code_simp
  then show ?thesis using long_operation_id_never_recorded [OF doc p long none] ops by (simp add: Let_def)
qed

end
