(* ===== verification/Event_Gateway.thy ===== *)
theory Event_Gateway
  imports Contracts Js_Json
begin

text \<open>
  \<open>spatial/data/events.ts\<close>: the event envelope, the dispatch of an event type to its payload contract, the
  gateway that admits retained events once and in order, and the reconnecting stream adapter; and
  \<open>parseSpatialContract\<close> of \<open>spatial/contracts/index.ts\<close> with its table of schema versions. What \<open>safeParse\<close> of a
  contract's schema does to a payload is zod's work and the parameter \<open>ec_safeParse\<close>: the path of the first
  issue, or the parsed data. \<open>Date.parse\<close> is implementation-defined outside one format and the parameter
  \<open>ec_dateParse\<close>. The callbacks of the gateway are logs of its state.
\<close>

section \<open>Contracts\<close>

definition SPATIAL_SCHEMA_VERSIONS :: "(string \<times> string) list" where
  "SPATIAL_SCHEMA_VERSIONS = [
     (''entity'', ''spatial.entity.v1''),
     (''relation'', ''spatial.relation.v1''),
     (''status'', ''spatial.node-status.v1''),
     (''workspace'', ''spatial.workspace.v1''),
     (''viewport'', ''spatial.viewport.v1''),
     (''primaryAgentSlot'', ''spatial.primary-agent-slot.v1''),
     (''primaryAgentGrant'', ''spatial.primary-agent-grant.v1''),
     (''primaryAgentState'', ''spatial.primary-agent-state.v1''),
     (''intentEnvelope'', ''spatial.intent-envelope.v1''),
     (''attachmentManifest'', ''spatial.attachment-manifest.v1''),
     (''workspaceSession'', ''spatial.workspace-session.v1''),
     (''contextNode'', ''spatial.context-node.v1''),
     (''conversationTurn'', ''spatial.conversation-turn.v1''),
     (''generatedObject'', ''spatial.generated-object.v1''),
     (''artifact'', ''spatial.artifact.v1''),
     (''presentationIntent'', ''spatial.presentation-intent.v1''),
     (''presentationResult'', ''spatial.presentation-result.v1''),
     (''canonicalReference'', ''spatial.canonical-reference.v1''),
     (''endpointDetails'', ''spatial.endpoint-details.v1''),
     (''discoveryResult'', ''spatial.discovery-result.v1''),
     (''semanticRelation'', ''spatial.semantic-relation.v1''),
     (''subagentLifecycle'', ''spatial.subagent-lifecycle.v1''),
     (''interactionProvenance'', ''spatial.interaction-provenance.v1''),
     (''attentionItem'', ''spatial.attention-item.v1''),
     (''attentionMarker'', ''spatial.attention-marker.v1''),
     (''attentionFocus'', ''spatial.attention-focus.v1''),
     (''recoveryCommand'', ''spatial.recovery-command.v1''),
     (''recoveryResult'', ''spatial.recovery-result.v1''),
     (''endpointProvenance'', ''spatial.endpoint-provenance.v1''),
     (''remoteContextManifest'', ''spatial.remote-context-manifest.v1''),
     (''remoteRequest'', ''spatial.remote-request.v1''),
     (''remoteResult'', ''spatial.remote-result.v1''),
     (''endpointTestFrame'', ''spatial.endpoint-test-frame.v1''),
     (''resourceAccounting'', ''spatial.resource-accounting.v1''),
     (''memoryLayout'', ''spatial.memory-layout.v1''),
     (''memoryProjection'', ''spatial.memory-projection.v1''),
     (''memoryCluster'', ''spatial.memory-cluster.v1''),
     (''memoryFocus'', ''spatial.memory-focus.v1''),
     (''memorySearch'', ''spatial.memory-search.v1''),
     (''memoryVirtualization'', ''spatial.memory-virtualization.v1''),
     (''workspaceWorld'', ''spatial.workspace-world.v1''),
     (''deviceViewport'', ''spatial.device-viewport.v1''),
     (''presentationGeometry'', ''spatial.presentation-geometry.v1''),
     (''workspaceMutation'', ''spatial.workspace-mutation.v1''),
     (''workspaceMutationResult'', ''spatial.workspace-mutation-result.v1''),
     (''offlineQueue'', ''spatial.offline-queue.v1''),
     (''shareView'', ''spatial.share-view.v1''),
     (''changeIntent'', ''spatial.change-intent.v1''),
     (''resultModel'', ''spatial.result-model.v1''),
     (''componentFrame'', ''spatial.component-frame.v1''),
     (''resourceSummary'', ''spatial.resource-summary.v1''),
     (''actionFeedback'', ''spatial.action-feedback.v1''),
     (''authorizationDecision'', ''spatial.authorization-decision.v1''),
     (''auditRecord'', ''spatial.audit-record.v1''),
     (''reliabilityIncident'', ''spatial.reliability-incident.v1''),
     (''privacyRecord'', ''spatial.privacy-record.v1''),
     (''performanceReport'', ''spatial.performance-report.v1''),
     (''observabilityMetric'', ''spatial.observability-metric.v1''),
     (''rolloutStage'', ''spatial.rollout-stage.v1'')]"

definition js_digit :: "char \<Rightarrow> bool" where
  "js_digit c \<longleftrightarrow> 48 \<le> (of_char c :: int) \<and> (of_char c :: int) \<le> 57"

text \<open>\<open>version.replace(/\.v\d+$/, '')\<close>: a final \<open>.v\<close> with at least one digit is dropped.\<close>

definition versionBase :: "string \<Rightarrow> string" where
  "versionBase version = (let r = rev version; digits = takeWhile js_digit r in
     case dropWhile js_digit r of
       v # dot # rest \<Rightarrow> if digits \<noteq> [] \<and> v = CHR ''v'' \<and> dot = CHR ''.'' then rev rest else version
     | _ \<Rightarrow> version)"

definition js_startsWith :: "string \<Rightarrow> string \<Rightarrow> bool" where
  "js_startsWith s p \<longleftrightarrow> take (length p) s = p"

datatype parse_code = MALFORMED_PAYLOAD | INCOMPATIBLE_SCHEMA_VERSION

record parse_diagnostic =
  pd_code :: parse_code
  pd_contract :: string
  pd_received_version :: "string option"
  pd_path :: string

fun json_field :: "json \<Rightarrow> string \<Rightarrow> json option" where
  "json_field (JObj kvs) k = map_of kvs k"
| "json_field _ k = None"

definition json_string :: "json option \<Rightarrow> string option" where
  "json_string v = (case v of Some (JStr s) \<Rightarrow> Some s | _ \<Rightarrow> None)"

definition parseSpatialContract :: "string \<Rightarrow> (json option \<Rightarrow> string + json) \<Rightarrow> json option \<Rightarrow> parse_diagnostic + json" where
  "parseSpatialContract contract safeParse payload =
     (let received = (case payload of None \<Rightarrow> None | Some p \<Rightarrow> json_string (json_field p ''schema_version'')) in
      if js_truthy received \<and> received \<noteq> Some contract \<and>
         js_startsWith (the received) (versionBase contract @ ''.v'')
      then Inl \<lparr> pd_code = INCOMPATIBLE_SCHEMA_VERSION, pd_contract = contract, pd_received_version = received,
        pd_path = ''schema_version'' \<rparr>
      else case safeParse payload of
        Inr data \<Rightarrow> Inr data
      | Inl path \<Rightarrow> Inl \<lparr> pd_code = MALFORMED_PAYLOAD, pd_contract = contract, pd_received_version = None,
          pd_path = (if path = [] then ''<root>'' else path) \<rparr>)"

section \<open>Event types and envelopes\<close>

definition SPATIAL_EVENT_TYPES :: "string list" where
  "SPATIAL_EVENT_TYPES = [
     ''spatial.workspace.updated.v1'',
     ''spatial.entity.upserted.v1'',
     ''spatial.entity.archived.v1'',
     ''spatial.relation.upserted.v1'',
     ''spatial.node-status.changed.v1'',
     ''spatial.recovery.command-planned.v1'',
     ''spatial.recovery.resulted.v1'',
     ''spatial.endpoint-provenance.updated.v1'',
     ''spatial.remote.context-manifest.updated.v1'',
     ''spatial.remote.requested.v1'',
     ''spatial.remote.resulted.v1'',
     ''spatial.endpoint-test-frame.updated.v1'',
     ''spatial.resource-accounting.updated.v1'',
     ''spatial.primary-agent.binding-changed.v1'',
     ''spatial.primary-agent.grant-changed.v1'',
     ''spatial.primary-agent.state-changed.v1'',
     ''spatial.intent.accepted.v1'',
     ''spatial.session.updated.v1'',
     ''spatial.context.updated.v1'',
     ''spatial.conversation.turn-updated.v1'',
     ''spatial.generated-object.updated.v1'',
     ''spatial.artifact.created.v1'',
     ''spatial.presentation.requested.v1'',
     ''spatial.presentation.resolved.v1'',
     ''spatial.canonical-reference.upserted.v1'',
     ''spatial.endpoint-details.updated.v1'',
     ''spatial.discovery.updated.v1'',
     ''spatial.semantic-relation.updated.v1'',
     ''spatial.subagent.lifecycle-updated.v1'',
     ''spatial.interaction.provenance-recorded.v1'',
     ''spatial.attention.raised.v1'',
     ''spatial.attention.resolved.v1'',
     ''spatial.attention.item-updated.v1'',
     ''spatial.attention.marker-updated.v1'',
     ''spatial.attention.focus-updated.v1'',
     ''spatial.memory.layout-updated.v1'',
     ''spatial.memory.projection-updated.v1'',
     ''spatial.memory.cluster-updated.v1'',
     ''spatial.memory.focus-updated.v1'',
     ''spatial.memory.search-completed.v1'',
     ''spatial.memory.virtualization-updated.v1'',
     ''spatial.workspace-world.updated.v1'',
     ''spatial.device-viewport.updated.v1'',
     ''spatial.presentation-geometry.updated.v1'',
     ''spatial.workspace-mutation.requested.v1'',
     ''spatial.workspace-mutation.resolved.v1'',
     ''spatial.offline-queue.updated.v1'',
     ''spatial.share-view.updated.v1'',
     ''spatial.change-intent.created.v1'',
     ''spatial.change-intent.resolved.v1'',
     ''spatial.result-model.updated.v1'',
     ''spatial.component-frame.updated.v1'',
     ''spatial.resource-summary.updated.v1'',
     ''spatial.action-feedback.updated.v1'']"

record event_envelope =
  se_event_id :: string
  se_event_type :: string
  se_schema_version :: string
  se_node_id :: string
  se_sequence :: int
  se_revision :: int
  se_occurred_at :: string
  se_correlation_id :: "string option"
  se_causation_id :: "string option"
  se_payload :: "json option"

record event_config =
  ec_zod :: zod
  ec_safeParse :: "string \<Rightarrow> json option \<Rightarrow> string + json"
  ec_dateParse :: "string \<Rightarrow> int option"
  ec_scope :: scope

datatype diagnostic_code = MALFORMED_EVENT | UNKNOWN_EVENT | STALE_EVENT | DUPLICATE_EVENT

record event_diagnostic =
  ed_code :: diagnostic_code
  ed_event_id :: "string option"
  ed_event_type :: "string option"
  ed_node_id :: "string option"
  ed_path :: "string option"

definition json_id :: "zod \<Rightarrow> json option \<Rightarrow> string option" where
  "json_id z v = Option.bind (json_string v) (idSchema z)"

definition json_nullable_id :: "zod \<Rightarrow> json option \<Rightarrow> string option option" where
  "json_nullable_id z v = (if v = Some JNull then Some None else map_option Some (json_id z v))"

definition json_bounded :: "zod \<Rightarrow> json option \<Rightarrow> string option" where
  "json_bounded z v = (case json_string v of
     Some s \<Rightarrow> if z_string_min z 1 s \<and> z_string_max z 160 s then Some s else None | None \<Rightarrow> None)"

fun decimal_value :: "int \<Rightarrow> string \<Rightarrow> int" where
  "decimal_value acc [] = acc"
| "decimal_value acc (c # cs) = decimal_value (acc * 10 + (of_char c - 48)) cs"

text \<open>
  \<open>normalizeNumber\<close> on a string: decimal digits with an optional fraction become a number. Only an integral
  one can pass \<open>int()\<close>, so a fraction other than zeros is \<open>None\<close> here.
\<close>

definition numeric_string :: "string \<Rightarrow> int option" where
  "numeric_string s = (let t = js_trim s; whole = takeWhile js_digit t in
     if whole = [] then None
     else case dropWhile js_digit t of
       [] \<Rightarrow> Some (decimal_value 0 whole)
     | dot # fraction \<Rightarrow> if dot = CHR ''.'' \<and> fraction \<noteq> [] \<and> list_all (\<lambda>c. c = CHR ''0'') fraction
                     then Some (decimal_value 0 whole) else None)"

definition json_revision :: "zod \<Rightarrow> json option \<Rightarrow> int option" where
  "json_revision z v = (case v of
     Some (JNum n) \<Rightarrow> revisionSchema z n
   | Some (JStr s) \<Rightarrow> Option.bind (numeric_string s) (revisionSchema z)
   | _ \<Rightarrow> None)"

definition normalizeSpatialTimestamp :: "(string \<Rightarrow> int option) \<Rightarrow> string \<Rightarrow> string option" where
  "normalizeSpatialTimestamp dateParse s =
     (if js_trim s = [] then None else map_option js_toISOString (dateParse s))"

definition json_timestamp :: "event_config \<Rightarrow> json option \<Rightarrow> string option" where
  "json_timestamp cfg v = (case json_string v of
     None \<Rightarrow> None
   | Some s \<Rightarrow> let t = (case normalizeSpatialTimestamp (ec_dateParse cfg) s of Some stamp \<Rightarrow> stamp | None \<Rightarrow> s) in
       if z_string_min (ec_zod cfg) 1 t \<and> ec_dateParse cfg t \<noteq> None then Some t else None)"

definition required :: "string \<Rightarrow> 'a option \<Rightarrow> string + 'a" where
  "required field v = (case v of None \<Rightarrow> Inl field | Some x \<Rightarrow> Inr x)"

text \<open>The envelope schema: the fields are parsed in their order, the first one that fails names the path.\<close>

definition spatialEventEnvelopeSchema :: "event_config \<Rightarrow> json \<Rightarrow> string + event_envelope" where
  "spatialEventEnvelopeSchema cfg v = (case v of
     JObj kvs \<Rightarrow>
       let field = map_of kvs; z = ec_zod cfg in
       bindR (required ''event_id'' (json_id z (field ''event_id''))) (\<lambda>event_id.
       bindR (required ''event_type'' (json_bounded z (field ''event_type''))) (\<lambda>event_type.
       bindR (required ''schema_version'' (json_bounded z (field ''schema_version''))) (\<lambda>schema_version.
       bindR (required ''node_id'' (json_id z (field ''node_id''))) (\<lambda>node_id.
       bindR (required ''sequence'' (json_revision z (field ''sequence''))) (\<lambda>sequence.
       bindR (required ''revision'' (json_revision z (field ''revision''))) (\<lambda>revision.
       bindR (required ''occurred_at'' (json_timestamp cfg (field ''occurred_at''))) (\<lambda>occurred_at.
       bindR (required ''correlation_id'' (json_nullable_id z (field ''correlation_id''))) (\<lambda>correlation_id.
       bindR (required ''causation_id'' (json_nullable_id z (field ''causation_id''))) (\<lambda>causation_id.
       Inr \<lparr> se_event_id = event_id, se_event_type = event_type, se_schema_version = schema_version,
         se_node_id = node_id, se_sequence = sequence, se_revision = revision, se_occurred_at = occurred_at,
         se_correlation_id = correlation_id, se_causation_id = causation_id, se_payload = field ''payload'' \<rparr>)))))))))
   | _ \<Rightarrow> Inl [])"

text \<open>The \<open>switch\<close> of \<open>parsePayload\<close>: the contract each event type is parsed with, as its key of \<open>SPATIAL_SCHEMA_VERSIONS\<close>.\<close>

definition payload_contract :: "(string \<times> string) list" where
  "payload_contract = [
     (''spatial.workspace.updated.v1'', ''workspace''),
     (''spatial.entity.upserted.v1'', ''entity''),
     (''spatial.entity.archived.v1'', ''entity''),
     (''spatial.relation.upserted.v1'', ''relation''),
     (''spatial.node-status.changed.v1'', ''status''),
     (''spatial.recovery.command-planned.v1'', ''recoveryCommand''),
     (''spatial.recovery.resulted.v1'', ''recoveryResult''),
     (''spatial.endpoint-provenance.updated.v1'', ''endpointProvenance''),
     (''spatial.remote.context-manifest.updated.v1'', ''remoteContextManifest''),
     (''spatial.remote.requested.v1'', ''remoteRequest''),
     (''spatial.remote.resulted.v1'', ''remoteResult''),
     (''spatial.endpoint-test-frame.updated.v1'', ''endpointTestFrame''),
     (''spatial.resource-accounting.updated.v1'', ''resourceAccounting''),
     (''spatial.primary-agent.binding-changed.v1'', ''primaryAgentSlot''),
     (''spatial.primary-agent.grant-changed.v1'', ''primaryAgentGrant''),
     (''spatial.primary-agent.state-changed.v1'', ''primaryAgentState''),
     (''spatial.intent.accepted.v1'', ''intentEnvelope''),
     (''spatial.session.updated.v1'', ''workspaceSession''),
     (''spatial.context.updated.v1'', ''contextNode''),
     (''spatial.conversation.turn-updated.v1'', ''conversationTurn''),
     (''spatial.generated-object.updated.v1'', ''generatedObject''),
     (''spatial.artifact.created.v1'', ''artifact''),
     (''spatial.presentation.requested.v1'', ''presentationIntent''),
     (''spatial.presentation.resolved.v1'', ''presentationResult''),
     (''spatial.canonical-reference.upserted.v1'', ''canonicalReference''),
     (''spatial.endpoint-details.updated.v1'', ''endpointDetails''),
     (''spatial.discovery.updated.v1'', ''discoveryResult''),
     (''spatial.semantic-relation.updated.v1'', ''semanticRelation''),
     (''spatial.subagent.lifecycle-updated.v1'', ''subagentLifecycle''),
     (''spatial.interaction.provenance-recorded.v1'', ''interactionProvenance''),
     (''spatial.attention.raised.v1'', ''attentionItem''),
     (''spatial.attention.resolved.v1'', ''attentionItem''),
     (''spatial.attention.item-updated.v1'', ''attentionItem''),
     (''spatial.attention.marker-updated.v1'', ''attentionMarker''),
     (''spatial.attention.focus-updated.v1'', ''attentionFocus''),
     (''spatial.memory.layout-updated.v1'', ''memoryLayout''),
     (''spatial.memory.projection-updated.v1'', ''memoryProjection''),
     (''spatial.memory.cluster-updated.v1'', ''memoryCluster''),
     (''spatial.memory.focus-updated.v1'', ''memoryFocus''),
     (''spatial.memory.search-completed.v1'', ''memorySearch''),
     (''spatial.memory.virtualization-updated.v1'', ''memoryVirtualization''),
     (''spatial.workspace-world.updated.v1'', ''workspaceWorld''),
     (''spatial.device-viewport.updated.v1'', ''deviceViewport''),
     (''spatial.presentation-geometry.updated.v1'', ''presentationGeometry''),
     (''spatial.workspace-mutation.requested.v1'', ''workspaceMutation''),
     (''spatial.workspace-mutation.resolved.v1'', ''workspaceMutationResult''),
     (''spatial.offline-queue.updated.v1'', ''offlineQueue''),
     (''spatial.share-view.updated.v1'', ''shareView''),
     (''spatial.change-intent.created.v1'', ''changeIntent''),
     (''spatial.change-intent.resolved.v1'', ''changeIntent''),
     (''spatial.result-model.updated.v1'', ''resultModel''),
     (''spatial.component-frame.updated.v1'', ''componentFrame''),
     (''spatial.resource-summary.updated.v1'', ''resourceSummary''),
     (''spatial.action-feedback.updated.v1'', ''actionFeedback'')]"

definition envelope_diagnostic :: "event_envelope \<Rightarrow> diagnostic_code \<Rightarrow> string option \<Rightarrow> event_diagnostic" where
  "envelope_diagnostic e code path = \<lparr> ed_code = code, ed_event_id = Some (se_event_id e),
     ed_event_type = Some (se_event_type e), ed_node_id = Some (se_node_id e), ed_path = path \<rparr>"

text \<open>The \<open>parseSpatial\<close> functions: \<open>parseSpatialContract\<close> at each contract's schema version and schema.\<close>

definition parse_contract :: "event_config \<Rightarrow> string \<Rightarrow> json option \<Rightarrow> parse_diagnostic + json" where
  "parse_contract cfg key = parseSpatialContract (the (map_of SPATIAL_SCHEMA_VERSIONS key)) (ec_safeParse cfg key)"

definition parsePayload :: "event_config \<Rightarrow> event_envelope \<Rightarrow> event_diagnostic + event_envelope" where
  "parsePayload cfg e = (case map_of payload_contract (se_event_type e) of
     None \<Rightarrow> Inl (envelope_diagnostic e UNKNOWN_EVENT None)
   | Some key \<Rightarrow>
       (case parse_contract cfg key (se_payload e) of
          Inr data \<Rightarrow> Inr (e \<lparr> se_payload := Some data \<rparr>)
        | Inl d \<Rightarrow> Inl (envelope_diagnostic e MALFORMED_EVENT (Some (pd_path d)))))"

definition parseSpatialEventEnvelope :: "event_config \<Rightarrow> json \<Rightarrow> event_diagnostic + event_envelope" where
  "parseSpatialEventEnvelope cfg payload = (case spatialEventEnvelopeSchema cfg payload of
     Inl path \<Rightarrow> Inl \<lparr> ed_code = MALFORMED_EVENT, ed_event_id = None, ed_event_type = None, ed_node_id = None,
       ed_path = Some (if path = [] then ''<root>'' else path) \<rparr>
   | Inr e \<Rightarrow> parsePayload cfg e)"

section \<open>The gateway\<close>

text \<open>A JSON value in a template literal.\<close>

fun js_template :: "json \<Rightarrow> string" where
  "js_template JNull = ''null''"
| "js_template (JBool b) = (if b then ''true'' else ''false'')"
| "js_template (JNum n) = show_int n"
| "js_template (JStr s) = s"
| "js_template (JArr xs) = join '','' (map (\<lambda>x. if x = JNull then [] else js_template x) xs)"
| "js_template (JObj kvs) = ''[object Object]''"

text \<open>The rules of \<open>eventResourceKey\<close> in their order: a property of the payload, the event type the rule is limited to, the prefix.\<close>

definition resource_rules :: "(string \<times> string option \<times> string) list" where
  "resource_rules = [
     (''discovery_id'', None, ''discovery:''),
     (''attention_id'', None, ''attention:''),
     (''marker_id'', None, ''marker:''),
     (''focus_id'', None, ''focus:''),
     (''projection_id'', None, ''memory-projection:''),
     (''cluster_id'', None, ''memory-cluster:''),
     (''search_id'', None, ''memory-search:''),
     (''record_id'', None, ''provenance:''),
     (''result_id'', None, ''remote-result:''),
     (''request_id'', None, ''remote-request:''),
     (''frame_id'', Some ''spatial.endpoint-test-frame.updated.v1'', ''endpoint-test-frame:''),
     (''manifest_id'', None, ''context-manifest:''),
     (''provenance_id'', None, ''endpoint-provenance:''),
     (''subagent_ref'', None, ''subagent:''),
     (''relation_id'', None, ''relation:''),
     (''canonical_ref'', None, ''entity:''),
     (''slot_id'', None, ''primary-agent-slot:''),
     (''grant_id'', None, ''primary-agent-grant:''),
     (''share_id'', None, ''share-view:''),
     (''intent_id'', None, ''change-intent:''),
     (''summary_id'', None, ''resource-summary:''),
     (''feedback_id'', None, ''action-feedback:''),
     (''frame_id'', None, ''component-frame:''),
     (''operation_id'', None, ''workspace-operation:''),
     (''device_id'', None, ''device-viewport:''),
     (''workspace_id'', None, ''workspace:''),
     (''command_id'', None, ''recovery:'')]"

definition typed_payload :: "event_envelope \<Rightarrow> json" where
  "typed_payload e = (case se_payload e of Some p \<Rightarrow> p | None \<Rightarrow> JNull)"

definition eventResourceKey :: "event_envelope \<Rightarrow> string" where
  "eventResourceKey e = (case find (\<lambda>(k, ty, _). json_field (typed_payload e) k \<noteq> None \<and>
       (case ty of None \<Rightarrow> True | Some t \<Rightarrow> se_event_type e = t)) resource_rules of
     Some (k, _, prefix) \<Rightarrow> prefix @ js_template (the (json_field (typed_payload e) k))
   | None \<Rightarrow> ''node-status:'' @ se_node_id e)"

definition payloadNodeId :: "json \<Rightarrow> json option" where
  "payloadNodeId p =
     (if json_field p ''node_id'' \<noteq> None then json_field p ''node_id''
      else if json_field p ''local_node_id'' \<noteq> None then json_field p ''local_node_id''
      else case json_field p ''provenance'' of
        Some v \<Rightarrow> (case json_field v ''node_id'' of Some (JStr s) \<Rightarrow> Some (JStr s) | _ \<Rightarrow> None)
      | None \<Rightarrow> None)"

record gateway =
  gw_seenEventIds :: "string list"
  gw_resourceRevisions :: "(string, int) jsmap"
  gw_lastSequence :: int
  gw_resumeCursor :: "string option"
  gw_stateUpdates :: "event_envelope list"
  gw_notifications :: "event_envelope list"
  gw_diagnostics :: "event_diagnostic list"

definition createSpatialEventGateway :: gateway where
  "createSpatialEventGateway = \<lparr> gw_seenEventIds = [], gw_resourceRevisions = [], gw_lastSequence = 0,
     gw_resumeCursor = None, gw_stateUpdates = [], gw_notifications = [], gw_diagnostics = [] \<rparr>"

datatype ingest_status = Applied event_envelope | Duplicate | Stale | Unknown | Malformed

definition report :: "ingest_status \<Rightarrow> event_diagnostic \<Rightarrow> gateway \<Rightarrow> ingest_status \<times> gateway" where
  "report st d g = (st, g \<lparr> gw_diagnostics := gw_diagnostics g @ [d] \<rparr>)"

definition admit :: "event_envelope \<Rightarrow> gateway \<Rightarrow> gateway" where
  "admit e g = (let key = eventResourceKey e;
       current = (case jm_get (gw_resourceRevisions g) key of Some r \<Rightarrow> r | None \<Rightarrow> - 1) in
     g \<lparr> gw_seenEventIds := se_event_id e # gw_seenEventIds g,
       gw_resourceRevisions := jm_set key (max current (se_revision e)) (gw_resourceRevisions g),
       gw_lastSequence := max (gw_lastSequence g) (se_sequence e),
       gw_resumeCursor := Some (show_int (se_sequence e)),
       gw_stateUpdates := gw_stateUpdates g @ [e], gw_notifications := gw_notifications g @ [e] \<rparr>)"

definition ingest :: "event_config \<Rightarrow> json \<Rightarrow> gateway \<Rightarrow> ingest_status \<times> gateway" where
  "ingest cfg payload g = (case parseSpatialEventEnvelope cfg payload of
     Inl d \<Rightarrow> report (if ed_code d = UNKNOWN_EVENT then Unknown else Malformed) d g
   | Inr e \<Rightarrow>
       if scope_node_id (ec_scope cfg) \<noteq> se_node_id e then report Stale (envelope_diagnostic e STALE_EVENT (Some ''node_id'')) g
       else if payloadNodeId (typed_payload e) \<noteq> Some (JStr (se_node_id e))
       then report Stale (envelope_diagnostic e STALE_EVENT (Some ''payload.node_id'')) g
       else if se_event_id e \<in> set (gw_seenEventIds g) then report Duplicate (envelope_diagnostic e DUPLICATE_EVENT None) g
       else if se_revision e < (case jm_get (gw_resourceRevisions g) (eventResourceKey e) of Some r \<Rightarrow> r | None \<Rightarrow> - 1) \<or>
               se_sequence e < gw_lastSequence g
       then report Stale (envelope_diagnostic e STALE_EVENT (Some ''revision'')) g
       else (Applied e, admit e g))"

fun replay :: "event_config \<Rightarrow> json list \<Rightarrow> gateway \<Rightarrow> ingest_status list \<times> gateway" where
  "replay cfg [] g = ([], g)"
| "replay cfg (p # ps) g = (let (r, g1) = ingest cfg p g; (rs, g2) = replay cfg ps g1 in (r # rs, g2))"

section \<open>The reconnecting stream adapter\<close>

definition SPATIAL_RECONNECT_BACKOFF_MS :: "int list" where
  "SPATIAL_RECONNECT_BACKOFF_MS = [250, 500, 1000, 2000, 4000, 8000]"

definition spatialReconnectDelay :: "int \<Rightarrow> int" where
  "spatialReconnectDelay attempt =
     SPATIAL_RECONNECT_BACKOFF_MS ! nat (max 0 (min (int (length SPATIAL_RECONNECT_BACKOFF_MS) - 1) attempt))"

text \<open>
  The closure state of one \<open>connect\<close>. The transport's \<open>connect\<close> is logged with the cursor it is given, a scheduled
  timer with its delay; \<open>maxAttempts\<close> is \<open>None\<close> for the default, infinity.
\<close>

record reconnector =
  rc_closed :: bool
  rc_attempts :: int
  rc_cursor :: "string option"
  rc_timer :: bool
  rc_active :: bool
  rc_connects :: "string option list"
  rc_delays :: "int list"
  rc_messages :: "json list"

definition reconnect_limit :: "int option \<Rightarrow> int option" where
  "reconnect_limit maxAttempts = map_option (max 0) maxAttempts"

definition stream_connect :: "reconnector \<Rightarrow> reconnector" where
  "stream_connect r = (if rc_closed r then r
     else r \<lparr> rc_active := True, rc_connects := rc_connects r @ [rc_cursor r] \<rparr>)"

definition scheduleReconnect :: "int option \<Rightarrow> reconnector \<Rightarrow> reconnector" where
  "scheduleReconnect maxAttempts r =
     (if rc_closed r \<or> rc_timer r \<or> (case reconnect_limit maxAttempts of None \<Rightarrow> False | Some n \<Rightarrow> n \<le> rc_attempts r) then r
      else r \<lparr> rc_delays := rc_delays r @ [spatialReconnectDelay (rc_attempts r)], rc_attempts := rc_attempts r + 1,
        rc_timer := True \<rparr>)"

definition timer_fires :: "reconnector \<Rightarrow> reconnector" where
  "timer_fires r = (if rc_timer r then stream_connect (r \<lparr> rc_timer := False \<rparr>) else r)"

definition stream_message :: "event_config \<Rightarrow> json \<Rightarrow> reconnector \<Rightarrow> reconnector" where
  "stream_message cfg payload r = (case spatialEventEnvelopeSchema cfg payload of
     Inr e \<Rightarrow> r \<lparr> rc_cursor := Some (show_int (se_sequence e)), rc_messages := rc_messages r @ [payload] \<rparr>
   | Inl _ \<Rightarrow> r \<lparr> rc_messages := rc_messages r @ [payload] \<rparr>)"

definition stream_close :: "reconnector \<Rightarrow> reconnector" where
  "stream_close r = r \<lparr> rc_closed := True, rc_timer := False, rc_active := False \<rparr>"

definition reconnecting_connect :: "string option \<Rightarrow> reconnector" where
  "reconnecting_connect resumeCursor = stream_connect \<lparr> rc_closed = False, rc_attempts = 0, rc_cursor = resumeCursor,
     rc_timer = False, rc_active = False, rc_connects = [], rc_delays = [], rc_messages = [] \<rparr>"

datatype stream_event = Message json | Disconnected | TimerFires | Closed

fun stream_step :: "event_config \<Rightarrow> int option \<Rightarrow> reconnector \<Rightarrow> stream_event \<Rightarrow> reconnector" where
  "stream_step cfg n r (Message p) = stream_message cfg p r"
| "stream_step cfg n r Disconnected = scheduleReconnect n r"
| "stream_step cfg n r TimerFires = timer_fires r"
| "stream_step cfg n r Closed = stream_close r"

end
