(* ===== verification/Event_Properties.thy ===== *)
theory Event_Properties
  imports Event_Gateway
begin

text \<open>
  What the event gateway and the reconnecting adapter guarantee: the case analysis of \<open>ingest\<close>, the admission
  invariant and order (\<open>gateway_machine\<close>), idempotent replay, the totality of the contract table, two defects of
  admission, and the bounds and the progress of reconnecting (\<open>reconnect_machine\<close>).
\<close>

section \<open>What one event does\<close>

definition current_revision :: "gateway \<Rightarrow> string \<Rightarrow> int" where
  "current_revision g k = (case jm_get (gw_resourceRevisions g) k of Some r \<Rightarrow> r | None \<Rightarrow> - 1)"

definition admissible :: "event_config \<Rightarrow> event_envelope \<Rightarrow> gateway \<Rightarrow> bool" where
  "admissible cfg e g \<longleftrightarrow> scope_node_id (ec_scope cfg) = se_node_id e \<and>
     payloadNodeId (typed_payload e) = Some (JStr (se_node_id e)) \<and> se_event_id e \<notin> set (gw_seenEventIds g) \<and>
     current_revision g (eventResourceKey e) \<le> se_revision e \<and> gw_lastSequence g \<le> se_sequence e"

lemma ingest_cases:
  obtains (rejected) st d where "ingest cfg p g = report st d g" "\<And>e. st \<noteq> Applied e"
      "\<And>e. parseSpatialEventEnvelope cfg p = Inr e \<Longrightarrow> \<not> admissible cfg e g"
  | (applied) e where "parseSpatialEventEnvelope cfg p = Inr e" "admissible cfg e g" "ingest cfg p g = (Applied e, admit e g)"
proof (cases "parseSpatialEventEnvelope cfg p")
  case (Inl d)
  then show ?thesis by (intro rejected) (auto simp: ingest_def split: if_splits)
next
  case (Inr e)
  show ?thesis
  proof (cases "admissible cfg e g")
    case True
    with Inr show ?thesis
      by (intro applied [of e]) (simp_all add: ingest_def admissible_def current_revision_def not_less)
  next
    case False
    note R = rejected
    define refused where "refused x \<longleftrightarrow> (\<exists>st d. x = report st d g \<and> (\<forall>e. st \<noteq> Applied e))" for x
    have [simp]: "refused (report Stale d g)" "refused (report Duplicate d g)" for d by (auto simp: refused_def)
    have "refused (ingest cfg p g)"
      using False by (simp add: ingest_def Inr admissible_def current_revision_def not_less) linarith
    with R False Inr show ?thesis by (auto simp: refused_def)
  qed
qed

lemma report_snd [simp]: "snd (report st d g) = g \<lparr> gw_diagnostics := gw_diagnostics g @ [d] \<rparr>"
  by (simp add: report_def)

lemma report_fst [simp]: "fst (report st d g) = st"
  by (simp add: report_def)

lemma admit_simps [simp]:
  "gw_seenEventIds (admit e g) = se_event_id e # gw_seenEventIds g"
  "gw_lastSequence (admit e g) = max (gw_lastSequence g) (se_sequence e)"
  "gw_stateUpdates (admit e g) = gw_stateUpdates g @ [e]"
  "gw_notifications (admit e g) = gw_notifications g @ [e]"
  by (simp_all add: admit_def Let_def)

lemma current_revision_admit [simp]: "current_revision (admit e g) k =
    (if k = eventResourceKey e then max (current_revision g k) (se_revision e) else current_revision g k)"
  by (simp add: admit_def Let_def current_revision_def jm_get_set)

lemma current_revision_diagnostics [simp]: "current_revision (g \<lparr> gw_diagnostics := ds \<rparr>) k = current_revision g k"
  by (simp add: current_revision_def)

lemma admissible_diagnostics [simp]: "admissible cfg e (g \<lparr> gw_diagnostics := ds \<rparr>) = admissible cfg e g"
  by (simp add: admissible_def)

section \<open>The admission order\<close>

definition gateway_step :: "event_config \<Rightarrow> gateway \<Rightarrow> json \<Rightarrow> gateway" where
  "gateway_step cfg g p = snd (ingest cfg p g)"

lemma replay_run: "snd (replay cfg ps g) = run (gateway_step cfg) g ps"
  by (induction ps arbitrary: g) (simp_all add: gateway_step_def case_prod_beta)

definition gateway_inv :: "event_config \<Rightarrow> gateway \<Rightarrow> bool" where
  "gateway_inv cfg g \<longleftrightarrow>
     set (gw_seenEventIds g) = se_event_id ` set (gw_stateUpdates g) \<and>
     distinct (map se_event_id (gw_stateUpdates g)) \<and>
     sorted (map se_sequence (gw_stateUpdates g)) \<and>
     (\<forall>e \<in> set (gw_stateUpdates g). se_sequence e \<le> gw_lastSequence g \<and>
        se_revision e \<le> current_revision g (eventResourceKey e) \<and> se_node_id e = scope_node_id (ec_scope cfg) \<and>
        payloadNodeId (typed_payload e) = Some (JStr (se_node_id e))) \<and>
     (\<forall>k. sorted (map se_revision (filter (\<lambda>e. eventResourceKey e = k) (gw_stateUpdates g)))) \<and>
     gw_notifications g = gw_stateUpdates g"

lemma gateway_inv_admit:
  assumes "gateway_inv cfg g" and "admissible cfg e g"
  shows "gateway_inv cfg (admit e g)"
  using assms by (fastforce simp: gateway_inv_def admissible_def sorted_append max_def)

lemma gateway_step_inv: "gateway_inv cfg g \<Longrightarrow> gateway_inv cfg (gateway_step cfg g p)"
proof (cases rule: ingest_cases [of cfg p g])
  case (applied e)
  assume "gateway_inv cfg g"
  with applied show ?thesis by (simp add: gateway_step_def gateway_inv_admit)
qed (simp add: gateway_step_def gateway_inv_def)

interpretation gateway_machine: monotone_machine "gateway_step cfg" "gateway_inv cfg" gw_lastSequence for cfg
proof unfold_locales
  show "gateway_inv cfg (gateway_step cfg g p)" if "gateway_inv cfg g" for g p
    using that by (rule gateway_step_inv)
  show "gw_lastSequence g \<le> gw_lastSequence (gateway_step cfg g p)" for g p
    by (cases rule: ingest_cases [of cfg p g]) (auto simp: gateway_step_def)
qed

text \<open>An event that was seen once is inadmissible for good.\<close>

definition settled :: "event_config \<Rightarrow> event_envelope \<Rightarrow> gateway \<Rightarrow> bool" where
  "settled cfg e g \<longleftrightarrow> \<not> admissible cfg e g"

lemma settled_step: "settled cfg e g \<Longrightarrow> settled cfg e (gateway_step cfg g p)"
  by (cases rule: ingest_cases [of cfg p g]) (auto simp: settled_def gateway_step_def admissible_def max_def split: if_splits)

lemma settled_run: "settled cfg e g \<Longrightarrow> settled cfg e (run (gateway_step cfg) g ps)"
  by (induction ps arbitrary: g) (auto intro: settled_step)

lemma ingest_settles: "parseSpatialEventEnvelope cfg p = Inr e \<Longrightarrow> settled cfg e (gateway_step cfg g p)"
  by (cases rule: ingest_cases [of cfg p g]) (auto simp: settled_def gateway_step_def admissible_def)

lemma run_settles:
  "p \<in> set ps \<Longrightarrow> parseSpatialEventEnvelope cfg p = Inr e \<Longrightarrow> settled cfg e (run (gateway_step cfg) g ps)"
  by (induction ps arbitrary: g) (auto intro: ingest_settles settled_run)

lemma settled_ingest:
  assumes "\<And>e. parseSpatialEventEnvelope cfg p = Inr e \<Longrightarrow> settled cfg e g"
  shows "\<exists>d. gateway_step cfg g p = g \<lparr> gw_diagnostics := gw_diagnostics g @ [d] \<rparr>"
  using assms by (cases rule: ingest_cases [of cfg p g]) (auto simp: gateway_step_def settled_def)

lemma settled_replay:
  assumes "\<And>p e. p \<in> set qs \<Longrightarrow> parseSpatialEventEnvelope cfg p = Inr e \<Longrightarrow> settled cfg e g"
  shows "\<exists>ds. run (gateway_step cfg) g qs = g \<lparr> gw_diagnostics := gw_diagnostics g @ ds \<rparr>"
  using assms
proof (induction qs arbitrary: g)
  case Nil
  show ?case by (rule exI [of _ "[]"]) simp
next
  case (Cons q qs)
  obtain d where d: "gateway_step cfg g q = g \<lparr> gw_diagnostics := gw_diagnostics g @ [d] \<rparr>"
    using settled_ingest [of cfg q g] Cons.prems by auto
  have "settled cfg e (gateway_step cfg g q)" if "p \<in> set qs" "parseSpatialEventEnvelope cfg p = Inr e" for p e
    using Cons.prems that by (auto intro: settled_step)
  then obtain ds where
    "run (gateway_step cfg) (gateway_step cfg g q) qs = (gateway_step cfg g q) \<lparr> gw_diagnostics := gw_diagnostics (gateway_step cfg g q) @ ds \<rparr>"
    using Cons.IH [of "gateway_step cfg g q"] by blast
  then show ?case by (auto simp: d intro!: exI [of _ "d # ds"])
qed

section \<open>Properties of the gateway\<close>

text \<open>
  (C15) From a fresh gateway, whatever payloads arrive, the events handed to the state consumer have distinct ids and
  non-decreasing sequence numbers, their revisions never decrease for one resource, each belongs to the scope's Node in
  its envelope and in its payload, and the notified events are the same.
\<close>

theorem gateway_delivers_once_in_order:
  "let us = gw_stateUpdates (snd (replay cfg ps createSpatialEventGateway))
   in distinct (map se_event_id us) \<and> sorted (map se_sequence us) \<and>
      (\<forall>k. sorted (map se_revision (filter (\<lambda>e. eventResourceKey e = k) us))) \<and>
      list_all (\<lambda>e. se_node_id e = scope_node_id (ec_scope cfg) \<and>
        payloadNodeId (typed_payload e) = Some (JStr (scope_node_id (ec_scope cfg)))) us \<and>
      gw_notifications (snd (replay cfg ps createSpatialEventGateway)) = us"
proof -
  have "gateway_inv cfg createSpatialEventGateway" by (simp add: gateway_inv_def createSpatialEventGateway_def)
  then have "gateway_inv cfg (run (gateway_step cfg) createSpatialEventGateway ps)" by (rule gateway_machine.run_inv)
  then show ?thesis unfolding replay_run Let_def gateway_inv_def list_all_iff by metis
qed

text \<open>
  Replaying retained events that were already offered - in any order, any number of times, after anything else
  arrived - delivers nothing and moves neither the revisions, the sequence nor the resume cursor; only diagnostics are added.
\<close>

theorem replay_delivers_nothing_new:
  assumes "set qs \<subseteq> set ps"
  shows "\<exists>ds. snd (replay cfg qs (snd (replay cfg (ps @ rs) g))) =
    (snd (replay cfg (ps @ rs) g)) \<lparr> gw_diagnostics := gw_diagnostics (snd (replay cfg (ps @ rs) g)) @ ds \<rparr>"
  unfolding replay_run
proof (rule settled_replay)
  fix p e
  assume "p \<in> set qs" and "parseSpatialEventEnvelope cfg p = Inr e"
  then show "settled cfg e (run (gateway_step cfg) g (ps @ rs))"
    using assms by (intro run_settles [of p]) auto
qed

text \<open>
  (C16) The table of payload contracts is total on the declared event types: an event is answered as unknown exactly
  when its type is not declared, and every declared type is parsed with a contract that has a schema version.
\<close>

theorem event_types_have_contracts:
  "(fst (ingest cfg p g) = Unknown \<longleftrightarrow>
     (\<exists>e. spatialEventEnvelopeSchema cfg p = Inr e \<and> se_event_type e \<notin> set SPATIAL_EVENT_TYPES)) \<and>
   list_all (\<lambda>t. case map_of payload_contract t of None \<Rightarrow> False
     | Some key \<Rightarrow> map_of SPATIAL_SCHEMA_VERSIONS key \<noteq> None) SPATIAL_EVENT_TYPES"
proof -
  have dom: "map fst payload_contract = SPATIAL_EVENT_TYPES"
    by (simp only: payload_contract_def SPATIAL_EVENT_TYPES_def list.map fst_conv)
  have none: "map_of payload_contract t = None \<longleftrightarrow> t \<notin> set SPATIAL_EVENT_TYPES" for t
    using dom by (metis map_of_eq_None_iff set_map)
  have "list_all (\<lambda>(t, key). list_ex (\<lambda>(k, v). k = key) SPATIAL_SCHEMA_VERSIONS) payload_contract" by code_simp
  then have "snd ` set payload_contract \<subseteq> fst ` set SPATIAL_SCHEMA_VERSIONS"
    by (force simp: list_all_iff list_ex_iff)
  then have versioned: "map_of SPATIAL_SCHEMA_VERSIONS key \<noteq> None" if "map_of payload_contract t = Some key" for t key
    using imageI [OF map_of_SomeD [OF that], of snd] unfolding map_of_eq_None_iff by (simp add: subset_iff)
  then have total: "list_all (\<lambda>t. case map_of payload_contract t of None \<Rightarrow> False
     | Some key \<Rightarrow> map_of SPATIAL_SCHEMA_VERSIONS key \<noteq> None) SPATIAL_EVENT_TYPES"
    using none by (auto simp: list_all_iff split: option.splits)
  have "fst (ingest cfg p g) = Unknown \<longleftrightarrow> (\<exists>d. parseSpatialEventEnvelope cfg p = Inl d \<and> ed_code d = UNKNOWN_EVENT)"
    by (auto simp: ingest_def report_def split: sum.splits)
  also have "\<dots> \<longleftrightarrow> (\<exists>e. spatialEventEnvelopeSchema cfg p = Inr e \<and> map_of payload_contract (se_event_type e) = None)"
    by (auto simp: parseSpatialEventEnvelope_def parsePayload_def envelope_diagnostic_def split: sum.splits option.splits)
  finally show ?thesis using total none by simp
qed

subsection \<open>Payloads without a Node\<close>

text \<open>The properties of the memory contracts and of their provenance, which zod's \<open>strip\<close> leaves.\<close>

definition provenance_fields :: "string list" where
  "provenance_fields = [''canonical_ref'', ''revision'', ''source'']"

definition memory_fields :: "(string \<times> string list) list" where
  "memory_fields =
    [(''memoryLayout'', [''schema_version'', ''workspace_id'', ''policy_revision'', ''seed'', ''primary_agent_ref'', ''anchors'',
        ''presentation_revision'', ''updated_at'']),
     (''memoryProjection'', [''schema_version'', ''projection_id'', ''workspace_id'', ''semantic_ref'', ''session_ref'', ''zone'',
        ''memory_level'', ''age_class'', ''created_at'', ''last_active_at'', ''last_reused_at'', ''relevance_score'', ''pin_weight'',
        ''cluster_ref'', ''lod'', ''render_state'', ''world_position'', ''manual_position_override'', ''pinned'', ''unresolved'',
        ''authorized'', ''unavailable_reason'', ''presentation_revision'', ''provenance'']),
     (''memoryCluster'', [''schema_version'', ''cluster_id'', ''workspace_id'', ''title'', ''criterion'', ''criterion_revision'',
        ''evidence'', ''member_refs'', ''stale_member_refs'', ''summary_ref'', ''collapsed'', ''pinned'', ''presentation_revision'',
        ''provenance'']),
     (''memoryFocus'', [''schema_version'', ''focus_id'', ''workspace_id'', ''target_ref'', ''state'', ''target_revision'',
        ''world_position'', ''temporary_position'', ''previous_camera'', ''restore_camera'', ''source'', ''reduced_motion'',
        ''unavailable_reason'', ''created_at'', ''updated_at'']),
     (''memorySearch'', [''schema_version'', ''search_id'', ''workspace_id'', ''query'', ''policy_revision'', ''results'', ''performed_at'']),
     (''memoryVirtualization'', [''schema_version'', ''workspace_id'', ''viewport_revision'', ''total_count'', ''visible_count'',
        ''materialized_count'', ''virtualized_count'', ''lod_counts'', ''render_budget'', ''materialization_latency_ms'',
        ''memory_released'', ''measured_at''])]"

definition only_fields :: "string list \<Rightarrow> json \<Rightarrow> bool" where
  "only_fields ks v = (case v of JObj kvs \<Rightarrow> list_all (\<lambda>(k, _). k \<in> set ks) kvs | _ \<Rightarrow> False)"

definition strips_memory :: "event_config \<Rightarrow> bool" where
  "strips_memory cfg \<longleftrightarrow> (\<forall>(key, ks) \<in> set memory_fields. \<forall>p v. ec_safeParse cfg key p = Inr v \<longrightarrow>
     only_fields ks v \<and> (\<forall>pr. json_field v ''provenance'' = Some pr \<longrightarrow> only_fields provenance_fields pr))"

lemma only_fields_absent: "only_fields ks v \<Longrightarrow> k \<notin> set ks \<Longrightarrow> json_field v k = None"
  by (cases v) (auto simp: only_fields_def list_all_iff map_of_eq_None_iff)

lemma memory_fields_nodeless: "(key, ks) \<in> set memory_fields \<Longrightarrow> ''node_id'' \<notin> set ks \<and> ''local_node_id'' \<notin> set ks"
  by (auto simp: memory_fields_def)

text \<open>
  The events of the spatial memory can never be applied: their payload contracts declare no Node id, zod strips
  undeclared properties, and the gateway requires the payload's Node to be the envelope's.
\<close>

theorem memory_events_never_applied:
  assumes "strips_memory cfg" and "spatialEventEnvelopeSchema cfg p = Inr e"
    and "map_of payload_contract (se_event_type e) = Some key" and "key \<in> fst ` set memory_fields"
  shows "snd (ingest cfg p g) = g \<lparr> gw_diagnostics := gw_diagnostics (snd (ingest cfg p g)) \<rparr> \<and>
    fst (ingest cfg p g) \<in> {Stale, Malformed}"
proof (cases "parseSpatialEventEnvelope cfg p")
  case (Inl d)
  with assms(2,3) have "ed_code d = MALFORMED_EVENT"
    by (auto simp: parseSpatialEventEnvelope_def parsePayload_def envelope_diagnostic_def split: sum.splits)
  with Inl show ?thesis by (simp add: ingest_def report_def)
next
  case (Inr e')
  then obtain v where v: "ec_safeParse cfg key (se_payload e) = Inr v" and e': "e' = e \<lparr> se_payload := Some v \<rparr>"
    using assms(2,3)
    by (auto simp: parseSpatialEventEnvelope_def parsePayload_def parse_contract_def parseSpatialContract_def Let_def split: sum.splits if_splits)
  obtain ks where ks: "(key, ks) \<in> set memory_fields" using assms(4) by force
  with assms(1) v have f: "only_fields ks v" "\<And>pr. json_field v ''provenance'' = Some pr \<Longrightarrow> only_fields provenance_fields pr"
    by (auto simp: strips_memory_def)
  have "json_field v ''node_id'' = None" "json_field v ''local_node_id'' = None"
    using only_fields_absent [OF f(1)] memory_fields_nodeless [OF ks] by auto
  moreover have "json_field pr ''node_id'' = None" if "json_field v ''provenance'' = Some pr" for pr
    by (rule only_fields_absent [OF f(2) [OF that]]) (simp add: provenance_fields_def)
  ultimately have "payloadNodeId (typed_payload e') = None"
    by (auto simp: payloadNodeId_def typed_payload_def e' split: option.splits)
  with Inr show ?thesis by (simp add: ingest_def report_def)
qed

subsection \<open>Resources that share a revision\<close>

definition session_fields :: "string list" where
  "session_fields = [''schema_version'', ''session_id'', ''workspace_id'', ''node_id'', ''revision'', ''state'', ''root_intent_id'',
     ''parent_session_id'', ''structural_parent_ref'', ''semantic_anchor'', ''title'', ''summary'', ''turn_refs'', ''object_refs'',
     ''context_root_ref'', ''artifact_ref'', ''created_at'', ''updated_at'']"

lemma session_resource_key:
  assumes "only_fields session_fields (typed_payload e)" and "json_field (typed_payload e) ''workspace_id'' = Some (JStr w)"
  shows "eventResourceKey e = ''workspace:'' @ w"
proof -
  have "json_field (typed_payload e) k = None" if "k \<notin> set session_fields" for k
    using only_fields_absent [OF assms(1)] that by simp
  then show ?thesis
    by (simp add: eventResourceKey_def resource_rules_def session_fields_def assms(2))
qed

lemma current_revision_step: "current_revision g k \<le> current_revision (gateway_step cfg g p) k"
  by (cases rule: ingest_cases [of cfg p g]) (auto simp: gateway_step_def)

lemma current_revision_run: "current_revision g k \<le> current_revision (run (gateway_step cfg) g ps) k"
proof (induction ps arbitrary: g)
  case (Cons p ps)
  show ?case using current_revision_step [of g k cfg p] Cons.IH [of "gateway_step cfg g p"] by simp
qed simp

text \<open>
  All sessions of a workspace share one revision counter: once an event of one session was applied at some
  revision, an event of any other session of that workspace with a lower revision is never applied.
\<close>

theorem sessions_share_a_revision:
  assumes "ingest cfg p g = (Applied e, g1)" and "parseSpatialEventEnvelope cfg p' = Inr e'"
    and "only_fields session_fields (typed_payload e)" and "json_field (typed_payload e) ''workspace_id'' = Some (JStr w)"
    and "only_fields session_fields (typed_payload e')" and "json_field (typed_payload e') ''workspace_id'' = Some (JStr w)"
    and "se_revision e' < se_revision e"
  shows "fst (ingest cfg p' (snd (replay cfg ps g1))) \<noteq> Applied e'"
proof -
  have g1: "g1 = admit e g"
    by (cases rule: ingest_cases [of cfg p g]) (use assms(1) in \<open>auto simp: report_def\<close>)
  have key: "eventResourceKey e' = eventResourceKey e"
    using assms(3-6) by (simp add: session_resource_key)
  have "se_revision e \<le> current_revision g1 (eventResourceKey e)" by (simp add: g1)
  also have "\<dots> \<le> current_revision (run (gateway_step cfg) g1 ps) (eventResourceKey e)" by (rule current_revision_run)
  finally have "\<not> admissible cfg e' (run (gateway_step cfg) g1 ps)" using assms(7) key by (simp add: admissible_def)
  then show ?thesis
    by (cases rule: ingest_cases [of cfg p' "run (gateway_step cfg) g1 ps"]) (use assms(2) in \<open>auto simp: replay_run\<close>)
qed

section \<open>Properties of the reconnecting adapter\<close>

lemma spatialReconnectDelay_range: "250 \<le> spatialReconnectDelay n \<and> spatialReconnectDelay n \<le> 8000"
proof -
  have "nat (max 0 (min 5 n)) < 6" by auto
  moreover have "\<forall>i < 6. 250 \<le> SPATIAL_RECONNECT_BACKOFF_MS ! i \<and> SPATIAL_RECONNECT_BACKOFF_MS ! i \<le> 8000"
    by (simp add: SPATIAL_RECONNECT_BACKOFF_MS_def numeral_eq_Suc All_less_Suc)
  ultimately show ?thesis by (simp add: spatialReconnectDelay_def SPATIAL_RECONNECT_BACKOFF_MS_def)
qed

definition reconnect_inv :: "int option \<Rightarrow> reconnector \<Rightarrow> bool" where
  "reconnect_inv n r \<longleftrightarrow> rc_attempts r = int (length (rc_delays r)) \<and>
     (\<forall>m. reconnect_limit n = Some m \<longrightarrow> rc_attempts r \<le> m) \<and>
     rc_delays r = map (\<lambda>i. spatialReconnectDelay (int i)) [0..<length (rc_delays r)] \<and>
     length (rc_connects r) + (if rc_timer r then 1 else 0) \<le> 1 + length (rc_delays r) \<and>
     (rc_closed r \<longrightarrow> \<not> rc_timer r)"

lemma reconnect_inv_step: "reconnect_inv n r \<Longrightarrow> reconnect_inv n (stream_step cfg n r ev)"
  by (cases ev) (auto simp: reconnect_inv_def stream_message_def scheduleReconnect_def timer_fires_def stream_connect_def
      stream_close_def split: sum.splits option.splits)

lemma reconnect_inv_start: "reconnect_inv n (reconnecting_connect c)"
  by (auto simp: reconnect_inv_def reconnecting_connect_def stream_connect_def reconnect_limit_def)

interpretation reconnect_machine: monotone_machine "stream_step cfg n" "reconnect_inv n" rc_attempts for cfg n
proof unfold_locales
  show "reconnect_inv n (stream_step cfg n r ev)" if "reconnect_inv n r" for r ev
    using that by (rule reconnect_inv_step)
  show "rc_attempts r \<le> rc_attempts (stream_step cfg n r ev)" for r ev
    by (cases ev) (auto simp: stream_message_def scheduleReconnect_def timer_fires_def stream_connect_def stream_close_def
        split: sum.splits)
qed

text \<open>
  (C17) Whatever the transport does, the number of reconnects never exceeds the limit, the k-th of them is scheduled with
  the k-th backoff delay, every delay lies between 250 and 8000 milliseconds, and the transport is connected at most once
  more than reconnects were scheduled.
\<close>

theorem reconnects_bounded:
  "let r = run (stream_step cfg maxAttempts) (reconnecting_connect cursor) evs
   in rc_delays r = map (\<lambda>i. spatialReconnectDelay (int i)) [0..<length (rc_delays r)] \<and>
      list_all (\<lambda>d. 250 \<le> d \<and> d \<le> 8000) (rc_delays r) \<and>
      (case maxAttempts of None \<Rightarrow> True | Some m \<Rightarrow> int (length (rc_delays r)) \<le> max 0 m) \<and>
      length (rc_connects r) \<le> 1 + length (rc_delays r)"
proof -
  let ?r = "run (stream_step cfg maxAttempts) (reconnecting_connect cursor) evs"
  have inv: "reconnect_inv maxAttempts ?r" by (rule reconnect_machine.run_inv [OF reconnect_inv_start])
  then have d: "rc_delays ?r = map (\<lambda>i. spatialReconnectDelay (int i)) [0..<length (rc_delays ?r)]"
    by (simp add: reconnect_inv_def)
  have "list_all (\<lambda>d. 250 \<le> d \<and> d \<le> 8000) (rc_delays ?r)"
    by (subst d) (simp add: list_all_iff spatialReconnectDelay_range)
  with inv d show ?thesis
    by (auto simp: Let_def reconnect_inv_def reconnect_limit_def split: option.splits if_splits)
qed


section \<open>Concrete events\<close>

definition sample_event :: "string \<Rightarrow> string \<Rightarrow> int \<Rightarrow> int \<Rightarrow> (string \<times> json) list \<Rightarrow> json" where
  "sample_event event_id event_type seqno revision payload = JObj [(''event_id'', JStr event_id), (''event_type'', JStr event_type),
     (''schema_version'', JStr ''v1''), (''node_id'', JStr ''n''), (''sequence'', JNum seqno), (''revision'', JNum revision),
     (''occurred_at'', JStr ''t''), (''correlation_id'', JNull), (''causation_id'', JNull), (''payload'', JObj payload)]"

definition strip_parse :: "string \<Rightarrow> json option \<Rightarrow> string + json" where
  "strip_parse key p = (case p of
     Some (JObj kvs) \<Rightarrow> Inr (JObj (case map_of memory_fields key of
         Some ks \<Rightarrow> filter (\<lambda>(k, _). k \<in> set ks \<and> k \<noteq> ''provenance'') kvs | None \<Rightarrow> kvs))
   | _ \<Rightarrow> Inl [])"

definition sample_events_config :: event_config where
  "sample_events_config = \<lparr> ec_zod = zod_ref, ec_safeParse = strip_parse, ec_dateParse = (\<lambda>_. Some 0),
     ec_scope = \<lparr> scope_hypervisor_id = ''h'', scope_node_id = ''n'' \<rparr> \<rparr>"

lemma memory_fields_distinct: "distinct (map fst memory_fields)"
  by (simp add: memory_fields_def)

lemma sample_strips: "strips_memory sample_events_config"
proof -
  have "only_fields ks v \<and> json_field v ''provenance'' = None"
    if key: "(key, ks) \<in> set memory_fields" and v: "strip_parse key p = Inr v" for key ks p v
  proof -
    have m: "map_of memory_fields key = Some ks" using key memory_fields_distinct by simp
    obtain kvs where "v = JObj (filter (\<lambda>(k, _). k \<in> set ks \<and> k \<noteq> ''provenance'') kvs)"
      using v m by (auto simp: strip_parse_def split: option.splits json.splits)
    then show ?thesis by (auto simp: only_fields_def list_all_iff map_of_eq_None_iff)
  qed
  then show ?thesis unfolding strips_memory_def sample_events_config_def by fastforce
qed

definition session_event :: "string \<Rightarrow> string \<Rightarrow> int \<Rightarrow> int \<Rightarrow> json" where
  "session_event event_id session seqno revision = sample_event event_id ''spatial.session.updated.v1'' seqno revision
     [(''session_id'', JStr session), (''workspace_id'', JStr ''w''), (''node_id'', JStr ''n'')]"

definition session_envelope :: "string \<Rightarrow> string \<Rightarrow> int \<Rightarrow> int \<Rightarrow> event_envelope" where
  "session_envelope event_id session seqno revision = projr (parseSpatialEventEnvelope sample_events_config (session_event event_id session seqno revision))"

theorem replay_delivers_nothing_new_witness:
  "let p = session_event ''a'' ''s'' 1 1; g = snd (replay sample_events_config ([p] @ []) createSpatialEventGateway)
   in length (gw_stateUpdates g) = 1 \<and>
      (\<exists>ds. snd (replay sample_events_config [p] g) = g \<lparr> gw_diagnostics := gw_diagnostics g @ ds \<rparr>)"
proof -
  have sub: "set [session_event ''a'' ''s'' 1 1] \<subseteq> set [session_event ''a'' ''s'' 1 1]" by simp
  have one: "length (gw_stateUpdates (snd (replay sample_events_config ([session_event ''a'' ''s'' 1 1] @ []) createSpatialEventGateway))) = 1"
    by code_simp
  show ?thesis unfolding Let_def by (rule conjI [OF one replay_delivers_nothing_new [OF sub]])
qed

theorem memory_events_never_applied_witness:
  "let p = sample_event ''a'' ''spatial.memory.focus-updated.v1'' 1 1 [(''focus_id'', JStr ''f''), (''node_id'', JStr ''n'')]
   in fst (ingest sample_events_config p createSpatialEventGateway) \<in> {Stale, Malformed}"
proof -
  let ?p = "sample_event ''a'' ''spatial.memory.focus-updated.v1'' 1 1 [(''focus_id'', JStr ''f''), (''node_id'', JStr ''n'')]"
  let ?e = "projr (spatialEventEnvelopeSchema sample_events_config ?p)"
  have e: "spatialEventEnvelopeSchema sample_events_config ?p = Inr ?e" by code_simp
  have k: "map_of payload_contract (se_event_type ?e) = Some ''memoryFocus''" by code_simp
  have m: "''memoryFocus'' \<in> fst ` set memory_fields" by (simp add: memory_fields_def)
  show ?thesis unfolding Let_def using memory_events_never_applied [OF sample_strips e k m] by blast
qed

theorem sessions_share_a_revision_witness:
  "fst (ingest sample_events_config (session_event ''b'' ''other'' 2 1)
     (snd (replay sample_events_config [] (snd (ingest sample_events_config (session_event ''a'' ''s'' 1 5) createSpatialEventGateway)))))
   \<noteq> Applied (session_envelope ''b'' ''other'' 2 1)"
proof -
  let ?e = "session_envelope ''a'' ''s'' 1 5" and ?e' = "session_envelope ''b'' ''other'' 2 1"
  have a: "ingest sample_events_config (session_event ''a'' ''s'' 1 5) createSpatialEventGateway =
      (Applied ?e, snd (ingest sample_events_config (session_event ''a'' ''s'' 1 5) createSpatialEventGateway))" by code_simp
  have p: "parseSpatialEventEnvelope sample_events_config (session_event ''b'' ''other'' 2 1) = Inr ?e'" by code_simp
  have f: "only_fields session_fields (typed_payload ?e)" "json_field (typed_payload ?e) ''workspace_id'' = Some (JStr ''w'')"
    "only_fields session_fields (typed_payload ?e')" "json_field (typed_payload ?e') ''workspace_id'' = Some (JStr ''w'')"
    "se_revision ?e' < se_revision ?e" by code_simp+
  show ?thesis by (rule sessions_share_a_revision [OF a p f])
qed


end
