(* ===== verification/Conversation.thy ===== *)
theory Conversation
  imports Session_Graph
begin

text \<open>
  \<open>DurableConversationService\<close> of \<open>spatial/interaction/conversation.ts\<close> on the session graph of \<open>Session_Graph\<close>.
  Turn and response texts are lists of UTF-16 code units, because the stream separator (U+241E) is not an
  8-bit character. The clock and the id factory are streams, like those of the graph. Exchange and turn objects are
  mutated in place while the Maps hold them, so what an operation wrote before it throws stays written.
\<close>

section \<open>Texts\<close>

type_synonym units = "int list"

definition text_of :: "string \<Rightarrow> units" where
  "text_of s = map of_char s"

definition unit_space :: "int \<Rightarrow> bool" where
  "unit_space c \<longleftrightarrow> 9 \<le> c \<and> c \<le> 13 \<or> c = 32 \<or> c = 160 \<or> c = 5760 \<or> 8192 \<le> c \<and> c \<le> 8202 \<or> c = 8232 \<or> c = 8233 \<or>
     c = 8239 \<or> c = 8287 \<or> c = 12288 \<or> c = 65279"

definition text_trim :: "units \<Rightarrow> units" where
  "text_trim t = rev (dropWhile unit_space (rev (dropWhile unit_space t)))"

text \<open>
  \<open>/<\/?[^>]+>/g\<close>: from a \<open><\<close>, everything up to the next \<open>>\<close>, with at least one unit between them (the optional
  slash is one of them).
\<close>

definition tag_end :: "units \<Rightarrow> units option" where
  "tag_end cs = (let body = takeWhile (\<lambda>c. c \<noteq> 62) cs; rest = dropWhile (\<lambda>c. c \<noteq> 62) cs in
     if body \<noteq> [] \<and> rest \<noteq> [] then Some (tl rest) else None)"

lemma tag_end_shorter: "tag_end cs = Some rest \<Longrightarrow> length rest < length cs"
proof -
  assume "tag_end cs = Some rest"
  then have "rest = tl (dropWhile (\<lambda>c. c \<noteq> 62) cs)" "dropWhile (\<lambda>c. c \<noteq> 62) cs \<noteq> []"
    by (auto simp: tag_end_def Let_def split: if_splits)
  then show ?thesis using length_dropWhile_le [of "\<lambda>c. c \<noteq> 62" cs] by (cases "dropWhile (\<lambda>c. c \<noteq> 62) cs") auto
qed

function strip_tags :: "units \<Rightarrow> units" where
  "strip_tags [] = []"
| "strip_tags (c # cs) = (case (if c = 60 then tag_end cs else None) of
     Some rest \<Rightarrow> strip_tags rest | None \<Rightarrow> c # strip_tags cs)"
  by pat_completeness auto
termination
  by (relation "measure length") (auto split: if_splits dest: tag_end_shorter)

definition unit_lower :: "int \<Rightarrow> int" where
  "unit_lower c = (if 65 \<le> c \<and> c \<le> 90 then c + 32 else c)"

text \<open>\<open>/javascript\s*:/gi\<close> at the front of a text: what follows the match.\<close>

definition script_end :: "units \<Rightarrow> units option" where
  "script_end cs = (let word = text_of ''javascript'' in
     if map unit_lower (take (length word) cs) = word
     then (case dropWhile unit_space (drop (length word) cs) of c # rest \<Rightarrow> if c = 58 then Some rest else None | [] \<Rightarrow> None)
     else None)"

lemma script_end_shorter: "script_end cs = Some rest \<Longrightarrow> length rest < length cs"
  using length_dropWhile_le [of unit_space "drop (length (text_of ''javascript'')) cs"]
  by (auto simp: script_end_def Let_def split: if_splits list.splits)

function strip_script :: "units \<Rightarrow> units" where
  "strip_script [] = []"
| "strip_script (c # cs) = (case script_end (c # cs) of
     Some rest \<Rightarrow> strip_script rest | None \<Rightarrow> c # strip_script cs)"
  by pat_completeness auto
termination
proof (relation "measure length")
  show "(rest, c # cs) \<in> measure length" if "script_end (c # cs) = Some rest" for c cs rest
    using script_end_shorter [OF that] by simp
qed auto

definition printable :: "int \<Rightarrow> bool" where
  "printable c \<longleftrightarrow> \<not> (c \<le> 8 \<or> c = 11 \<or> c = 12 \<or> 14 \<le> c \<and> c \<le> 31)"

text \<open>\<open>text.slice(0, n)\<close> for a non-negative \<open>n\<close>.\<close>

fun text_slice :: "int \<Rightarrow> units \<Rightarrow> units" where
  "text_slice n [] = []"
| "text_slice n (c # cs) = (if n \<le> 0 then [] else c # text_slice (n - 1) cs)"

lemma text_slice_take: "text_slice n t = take (nat n) t"
  by (induction n t rule: text_slice.induct) (simp_all add: take_Cons' nat_diff_distrib)

definition safeChunk :: "units \<Rightarrow> int \<Rightarrow> units" where
  "safeChunk value maxChars = text_slice maxChars (filter printable (strip_script (strip_tags value)))"

definition STREAM_SEPARATOR :: int where
  "STREAM_SEPARATOR = 9246"

text \<open>\<open>text.length ? text.split(STREAM_SEPARATOR).length : 0\<close>\<close>

definition chunk_count :: "units \<Rightarrow> int" where
  "chunk_count t = (if t = [] then 0 else int (length (filter (\<lambda>c. c = STREAM_SEPARATOR) t)) + 1)"

section \<open>Data\<close>

datatype conversation_error =
    Conv_EXCHANGE_NOT_FOUND | Conv_BINDING_REJECTED | Conv_TIMEOUT | Conv_CANCELLED | Conv_DISCONNECTED
  | Conv_STREAM_LIMIT | Conv_INVALID_TURN

datatype conversation_failure = Conversation conversation_error | Graph graph_error

datatype conversation_connection = CONN_CONNECTED | CONN_DISCONNECTED | CONN_RECONNECTING

datatype turn_role = OPERATOR | AGENT | SYSTEM
datatype turn_state = TQUEUED | TSTREAMING | TCOMPLETED | TFAILED | TCANCELLED
datatype exchange_status = XQUEUED | XSTREAMING | XCOMPLETED | XFAILED | XCANCELLED | XTIMED_OUT

record turn =
  ct_turn_id :: string
  ct_session_id :: string
  ct_workspace_id :: string
  ct_node_id :: string
  ct_revision :: int
  ct_sequence :: int
  ct_role :: turn_role
  ct_state :: turn_state
  ct_text :: units
  ct_intent_id :: "string option"
  ct_prov_intent_id :: "string option"
  ct_prov_correlation_id :: "string option"
  ct_prov_binding_id :: "string option"
  ct_prov_source_ref :: "string option"
  ct_citation_refs :: "string list"
  ct_attachment_refs :: "string list"
  ct_created_at :: timestamp
  ct_updated_at :: timestamp

definition turnTextSchema :: "zod \<Rightarrow> units \<Rightarrow> units option" where
  "turnTextSchema z v = (let t = text_trim v in if z_text_max z 32000 t then Some t else None)"

definition parseSpatialConversationTurn :: "zod \<Rightarrow> turn \<Rightarrow> turn option" where
  "parseSpatialConversationTurn z t = do {
     tid \<leftarrow> idSchema z (ct_turn_id t);
     sid \<leftarrow> idSchema z (ct_session_id t);
     workspace \<leftarrow> idSchema z (ct_workspace_id t);
     node \<leftarrow> idSchema z (ct_node_id t);
     revision \<leftarrow> revisionSchema z (ct_revision t);
     sequence \<leftarrow> revisionSchema z (ct_sequence t);
     text \<leftarrow> turnTextSchema z (ct_text t);
     intent \<leftarrow> nullable (idSchema z) (ct_intent_id t);
     pintent \<leftarrow> nullable (idSchema z) (ct_prov_intent_id t);
     pcorrelation \<leftarrow> nullable (idSchema z) (ct_prov_correlation_id t);
     pbinding \<leftarrow> nullable (idSchema z) (ct_prov_binding_id t);
     psource \<leftarrow> nullable (idSchema z) (ct_prov_source_ref t);
     citations \<leftarrow> arrayMax z 256 (idSchema z) (ct_citation_refs t);
     attachments \<leftarrow> arrayMax z 256 (idSchema z) (ct_attachment_refs t);
     Some (t \<lparr> ct_turn_id := tid, ct_session_id := sid, ct_workspace_id := workspace, ct_node_id := node,
       ct_revision := revision, ct_sequence := sequence, ct_text := text, ct_intent_id := intent,
       ct_prov_intent_id := pintent, ct_prov_correlation_id := pcorrelation, ct_prov_binding_id := pbinding,
       ct_prov_source_ref := psource, ct_citation_refs := citations, ct_attachment_refs := attachments \<rparr>) }"

record exchange =
  ex_exchange_id :: string
  ex_session_id :: string
  ex_correlation_id :: string
  ex_intent_id :: string
  ex_operator_turn_id :: string
  ex_response_turn_id :: string
  ex_binding_id :: "string option"
  ex_status :: exchange_status
  ex_response_text :: units
  ex_attempt :: int
  ex_created_at :: timestamp
  ex_updated_at :: timestamp
  ex_error_code :: "conversation_error option"

text \<open>The part of an intent submission the service reads: fields of its envelope.\<close>

record submission =
  sub_intent_id :: string
  sub_workspace_id :: string
  sub_node_id :: string
  sub_idempotency_key :: string
  sub_text :: "units option"
  sub_operation :: "json option"
  sub_target_refs :: "string list"

record conversation_config =
  cc_zod :: zod
  cc_graph :: graph_config
  cc_workspaceId :: string
  cc_nodeId :: string
  cc_actorRef :: string
  cc_now :: "nat \<Rightarrow> timestamp"
  cc_idFactory :: "nat \<Rightarrow> string \<Rightarrow> string"
  cc_activeBinding :: "(string option \<Rightarrow> bool) option"
  cc_maxResponseChars :: "int option"
  cc_maxStreamChunks :: "int option"

record conversation =
  cv_graph :: session_graph
  cv_turns :: "(string, turn) jsmap"
  cv_exchanges :: "(string, exchange) jsmap"
  cv_queuedIntents :: "(string, submission) jsmap"
  cv_connection :: conversation_connection
  cv_clock :: nat
  cv_ids :: nat

type_synonym 'a conv_outcome = "(conversation_failure, 'a, conversation) outcome"

definition maxResponseChars :: "conversation_config \<Rightarrow> int" where
  "maxResponseChars cfg = max 256 (case cc_maxResponseChars cfg of None \<Rightarrow> 32000 | Some n \<Rightarrow> n)"

definition maxStreamChunks :: "conversation_config \<Rightarrow> int" where
  "maxStreamChunks cfg = max 1 (case cc_maxStreamChunks cfg of None \<Rightarrow> 256 | Some n \<Rightarrow> n)"

definition createDurableConversationService :: "session_graph \<Rightarrow> conversation" where
  "createDurableConversationService g = \<lparr> cv_graph = g, cv_turns = [], cv_exchanges = [], cv_queuedIntents = [],
     cv_connection = CONN_CONNECTED, cv_clock = 0, cv_ids = 0 \<rparr>"

definition conv_iso :: "conversation_config \<Rightarrow> conversation \<Rightarrow> timestamp \<times> conversation" where
  "conv_iso cfg c = (cc_now cfg (cv_clock c), c \<lparr> cv_clock := cv_clock c + 1 \<rparr>)"

definition conv_id :: "conversation_config \<Rightarrow> string \<Rightarrow> conversation \<Rightarrow> string \<times> conversation" where
  "conv_id cfg prefix c = (cc_idFactory cfg (cv_ids c) prefix, c \<lparr> cv_ids := cv_ids c + 1 \<rparr>)"

text \<open>A call of the graph: its state is part of the conversation's, its errors pass through.\<close>

definition on_graph :: "(session_graph \<Rightarrow> (graph_error, 'a, session_graph) outcome) \<Rightarrow> conversation \<Rightarrow> 'a conv_outcome" where
  "on_graph f c = (case f (cv_graph c) of
     (Inl e, g) \<Rightarrow> throw (Graph e) (c \<lparr> cv_graph := g \<rparr>)
   | (Inr a, g) \<Rightarrow> return a (c \<lparr> cv_graph := g \<rparr>))"

definition setConnection :: "conversation_connection \<Rightarrow> conversation \<Rightarrow> conversation" where
  "setConnection st c = c \<lparr> cv_connection := st \<rparr>"

section \<open>Turns\<close>

record turn_input =
  ti_role :: turn_role
  ti_state :: turn_state
  ti_session :: session
  ti_sequence :: int
  ti_text :: units
  ti_intentId :: "string option"
  ti_bindingId :: "string option"
  ti_correlationId :: "string option"

definition createTurn :: "conversation_config \<Rightarrow> turn_input \<Rightarrow> conversation \<Rightarrow> turn conv_outcome" where
  "createTurn cfg input c =
     (let (now, c1) = conv_iso cfg c; (tid, c2) = conv_id cfg ''turn'' c1 in
      case parseSpatialConversationTurn (cc_zod cfg) \<lparr> ct_turn_id = tid, ct_session_id = ws_session_id (ti_session input),
          ct_workspace_id = cc_workspaceId cfg, ct_node_id = cc_nodeId cfg, ct_revision = 0, ct_sequence = ti_sequence input,
          ct_role = ti_role input, ct_state = ti_state input, ct_text = safeChunk (ti_text input) (maxResponseChars cfg),
          ct_intent_id = ti_intentId input, ct_prov_intent_id = ti_intentId input,
          ct_prov_correlation_id = ti_correlationId input, ct_prov_binding_id = ti_bindingId input,
          ct_prov_source_ref = Some (ws_session_id (ti_session input)), ct_citation_refs = [], ct_attachment_refs = [],
          ct_created_at = now, ct_updated_at = now \<rparr> of
        None \<Rightarrow> throw (Conversation Conv_INVALID_TURN) c2
      | Some t \<Rightarrow> return t c2)"

definition put_turn :: "turn \<Rightarrow> conversation \<Rightarrow> conversation" where
  "put_turn t c = c \<lparr> cv_turns := jm_set (ct_turn_id t) t (cv_turns c) \<rparr>"

definition saveExchange :: "exchange \<Rightarrow> conversation \<Rightarrow> conversation" where
  "saveExchange x c = c \<lparr> cv_exchanges := jm_set (ex_exchange_id x) x (cv_exchanges c) \<rparr>"

text \<open>A turn that is created, filed and appended to its session.\<close>

definition addTurn :: "conversation_config \<Rightarrow> turn_input \<Rightarrow> conversation \<Rightarrow> turn conv_outcome" where
  "addTurn cfg input c = seqO (createTurn cfg input c) (\<lambda>t c1.
     seqO (on_graph (appendTurn (cc_graph cfg) (ws_session_id (ti_session input)) (ct_turn_id t) (cc_actorRef cfg)
             (Some (ct_revision t))) (put_turn t c1)) (\<lambda>_ c2. return t c2))"

section \<open>Submitting\<close>

record submit_options =
  so_sessionId :: "string option"
  so_bindingId :: "string option"
  so_title :: "string option"

definition submission_text :: "submission \<Rightarrow> units" where
  "submission_text s = (case sub_text s of Some t \<Rightarrow> t
     | None \<Rightarrow> text_of (stringify (case sub_operation s of Some op \<Rightarrow> op | None \<Rightarrow> JObj [])))"

definition submit_session :: "conversation_config \<Rightarrow> submission \<Rightarrow> submit_options \<Rightarrow> conversation \<Rightarrow> session conv_outcome" where
  "submit_session cfg s opts c =
     (if js_truthy (so_sessionId opts) then
        (case getSession (cv_graph c) (the (so_sessionId opts)) of
           None \<Rightarrow> throw (Conversation Conv_INVALID_TURN) c | Some ses \<Rightarrow> return ses c)
      else on_graph (createSession (cc_graph cfg) \<lparr> ci_sessionId = None, ci_rootIntentId = sub_intent_id s,
          ci_actorRef = cc_actorRef cfg, ci_title = so_title opts, ci_summary = None,
          ci_semanticAnchor = Some (case sub_target_refs s of t # _ \<Rightarrow> t | [] \<Rightarrow> ''session:'' @ sub_intent_id s),
          ci_parentSessionId = None, ci_structuralParentRef = None, ci_contextRefs = None, ci_initialRevision = None \<rparr>) c)"

definition new_exchange :: "submission \<Rightarrow> submit_options \<Rightarrow> session \<Rightarrow> turn \<Rightarrow> turn \<Rightarrow> string \<Rightarrow> timestamp \<Rightarrow> exchange" where
  "new_exchange s opts ses operator response xid ts = \<lparr> ex_exchange_id = xid, ex_session_id = ws_session_id ses,
     ex_correlation_id = sub_intent_id s, ex_intent_id = sub_intent_id s, ex_operator_turn_id = ct_turn_id operator,
     ex_response_turn_id = ct_turn_id response, ex_binding_id = so_bindingId opts, ex_status = XQUEUED,
     ex_response_text = [], ex_attempt = 1, ex_created_at = ts, ex_updated_at = ts, ex_error_code = None \<rparr>"

text \<open>The response turn and the exchange, once the operator's turn was appended.\<close>

definition submit_response :: "conversation_config \<Rightarrow> submission \<Rightarrow> submit_options \<Rightarrow> session \<Rightarrow> timestamp \<Rightarrow> turn
    \<Rightarrow> conversation \<Rightarrow> exchange conv_outcome" where
  "submit_response cfg s opts ses ts operator c =
     (let refreshed = (case getSession (cv_graph c) (ws_session_id ses) of Some r \<Rightarrow> r | None \<Rightarrow> ses) in
      seqO (createTurn cfg \<lparr> ti_role = AGENT, ti_state = TQUEUED, ti_session = refreshed,
          ti_sequence = int (length (ws_turn_refs refreshed)), ti_text = [], ti_intentId = Some (sub_intent_id s),
          ti_bindingId = so_bindingId opts, ti_correlationId = Some (sub_intent_id s) \<rparr> c) (\<lambda>response c1.
      seqO (on_graph (appendTurn (cc_graph cfg) (ws_session_id ses) (ct_turn_id response) (cc_actorRef cfg)
              (Some (ct_revision response))) (put_turn response c1)) (\<lambda>_ c2.
      let (xid, c3) = conv_id cfg ''exchange'' c2; x = new_exchange s opts ses operator response xid ts in
      return x (saveExchange x c3))))"

definition submit_turns :: "conversation_config \<Rightarrow> submission \<Rightarrow> submit_options \<Rightarrow> session \<Rightarrow> conversation \<Rightarrow> exchange conv_outcome" where
  "submit_turns cfg s opts ses c =
     (let (ts, c1) = conv_iso cfg c in
      seqO (addTurn cfg \<lparr> ti_role = OPERATOR, ti_state = TCOMPLETED, ti_session = ses,
          ti_sequence = int (length (ws_turn_refs ses)), ti_text = submission_text s, ti_intentId = Some (sub_intent_id s),
          ti_bindingId = so_bindingId opts, ti_correlationId = Some (sub_intent_id s) \<rparr> c1)
        (\<lambda>operator c2. submit_response cfg s opts ses ts operator c2))"

definition submitIntent :: "conversation_config \<Rightarrow> submission \<Rightarrow> submit_options \<Rightarrow> conversation \<Rightarrow> exchange conv_outcome" where
  "submitIntent cfg s opts c =
     (if sub_workspace_id s \<noteq> cc_workspaceId cfg then throw (Conversation Conv_INVALID_TURN) c
      else if sub_node_id s \<noteq> cc_nodeId cfg then throw (Conversation Conv_INVALID_TURN) c
      else case find (\<lambda>x. ex_intent_id x = sub_intent_id s) (jm_values (cv_exchanges c)) of
        Some existing \<Rightarrow> return existing c
      | None \<Rightarrow>
          let c1 = (if cv_connection c = CONN_DISCONNECTED
                    then c \<lparr> cv_queuedIntents := jm_set (sub_idempotency_key s) s (cv_queuedIntents c) \<rparr> else c)
          in seqO (submit_session cfg s opts c1) (\<lambda>ses c2. submit_turns cfg s opts ses c2))"

definition flushDisconnectedQueue :: "conversation \<Rightarrow> string list \<times> conversation" where
  "flushDisconnectedQueue c = (jm_keys (cv_queuedIntents c),
     c \<lparr> cv_queuedIntents := [],
         cv_connection := (if cv_connection c = CONN_DISCONNECTED then CONN_RECONNECTING else cv_connection c) \<rparr>)"

definition conv_reconnect :: "conversation \<Rightarrow> (string list \<times> exchange list) \<times> conversation" where
  "conv_reconnect c = (let (keys, c1) = flushDisconnectedQueue c; c2 = c1 \<lparr> cv_connection := CONN_CONNECTED \<rparr> in
     ((keys, filter (\<lambda>x. ex_status x = XQUEUED \<or> ex_status x = XSTREAMING) (jm_values (cv_exchanges c2))), c2))"

section \<open>Responses\<close>

definition requireExchange :: "string \<Rightarrow> conversation \<Rightarrow> conversation_failure + exchange" where
  "requireExchange exchangeId c = (case jm_get (cv_exchanges c) exchangeId of
     None \<Rightarrow> Inl (Conversation Conv_EXCHANGE_NOT_FOUND) | Some x \<Rightarrow> Inr x)"

definition requireTurn :: "string \<Rightarrow> conversation \<Rightarrow> conversation_failure + turn" where
  "requireTurn turnId c = (case jm_get (cv_turns c) turnId of
     None \<Rightarrow> Inl (Conversation Conv_INVALID_TURN) | Some t \<Rightarrow> Inr t)"

definition assertBinding :: "conversation_config \<Rightarrow> exchange \<Rightarrow> string option \<Rightarrow> conversation_failure + unit" where
  "assertBinding cfg x bindingId =
     (let provided = (case bindingId of None \<Rightarrow> ex_binding_id x | Some b \<Rightarrow> Some b) in
      if ex_binding_id x \<noteq> provided \<or> (case cc_activeBinding cfg of None \<Rightarrow> False | Some active \<Rightarrow> \<not> active provided)
      then Inl (Conversation Conv_BINDING_REJECTED) else Inr ())"

definition with_exchange :: "conversation_config \<Rightarrow> string \<Rightarrow> string option \<Rightarrow> conversation
    \<Rightarrow> (exchange \<Rightarrow> exchange conv_outcome) \<Rightarrow> exchange conv_outcome" where
  "with_exchange cfg exchangeId bindingId c k =
     liftO (requireExchange exchangeId c) c (\<lambda>x. liftO (assertBinding cfg x bindingId) c (\<lambda>_. k x))"

definition closed_error :: "exchange_status \<Rightarrow> conversation_error" where
  "closed_error st = (if st = XCANCELLED then Conv_CANCELLED else Conv_TIMEOUT)"

definition stream_chunk :: "conversation_config \<Rightarrow> exchange \<Rightarrow> turn \<Rightarrow> units \<Rightarrow> conversation \<Rightarrow> exchange conv_outcome" where
  "stream_chunk cfg x t chunk c =
     (let safe = safeChunk chunk (max 0 (maxResponseChars cfg - int (length (ex_response_text x))));
          (ts, c1) = conv_iso cfg c;
          x' = x \<lparr> ex_response_text := ex_response_text x @ safe, ex_status := XSTREAMING, ex_updated_at := ts \<rparr>;
          t' = t \<lparr> ct_state := TSTREAMING,
                 ct_text := text_slice (maxResponseChars cfg + maxStreamChunks cfg) (ct_text t @ safe @ [STREAM_SEPARATOR]),
                 ct_updated_at := ts, ct_revision := ct_revision t + 1 \<rparr>
      in return x' (saveExchange x' (put_turn t' c1)))"

definition appendResponseChunk :: "conversation_config \<Rightarrow> string \<Rightarrow> units \<Rightarrow> string option \<Rightarrow> conversation
    \<Rightarrow> exchange conv_outcome" where
  "appendResponseChunk cfg exchangeId chunk bindingId c = with_exchange cfg exchangeId bindingId c (\<lambda>x.
     if ex_status x = XCANCELLED \<or> ex_status x = XTIMED_OUT then throw (Conversation (closed_error (ex_status x))) c
     else if ex_status x = XFAILED then throw (Conversation Conv_EXCHANGE_NOT_FOUND) c
     else liftO (requireTurn (ex_response_turn_id x) c) c (\<lambda>t.
       if maxStreamChunks cfg \<le> chunk_count (ct_text t)
       then throw (Conversation Conv_STREAM_LIMIT)
              (saveExchange (x \<lparr> ex_status := XFAILED, ex_error_code := Some Conv_STREAM_LIMIT \<rparr>) c)
       else stream_chunk cfg x t chunk c))"

text \<open>The common end of an exchange: the exchange is changed first, its response turn after it was found.\<close>

definition close_exchange :: "conversation_config \<Rightarrow> exchange_status \<Rightarrow> conversation_error option \<Rightarrow> turn_state
    \<Rightarrow> (units \<Rightarrow> units) \<Rightarrow> exchange \<Rightarrow> conversation \<Rightarrow> exchange conv_outcome" where
  "close_exchange cfg st err tst f x c =
     (let (ts, c1) = conv_iso cfg c;
          x' = x \<lparr> ex_status := st, ex_error_code := (case err of None \<Rightarrow> ex_error_code x | Some e \<Rightarrow> Some e), ex_updated_at := ts \<rparr>;
          c2 = saveExchange x' c1 in
      liftO (requireTurn (ex_response_turn_id x) c2) c2 (\<lambda>t.
        return x' (saveExchange x' (put_turn (t \<lparr> ct_state := tst, ct_text := f (ct_text t), ct_updated_at := ts,
          ct_revision := ct_revision t + 1 \<rparr>) c2))))"

definition completeResponse :: "conversation_config \<Rightarrow> string \<Rightarrow> string option \<Rightarrow> conversation \<Rightarrow> exchange conv_outcome" where
  "completeResponse cfg exchangeId bindingId c = with_exchange cfg exchangeId bindingId c (\<lambda>x.
     if ex_status x = XCANCELLED \<or> ex_status x = XTIMED_OUT then throw (Conversation (closed_error (ex_status x))) c
     else close_exchange cfg XCOMPLETED None TCOMPLETED (filter (\<lambda>u. u \<noteq> STREAM_SEPARATOR)) x c)"

definition failResponse :: "conversation_config \<Rightarrow> string \<Rightarrow> conversation_error option \<Rightarrow> string option \<Rightarrow> conversation
    \<Rightarrow> exchange conv_outcome" where
  "failResponse cfg exchangeId errorCode bindingId c = with_exchange cfg exchangeId bindingId c
     (\<lambda>x. close_exchange cfg XFAILED (Some (case errorCode of None \<Rightarrow> Conv_EXCHANGE_NOT_FOUND | Some e \<Rightarrow> e)) TFAILED id x c)"

definition cancel :: "conversation_config \<Rightarrow> string \<Rightarrow> string option \<Rightarrow> conversation \<Rightarrow> exchange conv_outcome" where
  "cancel cfg exchangeId bindingId c = with_exchange cfg exchangeId bindingId c
     (\<lambda>x. close_exchange cfg XCANCELLED (Some Conv_CANCELLED) TCANCELLED id x c)"

definition timeout :: "conversation_config \<Rightarrow> string \<Rightarrow> string option \<Rightarrow> conversation \<Rightarrow> exchange conv_outcome" where
  "timeout cfg exchangeId bindingId c = with_exchange cfg exchangeId bindingId c
     (\<lambda>x. close_exchange cfg XTIMED_OUT (Some Conv_TIMEOUT) TFAILED id x c)"

definition retry :: "conversation_config \<Rightarrow> string \<Rightarrow> conversation \<Rightarrow> exchange conv_outcome" where
  "retry cfg exchangeId c = liftO (requireExchange exchangeId c) c (\<lambda>previous.
     if ex_status previous \<notin> {XFAILED, XTIMED_OUT, XCANCELLED} then return previous c
     else liftO (requireTurn (ex_response_turn_id previous) c) c (\<lambda>_.
       case getSession (cv_graph c) (ex_session_id previous) of
         None \<Rightarrow> throw (Conversation Conv_EXCHANGE_NOT_FOUND) c
       | Some ses \<Rightarrow>
           seqO (addTurn cfg \<lparr> ti_role = AGENT, ti_state = TQUEUED, ti_session = ses,
               ti_sequence = int (length (ws_turn_refs ses)), ti_text = [], ti_intentId = Some (ex_intent_id previous),
               ti_bindingId = ex_binding_id previous, ti_correlationId = Some (ex_correlation_id previous) \<rparr> c) (\<lambda>t c1.
           let (xid, c2) = conv_id cfg ''exchange'' c1; (t1, c3) = conv_iso cfg c2; (t2, c4) = conv_iso cfg c3;
               x = previous \<lparr> ex_exchange_id := xid, ex_response_turn_id := ct_turn_id t, ex_status := XQUEUED,
                 ex_response_text := [], ex_attempt := ex_attempt previous + 1, ex_created_at := t1, ex_updated_at := t2,
                 ex_error_code := None \<rparr>
           in return x (saveExchange x c4))))"

section \<open>Reading and restoring\<close>

definition getExchange :: "conversation \<Rightarrow> string \<Rightarrow> exchange option" where
  "getExchange c exchangeId = jm_get (cv_exchanges c) exchangeId"

definition getTurn :: "conversation \<Rightarrow> string \<Rightarrow> turn option" where
  "getTurn c turnId = jm_get (cv_turns c) turnId"

definition listTurns :: "conversation \<Rightarrow> string option \<Rightarrow> turn list" where
  "listTurns c sessionId = sort_key ct_sequence
     (filter (\<lambda>t. \<not> js_truthy sessionId \<or> Some (ct_session_id t) = sessionId) (jm_values (cv_turns c)))"

record conversation_snapshot =
  cs_sessions :: graph_snapshot
  cs_turns :: "turn list"
  cs_exchanges :: "exchange list"
  cs_connection :: conversation_connection

definition conv_snapshot :: "conversation \<Rightarrow> conversation_snapshot" where
  "conv_snapshot c = \<lparr> cs_sessions = graph_snapshot_of (cv_graph c), cs_turns = listTurns c None,
     cs_exchanges = jm_values (cv_exchanges c), cs_connection = cv_connection c \<rparr>"

fun restoreTurns :: "conversation_config \<Rightarrow> turn list \<Rightarrow> conversation \<Rightarrow> unit conv_outcome" where
  "restoreTurns cfg [] c = return () c"
| "restoreTurns cfg (t # ts) c = (case parseSpatialConversationTurn (cc_zod cfg) t of
     None \<Rightarrow> throw (Conversation Conv_INVALID_TURN) c
   | Some p \<Rightarrow> restoreTurns cfg ts (put_turn p c))"

definition conv_restore :: "conversation_config \<Rightarrow> conversation_snapshot \<Rightarrow> conversation \<Rightarrow> unit conv_outcome" where
  "conv_restore cfg snap c = seqO (on_graph (restore_graph (cc_graph cfg) (cs_sessions snap)) c) (\<lambda>_ c1.
     seqO (restoreTurns cfg (cs_turns snap) (c1 \<lparr> cv_turns := [] \<rparr>)) (\<lambda>_ c2.
     return () (c2 \<lparr> cv_exchanges := fold (\<lambda>x. jm_set (ex_exchange_id x) x) (cs_exchanges snap) [],
       cv_connection := cs_connection snap \<rparr>)))"

end
