(* ===== verification/Conversation_Properties.thy ===== *)
theory Conversation_Properties
  imports Conversation
begin

text \<open>
  What the conversation service guarantees: what sanitising leaves of a chunk, the effect of every operation on the
  exchanges and on the lengths of the stored texts (\<open>effect\<close>, read through \<open>conversation_machine\<close>), one exchange per intent,
  and that a binding that is no longer active cannot change an exchange; with concrete runs of the defects found.
\<close>

section \<open>Sanitising\<close>

text \<open>A text has a tag where a \<open><\<close> is followed by its next \<open>>\<close> with something in between.\<close>

fun has_tag :: "units \<Rightarrow> bool" where
  "has_tag [] \<longleftrightarrow> False"
| "has_tag (c # cs) \<longleftrightarrow> c = 60 \<and> tag_end cs \<noteq> None \<or> has_tag cs"

lemma tag_end_None: "tag_end cs = None \<longleftrightarrow> 62 \<notin> set cs \<or> cs = [] \<or> hd cs = 62"
  by (cases cs) (auto simp: tag_end_def Let_def dropWhile_eq_Nil_conv)

lemma tag_end_set: "tag_end cs = Some rest \<Longrightarrow> set rest \<subseteq> set cs"
  by (auto simp: tag_end_def Let_def split: if_splits dest!: list.set_sel(2) [rotated] dest: set_dropWhileD)

lemma set_strip_tags: "set (strip_tags cs) \<subseteq> set cs"
  by (induction cs rule: strip_tags.induct) (fastforce split: option.splits if_splits dest: tag_end_set)+

lemma strip_tags_no_tag: "\<not> has_tag (strip_tags cs)"
proof (induction cs rule: strip_tags.induct)
  case (2 c cs)
  show ?case
  proof (cases "if c = 60 then tag_end cs else None")
    case None
    have "tag_end (strip_tags cs) = None" if "c = 60"
      using None that set_strip_tags [of cs] by (cases cs) (auto simp: tag_end_None)
    with 2(1) [OF None] None show ?thesis by auto
  next
    case (Some rest)
    with 2(2) [OF Some] show ?thesis by simp
  qed
qed simp

text \<open>A text is thinner than another when units other than \<open>>\<close> were dropped, or everything from some point on.\<close>

inductive thinner :: "units \<Rightarrow> units \<Rightarrow> bool" where
  cut: "thinner [] ys"
| keep: "thinner xs ys \<Longrightarrow> thinner (x # xs) (x # ys)"
| drop: "thinner xs ys \<Longrightarrow> y \<noteq> 62 \<Longrightarrow> thinner xs (y # ys)"

inductive_cases thinner_ConsE: "thinner xs (y # ys)"

lemma thinner_set: "thinner xs ys \<Longrightarrow> set xs \<subseteq> set ys"
  by (induction rule: thinner.induct) auto

lemma thinner_tag_end: "thinner xs ys \<Longrightarrow> tag_end ys = None \<Longrightarrow> tag_end xs = None"
  unfolding tag_end_None by (erule disjE, blast dest: thinner_set) (auto elim: thinner.cases)

lemma thinner_no_tag: "thinner xs ys \<Longrightarrow> \<not> has_tag ys \<Longrightarrow> \<not> has_tag xs"
  by (induction rule: thinner.induct) (auto dest: thinner_tag_end)

lemma thinner_prefix: "62 \<notin> set zs \<Longrightarrow> thinner xs ys \<Longrightarrow> thinner xs (zs @ ys)"
  by (induction zs) (auto intro: thinner.drop)

lemma script_end_split:
  assumes "script_end cs = Some rest"
  shows "\<exists>zs. cs = zs @ rest \<and> 62 \<notin> set zs"
proof -
  let ?w = "text_of ''javascript''" and ?sp = "takeWhile unit_space (drop (length (text_of ''javascript'')) cs)"
  have w: "map unit_lower (take (length ?w) cs) = ?w" and d: "dropWhile unit_space (drop (length ?w) cs) = 58 # rest"
    using assms by (auto simp: script_end_def Let_def split: if_splits list.splits)
  have "cs = take (length ?w) cs @ drop (length ?w) cs" by simp
  also have "\<dots> = take (length ?w) cs @ ?sp @ 58 # rest" using d by (metis takeWhile_dropWhile_id)
  finally have split: "cs = (take (length ?w) cs @ ?sp @ [58]) @ rest" by simp
  have "62 \<notin> set (take (length ?w) cs)"
  proof
    assume "62 \<in> set (take (length ?w) cs)"
    then have "unit_lower 62 \<in> set (map unit_lower (take (length ?w) cs))" by (simp only: set_map imageI)
    then have "unit_lower 62 \<in> set ?w" by (simp only: w)
    moreover have "unit_lower 62 \<notin> set ?w" by code_simp
    ultimately show False by contradiction
  qed
  moreover have "62 \<notin> set ?sp" by (auto dest!: set_takeWhileD simp: unit_space_def)
  ultimately show ?thesis using split by (intro exI [of _ "take (length ?w) cs @ ?sp @ [58]"]) simp
qed

lemma strip_script_thinner: "thinner (strip_script cs) cs"
proof (induction cs rule: strip_script.induct)
  case (2 c cs)
  show ?case
  proof (cases "script_end (c # cs)")
    case None
    with 2(1) [OF None] show ?thesis by (simp add: thinner.keep)
  next
    case (Some rest)
    then obtain zs where zs: "c # cs = zs @ rest" "62 \<notin> set zs" using script_end_split by blast
    have "strip_script (c # cs) = strip_script rest" using Some by simp
    also have "thinner \<dots> (c # cs)" unfolding zs(1) using zs(2) 2(2) [OF Some] by (rule thinner_prefix)
    finally show ?thesis .
  qed
qed (simp add: thinner.cut)

lemma filter_printable_thinner: "thinner (filter printable cs) cs"
  by (induction cs) (auto intro: thinner.intros simp: printable_def)

lemma take_thinner: "thinner (take n cs) cs"
  by (induction cs arbitrary: n) (auto intro: thinner.intros simp: take_Cons split: nat.split)

text \<open>
  What \<open>safeChunk\<close> lets through is free of tags, whatever the chunk: no \<open><\<close> is followed by a \<open>>\<close> with anything in
  between, contains no control units, and is no longer than the limit.
\<close>

theorem safeChunk_is_tag_free:
  "\<not> has_tag (safeChunk value maxChars) \<and> list_all printable (safeChunk value maxChars) \<and>
   int (length (safeChunk value maxChars)) \<le> max 0 maxChars"
proof -
  have "\<not> has_tag (strip_script (strip_tags value))"
    using strip_tags_no_tag strip_script_thinner by (blast dest: thinner_no_tag)
  then have "\<not> has_tag (safeChunk value maxChars)"
    unfolding safeChunk_def text_slice_take using filter_printable_thinner take_thinner by (blast dest: thinner_no_tag)
  then show ?thesis by (auto simp: safeChunk_def text_slice_take list_all_iff dest: in_set_takeD)
qed

text \<open>The scheme filter runs once, so removing one occurrence can leave another behind.\<close>

lemma nested_scheme_survives: "safeChunk (text_of ''javajavascript:script:alert(1)'') 256 = text_of ''javascript:alert(1)''"
  by code_simp

section \<open>What the operations do to the Maps\<close>

lemma safeChunk_length: "length (safeChunk v n) \<le> nat n"
  by (simp add: safeChunk_def text_slice_take)

lemma text_trim_length: "length (text_trim t) \<le> length t"
  unfolding text_trim_def using length_dropWhile_le [of unit_space t]
    length_dropWhile_le [of unit_space "rev (dropWhile unit_space t)"] by simp

lemma maxResponseChars_pos: "256 \<le> maxResponseChars cfg"
  by (simp add: maxResponseChars_def)

lemma maxStreamChunks_pos: "1 \<le> maxStreamChunks cfg"
  by (simp add: maxStreamChunks_def)

text \<open>The bounds on every stored text.\<close>

definition exchange_ok :: "conversation_config \<Rightarrow> string \<times> exchange \<Rightarrow> bool" where
  "exchange_ok cfg = (\<lambda>(k, x). int (length (ex_response_text x)) \<le> maxResponseChars cfg)"

definition turn_ok :: "conversation_config \<Rightarrow> string \<times> turn \<Rightarrow> bool" where
  "turn_ok cfg = (\<lambda>(k, t). int (length (ct_text t)) \<le> maxResponseChars cfg + maxStreamChunks cfg)"

definition texts_ok :: "conversation_config \<Rightarrow> conversation \<Rightarrow> bool" where
  "texts_ok cfg c \<longleftrightarrow> list_all (exchange_ok cfg) (cv_exchanges c) \<and> list_all (turn_ok cfg) (cv_turns c)"

text \<open>
  The effect on the exchanges: none, a rewrite of one whose binding was accepted, or a new one under an id drawn
  meanwhile.
\<close>

definition binding_accepted :: "conversation_config \<Rightarrow> exchange \<Rightarrow> bool" where
  "binding_accepted cfg x \<longleftrightarrow> (case cc_activeBinding cfg of None \<Rightarrow> True | Some active \<Rightarrow> active (ex_binding_id x))"

definition rewritten :: "conversation_config \<Rightarrow> conversation \<Rightarrow> conversation \<Rightarrow> bool" where
  "rewritten cfg c c' \<longleftrightarrow> (\<exists>k x x'. jm_get (cv_exchanges c) k = Some x \<and> binding_accepted cfg x \<and>
     ex_exchange_id x' = ex_exchange_id x \<and> ex_intent_id x' = ex_intent_id x \<and> ex_binding_id x' = ex_binding_id x \<and>
     cv_exchanges c' = jm_set (ex_exchange_id x) x' (cv_exchanges c))"

definition added :: "conversation_config \<Rightarrow> conversation \<Rightarrow> conversation \<Rightarrow> bool" where
  "added cfg c c' \<longleftrightarrow> (\<exists>n x. cv_ids c \<le> n \<and> n < cv_ids c' \<and> ex_exchange_id x = cc_idFactory cfg n ''exchange'' \<and>
     cv_exchanges c' = jm_set (ex_exchange_id x) x (cv_exchanges c))"

definition effect :: "conversation_config \<Rightarrow> conversation \<Rightarrow> conversation \<Rightarrow> bool" where
  "effect cfg c c' \<longleftrightarrow> (texts_ok cfg c \<longrightarrow> texts_ok cfg c') \<and> cv_ids c \<le> cv_ids c' \<and>
     (cv_exchanges c' = cv_exchanges c \<or> rewritten cfg c c' \<or> added cfg c c')"

definition quiet :: "conversation_config \<Rightarrow> conversation \<Rightarrow> conversation \<Rightarrow> bool" where
  "quiet cfg c c' \<longleftrightarrow> (texts_ok cfg c \<longrightarrow> texts_ok cfg c') \<and> cv_ids c \<le> cv_ids c' \<and> cv_exchanges c' = cv_exchanges c"

lemma quiet_refl [simp]: "quiet cfg c c"
  by (simp add: quiet_def)

lemma quiet_trans: "quiet cfg c c' \<Longrightarrow> quiet cfg c' c'' \<Longrightarrow> quiet cfg c c''"
  by (auto simp: quiet_def)

lemma quiet_effect: "quiet cfg c c' \<Longrightarrow> effect cfg c c'"
  by (simp add: quiet_def effect_def)

lemma quiet_then_effect:
  assumes "quiet cfg c c'" and "effect cfg c' c''"
  shows "effect cfg c c''"
proof -
  have e: "cv_exchanges c' = cv_exchanges c" and i: "cv_ids c \<le> cv_ids c'" and t: "texts_ok cfg c \<longrightarrow> texts_ok cfg c'"
    using assms(1) by (simp_all add: quiet_def)
  have "rewritten cfg c' c'' \<Longrightarrow> rewritten cfg c c''" by (simp add: rewritten_def e)
  moreover have "added cfg c' c'' \<Longrightarrow> added cfg c c''" unfolding added_def e using i le_trans by blast
  ultimately show ?thesis using assms(2) e i t unfolding effect_def by auto
qed

lemma quiet_fields [simp]:
  "quiet cfg c (c' \<lparr> cv_graph := g \<rparr>) \<longleftrightarrow> quiet cfg c c'"
  "quiet cfg c (c' \<lparr> cv_clock := n \<rparr>) \<longleftrightarrow> quiet cfg c c'"
  "quiet cfg c (c' \<lparr> cv_queuedIntents := q \<rparr>) \<longleftrightarrow> quiet cfg c c'"
  "quiet cfg c (c' \<lparr> cv_connection := s \<rparr>) \<longleftrightarrow> quiet cfg c c'"
  by (simp_all add: quiet_def texts_ok_def)

lemma effect_fields [simp]:
  "effect cfg c (c' \<lparr> cv_queuedIntents := q \<rparr>) \<longleftrightarrow> effect cfg c c'"
  "effect cfg c (c' \<lparr> cv_connection := s \<rparr>) \<longleftrightarrow> effect cfg c c'"
  by (simp_all add: effect_def texts_ok_def rewritten_def added_def)

lemma quiet_seqO:
  assumes "quiet cfg c (snd r)" and "\<And>a c1. r = (Inr a, c1) \<Longrightarrow> effect cfg c1 (snd (k a c1))"
  shows "effect cfg c (snd (seqO r k))"
  using assms by (cases r; cases "fst r") (auto intro: quiet_effect quiet_then_effect)

lemma quiet_seqO_quiet:
  assumes "quiet cfg c (snd r)" and "\<And>a c1. r = (Inr a, c1) \<Longrightarrow> quiet cfg c1 (snd (k a c1))"
  shows "quiet cfg c (snd (seqO r k))"
  using assms by (cases r; cases "fst r") (auto intro: quiet_trans)

lemma on_graph_quiet: "quiet cfg c (snd (on_graph f c))"
  by (simp add: on_graph_def case_prod_beta split: sum.split)

lemma createTurn_effect:
  assumes "createTurn cfg input c = (r, c')"
  shows "quiet cfg c c'" "cv_turns c' = cv_turns c" "r = Inr t \<Longrightarrow> turn_ok cfg (k, t)"
proof -
  have c': "c' = c \<lparr> cv_clock := cv_clock c + 1, cv_ids := cv_ids c + 1 \<rparr>"
    using assms by (auto simp: createTurn_def conv_iso_def conv_id_def Let_def split: option.splits)
  then show "quiet cfg c c'" "cv_turns c' = cv_turns c" by (simp_all add: quiet_def texts_ok_def)
  assume "r = Inr t"
  with assms have "ct_text t = text_trim (safeChunk (ti_text input) (maxResponseChars cfg))"
    by (auto simp: createTurn_def conv_iso_def conv_id_def parseSpatialConversationTurn_def turnTextSchema_def Let_def
        split: option.splits Option.bind_splits if_splits)
  then have "length (ct_text t) \<le> nat (maxResponseChars cfg)"
    using text_trim_length safeChunk_length by (metis le_trans)
  then show "turn_ok cfg (k, t)" using maxStreamChunks_pos [of cfg] maxResponseChars_pos [of cfg] by (simp add: turn_ok_def)
qed

lemma put_turn_quiet: "turn_ok cfg (ct_turn_id t, t) \<Longrightarrow> quiet cfg c (put_turn t c)"
  by (simp add: quiet_def texts_ok_def put_turn_def list_all_jm_set)

lemma addTurn_quiet: "quiet cfg c (snd (addTurn cfg input c))"
  unfolding addTurn_def
proof (rule quiet_seqO_quiet)
  obtain r c1 where "createTurn cfg input c = (r, c1)" by force
  then show "quiet cfg c (snd (createTurn cfg input c))" by (simp add: createTurn_effect)
  fix t c1
  assume t: "createTurn cfg input c = (Inr t, c1)"
  have "quiet cfg c1 (put_turn t c1)" using createTurn_effect(3) [OF t] by (intro put_turn_quiet) simp
  then have "quiet cfg c1 (snd (on_graph f (put_turn t c1)))" for f
    using on_graph_quiet by (rule quiet_trans)
  then show "quiet cfg c1 (snd (seqO (on_graph (appendTurn (cc_graph cfg) (ws_session_id (ti_session input)) (ct_turn_id t)
      (cc_actorRef cfg) (Some (ct_revision t))) (put_turn t c1)) (\<lambda>_ c2. return t c2)))"
    by (intro quiet_seqO_quiet) simp_all
qed

lemma with_exchange_effect:
  assumes "\<And>x. jm_get (cv_exchanges c) xid = Some x \<Longrightarrow> binding_accepted cfg x \<Longrightarrow> effect cfg c (snd (k x))"
  shows "effect cfg c (snd (with_exchange cfg xid b c k))"
proof (cases "jm_get (cv_exchanges c) xid")
  case None
  then show ?thesis by (simp add: with_exchange_def requireExchange_def quiet_effect)
next
  case (Some x)
  show ?thesis
  proof (cases "assertBinding cfg x b")
    case (Inl e)
    with Some show ?thesis by (simp add: with_exchange_def requireExchange_def quiet_effect)
  next
    case (Inr u)
    then have "binding_accepted cfg x"
      by (auto simp: assertBinding_def binding_accepted_def Let_def split: if_splits option.splits)
    with Some Inr assms show ?thesis by (simp add: with_exchange_def requireExchange_def)
  qed
qed

lemma rewrite_effect:
  assumes "jm_get (cv_exchanges c) k = Some x" and "binding_accepted cfg x"
    and "ex_exchange_id x' = ex_exchange_id x" "ex_intent_id x' = ex_intent_id x" "ex_binding_id x' = ex_binding_id x"
    and "cv_exchanges c' = jm_set (ex_exchange_id x') x' (cv_exchanges c)" and "cv_ids c \<le> cv_ids c'"
    and "texts_ok cfg c \<Longrightarrow> exchange_ok cfg (ex_exchange_id x, x')"
    and "texts_ok cfg c \<Longrightarrow> list_all (turn_ok cfg) (cv_turns c')"
  shows "effect cfg c c'"
  using assms unfolding effect_def rewritten_def texts_ok_def by (auto intro!: list_all_jm_set)

lemma texts_ok_exchange: "texts_ok cfg c \<Longrightarrow> jm_get (cv_exchanges c) k = Some x \<Longrightarrow> exchange_ok cfg (j, x)"
  using list_all_jm_get [of "exchange_ok cfg" "cv_exchanges c" k x] by (simp add: texts_ok_def exchange_ok_def)

lemma texts_ok_turn: "texts_ok cfg c \<Longrightarrow> jm_get (cv_turns c) k = Some t \<Longrightarrow> turn_ok cfg (j, t)"
  using list_all_jm_get [of "turn_ok cfg" "cv_turns c" k t] by (simp add: texts_ok_def turn_ok_def)

lemma stream_chunk_effect:
  assumes x: "jm_get (cv_exchanges c) k = Some x" and b: "binding_accepted cfg x"
  shows "effect cfg c (snd (stream_chunk cfg x t chunk c))"
proof -
  let ?safe = "safeChunk chunk (max 0 (maxResponseChars cfg - int (length (ex_response_text x))))"
  have "int (length ?safe) \<le> max 0 (maxResponseChars cfg - int (length (ex_response_text x)))"
    using safeChunk_length [of chunk "max 0 (maxResponseChars cfg - int (length (ex_response_text x)))"] by linarith
  moreover have "int (length (ex_response_text x)) \<le> maxResponseChars cfg" if "texts_ok cfg c"
    using texts_ok_exchange [OF that x, of k] by (simp add: exchange_ok_def)
  ultimately have bound: "int (length (ex_response_text x @ ?safe)) \<le> maxResponseChars cfg" if "texts_ok cfg c"
    using that by fastforce
  have len: "turn_ok cfg (j, t \<lparr> ct_state := TSTREAMING, ct_text := text_slice (maxResponseChars cfg + maxStreamChunks cfg) u,
      ct_updated_at := ts, ct_revision := n \<rparr>)" for j u ts n
    using maxResponseChars_pos [of cfg] maxStreamChunks_pos [of cfg] by (simp add: turn_ok_def text_slice_take)
  show ?thesis
  proof (rule rewrite_effect [OF x b, where x' = "x \<lparr> ex_response_text := ex_response_text x @ ?safe,
        ex_status := XSTREAMING, ex_updated_at := cc_now cfg (cv_clock c) \<rparr>"])
    show "exchange_ok cfg (ex_exchange_id x, x \<lparr> ex_response_text := ex_response_text x @ ?safe,
        ex_status := XSTREAMING, ex_updated_at := cc_now cfg (cv_clock c) \<rparr>)" if "texts_ok cfg c"
      using bound [OF that] by (simp add: exchange_ok_def)
    show "list_all (turn_ok cfg) (cv_turns (snd (stream_chunk cfg x t chunk c)))" if "texts_ok cfg c"
      using that unfolding stream_chunk_def conv_iso_def Let_def saveExchange_def put_turn_def texts_ok_def
      by simp (intro list_all_jm_set len; simp)
  qed (simp_all add: stream_chunk_def conv_iso_def Let_def saveExchange_def put_turn_def)
qed

lemma close_exchange_effect:
  assumes x: "jm_get (cv_exchanges c) k = Some x" and b: "binding_accepted cfg x" and f: "\<And>t. length (f t) \<le> length t"
  shows "effect cfg c (snd (close_exchange cfg st err tst f x c))"
proof -
  let ?x = "x \<lparr> ex_status := st, ex_error_code := (case err of None \<Rightarrow> ex_error_code x | Some e \<Rightarrow> Some e),
    ex_updated_at := cc_now cfg (cv_clock c) \<rparr>"
  have idem: "jm_set j v (jm_set j v m) = jm_set j v m" for j and v :: exchange and m
    by (induction m) auto
  have ok: "exchange_ok cfg (ex_exchange_id x, ?x)" if "texts_ok cfg c"
    using texts_ok_exchange [OF that x, of "ex_exchange_id x"] by (simp add: exchange_ok_def)
  have turns: "list_all (turn_ok cfg) (cv_turns (snd (close_exchange cfg st err tst f x c)))" if "texts_ok cfg c"
  proof (cases "jm_get (cv_turns c) (ex_response_turn_id x)")
    case None
    with that show ?thesis
      by (simp add: close_exchange_def conv_iso_def Let_def saveExchange_def requireTurn_def texts_ok_def)
  next
    case (Some t)
    have "int (length (f (ct_text t))) \<le> maxResponseChars cfg + maxStreamChunks cfg"
      using texts_ok_turn [OF that Some, of "[]"] f [of "ct_text t"] by (simp add: turn_ok_def)
    with Some that show ?thesis
      by (auto simp: close_exchange_def conv_iso_def Let_def saveExchange_def requireTurn_def put_turn_def texts_ok_def
          turn_ok_def intro!: list_all_jm_set)
  qed
  show ?thesis
    by (rule rewrite_effect [OF x b, where x' = ?x])
      (use ok turns in \<open>simp_all add: close_exchange_def conv_iso_def Let_def saveExchange_def requireTurn_def put_turn_def idem
        split: option.split\<close>)
qed

lemma response_operations_effect:
  "effect cfg c (snd (appendResponseChunk cfg xid chunk b c))"
  "effect cfg c (snd (completeResponse cfg xid b c))"
  "effect cfg c (snd (failResponse cfg xid err b c))"
  "effect cfg c (snd (cancel cfg xid b c))"
  "effect cfg c (snd (timeout cfg xid b c))"
proof -
  have refl: "effect cfg c c" by (simp add: quiet_effect)
  have limit: "effect cfg c (saveExchange (x \<lparr> ex_status := XFAILED, ex_error_code := Some Conv_STREAM_LIMIT \<rparr>) c)"
    if x: "jm_get (cv_exchanges c) xid = Some x" and b: "binding_accepted cfg x" for x
    by (rule rewrite_effect [OF x b, where x' = "x \<lparr> ex_status := XFAILED, ex_error_code := Some Conv_STREAM_LIMIT \<rparr>"])
      (use texts_ok_exchange [OF _ x, of cfg "ex_exchange_id x"] in \<open>simp_all add: saveExchange_def exchange_ok_def texts_ok_def\<close>)
  show "effect cfg c (snd (appendResponseChunk cfg xid chunk b c))"
    unfolding appendResponseChunk_def
    by (rule with_exchange_effect) (auto simp: refl limit stream_chunk_effect requireTurn_def split: option.split)
  show "effect cfg c (snd (completeResponse cfg xid b c))"
    unfolding completeResponse_def by (rule with_exchange_effect) (auto simp: refl intro!: close_exchange_effect)
  show "effect cfg c (snd (failResponse cfg xid err b c))" "effect cfg c (snd (cancel cfg xid b c))"
    "effect cfg c (snd (timeout cfg xid b c))"
    unfolding failResponse_def cancel_def timeout_def by (auto intro!: with_exchange_effect close_exchange_effect)
qed

lemma save_new_effect:
  assumes "cv_ids c \<le> n" "n < cv_ids c'" "ex_exchange_id x = cc_idFactory cfg n ''exchange''" "ex_response_text x = []"
    and "cv_exchanges c' = cv_exchanges c" "cv_turns c' = cv_turns c"
  shows "effect cfg c (saveExchange x c')"
proof -
  have "exchange_ok cfg (ex_exchange_id x, x)" using assms(4) maxResponseChars_pos [of cfg] by (simp add: exchange_ok_def)
  moreover have "added cfg c (saveExchange x c')"
    unfolding added_def using assms by (intro exI [of _ n] exI [of _ x]) (simp add: saveExchange_def)
  ultimately show ?thesis using assms unfolding effect_def texts_ok_def by (auto simp: saveExchange_def intro!: list_all_jm_set)
qed

lemma createTurn_quiet: "quiet cfg c (snd (createTurn cfg input c))"
  using createTurn_effect(1) [of cfg input c "fst (createTurn cfg input c)" "snd (createTurn cfg input c)"] by simp

lemma submit_response_effect: "effect cfg c (snd (submit_response cfg s opts ses ts operator c))"
  unfolding submit_response_def Let_def
proof (rule quiet_seqO [OF createTurn_quiet], rule quiet_seqO, goal_cases)
  case (1 response c1)
  have "quiet cfg c1 (put_turn response c1)" using createTurn_effect(3) [OF 1] by (intro put_turn_quiet) simp
  then show ?case using on_graph_quiet by (rule quiet_trans)
next
  case (2 response c1 u c2)
  show ?case
    by (simp add: conv_id_def) (rule save_new_effect [of _ "cv_ids c2"]; simp add: new_exchange_def)
qed

lemma submit_turns_effect: "effect cfg c (snd (submit_turns cfg s opts ses c))"
proof -
  have "quiet cfg c (snd (conv_iso cfg c))" by (simp add: conv_iso_def)
  then show ?thesis
    unfolding submit_turns_def case_prod_beta Let_def
    by (rule quiet_then_effect) (rule quiet_seqO [OF addTurn_quiet submit_response_effect])
qed

lemma submit_session_quiet: "quiet cfg c (snd (submit_session cfg s opts c))"
  by (simp add: submit_session_def on_graph_quiet split: option.split)

lemma submitIntent_effect: "effect cfg c (snd (submitIntent cfg s opts c))"
proof -
  have "effect cfg c (snd (seqO (submit_session cfg s opts c') (\<lambda>ses c2. submit_turns cfg s opts ses c2)))"
    if "quiet cfg c c'" for c'
    by (rule quiet_seqO [OF quiet_trans [OF that submit_session_quiet] submit_turns_effect])
  then show ?thesis by (simp add: submitIntent_def Let_def quiet_effect split: option.split)
qed

lemma retry_effect: "effect cfg c (snd (retry cfg xid c))"
proof -
  have refl: "effect cfg c c" by (simp add: quiet_effect)
  have "effect cfg c (snd (seqO (addTurn cfg i c) (\<lambda>t c1.
           let (n, c2) = conv_id cfg ''exchange'' c1; (t1, c3) = conv_iso cfg c2; (t2, c4) = conv_iso cfg c3;
               x = p \<lparr> ex_exchange_id := n, ex_response_turn_id := ct_turn_id t, ex_status := XQUEUED,
                 ex_response_text := [], ex_attempt := ex_attempt p + 1, ex_created_at := t1, ex_updated_at := t2,
                 ex_error_code := None \<rparr>
           in return x (saveExchange x c4))))" for i p
  proof (rule quiet_seqO [OF addTurn_quiet], goal_cases)
    case (1 t c1)
    show ?case
      by (simp add: conv_id_def conv_iso_def Let_def) (rule save_new_effect [of _ "cv_ids c1"]; simp)
  qed
  then show ?thesis
    by (simp add: retry_def requireExchange_def requireTurn_def refl split: option.split)
qed

section \<open>Runs\<close>

datatype conv_command =
    Submit submission submit_options | Chunk string units "string option" | Complete string "string option"
  | Fail string "conversation_error option" "string option" | Cancel string "string option"
  | TimeOut string "string option" | Retry string | Connection conversation_connection | Flush | Reconnect

fun conv_step :: "conversation_config \<Rightarrow> conversation \<Rightarrow> conv_command \<Rightarrow> conversation" where
  "conv_step cfg c (Submit s opts) = snd (submitIntent cfg s opts c)"
| "conv_step cfg c (Chunk x chunk b) = snd (appendResponseChunk cfg x chunk b c)"
| "conv_step cfg c (Complete x b) = snd (completeResponse cfg x b c)"
| "conv_step cfg c (Fail x e b) = snd (failResponse cfg x e b c)"
| "conv_step cfg c (Cancel x b) = snd (cancel cfg x b c)"
| "conv_step cfg c (TimeOut x b) = snd (timeout cfg x b c)"
| "conv_step cfg c (Retry x) = snd (retry cfg x c)"
| "conv_step cfg c (Connection st) = setConnection st c"
| "conv_step cfg c Flush = snd (flushDisconnectedQueue c)"
| "conv_step cfg c Reconnect = snd (conv_reconnect c)"

lemma conv_step_effect: "effect cfg c (conv_step cfg c cmd)"
  by (cases cmd) (simp_all add: submitIntent_effect response_operations_effect retry_effect setConnection_def
      flushDisconnectedQueue_def conv_reconnect_def quiet_effect)

text \<open>Exchanges are filed under their own id, and that id was drawn from the factory.\<close>

definition drawn :: "conversation_config \<Rightarrow> nat \<Rightarrow> string \<Rightarrow> bool" where
  "drawn cfg n k \<longleftrightarrow> (\<exists>i < n. k = cc_idFactory cfg i ''exchange'')"

lemma drawn_mono: "drawn cfg n k \<Longrightarrow> n \<le> m \<Longrightarrow> drawn cfg m k"
  unfolding drawn_def using less_le_trans by blast

definition keyed :: "conversation_config \<Rightarrow> conversation \<Rightarrow> bool" where
  "keyed cfg c \<longleftrightarrow> jm_wf (cv_exchanges c) \<and>
     list_all (\<lambda>(k, x). k = ex_exchange_id x \<and> drawn cfg (cv_ids c) k) (cv_exchanges c)"

lemma keyed_mono: "keyed cfg c \<Longrightarrow> cv_ids c \<le> cv_ids c' \<Longrightarrow>
    list_all (\<lambda>(k, x). k = ex_exchange_id x \<and> drawn cfg (cv_ids c') k) (cv_exchanges c)"
  by (auto simp: keyed_def list_all_iff intro: drawn_mono)

lemma keyed_get: "keyed cfg c \<Longrightarrow> jm_get (cv_exchanges c) k = Some x \<Longrightarrow> k = ex_exchange_id x \<and> drawn cfg (cv_ids c) k"
  unfolding keyed_def by (auto dest: list_all_jm_get)

lemma effect_keyed:
  assumes "effect cfg c c'" and "keyed cfg c"
  shows "keyed cfg c'"
proof -
  have ids: "cv_ids c \<le> cv_ids c'" using assms(1) by (simp add: effect_def)
  note old = keyed_mono [OF assms(2) ids]
  have wf: "jm_wf (cv_exchanges c)" using assms(2) by (simp add: keyed_def)
  from assms(1) consider "cv_exchanges c' = cv_exchanges c" | "rewritten cfg c c'" | "added cfg c c'"
    by (auto simp: effect_def)
  then show ?thesis
  proof cases
    case 1
    with old wf show ?thesis by (simp add: keyed_def)
  next
    case 2
    then obtain k x x' where x: "jm_get (cv_exchanges c) k = Some x" "ex_exchange_id x' = ex_exchange_id x"
      "cv_exchanges c' = jm_set (ex_exchange_id x) x' (cv_exchanges c)" by (auto simp: rewritten_def)
    with keyed_get [OF assms(2) x(1)] ids old wf show ?thesis
      unfolding keyed_def by (auto intro!: list_all_jm_set jm_wf_set intro: drawn_mono)
  next
    case 3
    then obtain n x where "n < cv_ids c'" "ex_exchange_id x = cc_idFactory cfg n ''exchange''"
      "cv_exchanges c' = jm_set (ex_exchange_id x) x (cv_exchanges c)" by (auto simp: added_def)
    moreover from this have "drawn cfg (cv_ids c') (ex_exchange_id x)" by (auto simp: drawn_def)
    ultimately show ?thesis using old wf unfolding keyed_def by (auto intro!: list_all_jm_set jm_wf_set)
  qed
qed

interpretation conversation_machine: monotone_machine "conv_step cfg" "\<lambda>c. keyed cfg c \<and> texts_ok cfg c" "\<lambda>c. int (cv_ids c)" for cfg
proof unfold_locales
  fix c cmd
  show "keyed cfg (conv_step cfg c cmd) \<and> texts_ok cfg (conv_step cfg c cmd)" if "keyed cfg c \<and> texts_ok cfg c"
    using that conv_step_effect [of cfg c cmd] effect_keyed by (auto simp: effect_def)
  show "int (cv_ids c) \<le> int (cv_ids (conv_step cfg c cmd))" if "keyed cfg c \<and> texts_ok cfg c"
    using conv_step_effect [of cfg c cmd] by (simp add: effect_def)
qed

lemma start_ok: "keyed cfg (createDurableConversationService g) \<and> texts_ok cfg (createDurableConversationService g)"
  by (simp add: keyed_def texts_ok_def createDurableConversationService_def)

section \<open>Properties\<close>

text \<open>
  (C19) However intents, chunks, completions, failures, cancellations, timeouts and retries are interleaved, no response text
  grows beyond \<open>maxResponseChars\<close> and no turn text beyond \<open>maxResponseChars + maxStreamChunks\<close> units.
\<close>

theorem conversation_texts_bounded:
  "let c = run (conv_step cfg) (createDurableConversationService g) cmds
   in (\<forall>k. case getExchange c k of None \<Rightarrow> True
        | Some x \<Rightarrow> int (length (ex_response_text x)) \<le> maxResponseChars cfg) \<and>
      (\<forall>k. case getTurn c k of None \<Rightarrow> True
        | Some t \<Rightarrow> int (length (ct_text t)) \<le> maxResponseChars cfg + maxStreamChunks cfg)"
proof -
  have "texts_ok cfg (run (conv_step cfg) (createDurableConversationService g) cmds)"
    using conversation_machine.run_inv [OF start_ok] by blast
  from texts_ok_exchange [OF this] texts_ok_turn [OF this] show ?thesis
    by (auto simp: Let_def getExchange_def getTurn_def exchange_ok_def turn_ok_def split: option.splits)
qed

lemma fresh_id:
  assumes "inj (\<lambda>n. cc_idFactory cfg n ''exchange'')" and "drawn cfg m k" and "m \<le> n"
  shows "k \<noteq> cc_idFactory cfg n ''exchange''"
  using assms unfolding drawn_def inj_def by (metis leD)

definition answered :: "string \<Rightarrow> conversation \<Rightarrow> bool" where
  "answered i c \<longleftrightarrow> (\<exists>k x. jm_get (cv_exchanges c) k = Some x \<and> ex_intent_id x = i)"

lemma effect_keeps_exchange:
  assumes "effect cfg c c'" and "keyed cfg c" and "inj (\<lambda>n. cc_idFactory cfg n ''exchange'')"
    and x: "jm_get (cv_exchanges c) k = Some x"
  obtains (same) "jm_get (cv_exchanges c') k = Some x"
  | (rewritten) x' where "jm_get (cv_exchanges c') k = Some x'" "ex_intent_id x' = ex_intent_id x" "binding_accepted cfg x"
proof -
  note S = same and R = rewritten and kx = keyed_get [OF assms(2) x]
  from assms(1) consider "cv_exchanges c' = cv_exchanges c" | "rewritten cfg c c'" | "added cfg c c'"
    by (auto simp: effect_def)
  then show thesis
  proof cases
    case 1
    with x S show thesis by simp
  next
    case 2
    then obtain j y y' where y: "jm_get (cv_exchanges c) j = Some y" "binding_accepted cfg y" "ex_intent_id y' = ex_intent_id y"
      "cv_exchanges c' = jm_set (ex_exchange_id y) y' (cv_exchanges c)" by (auto simp: rewritten_def)
    with keyed_get [OF assms(2) y(1)] have j: "j = ex_exchange_id y" by simp
    show thesis
    proof (cases "k = j")
      case True
      with y j x show thesis by (intro R [of y']) simp_all
    next
      case False
      with y j x show thesis by (intro S) simp
    qed
  next
    case 3
    then obtain n y where y: "cv_ids c \<le> n" "ex_exchange_id y = cc_idFactory cfg n ''exchange''"
      "cv_exchanges c' = jm_set (ex_exchange_id y) y (cv_exchanges c)" by (auto simp: added_def)
    have "k \<noteq> ex_exchange_id y" unfolding y(2) by (rule fresh_id [OF assms(3) conjunct2 [OF kx] y(1)])
    with y x show thesis by (intro S) simp
  qed
qed

lemma answered_step:
  assumes "keyed cfg c" "inj (\<lambda>n. cc_idFactory cfg n ''exchange'')" "answered i c"
  shows "answered i (conv_step cfg c cmd)"
proof -
  obtain k x where x: "jm_get (cv_exchanges c) k = Some x" "ex_intent_id x = i" using assms(3) by (auto simp: answered_def)
  show ?thesis
    by (rule effect_keeps_exchange [OF conv_step_effect assms(1,2) x(1)]) (use x(2) in \<open>auto simp: answered_def\<close>)
qed

lemma answered_run:
  "keyed cfg c \<Longrightarrow> inj (\<lambda>n. cc_idFactory cfg n ''exchange'') \<Longrightarrow> answered i c \<Longrightarrow> answered i (run (conv_step cfg) c cmds)"
  by (induction cmds arbitrary: c) (auto intro: answered_step effect_keyed [OF conv_step_effect])

lemma answered_find:
  assumes "answered i c"
  shows "\<exists>x. find (\<lambda>x. ex_intent_id x = i) (jm_values (cv_exchanges c)) = Some x \<and> ex_intent_id x = i"
proof -
  obtain x where "x \<in> set (jm_values (cv_exchanges c))" "ex_intent_id x = i"
    using assms by (auto simp: answered_def dest: jm_get_values)
  then have "find (\<lambda>x. ex_intent_id x = i) (jm_values (cv_exchanges c)) \<noteq> None" by (auto simp: find_None_iff)
  then show ?thesis by (auto simp: find_Some_iff)
qed

lemma submit_response_answers:
  "submit_response cfg s opts ses ts operator c = (Inr x, c') \<Longrightarrow> answered (sub_intent_id s) c'"
  by (auto simp: submit_response_def Let_def seqO_Inr conv_id_def saveExchange_def new_exchange_def answered_def
      intro!: exI [of _ "ex_exchange_id x"])

lemma submitIntent_answers:
  assumes "keyed cfg c" and "submitIntent cfg s opts c = (Inr x, c')"
  shows "answered (sub_intent_id s) c'"
proof (cases "find (\<lambda>x. ex_intent_id x = sub_intent_id s) (jm_values (cv_exchanges c))")
  case None
  with assms(2) obtain ses ts operator c1 where "submit_response cfg s opts ses ts operator c1 = (Inr x, c')"
    by (auto simp: submitIntent_def submit_turns_def Let_def case_prod_beta seqO_Inr split: if_splits)
  then show ?thesis by (rule submit_response_answers)
next
  case (Some y)
  then have y: "y \<in> set (jm_values (cv_exchanges c))" "ex_intent_id y = sub_intent_id s"
    by (auto simp: find_Some_iff)
  then obtain k where "(k, y) \<in> set (cv_exchanges c)" by (auto simp: jm_values_def)
  then have "jm_get (cv_exchanges c) k = Some y" using assms(1) by (simp add: keyed_def jm_get_mem)
  moreover have "c' = c" using assms(2) Some by (auto simp: submitIntent_def split: if_splits)
  ultimately show ?thesis using y by (auto simp: answered_def)
qed

text \<open>Only the intent, the workspace and the Node of a submission decide whether it was answered before.\<close>

lemma submitIntent_again:
  assumes "inj (\<lambda>n. cc_idFactory cfg n ''exchange'')"
    and "submitIntent cfg s opts (run (conv_step cfg) (createDurableConversationService g) before) = (Inr x, c)"
    and "sub_intent_id s' = sub_intent_id s" "sub_workspace_id s' = sub_workspace_id s" "sub_node_id s' = sub_node_id s"
  shows "\<exists>y. submitIntent cfg s' opts' (run (conv_step cfg) c after) = (Inr y, run (conv_step cfg) c after) \<and>
    ex_intent_id y = sub_intent_id s"
proof -
  have k: "keyed cfg (run (conv_step cfg) (createDurableConversationService g) before)"
    using conversation_machine.run_inv [OF start_ok] by blast
  have kc: "keyed cfg c" using effect_keyed [OF submitIntent_effect k, of s opts] assms(2) by simp
  have "answered (sub_intent_id s) (run (conv_step cfg) c after)"
    using answered_run [OF kc assms(1) submitIntent_answers [OF k assms(2)]] .
  moreover have "sub_workspace_id s = cc_workspaceId cfg" "sub_node_id s = cc_nodeId cfg"
    using assms(2) by (auto simp: submitIntent_def split: if_splits)
  ultimately show ?thesis using assms(3-5) by (auto simp: submitIntent_def dest: answered_find)
qed

text \<open>
  An intent gets one exchange: once it was submitted, submitting it again - with any options, after any further
  commands - returns an exchange of that intent and changes nothing, provided the id factory never repeats an id.
\<close>

theorem intent_submitted_once:
  assumes "inj (\<lambda>n. cc_idFactory cfg n ''exchange'')"
    and "submitIntent cfg s opts (run (conv_step cfg) (createDurableConversationService g) before) = (Inr x, c)"
  shows "\<exists>y. submitIntent cfg s opts' (run (conv_step cfg) c after) = (Inr y, run (conv_step cfg) c after) \<and>
    ex_intent_id y = sub_intent_id s"
  using submitIntent_again [OF assms refl refl refl] .

lemma frozen_run:
  assumes "keyed cfg c" and "inj (\<lambda>n. cc_idFactory cfg n ''exchange'')" and "\<not> binding_accepted cfg x"
    and "jm_get (cv_exchanges c) k = Some x"
  shows "jm_get (cv_exchanges (run (conv_step cfg) c cmds)) k = Some x"
  using assms(1,4)
proof (induction cmds arbitrary: c)
  case (Cons cmd cmds)
  have "jm_get (cv_exchanges (conv_step cfg c cmd)) k = Some x"
    by (rule effect_keeps_exchange [OF conv_step_effect Cons.prems(1) assms(2) Cons.prems(2)]) (use assms(3) in simp_all)
  with Cons.IH [OF effect_keyed [OF conv_step_effect Cons.prems(1)]] show ?case by simp
qed simp

lemma keyed_activeBinding: "keyed (cfg \<lparr> cc_activeBinding := a \<rparr>) c \<longleftrightarrow> keyed cfg c"
  by (simp add: keyed_def drawn_def)

text \<open>
  (C20) Once a binding is no longer active, nothing its exchanges hold changes any more: whatever is submitted, streamed,
  completed, failed, cancelled, timed out or retried, an exchange of that binding keeps its text, its status and its error code.
\<close>

theorem revoked_binding_freezes_exchange:
  assumes "inj (\<lambda>n. cc_idFactory cfg n ''exchange'')"
    and "getExchange (run (conv_step (cfg \<lparr> cc_activeBinding := earlier \<rparr>)) (createDurableConversationService g) before) k = Some x"
    and "cc_activeBinding cfg = Some active" and "\<not> active (ex_binding_id x)"
  shows "getExchange (run (conv_step cfg) (run (conv_step (cfg \<lparr> cc_activeBinding := earlier \<rparr>))
    (createDurableConversationService g) before) after) k = Some x"
proof -
  let ?c = "run (conv_step (cfg \<lparr> cc_activeBinding := earlier \<rparr>)) (createDurableConversationService g) before"
  have k: "keyed cfg ?c"
    using conversation_machine.run_inv [OF start_ok, of "cfg \<lparr> cc_activeBinding := earlier \<rparr>" g before] keyed_activeBinding by blast
  have b: "\<not> binding_accepted cfg x" using assms(3,4) by (simp add: binding_accepted_def)
  show ?thesis
    unfolding getExchange_def by (rule frozen_run [OF k assms(1) b assms(2) [unfolded getExchange_def]])
qed

section \<open>Concrete conversations\<close>

definition unary_id :: "nat \<Rightarrow> string \<Rightarrow> string" where
  "unary_id n prefix = prefix @ replicate n (CHR ''i'')"

definition sample_graph_config :: graph_config where
  "sample_graph_config = \<lparr> gc_zod = zod_ref, gc_workspaceId = ''w'', gc_nodeId = ''n'', gc_now = int, gc_idFactory = unary_id,
     gc_authorizeReference = None \<rparr>"

definition sample_conversation :: "(string option \<Rightarrow> bool) option \<Rightarrow> int \<Rightarrow> conversation_config" where
  "sample_conversation active chunks = \<lparr> cc_zod = zod_ref, cc_graph = sample_graph_config, cc_workspaceId = ''w'', cc_nodeId = ''n'',
     cc_actorRef = ''a'', cc_now = int, cc_idFactory = unary_id, cc_activeBinding = active, cc_maxResponseChars = None,
     cc_maxStreamChunks = Some chunks \<rparr>"

definition sample_intent :: submission where
  "sample_intent = \<lparr> sub_intent_id = ''intent'', sub_workspace_id = ''w'', sub_node_id = ''n'', sub_idempotency_key = ''key'',
     sub_text = Some (text_of ''hello''), sub_operation = None, sub_target_refs = [] \<rparr>"

definition no_options :: submit_options where
  "no_options = \<lparr> so_sessionId = None, so_bindingId = Some ''b'', so_title = None \<rparr>"

definition sample_start :: conversation where
  "sample_start = createDurableConversationService empty_graph"

text \<open>The id of the first exchange: the third id drawn.\<close>

abbreviation first_exchange :: string where
  "first_exchange \<equiv> ''exchangeii''"

lemma unary_id_inj: "inj (\<lambda>n. unary_id n p)"
  by (auto simp: inj_def unary_id_def)

theorem intent_submitted_once_witness:
  "let cfg = sample_conversation None 8; r = submitIntent cfg sample_intent no_options sample_start
   in \<not> isl (fst r) \<and> (\<exists>y. submitIntent cfg sample_intent no_options (run (conv_step cfg) (snd r) [Cancel first_exchange None, Retry first_exchange]) =
     (Inr y, run (conv_step cfg) (snd r) [Cancel first_exchange None, Retry first_exchange]) \<and> ex_intent_id y = sub_intent_id sample_intent)"
proof -
  let ?cfg = "sample_conversation None 8"
  let ?r = "submitIntent ?cfg sample_intent no_options (run (conv_step ?cfg) (createDurableConversationService empty_graph) [])"
  have inj: "inj (\<lambda>n. cc_idFactory ?cfg n ''exchange'')" by (simp add: sample_conversation_def unary_id_inj)
  have ok: "\<not> isl (fst ?r)" by code_simp
  show ?thesis
    using ok intent_submitted_once [OF inj outcome_ok [OF ok], of no_options "[Cancel first_exchange None, Retry first_exchange]"]
    by (simp add: Let_def sample_start_def)
qed

theorem revoked_binding_freezes_exchange_witness:
  "let cfg = sample_conversation (Some (\<lambda>b. b \<noteq> Some ''b'')) 8;
       c = run (conv_step (cfg \<lparr> cc_activeBinding := None \<rparr>)) (createDurableConversationService empty_graph)
             [Submit sample_intent no_options, Chunk first_exchange (text_of ''hi'') None]
   in map_option ex_response_text (getExchange (run (conv_step cfg) c [Chunk first_exchange (text_of ''more'') None, Cancel first_exchange None])
        first_exchange) = Some (text_of ''hi'')"
proof -
  let ?cfg = "sample_conversation (Some (\<lambda>b. b \<noteq> Some ''b'')) 8"
  let ?before = "[Submit sample_intent no_options, Chunk first_exchange (text_of ''hi'') None]"
  let ?c = "run (conv_step (?cfg \<lparr> cc_activeBinding := None \<rparr>)) (createDurableConversationService empty_graph) ?before"
  let ?x = "the (getExchange ?c first_exchange)"
  have inj: "inj (\<lambda>n. cc_idFactory ?cfg n ''exchange'')" by (simp add: sample_conversation_def unary_id_inj)
  have x: "getExchange ?c first_exchange = Some ?x" by code_simp
  have a: "cc_activeBinding ?cfg = Some (\<lambda>b. b \<noteq> Some ''b'')" by (simp add: sample_conversation_def)
  have n: "\<not> ex_binding_id ?x \<noteq> Some ''b''" by code_simp
  have t: "ex_response_text ?x = text_of ''hi''" by code_simp
  show ?thesis
    unfolding Let_def revoked_binding_freezes_exchange [OF inj x a n] using t by simp
qed

text \<open>
  A late chunk reopens a completed exchange, a tag split over two chunks reaches the response, and with a limit of two chunks the
  second chunk is refused.
\<close>

lemma late_chunk_reopens:
  "let c = run (conv_step (sample_conversation None 8)) sample_start
      [Submit sample_intent no_options, Chunk first_exchange (text_of ''a'') None, Complete first_exchange None,
       Chunk first_exchange (text_of ''b'') None]
   in map_option (\<lambda>x. (ex_status x, ex_response_text x)) (getExchange c first_exchange) = Some (XSTREAMING, text_of ''ab'')"
  by code_simp

lemma split_tag_survives:
  "let c = run (conv_step (sample_conversation None 8)) sample_start
      [Submit sample_intent no_options, Chunk first_exchange (text_of ''<scr'') None, Chunk first_exchange (text_of ''ipt>'') None]
   in map_option (\<lambda>x. has_tag (ex_response_text x)) (getExchange c first_exchange) = Some True"
  by code_simp

lemma second_chunk_refused:
  "let cfg = sample_conversation None 2;
       c = run (conv_step cfg) sample_start [Submit sample_intent no_options, Chunk first_exchange (text_of ''a'') None]
   in maxStreamChunks cfg = 2 \<and>
      fst (appendResponseChunk cfg first_exchange (text_of ''b'') None c) = Inl (Conversation Conv_STREAM_LIMIT)"
  by code_simp

end
