(* ===== verification/Intent_Gateway.thy ===== *)
theory Intent_Gateway
  imports Conversation
begin

text \<open>
  \<open>IntentGateway\<close> of \<open>spatial/interaction/intent-gateway.ts\<close>, the boundary every operator interaction passes, and the
  intent contracts it parses. Its submissions are what the conversation service takes: \<open>submission_of\<close> is the part of an
  envelope \<open>Conversation\<close> reads. The clock and the id factory are streams, of which the state counts the readings;
  \<open>Date.parse\<close> is a parameter.
\<close>

section \<open>Contracts\<close>

datatype intent_modality = Mtext | Mvoice | Mform | Mspatial

datatype intent_kind = Imessage | Iinteraction | Icommand | Ichange | Ipresentation

datatype attachment_kind = Afile | Aimage | Aaudio

record attachment =
  at_attachment_id :: string
  at_kind :: attachment_kind
  at_ref :: string
  at_mime_type :: "string option"
  at_size_bytes :: "int option"
  at_checksum :: "string option"

definition trimmedMax :: "zod \<Rightarrow> int \<Rightarrow> string \<Rightarrow> string option" where
  "trimmedMax z n v = (let t = js_trim v in if z_string_max z n t then Some t else None)"

definition sizeBytesSchema :: "zod \<Rightarrow> int \<Rightarrow> int option" where
  "sizeBytesSchema z n = (if z_int_nonnegative z n \<and> z_number_max z 1073741824 n then Some n else None)"

definition parseSpatialAttachmentManifest :: "zod \<Rightarrow> attachment \<Rightarrow> attachment option" where
  "parseSpatialAttachmentManifest z a = do {
     aid \<leftarrow> idSchema z (at_attachment_id a);
     ref \<leftarrow> idSchema z (at_ref a);
     mime \<leftarrow> nullable (trimmedMax z 160) (at_mime_type a);
     size \<leftarrow> nullable (sizeBytesSchema z) (at_size_bytes a);
     checksum \<leftarrow> nullable (trimmedMax z 256) (at_checksum a);
     Some (a \<lparr> at_attachment_id := aid, at_ref := ref, at_mime_type := mime, at_size_bytes := size, at_checksum := checksum \<rparr>) }"

type_synonym operation_record = "(string \<times> json) list"

record intent_envelope =
  ie_intent_id :: string
  ie_workspace_id :: string
  ie_node_id :: string
  ie_actor_ref :: string
  ie_modality :: intent_modality
  ie_intent_kind :: intent_kind
  ie_text :: "string option"
  ie_operation :: "operation_record option"
  ie_target_refs :: "string list"
  ie_parent_ref :: "string option"
  ie_context_refs :: "string list"
  ie_attachments_manifest :: "attachment list"
  ie_current_revision :: int
  ie_idempotency_key :: string
  ie_created_at :: timestamp

definition intentTextSchema :: "zod \<Rightarrow> string option \<Rightarrow> string option option" where
  "intentTextSchema z v = nullable (trimmedMax z 32000) v"

definition structuredOperationSchema :: "zod \<Rightarrow> operation_record option \<Rightarrow> operation_record option option" where
  "structuredOperationSchema z v =
     nullable (\<lambda>kvs. if list_all (\<lambda>(k, _). z_string_min z 1 k \<and> z_string_max z 128 k) kvs then Some kvs else None) v"

definition parseSpatialIntentEnvelope :: "zod \<Rightarrow> intent_envelope \<Rightarrow> intent_envelope option" where
  "parseSpatialIntentEnvelope z e = do {
     intent \<leftarrow> idSchema z (ie_intent_id e);
     workspace \<leftarrow> idSchema z (ie_workspace_id e);
     node \<leftarrow> idSchema z (ie_node_id e);
     actor \<leftarrow> idSchema z (ie_actor_ref e);
     txt \<leftarrow> intentTextSchema z (ie_text e);
     op \<leftarrow> structuredOperationSchema z (ie_operation e);
     targets \<leftarrow> arrayMax z 256 (idSchema z) (ie_target_refs e);
     parent \<leftarrow> nullable (idSchema z) (ie_parent_ref e);
     contexts \<leftarrow> arrayMax z 256 (idSchema z) (ie_context_refs e);
     attachments \<leftarrow> arrayMax z 64 (parseSpatialAttachmentManifest z) (ie_attachments_manifest e);
     revision \<leftarrow> revisionSchema z (ie_current_revision e);
     key \<leftarrow> idSchema z (ie_idempotency_key e);
     if (case txt of Some t \<Rightarrow> js_trim t \<noteq> [] | None \<Rightarrow> False) \<or> op \<noteq> None
     then Some (e \<lparr> ie_intent_id := intent, ie_workspace_id := workspace, ie_node_id := node, ie_actor_ref := actor,
       ie_text := txt, ie_operation := op, ie_target_refs := targets, ie_parent_ref := parent, ie_context_refs := contexts,
       ie_attachments_manifest := attachments, ie_current_revision := revision, ie_idempotency_key := key \<rparr>)
     else None }"

section \<open>The gateway\<close>

datatype intent_gateway_error = Gw_EMPTY_INTENT | Gw_OVERSIZED_INTENT | Gw_WRONG_WORKSPACE | Gw_WRONG_NODE | Gw_DUPLICATE_INTENT
  | Gw_STALE_TARGET | Gw_UNAUTHORIZED | Gw_MALFORMED_ATTACHMENT | Gw_MALFORMED_INTENT | Gw_RangeError

record intent_draft =
  dr_intent_id :: "string option"
  dr_workspace_id :: "string option"
  dr_node_id :: "string option"
  dr_actor_ref :: string
  dr_modality :: intent_modality
  dr_intent_kind :: "intent_kind option"
  dr_text :: "string option"
  dr_operation :: "operation_record option"
  dr_target_refs :: "string list option"
  dr_parent_ref :: "string option"
  dr_context_refs :: "string list option"
  dr_attachments_manifest :: "attachment list option"
  dr_current_revision :: "int option"
  dr_idempotency_key :: string
  dr_created_at :: "date_input option"

datatype gateway_outcome = Accepted | DuplicateOf

record gateway_audit =
  ga_intent_id :: string
  ga_workspace_id :: string
  ga_node_id :: string
  ga_actor_ref :: string
  ga_modality :: intent_modality
  ga_intent_kind :: intent_kind
  ga_target_count :: int
  ga_attachment_count :: int
  ga_current_revision :: int
  ga_created_at :: timestamp
  ga_outcome :: gateway_outcome

record intent_submission =
  is_status :: gateway_outcome
  is_duplicate :: bool
  is_envelope :: intent_envelope
  is_audit :: gateway_audit

record gateway_config =
  gwc_zod :: zod
  gwc_workspaceId :: string
  gwc_nodeId :: string
  gwc_maxTextLength :: "int option"
  gwc_now :: "nat \<Rightarrow> timestamp"
  gwc_dateParse :: "string \<Rightarrow> timestamp option"
  gwc_authorize :: "(intent_envelope \<Rightarrow> bool) option"
  gwc_idFactory :: "nat \<Rightarrow> string \<Rightarrow> string"

record intent_gateway =
  ig_currentRevision :: int
  ig_byIdempotency :: "(string, intent_submission) jsmap"
  ig_audits :: "gateway_audit list"
  ig_clock :: nat
  ig_ids :: nat

type_synonym 'a gateway_result = "(intent_gateway_error, 'a, intent_gateway) outcome"

definition maxTextLength :: "gateway_config \<Rightarrow> int" where
  "maxTextLength cfg = max 1 (case gwc_maxTextLength cfg of None \<Rightarrow> 32000 | Some n \<Rightarrow> n)"

definition createIntentGateway :: "int option \<Rightarrow> intent_gateway" where
  "createIntentGateway currentRevision = \<lparr> ig_currentRevision = max 0 (case currentRevision of None \<Rightarrow> 0 | Some n \<Rightarrow> n),
     ig_byIdempotency = [], ig_audits = [], ig_clock = 0, ig_ids = 0 \<rparr>"

definition setCurrentRevision :: "int \<Rightarrow> intent_gateway \<Rightarrow> unit gateway_result" where
  "setCurrentRevision revision g = (if revision < 0 then throw Gw_RangeError g else return () (g \<lparr> ig_currentRevision := revision \<rparr>))"

definition makeId :: "gateway_config \<Rightarrow> string \<Rightarrow> intent_gateway \<Rightarrow> string \<times> intent_gateway" where
  "makeId cfg prefix g = (gwc_idFactory cfg (ig_ids g) prefix, g \<lparr> ig_ids := ig_ids g + 1 \<rparr>)"

definition toIsoTimestamp :: "gateway_config \<Rightarrow> date_input option \<Rightarrow> intent_gateway \<Rightarrow> timestamp \<times> intent_gateway" where
  "toIsoTimestamp cfg v g =
     (let read = (gwc_now cfg (ig_clock g), g \<lparr> ig_clock := ig_clock g + 1 \<rparr>) in
      case v of
        Some (DateValue d) \<Rightarrow> (d, g)
      | Some (DateText s) \<Rightarrow> (case gwc_dateParse cfg s of Some d \<Rightarrow> (d, g) | None \<Rightarrow> read)
      | None \<Rightarrow> read)"

definition normalizeAttachment :: "gateway_config \<Rightarrow> attachment \<Rightarrow> intent_gateway \<Rightarrow> attachment gateway_result" where
  "normalizeAttachment cfg a g =
     (let (aid, g1) = (if at_attachment_id a \<noteq> [] then (at_attachment_id a, g) else makeId cfg ''attachment'' g) in
      case parseSpatialAttachmentManifest (gwc_zod cfg) (a \<lparr> at_attachment_id := aid \<rparr>) of
        None \<Rightarrow> throw Gw_MALFORMED_ATTACHMENT g1
      | Some b \<Rightarrow> return b g1)"

fun normalizeAttachments :: "gateway_config \<Rightarrow> attachment list \<Rightarrow> intent_gateway \<Rightarrow> attachment list gateway_result" where
  "normalizeAttachments cfg [] g = return [] g"
| "normalizeAttachments cfg (a # as) g =
     seqO (normalizeAttachment cfg a g) (\<lambda>b g1. seqO (normalizeAttachments cfg as g1) (\<lambda>bs g2. return (b # bs) g2))"

definition safeAudit :: "intent_envelope \<Rightarrow> gateway_outcome \<Rightarrow> gateway_audit" where
  "safeAudit e outcome = \<lparr> ga_intent_id = ie_intent_id e, ga_workspace_id = ie_workspace_id e, ga_node_id = ie_node_id e,
     ga_actor_ref = ie_actor_ref e, ga_modality = ie_modality e, ga_intent_kind = ie_intent_kind e,
     ga_target_count = int (length (ie_target_refs e)), ga_attachment_count = int (length (ie_attachments_manifest e)),
     ga_current_revision = ie_current_revision e, ga_created_at = ie_created_at e, ga_outcome = outcome \<rparr>"

definition idempotency_entry :: "string \<Rightarrow> string \<Rightarrow> string" where
  "idempotency_entry actor key = actor @ '':'' @ key"

definition submit_duplicate :: "intent_submission \<Rightarrow> intent_gateway \<Rightarrow> intent_submission gateway_result" where
  "submit_duplicate s g =
     (let audit = safeAudit (is_envelope s) DuplicateOf in
      return (s \<lparr> is_status := DuplicateOf, is_duplicate := True, is_audit := audit \<rparr>) (g \<lparr> ig_audits := ig_audits g @ [audit] \<rparr>))"

definition envelope_candidate :: "gateway_config \<Rightarrow> intent_draft \<Rightarrow> string option \<Rightarrow> string \<Rightarrow> int \<Rightarrow> attachment list \<Rightarrow> string
    \<Rightarrow> timestamp \<Rightarrow> intent_envelope" where
  "envelope_candidate cfg d txt key revision attachments intentId created = \<lparr>
     ie_intent_id = intentId, ie_workspace_id = gwc_workspaceId cfg, ie_node_id = gwc_nodeId cfg,
     ie_actor_ref = dr_actor_ref d, ie_modality = dr_modality d,
     ie_intent_kind = (case dr_intent_kind d of None \<Rightarrow> Imessage | Some k \<Rightarrow> k), ie_text = txt, ie_operation = dr_operation d,
     ie_target_refs = (case dr_target_refs d of None \<Rightarrow> [] | Some rs \<Rightarrow> rs), ie_parent_ref = dr_parent_ref d,
     ie_context_refs = (case dr_context_refs d of None \<Rightarrow> [] | Some rs \<Rightarrow> rs), ie_attachments_manifest = attachments,
     ie_current_revision = revision, ie_idempotency_key = key, ie_created_at = created \<rparr>"

text \<open>From the parsed envelope on: authorisation, the audit entry and the record under the idempotency key.\<close>

definition submit_accept :: "gateway_config \<Rightarrow> intent_envelope \<Rightarrow> intent_gateway \<Rightarrow> intent_submission gateway_result" where
  "submit_accept cfg e g =
     (if (case gwc_authorize cfg of None \<Rightarrow> False | Some auth \<Rightarrow> \<not> auth e) then throw Gw_UNAUTHORIZED g
      else let audit = safeAudit e Accepted;
               s = \<lparr> is_status = Accepted, is_duplicate = False, is_envelope = e, is_audit = audit \<rparr>
           in return s (g \<lparr> ig_byIdempotency := jm_set (idempotency_entry (ie_actor_ref e) (ie_idempotency_key e)) s (ig_byIdempotency g),
                ig_audits := ig_audits g @ [audit] \<rparr>))"

text \<open>Once the attachments are normalised: the id, the timestamp and the envelope.\<close>

definition submit_envelope :: "gateway_config \<Rightarrow> intent_draft \<Rightarrow> string option \<Rightarrow> string \<Rightarrow> int \<Rightarrow> attachment list \<Rightarrow> intent_gateway
    \<Rightarrow> intent_submission gateway_result" where
  "submit_envelope cfg d txt key revision attachments g =
     (let (intentId, g1) = (case dr_intent_id d of Some i \<Rightarrow> (i, g) | None \<Rightarrow> makeId cfg ''intent'' g);
          (created, g2) = toIsoTimestamp cfg (dr_created_at d) g1
      in case parseSpatialIntentEnvelope (gwc_zod cfg) (envelope_candidate cfg d txt key revision attachments intentId created) of
           None \<Rightarrow> throw Gw_MALFORMED_INTENT g2
         | Some e \<Rightarrow> submit_accept cfg e g2)"

definition submit_new :: "gateway_config \<Rightarrow> intent_draft \<Rightarrow> string \<Rightarrow> intent_gateway \<Rightarrow> intent_submission gateway_result" where
  "submit_new cfg d key g =
     (let txt = map_option js_trim (dr_text d);
          revision = (case dr_current_revision d of None \<Rightarrow> ig_currentRevision g | Some r \<Rightarrow> r)
      in if \<not> js_truthy txt \<and> dr_operation d = None then throw Gw_EMPTY_INTENT g
         else if js_truthy txt \<and> maxTextLength cfg < int (length (the txt)) then throw Gw_OVERSIZED_INTENT g
         else if revision < 0 \<or> revision < ig_currentRevision g then throw Gw_STALE_TARGET g
         else seqO (normalizeAttachments cfg (case dr_attachments_manifest d of None \<Rightarrow> [] | Some as \<Rightarrow> as) g) (\<lambda>attachments g1.
           submit_envelope cfg d txt key revision attachments g1))"

definition submit :: "gateway_config \<Rightarrow> intent_draft \<Rightarrow> intent_gateway \<Rightarrow> intent_submission gateway_result" where
  "submit cfg d g =
     (let key = js_trim (dr_idempotency_key d) in
      if key = [] then throw Gw_MALFORMED_INTENT g
      else if dr_workspace_id d \<noteq> None \<and> dr_workspace_id d \<noteq> Some (gwc_workspaceId cfg) then throw Gw_WRONG_WORKSPACE g
      else if dr_node_id d \<noteq> None \<and> dr_node_id d \<noteq> Some (gwc_nodeId cfg) then throw Gw_WRONG_NODE g
      else case jm_get (ig_byIdempotency g) (idempotency_entry (dr_actor_ref d) key) of
             Some s \<Rightarrow> submit_duplicate s g
           | None \<Rightarrow> submit_new cfg d key g)"

definition hasIdempotencyKey :: "string \<Rightarrow> string \<Rightarrow> intent_gateway \<Rightarrow> bool" where
  "hasIdempotencyKey actorRef idempotencyKey g = jm_has (ig_byIdempotency g) (idempotency_entry actorRef idempotencyKey)"

definition getAudit :: "intent_gateway \<Rightarrow> gateway_audit list" where
  "getAudit g = ig_audits g"

definition gateway_clear :: "intent_gateway \<Rightarrow> intent_gateway" where
  "gateway_clear g = g \<lparr> ig_byIdempotency := [], ig_audits := [] \<rparr>"

record text_intent =
  tx_actor_ref :: string
  tx_text :: string
  tx_idempotency_key :: string
  tx_workspace_id :: "string option"
  tx_node_id :: "string option"
  tx_target_refs :: "string list option"
  tx_context_refs :: "string list option"
  tx_parent_ref :: "string option"
  tx_current_revision :: "int option"

definition createTextIntentDraft :: "text_intent \<Rightarrow> intent_draft" where
  "createTextIntentDraft i = \<lparr> dr_intent_id = None, dr_workspace_id = tx_workspace_id i, dr_node_id = tx_node_id i,
     dr_actor_ref = tx_actor_ref i, dr_modality = Mtext, dr_intent_kind = Some Imessage, dr_text = Some (tx_text i),
     dr_operation = None, dr_target_refs = tx_target_refs i, dr_parent_ref = tx_parent_ref i, dr_context_refs = tx_context_refs i,
     dr_attachments_manifest = None, dr_current_revision = tx_current_revision i, dr_idempotency_key = tx_idempotency_key i,
     dr_created_at = None \<rparr>"

text \<open>What the conversation service reads of a submission.\<close>

definition submission_of :: "intent_submission \<Rightarrow> submission" where
  "submission_of s = (let e = is_envelope s in \<lparr> sub_intent_id = ie_intent_id e, sub_workspace_id = ie_workspace_id e,
     sub_node_id = ie_node_id e, sub_idempotency_key = ie_idempotency_key e, sub_text = map_option text_of (ie_text e),
     sub_operation = map_option JObj (ie_operation e), sub_target_refs = ie_target_refs e \<rparr>)"

section \<open>Runs\<close>

datatype gateway_call = SubmitDraft intent_draft | SetCurrentRevision int

fun intent_gateway_step :: "gateway_config \<Rightarrow> intent_gateway \<Rightarrow> gateway_call \<Rightarrow> intent_gateway" where
  "intent_gateway_step cfg g (SubmitDraft d) = snd (submit cfg d g)"
| "intent_gateway_step cfg g (SetCurrentRevision n) = snd (setCurrentRevision n g)"

text \<open>An actor reference without surrounding spaces: the gateway looks it up as given and records it trimmed.\<close>

definition plain_actor :: "intent_draft \<Rightarrow> bool" where
  "plain_actor d \<longleftrightarrow> js_trim (dr_actor_ref d) = dr_actor_ref d"

fun plain_call :: "gateway_call \<Rightarrow> bool" where
  "plain_call (SubmitDraft d) = plain_actor d"
| "plain_call (SetCurrentRevision n) = True"

lemma normalizeAttachments_frame:
  "ig_byIdempotency (snd (normalizeAttachments cfg as g)) = ig_byIdempotency g"
proof (induction as arbitrary: g)
  case (Cons a as)
  have "ig_byIdempotency (snd (normalizeAttachment cfg a g)) = ig_byIdempotency g"
    by (auto simp: normalizeAttachment_def makeId_def Let_def split: option.splits)
  with Cons show ?case by (auto simp: seqO_def split: prod.splits sum.splits) (metis snd_conv)+
qed simp

lemma parse_envelope_keeps:
  assumes "parseSpatialIntentEnvelope z e = Some e'"
  shows "ie_actor_ref e' = js_trim (ie_actor_ref e)" "ie_idempotency_key e' = js_trim (ie_idempotency_key e)"
  using assms by (auto simp: parseSpatialIntentEnvelope_def bind_eq_Some_conv split: if_splits dest: idSchema_trim)

text \<open>What a call leaves in the map: nothing new on an error, its submission under the trimmed actor and key on success.\<close>

definition records :: "string \<Rightarrow> string \<Rightarrow> intent_gateway \<Rightarrow> intent_submission gateway_result \<Rightarrow> bool" where
  "records actor key g r \<longleftrightarrow> ig_byIdempotency (snd r) = (case fst r of Inl _ \<Rightarrow> ig_byIdempotency g
     | Inr s \<Rightarrow> jm_set (idempotency_entry (js_trim actor) (js_trim key)) s (ig_byIdempotency g))"

lemma records_error [simp]: "records actor key g (Inl e, g)"
  by (simp add: records_def)

lemma submit_accept_records:
  "records (ie_actor_ref e) (ie_idempotency_key e) g (submit_accept cfg e g)"
  if "js_trim (ie_actor_ref e) = ie_actor_ref e" "js_trim (ie_idempotency_key e) = ie_idempotency_key e"
  using that by (auto simp: submit_accept_def records_def Let_def)

lemma toIsoTimestamp_frame: "ig_byIdempotency (snd (toIsoTimestamp cfg v g)) = ig_byIdempotency g"
  by (auto simp: toIsoTimestamp_def Let_def split: option.splits date_input.splits)

lemma submit_envelope_records: "records (dr_actor_ref d) key g (submit_envelope cfg d txt key revision attachments g)"
proof -
  obtain i g1 where i: "(case dr_intent_id d of Some i \<Rightarrow> (i, g) | None \<Rightarrow> makeId cfg ''intent'' g) = (i, g1)"
    by fastforce
  obtain c g2 where c: "toIsoTimestamp cfg (dr_created_at d) g1 = (c, g2)" by fastforce
  have "ig_byIdempotency g1 = ig_byIdempotency g" using i by (auto simp: makeId_def split: option.splits)
  then have same: "ig_byIdempotency g2 = ig_byIdempotency g"
    using toIsoTimestamp_frame [of cfg "dr_created_at d" g1] c by simp
  let ?p = "parseSpatialIntentEnvelope (gwc_zod cfg) (envelope_candidate cfg d txt key revision attachments i c)"
  show ?thesis
  proof (cases ?p)
    case None
    with i c same show ?thesis by (simp add: submit_envelope_def records_def)
  next
    case (Some e)
    note keeps = parse_envelope_keeps [OF Some]
    have "records (ie_actor_ref e) (ie_idempotency_key e) g2 (submit_accept cfg e g2)"
      by (rule submit_accept_records) (simp_all add: keeps)
    moreover have "submit_envelope cfg d txt key revision attachments g = submit_accept cfg e g2"
      using i c Some by (simp add: submit_envelope_def)
    ultimately show ?thesis
      using keeps same by (simp add: records_def envelope_candidate_def cong: sum.case_cong)
  qed
qed

lemma submit_new_records: "records (dr_actor_ref d) key g (submit_new cfg d key g)"
proof -
  let ?as = "case dr_attachments_manifest d of None \<Rightarrow> [] | Some as \<Rightarrow> as"
  obtain x g1 where n: "normalizeAttachments cfg ?as g = (x, g1)" by fastforce
  with normalizeAttachments_frame [of cfg ?as g] have same: "ig_byIdempotency g1 = ig_byIdempotency g" by simp
  show ?thesis
  proof (cases x)
    case (Inl e)
    with n same show ?thesis by (auto simp: submit_new_def Let_def records_def)
  next
    case (Inr as)
    let ?env = "submit_envelope cfg d (map_option js_trim (dr_text d)) key
      (case dr_current_revision d of None \<Rightarrow> ig_currentRevision g | Some r \<Rightarrow> r) as g1"
    from Inr n have "submit_new cfg d key g = ?env \<or> (\<exists>e. submit_new cfg d key g = (Inl e, g))"
      by (auto simp: submit_new_def Let_def)
    moreover have "records (dr_actor_ref d) key g ?env"
      using submit_envelope_records [of d key g1] unfolding records_def same by blast
    ultimately show ?thesis by auto
  qed
qed

lemma submit_records:
  assumes "plain_actor d"
  shows "(jm_get (ig_byIdempotency g) k = Some s \<longrightarrow> jm_get (ig_byIdempotency (snd (submit cfg d g))) k = Some s) \<and>
    (case fst (submit cfg d g) of Inl _ \<Rightarrow> True | Inr s' \<Rightarrow> (\<exists>s0. is_envelope s0 = is_envelope s' \<and>
       jm_get (ig_byIdempotency (snd (submit cfg d g))) (idempotency_entry (dr_actor_ref d) (js_trim (dr_idempotency_key d))) = Some s0))"
proof (cases "jm_get (ig_byIdempotency g) (idempotency_entry (dr_actor_ref d) (js_trim (dr_idempotency_key d)))")
  case (Some s0)
  then show ?thesis by (auto simp: submit_def submit_duplicate_def Let_def)
next
  case None
  have "records (dr_actor_ref d) (js_trim (dr_idempotency_key d)) g (submit cfg d g)"
    using None submit_new_records [of d "js_trim (dr_idempotency_key d)" g cfg] by (auto simp: submit_def Let_def)
  with None assms show ?thesis
    by (auto simp: records_def plain_actor_def jm_get_set split: sum.splits)
qed

lemma intent_gateway_step_keeps:
  "plain_call c \<Longrightarrow> jm_get (ig_byIdempotency g) k = Some s \<Longrightarrow> jm_get (ig_byIdempotency (intent_gateway_step cfg g c)) k = Some s"
  by (cases c) (auto simp: setCurrentRevision_def dest: submit_records)

lemma intent_gateway_run_keeps:
  "list_all plain_call cs \<Longrightarrow> jm_get (ig_byIdempotency g) k = Some s \<Longrightarrow>
   jm_get (ig_byIdempotency (run (intent_gateway_step cfg) g cs)) k = Some s"
  by (induction cs arbitrary: g) (auto dest: intent_gateway_step_keeps)

text \<open>A draft that was answered is answered with the same envelope from then on, marked as a duplicate.\<close>

lemma submit_again:
  assumes "submit cfg d g = (Inr s, g1)" "plain_actor d" "list_all plain_call cs"
  obtains s' g' where "submit cfg d (run (intent_gateway_step cfg) g1 cs) = (Inr s', g')" "is_duplicate s'"
    "is_envelope s' = is_envelope s" "ig_byIdempotency g' = ig_byIdempotency (run (intent_gateway_step cfg) g1 cs)"
proof -
  let ?k = "idempotency_entry (dr_actor_ref d) (js_trim (dr_idempotency_key d))"
  from submit_records [OF assms(2), of g _ _ cfg] assms(1)
  obtain s0 where s0: "is_envelope s0 = is_envelope s" "jm_get (ig_byIdempotency g1) ?k = Some s0" by auto
  with intent_gateway_run_keeps [OF assms(3)]
  have get: "jm_get (ig_byIdempotency (run (intent_gateway_step cfg) g1 cs)) ?k = Some s0" by blast
  from assms(1) have checks: "js_trim (dr_idempotency_key d) \<noteq> []" "dr_workspace_id d = None \<or> dr_workspace_id d = Some (gwc_workspaceId cfg)"
    "dr_node_id d = None \<or> dr_node_id d = Some (gwc_nodeId cfg)"
    by (auto simp: submit_def Let_def split: if_splits)
  then have "submit cfg d (run (intent_gateway_step cfg) g1 cs) = submit_duplicate s0 (run (intent_gateway_step cfg) g1 cs)"
    using get by (auto simp: submit_def Let_def)
  with s0(1) that show thesis by (simp add: submit_duplicate_def Let_def)
qed

section \<open>A concrete gateway\<close>

definition demo_gateway :: gateway_config where
  "demo_gateway = \<lparr> gwc_zod = zod_ref, gwc_workspaceId = ''w'', gwc_nodeId = ''n'', gwc_maxTextLength = None, gwc_now = (\<lambda>_. 7),
     gwc_dateParse = (\<lambda>_. None), gwc_authorize = None, gwc_idFactory = (\<lambda>n p. p @ replicate n (CHR ''i'')) \<rparr>"

definition demo_draft :: "string \<Rightarrow> string \<Rightarrow> string \<Rightarrow> intent_draft" where
  "demo_draft actor key txt = \<lparr> dr_intent_id = None, dr_workspace_id = None, dr_node_id = None, dr_actor_ref = actor,
     dr_modality = Mtext, dr_intent_kind = None, dr_text = Some txt, dr_operation = None, dr_target_refs = None,
     dr_parent_ref = None, dr_context_refs = None, dr_attachments_manifest = None, dr_current_revision = None,
     dr_idempotency_key = key, dr_created_at = None \<rparr>"

section \<open>Defects\<close>

text \<open>
  Actor and key are joined with a colon, which both may contain. An actor \<open>a\<close> with the key \<open>b:c\<close> is answered with the
  envelope, text included, that the actor \<open>a:b\<close> submitted under the key \<open>c\<close>, and its own intent is dropped.
\<close>

lemma actors_share_a_key:
  "let g = snd (submit demo_gateway (demo_draft ''a:b'' ''c'' ''secret'') (createIntentGateway None));
       r = fst (submit demo_gateway (demo_draft ''a'' ''b:c'' ''hello'') g)
   in map_sum id (\<lambda>s. (is_duplicate s, ie_actor_ref (is_envelope s), ie_text (is_envelope s))) r = Inr (True, ''a:b'', Some ''secret'')"
  by code_simp

text \<open>The actor is looked up as given and recorded trimmed: with a space in front of it every repetition is a new intent.\<close>

lemma untrimmed_actor_accepted_twice:
  "let d = demo_draft '' a'' ''k'' ''hello''; (r1, g1) = submit demo_gateway d (createIntentGateway None); (r2, g2) = submit demo_gateway d g1
   in map_sum id (\<lambda>s. (is_duplicate s, ie_intent_id (is_envelope s))) r1 = Inr (False, ''intent'') \<and>
      map_sum id (\<lambda>s. (is_duplicate s, ie_intent_id (is_envelope s))) r2 = Inr (False, ''intenti'')"
  by code_simp

end
