(* ===== verification/Topology.thy ===== *)
theory Topology
  imports Contracts "HOL-Library.Product_Lexorder"
begin

text \<open>
  The topology services of \<open>spatial/topology\<close> that share one \<open>CanonicalReferenceRegistry\<close>: the registry itself
  (\<open>reference-registry.ts\<close>), \<open>SemanticRelationService\<close> (\<open>semantic-relations.ts\<close>) and \<open>SubagentLifecycleService\<close>
  (\<open>subagent-lifecycle.ts\<close>), with the contracts they parse. The registry is an object the other two hold, so the three
  services live in one record \<open>topology\<close>. Each service has a clock of its own, a stream of its configuration of which the
  state counts the readings. Coordinates are carried and never computed with.
\<close>

section \<open>Contracts\<close>

datatype entity_kind = Kagent | Kendpoint | Kservice | Ksession | Kartifact | Kattention

datatype projection_kind = PRIMARY | CONTEXT | SUMMARY | FOCUS

datatype reference_state = RefAVAILABLE | RefUNAVAILABLE | RefTOMBSTONE

record canonical_reference =
  cr_workspace_id :: string
  cr_node_id :: string
  cr_canonical_ref :: string
  cr_entity_id :: string
  cr_entity_kind :: entity_kind
  cr_revision :: int
  cr_projection_kind :: projection_kind
  cr_state :: reference_state
  cr_first_seen_at :: timestamp
  cr_last_seen_at :: timestamp
  cr_provenance_ref :: "string option"

definition parseSpatialCanonicalReference :: "zod \<Rightarrow> canonical_reference \<Rightarrow> canonical_reference option" where
  "parseSpatialCanonicalReference z c = do {
     workspace \<leftarrow> idSchema z (cr_workspace_id c);
     node \<leftarrow> idSchema z (cr_node_id c);
     ref \<leftarrow> idSchema z (cr_canonical_ref c);
     entity \<leftarrow> idSchema z (cr_entity_id c);
     revision \<leftarrow> revisionSchema z (cr_revision c);
     provenance \<leftarrow> nullable (idSchema z) (cr_provenance_ref c);
     Some (c \<lparr> cr_workspace_id := workspace, cr_node_id := node, cr_canonical_ref := ref, cr_entity_id := entity,
       cr_revision := revision, cr_provenance_ref := provenance \<rparr>) }"

datatype semantic_relation_type = TREQUEST | TRESPONSE | TSTREAMING | TPRODUCED | TDELEGATED | TUSES | TSETTLEMENT | TFAILURE

datatype semantic_relation_state = RelACTIVE | RelIDLE | RelARCHIVED | RelSTALE | RelUNAVAILABLE

type_synonym anchor_position = "int \<times> int \<times> int"

record semantic_relation =
  sr_relation_id :: string
  sr_workspace_id :: string
  sr_node_id :: string
  sr_revision :: int
  sr_relation_type :: semantic_relation_type
  sr_source_ref :: string
  sr_target_ref :: string
  sr_source_revision :: int
  sr_target_revision :: int
  sr_state :: semantic_relation_state
  sr_label :: string
  sr_pulse_count :: int
  sr_offscreen_anchor :: "anchor_position option"
  sr_aggregation_key :: "string option"
  sr_created_at :: timestamp
  sr_updated_at :: timestamp

definition parseSpatialSemanticRelation :: "zod \<Rightarrow> semantic_relation \<Rightarrow> semantic_relation option" where
  "parseSpatialSemanticRelation z s = do {
     rid \<leftarrow> idSchema z (sr_relation_id s);
     workspace \<leftarrow> idSchema z (sr_workspace_id s);
     node \<leftarrow> idSchema z (sr_node_id s);
     revision \<leftarrow> revisionSchema z (sr_revision s);
     src \<leftarrow> idSchema z (sr_source_ref s);
     tgt \<leftarrow> idSchema z (sr_target_ref s);
     src_revision \<leftarrow> revisionSchema z (sr_source_revision s);
     tgt_revision \<leftarrow> revisionSchema z (sr_target_revision s);
     label \<leftarrow> labelSchema z (sr_label s);
     pulses \<leftarrow> revisionSchema z (sr_pulse_count s);
     aggregation \<leftarrow> nullable (idSchema z) (sr_aggregation_key s);
     Some (s \<lparr> sr_relation_id := rid, sr_workspace_id := workspace, sr_node_id := node, sr_revision := revision,
       sr_source_ref := src, sr_target_ref := tgt, sr_source_revision := src_revision, sr_target_revision := tgt_revision,
       sr_label := label, sr_pulse_count := pulses, sr_aggregation_key := aggregation \<rparr>) }"

datatype subagent_state = SPAWNED | WORKING | COMPLETED | FAILED | CANCELLED | ARCHIVED

record subagent =
  sa_subagent_ref :: string
  sa_workspace_id :: string
  sa_node_id :: string
  sa_primary_agent_ref :: string
  sa_parent_ref :: "string option"
  sa_revision :: int
  sa_state :: subagent_state
  sa_capability_grant_scope :: "string list"
  sa_delegation_relation_ref :: "string option"
  sa_result_ref :: "string option"
  sa_error_summary :: "string option"
  sa_created_at :: timestamp
  sa_updated_at :: timestamp

definition errorSummarySchema :: "zod \<Rightarrow> string \<Rightarrow> string option" where
  "errorSummarySchema z v = (if z_string_max z 512 v then Some v else None)"

definition parseSpatialSubagentLifecycle :: "zod \<Rightarrow> subagent \<Rightarrow> subagent option" where
  "parseSpatialSubagentLifecycle z s = do {
     ref \<leftarrow> idSchema z (sa_subagent_ref s);
     workspace \<leftarrow> idSchema z (sa_workspace_id s);
     node \<leftarrow> idSchema z (sa_node_id s);
     primary \<leftarrow> idSchema z (sa_primary_agent_ref s);
     parent \<leftarrow> nullable (idSchema z) (sa_parent_ref s);
     revision \<leftarrow> revisionSchema z (sa_revision s);
     grants \<leftarrow> arrayMax z 128 (idSchema z) (sa_capability_grant_scope s);
     delegation \<leftarrow> nullable (idSchema z) (sa_delegation_relation_ref s);
     result \<leftarrow> nullable (idSchema z) (sa_result_ref s);
     summary \<leftarrow> nullable (errorSummarySchema z) (sa_error_summary s);
     Some (s \<lparr> sa_subagent_ref := ref, sa_workspace_id := workspace, sa_node_id := node, sa_primary_agent_ref := primary,
       sa_parent_ref := parent, sa_revision := revision, sa_capability_grant_scope := grants,
       sa_delegation_relation_ref := delegation, sa_result_ref := result, sa_error_summary := summary \<rparr>) }"

section \<open>The canonical reference registry\<close>

datatype registry_error = Reg_SCOPE_MISMATCH | Reg_INVALID_REFERENCE | Reg_UNKNOWN_REFERENCE

record registry_options =
  rgo_workspaceId :: string
  rgo_nodeId :: string
  rgo_now :: "nat \<Rightarrow> timestamp"

record reference_input =
  rfi_canonicalRef :: string
  rfi_entityId :: string
  rfi_entityKind :: entity_kind
  rfi_revision :: int
  rfi_projectionKind :: "projection_kind option"
  rfi_state :: "reference_state option"
  rfi_provenanceRef :: "string option"

record registry_telemetry =
  rt_discoveries :: int
  rt_duplicateDiscoveries :: int
  rt_staleDiscoveries :: int
  rt_projectionDeletes :: int
  rt_crossWorkspaceLookups :: int

record registry =
  rg_records :: "(string, canonical_reference) jsmap"
  rg_history :: "(string, (int, canonical_reference) jsmap) jsmap"
  rg_telemetry :: registry_telemetry
  rg_clock :: nat

definition empty_registry :: registry where
  "empty_registry = \<lparr> rg_records = [], rg_history = [],
     rg_telemetry = \<lparr> rt_discoveries = 0, rt_duplicateDiscoveries = 0, rt_staleDiscoveries = 0,
       rt_projectionDeletes = 0, rt_crossWorkspaceLookups = 0 \<rparr>, rg_clock = 0 \<rparr>"

text \<open>The constructor normalises its options once; the registry starts empty.\<close>

definition createCanonicalReferenceRegistry :: "registry_options \<Rightarrow> registry_error + registry_options" where
  "createCanonicalReferenceRegistry opts =
     (let workspaceId = js_trim (rgo_workspaceId opts); nodeId = js_trim (rgo_nodeId opts) in
      if workspaceId = [] \<or> nodeId = [] then Inl Reg_SCOPE_MISMATCH
      else Inr (opts \<lparr> rgo_workspaceId := workspaceId, rgo_nodeId := nodeId \<rparr>))"

definition scopeKey :: "string \<Rightarrow> string \<Rightarrow> string" where
  "scopeKey workspaceId canonicalRef = workspaceId @ '':'' @ canonicalRef"

definition recordKey :: "registry_options \<Rightarrow> string \<Rightarrow> string" where
  "recordKey opts canonicalRef = scopeKey (rgo_workspaceId opts) canonicalRef"

definition or_else :: "'a option \<Rightarrow> 'a option \<Rightarrow> 'a option" where
  "or_else a b = (case a of None \<Rightarrow> b | Some x \<Rightarrow> Some x)"

definition or_default :: "'a option \<Rightarrow> 'a \<Rightarrow> 'a" where
  "or_default a d = (case a of None \<Rightarrow> d | Some x \<Rightarrow> x)"

definition count_discovery :: "canonical_reference option \<Rightarrow> int \<Rightarrow> registry_telemetry \<Rightarrow> registry_telemetry" where
  "count_discovery current revision t =
     t \<lparr> rt_discoveries := rt_discoveries t + 1,
         rt_duplicateDiscoveries := rt_duplicateDiscoveries t + (if current = None then 0 else 1),
         rt_staleDiscoveries := rt_staleDiscoveries t
           + (case current of None \<Rightarrow> 0 | Some c \<Rightarrow> if revision < cr_revision c then 1 else 0) \<rparr>"

text \<open>A stale discovery writes the current record, under the stale revision, into the history.\<close>

definition record_stale :: "string \<Rightarrow> int \<Rightarrow> canonical_reference \<Rightarrow> timestamp \<Rightarrow> registry \<Rightarrow> registry" where
  "record_stale k revision current now r = (case jm_get (rg_history r) k of
     None \<Rightarrow> r
   | Some h \<Rightarrow> r \<lparr> rg_history := jm_set k (jm_set revision (current \<lparr> cr_revision := revision, cr_last_seen_at := now \<rparr>) h)
       (rg_history r) \<rparr>)"

definition reference_record ::
  "registry_options \<Rightarrow> reference_input \<Rightarrow> canonical_reference option \<Rightarrow> timestamp \<Rightarrow> canonical_reference" where
  "reference_record opts input current now = \<lparr>
     cr_workspace_id = rgo_workspaceId opts, cr_node_id = rgo_nodeId opts,
     cr_canonical_ref = js_trim (rfi_canonicalRef input), cr_entity_id = js_trim (rfi_entityId input),
     cr_entity_kind = rfi_entityKind input, cr_revision = rfi_revision input,
     cr_projection_kind = or_default (or_else (rfi_projectionKind input) (map_option cr_projection_kind current)) PRIMARY,
     cr_state = or_default (or_else (rfi_state input) (map_option cr_state current)) RefAVAILABLE,
     cr_first_seen_at = or_default (map_option cr_first_seen_at current) now, cr_last_seen_at = now,
     cr_provenance_ref = or_else (rfi_provenanceRef input) (Option.bind current cr_provenance_ref) \<rparr>"

definition store_reference :: "string \<Rightarrow> canonical_reference \<Rightarrow> registry \<Rightarrow> registry" where
  "store_reference k c r = r \<lparr> rg_records := jm_set k c (rg_records r),
     rg_history := jm_set k (jm_set (cr_revision c) c (or_default (jm_get (rg_history r) k) [])) (rg_history r) \<rparr>"

definition discover :: "zod \<Rightarrow> registry_options \<Rightarrow> reference_input \<Rightarrow> registry
    \<Rightarrow> (registry_error, canonical_reference, registry) outcome" where
  "discover z opts input r =
     (let canonicalRef = js_trim (rfi_canonicalRef input); entityId = js_trim (rfi_entityId input) in
      if canonicalRef = [] \<or> entityId = [] \<or> rfi_revision input < 0 then throw Reg_INVALID_REFERENCE r
      else let now = rgo_now opts (rg_clock r); k = recordKey opts canonicalRef;
               current = jm_get (rg_records r) k;
               r1 = r \<lparr> rg_clock := rg_clock r + 1,
                 rg_telemetry := count_discovery current (rfi_revision input) (rg_telemetry r) \<rparr>;
               stale = (case current of None \<Rightarrow> False | Some c \<Rightarrow> rfi_revision input < cr_revision c)
           in if stale then return (the current) (record_stale k (rfi_revision input) (the current) now r1)
              else case parseSpatialCanonicalReference z (reference_record opts input current now) of
                     None \<Rightarrow> throw Reg_INVALID_REFERENCE r1
                   | Some c \<Rightarrow> return c (store_reference k c r1))"

definition resolve :: "registry_options \<Rightarrow> string \<Rightarrow> projection_kind option \<Rightarrow> registry \<Rightarrow> registry_error + canonical_reference" where
  "resolve opts canonicalRef projectionKind r =
     (case jm_get (rg_records r) (recordKey opts (js_trim canonicalRef)) of
        None \<Rightarrow> Inl Reg_UNKNOWN_REFERENCE
      | Some c \<Rightarrow> Inr (c \<lparr> cr_projection_kind := or_default projectionKind PRIMARY \<rparr>))"

definition resolveInScope :: "registry_options \<Rightarrow> string \<Rightarrow> string \<Rightarrow> string \<Rightarrow> registry
    \<Rightarrow> (registry_error, canonical_reference option, registry) outcome" where
  "resolveInScope opts workspaceId nodeId canonicalRef r =
     (if workspaceId \<noteq> rgo_workspaceId opts \<or> nodeId \<noteq> rgo_nodeId opts
      then return None (r \<lparr> rg_telemetry := (rg_telemetry r)
             \<lparr> rt_crossWorkspaceLookups := rt_crossWorkspaceLookups (rg_telemetry r) + 1 \<rparr> \<rparr>)
      else if jm_has (rg_records r) (recordKey opts (js_trim canonicalRef))
           then liftO (resolve opts canonicalRef None r) r (\<lambda>c. return (Some c) r)
           else return None r)"

definition inspectRevision :: "registry_options \<Rightarrow> string \<Rightarrow> int \<Rightarrow> registry \<Rightarrow> registry_error + canonical_reference" where
  "inspectRevision opts canonicalRef revision r =
     (case Option.bind (jm_get (rg_history r) (recordKey opts (js_trim canonicalRef))) (\<lambda>h. jm_get h revision) of
        None \<Rightarrow> Inl Reg_UNKNOWN_REFERENCE
      | Some c \<Rightarrow> Inr c)"

definition tombstone :: "zod \<Rightarrow> registry_options \<Rightarrow> string \<Rightarrow> int \<Rightarrow> registry
    \<Rightarrow> (registry_error, canonical_reference, registry) outcome" where
  "tombstone z opts canonicalRef revision r = liftO (resolve opts canonicalRef None r) r (\<lambda>current.
     discover z opts \<lparr> rfi_canonicalRef = cr_canonical_ref current, rfi_entityId = cr_entity_id current,
       rfi_entityKind = cr_entity_kind current, rfi_revision = max revision (cr_revision current),
       rfi_projectionKind = None, rfi_state = Some RefTOMBSTONE, rfi_provenanceRef = cr_provenance_ref current \<rparr> r)"

definition deletePresentation :: "registry_options \<Rightarrow> string \<Rightarrow> registry
    \<Rightarrow> (registry_error, canonical_reference, registry) outcome" where
  "deletePresentation opts canonicalRef r =
     (let r1 = r \<lparr> rg_telemetry := (rg_telemetry r) \<lparr> rt_projectionDeletes := rt_projectionDeletes (rg_telemetry r) + 1 \<rparr> \<rparr>
      in (resolve opts canonicalRef (Some PRIMARY) r1, r1))"

definition registry_list :: "registry \<Rightarrow> canonical_reference list" where
  "registry_list r = jm_values (rg_records r)"

definition primaryPresence :: "registry_options \<Rightarrow> string \<Rightarrow> registry \<Rightarrow> registry_error + canonical_reference" where
  "primaryPresence opts canonicalRef r = resolve opts canonicalRef (Some PRIMARY) r"

section \<open>The services on the registry\<close>

datatype relation_error = Rel_SCOPE_MISMATCH | Rel_UNKNOWN_REFERENCE | Rel_INVALID_RELATION

datatype subagent_error = Sub_INVALID_STATE | Sub_UNKNOWN_SUBAGENT | Sub_ORPHANED_SUBAGENT | Sub_REMOTE_ACCESS_DENIED | Sub_SCOPE_MISMATCH

datatype topology_failure = Registry registry_error | Relation relation_error | Subagent subagent_error

record relation_options =
  rlo_workspaceId :: string
  rlo_nodeId :: string
  rlo_now :: "nat \<Rightarrow> timestamp"
  rlo_maxVisibleRelations :: "int option"

record subagent_options =
  sbo_workspaceId :: string
  sbo_nodeId :: string
  sbo_primaryAgentRef :: string
  sbo_now :: "nat \<Rightarrow> timestamp"
  sbo_authorizeRemoteAccess :: "(string \<Rightarrow> string \<Rightarrow> string \<Rightarrow> bool) option"

record topology_config =
  tc_zod :: zod
  tc_registry :: registry_options
  tc_relations :: relation_options
  tc_subagents :: subagent_options

record topology =
  tp_registry :: registry
  tp_relations :: "(string, semantic_relation) jsmap"
  tp_streamChunks :: "(string, int) jsmap"
  tp_relationClock :: nat
  tp_subagents :: "(string, subagent) jsmap"
  tp_subagentClock :: nat

type_synonym 'a topology_outcome = "(topology_failure, 'a, topology) outcome"

definition empty_topology :: topology where
  "empty_topology = \<lparr> tp_registry = empty_registry, tp_relations = [], tp_streamChunks = [], tp_relationClock = 0,
     tp_subagents = [], tp_subagentClock = 0 \<rparr>"

text \<open>A call on the shared registry: its error passes through, its state is the registry's.\<close>

definition on_registry :: "(registry_error, 'a, registry) outcome \<Rightarrow> topology \<Rightarrow> 'a topology_outcome" where
  "on_registry o1 t = (case o1 of (Inl e, r) \<Rightarrow> (Inl (Registry e), t \<lparr> tp_registry := r \<rparr>)
     | (Inr a, r) \<Rightarrow> (Inr a, t \<lparr> tp_registry := r \<rparr>))"

subsection \<open>Semantic relations\<close>

record relation_upsert =
  ru_relationId :: string
  ru_relationType :: semantic_relation_type
  ru_sourceRef :: string
  ru_targetRef :: string
  ru_sourceRevision :: int
  ru_targetRevision :: int
  ru_label :: "string option"
  ru_aggregationKey :: "string option"
  ru_state :: "semantic_relation_state option"
  ru_pulseCount :: "int option"
  ru_offscreenAnchor :: "anchor_position option"

fun relation_type_name :: "semantic_relation_type \<Rightarrow> string" where
  "relation_type_name TREQUEST = ''REQUEST''"
| "relation_type_name TRESPONSE = ''RESPONSE''"
| "relation_type_name TSTREAMING = ''STREAMING''"
| "relation_type_name TPRODUCED = ''PRODUCED''"
| "relation_type_name TDELEGATED = ''DELEGATED''"
| "relation_type_name TUSES = ''USES''"
| "relation_type_name TSETTLEMENT = ''SETTLEMENT''"
| "relation_type_name TFAILURE = ''FAILURE''"

definition relationLabel :: "semantic_relation_type \<Rightarrow> string" where
  "relationLabel ty = js_toLowerCase (map (\<lambda>c. if c = CHR ''_'' then CHR '' '' else c) (relation_type_name ty))"

definition relation_record ::
  "relation_options \<Rightarrow> relation_upsert \<Rightarrow> semantic_relation option \<Rightarrow> timestamp \<Rightarrow> semantic_relation" where
  "relation_record opts input current now = \<lparr>
     sr_relation_id = ru_relationId input, sr_workspace_id = rlo_workspaceId opts, sr_node_id = rlo_nodeId opts,
     sr_revision = or_default (map_option sr_revision current) 0 + 1, sr_relation_type = ru_relationType input,
     sr_source_ref = ru_sourceRef input, sr_target_ref = ru_targetRef input,
     sr_source_revision = ru_sourceRevision input, sr_target_revision = ru_targetRevision input,
     sr_state = or_default (or_else (ru_state input) (map_option sr_state current)) RelACTIVE,
     sr_label = (let l = map_option js_trim (ru_label input) in if js_truthy l then the l else relationLabel (ru_relationType input)),
     sr_pulse_count = or_default (or_else (ru_pulseCount input) (map_option sr_pulse_count current)) 0,
     sr_offscreen_anchor = or_else (ru_offscreenAnchor input) (Option.bind current sr_offscreen_anchor),
     sr_aggregation_key = or_else (ru_aggregationKey input) (Option.bind current sr_aggregation_key),
     sr_created_at = or_default (map_option sr_created_at current) now, sr_updated_at = now \<rparr>"

definition resolve_for_relation :: "topology_config \<Rightarrow> string \<Rightarrow> topology \<Rightarrow> canonical_reference option topology_outcome" where
  "resolve_for_relation cfg ref t =
     on_registry (resolveInScope (tc_registry cfg) (rlo_workspaceId (tc_relations cfg)) (rlo_nodeId (tc_relations cfg)) ref (tp_registry t)) t"

definition upsert :: "topology_config \<Rightarrow> relation_upsert \<Rightarrow> topology \<Rightarrow> semantic_relation topology_outcome" where
  "upsert cfg input t =
     (if js_trim (ru_relationId input) = [] \<or> js_trim (ru_sourceRef input) = [] \<or> js_trim (ru_targetRef input) = [] \<or>
         ru_sourceRef input = ru_targetRef input
      then throw (Relation Rel_INVALID_RELATION) t
      else seqO (resolve_for_relation cfg (ru_sourceRef input) t) (\<lambda>src t1.
           seqO (resolve_for_relation cfg (ru_targetRef input) t1) (\<lambda>tgt t2.
             if src = None \<or> tgt = None then throw (Relation Rel_UNKNOWN_REFERENCE) t2
             else let now = rlo_now (tc_relations cfg) (tp_relationClock t2);
                      t3 = t2 \<lparr> tp_relationClock := tp_relationClock t2 + 1 \<rparr>;
                      current = jm_get (tp_relations t3) (ru_relationId input)
                  in case parseSpatialSemanticRelation (tc_zod cfg) (relation_record (tc_relations cfg) input current now) of
                       None \<Rightarrow> throw (Relation Rel_INVALID_RELATION) t3
                     | Some s \<Rightarrow> return s (t3 \<lparr> tp_relations := jm_set (sr_relation_id s) s (tp_relations t3) \<rparr>))))"

record relation_inspection =
  ins_relation :: semantic_relation
  ins_sourceLabel :: string
  ins_targetLabel :: string
  ins_directionLabel :: "int list"
  ins_chunkCount :: int

text \<open>The arrow of a direction label is U+2192, so the label is a list of code units.\<close>

definition direction_label :: "string \<Rightarrow> string \<Rightarrow> string \<Rightarrow> int list" where
  "direction_label label src tgt = map of_char (label @ '': '' @ src @ '' '') @ [8594] @ map of_char ('' '' @ tgt)"

definition lift_registry :: "registry_error + 'a \<Rightarrow> topology_failure + 'a" where
  "lift_registry x = (case x of Inl e \<Rightarrow> Inl (Registry e) | Inr a \<Rightarrow> Inr a)"

definition inspect :: "topology_config \<Rightarrow> string \<Rightarrow> int option \<Rightarrow> topology \<Rightarrow> topology_failure + relation_inspection" where
  "inspect cfg relationId chunkCount t =
     (case jm_get (tp_relations t) relationId of
        None \<Rightarrow> Inl (Relation Rel_INVALID_RELATION)
      | Some s \<Rightarrow>
          bindR (lift_registry (resolve (tc_registry cfg) (sr_source_ref s) None (tp_registry t))) (\<lambda>src.
          bindR (lift_registry (resolve (tc_registry cfg) (sr_target_ref s) None (tp_registry t))) (\<lambda>tgt.
          Inr \<lparr> ins_relation = s, ins_sourceLabel = cr_entity_id src, ins_targetLabel = cr_entity_id tgt,
            ins_directionLabel = direction_label (sr_label s) (cr_entity_id src) (cr_entity_id tgt),
            ins_chunkCount = or_default chunkCount (or_default (jm_get (tp_streamChunks t) relationId) 0) \<rparr>)))"

text \<open>\<open>input\<close> has no relation type of its own here: \<open>relationType\<close>, or STREAMING, replaces it.\<close>

definition aggregateStreamChunk :: "topology_config \<Rightarrow> relation_upsert \<Rightarrow> semantic_relation_type option \<Rightarrow> string option \<Rightarrow> topology
    \<Rightarrow> relation_inspection topology_outcome" where
  "aggregateStreamChunk cfg input relationType stream t =
     (let streamKey = or_default stream (ru_relationId input);
          chunkCount = or_default (jm_get (tp_streamChunks t) streamKey) 0 + 1;
          t1 = t \<lparr> tp_streamChunks := jm_set streamKey chunkCount (tp_streamChunks t) \<rparr>
      in seqO (upsert cfg (input \<lparr> ru_relationType := or_default relationType TSTREAMING,
                ru_aggregationKey := or_else (ru_aggregationKey input) (Some streamKey), ru_pulseCount := Some chunkCount \<rparr>) t1)
           (\<lambda>s t2. (inspect cfg (sr_relation_id s) (Some chunkCount) t2, t2)))"

text \<open>The stored relation as an input, the way \<open>pulse\<close> and \<open>setState\<close> write it out.\<close>

definition input_of_relation :: "string \<Rightarrow> semantic_relation \<Rightarrow> relation_upsert" where
  "input_of_relation relationId s = \<lparr> ru_relationId = relationId, ru_relationType = sr_relation_type s,
     ru_sourceRef = sr_source_ref s, ru_targetRef = sr_target_ref s, ru_sourceRevision = sr_source_revision s,
     ru_targetRevision = sr_target_revision s, ru_label = Some (sr_label s), ru_aggregationKey = sr_aggregation_key s,
     ru_state = Some (sr_state s), ru_pulseCount = Some (sr_pulse_count s), ru_offscreenAnchor = sr_offscreen_anchor s \<rparr>"

definition pulse :: "topology_config \<Rightarrow> string \<Rightarrow> topology \<Rightarrow> relation_inspection topology_outcome" where
  "pulse cfg relationId t = (case jm_get (tp_relations t) relationId of
     None \<Rightarrow> throw (Relation Rel_INVALID_RELATION) t
   | Some s \<Rightarrow>
       let chunkKey = or_default (sr_aggregation_key s) relationId;
           count = or_default (jm_get (tp_streamChunks t) chunkKey) 0 + 1;
           t1 = t \<lparr> tp_streamChunks := jm_set chunkKey count (tp_streamChunks t) \<rparr>
       in seqO (upsert cfg ((input_of_relation relationId s) \<lparr> ru_pulseCount := Some count \<rparr>) t1)
            (\<lambda>_ t2. (inspect cfg relationId (Some count) t2, t2)))"

definition inspectKeyboard :: "topology_config \<Rightarrow> string \<Rightarrow> topology \<Rightarrow> topology_failure + relation_inspection" where
  "inspectKeyboard cfg relationId t = inspect cfg relationId None t"

record visual_path =
  path_relationId :: string
  path_points :: "anchor_position \<times> anchor_position"
  path_offscreenAnchor :: "anchor_position option"
  path_pulseCount :: int
  path_label :: string

definition visualPath :: "string \<Rightarrow> anchor_position option \<Rightarrow> anchor_position option \<Rightarrow> topology \<Rightarrow> topology_failure + visual_path" where
  "visualPath relationId sourcePosition targetPosition t = (case jm_get (tp_relations t) relationId of
     None \<Rightarrow> Inl (Relation Rel_INVALID_RELATION)
   | Some s \<Rightarrow>
       let fallback = or_default (sr_offscreen_anchor s) (0, 0, -4)
       in Inr \<lparr> path_relationId = relationId,
            path_points = (or_default sourcePosition fallback, or_default targetPosition fallback),
            path_offscreenAnchor = (if sourcePosition \<noteq> None \<and> targetPosition \<noteq> None then sr_offscreen_anchor s else Some fallback),
            path_pulseCount = sr_pulse_count s, path_label = sr_label s \<rparr>)"

definition relation_list :: "topology \<Rightarrow> semantic_relation list" where
  "relation_list t = jm_values (tp_relations t)"

text \<open>Active relations come first, the latest first among equals; the sort is stable.\<close>

definition visible_order :: "semantic_relation \<Rightarrow> int \<times> int" where
  "visible_order s = (if sr_state s = RelACTIVE then 0 else 1, - sr_updated_at s)"

definition visible_bound :: "topology_config \<Rightarrow> int option \<Rightarrow> int" where
  "visible_bound cfg m = max 1 (min 10000 (or_default m (or_default (rlo_maxVisibleRelations (tc_relations cfg)) 256)))"

definition visibleRelations :: "topology_config \<Rightarrow> int option \<Rightarrow> topology \<Rightarrow> semantic_relation list" where
  "visibleRelations cfg m t = take (nat (visible_bound cfg m))
     (sort_key visible_order (filter (\<lambda>s. sr_state s \<noteq> RelARCHIVED \<and> sr_state s \<noteq> RelUNAVAILABLE) (jm_values (tp_relations t))))"

definition setState :: "topology_config \<Rightarrow> string \<Rightarrow> semantic_relation_state \<Rightarrow> topology \<Rightarrow> semantic_relation topology_outcome" where
  "setState cfg relationId state t = (case jm_get (tp_relations t) relationId of
     None \<Rightarrow> throw (Relation Rel_INVALID_RELATION) t
   | Some s \<Rightarrow> upsert cfg ((input_of_relation relationId s) \<lparr> ru_state := Some state \<rparr>) t)"

subsection \<open>Subagents\<close>

fun subagent_transitions :: "subagent_state \<Rightarrow> subagent_state list" where
  "subagent_transitions SPAWNED = [WORKING, CANCELLED, FAILED, ARCHIVED]"
| "subagent_transitions WORKING = [COMPLETED, FAILED, CANCELLED]"
| "subagent_transitions COMPLETED = [ARCHIVED]"
| "subagent_transitions FAILED = [ARCHIVED, WORKING]"
| "subagent_transitions CANCELLED = [ARCHIVED]"
| "subagent_transitions ARCHIVED = []"

record spawn_input =
  spi_subagentRef :: string
  spi_parentRef :: "string option"
  spi_capabilityGrantScope :: "string list option"

definition subagent_record :: "subagent_options \<Rightarrow> spawn_input \<Rightarrow> timestamp \<Rightarrow> subagent" where
  "subagent_record opts input now = \<lparr>
     sa_subagent_ref = spi_subagentRef input, sa_workspace_id = sbo_workspaceId opts, sa_node_id = sbo_nodeId opts,
     sa_primary_agent_ref = sbo_primaryAgentRef opts, sa_parent_ref = spi_parentRef input, sa_revision = 0,
     sa_state = SPAWNED, sa_capability_grant_scope = or_default (spi_capabilityGrantScope input) [],
     sa_delegation_relation_ref = Some (''delegation:'' @ sbo_primaryAgentRef opts @ '':'' @ spi_subagentRef input),
     sa_result_ref = None, sa_error_summary = None, sa_created_at = now, sa_updated_at = now \<rparr>"

definition subagent_reference :: "subagent_options \<Rightarrow> spawn_input \<Rightarrow> reference_input" where
  "subagent_reference opts input = \<lparr> rfi_canonicalRef = spi_subagentRef input, rfi_entityId = spi_subagentRef input,
     rfi_entityKind = Kagent, rfi_revision = 0, rfi_projectionKind = None, rfi_state = None,
     rfi_provenanceRef = Some (sbo_primaryAgentRef opts) \<rparr>"

definition delegation_upsert :: "subagent_options \<Rightarrow> spawn_input \<Rightarrow> subagent \<Rightarrow> relation_upsert" where
  "delegation_upsert opts input s = \<lparr>
     ru_relationId = or_default (sa_delegation_relation_ref s) (''delegation:'' @ spi_subagentRef input),
     ru_relationType = TDELEGATED, ru_sourceRef = sbo_primaryAgentRef opts, ru_targetRef = spi_subagentRef input,
     ru_sourceRevision = 0, ru_targetRevision = 0, ru_label = Some ''delegated to local subagent'',
     ru_aggregationKey = None, ru_state = None, ru_pulseCount = None, ru_offscreenAnchor = None \<rparr>"

text \<open>What follows once the record is stored: the registry learns the subagent, and the delegation becomes a relation.\<close>

definition spawn_register :: "topology_config \<Rightarrow> spawn_input \<Rightarrow> subagent \<Rightarrow> topology \<Rightarrow> subagent topology_outcome" where
  "spawn_register cfg input s t =
     seqO (on_registry (discover (tc_zod cfg) (tc_registry cfg) (subagent_reference (tc_subagents cfg) input) (tp_registry t)) t) (\<lambda>_ t1.
     seqO (on_registry (resolveInScope (tc_registry cfg) (sbo_workspaceId (tc_subagents cfg)) (sbo_nodeId (tc_subagents cfg))
            (sbo_primaryAgentRef (tc_subagents cfg)) (tp_registry t1)) t1) (\<lambda>primary t2.
       if primary = None then return s t2
       else seqO (upsert cfg (delegation_upsert (tc_subagents cfg) input s) t2) (\<lambda>_ t3. return s t3)))"

definition spawn :: "topology_config \<Rightarrow> spawn_input \<Rightarrow> topology \<Rightarrow> subagent topology_outcome" where
  "spawn cfg input t = (case jm_get (tp_subagents t) (spi_subagentRef input) of
     Some existing \<Rightarrow> return existing t
   | None \<Rightarrow>
       if js_truthy (spi_parentRef input) \<and> \<not> jm_has (tp_subagents t) (the (spi_parentRef input)) \<and>
          the (spi_parentRef input) \<noteq> sbo_primaryAgentRef (tc_subagents cfg)
       then throw (Subagent Sub_ORPHANED_SUBAGENT) t
       else let now = sbo_now (tc_subagents cfg) (tp_subagentClock t);
                t1 = t \<lparr> tp_subagentClock := tp_subagentClock t + 1 \<rparr>
            in case parseSpatialSubagentLifecycle (tc_zod cfg) (subagent_record (tc_subagents cfg) input now) of
                 None \<Rightarrow> throw (Subagent Sub_INVALID_STATE) t1
               | Some s \<Rightarrow> spawn_register cfg input s (t1 \<lparr> tp_subagents := jm_set (sa_subagent_ref s) s (tp_subagents t1) \<rparr>))"

record transition_details =
  td_resultRef :: "string option option"
  td_errorSummary :: "string option option"

definition subagent_transition :: "topology_config \<Rightarrow> string \<Rightarrow> subagent_state \<Rightarrow> transition_details \<Rightarrow> topology
    \<Rightarrow> subagent topology_outcome" where
  "subagent_transition cfg subagentRef state details t = (case jm_get (tp_subagents t) subagentRef of
     None \<Rightarrow> throw (Subagent Sub_UNKNOWN_SUBAGENT) t
   | Some current \<Rightarrow>
       if sa_state current \<noteq> state \<and> state \<notin> set (subagent_transitions (sa_state current))
       then throw (Subagent Sub_INVALID_STATE) t
       else let nxt = current \<lparr> sa_revision := sa_revision current + (if sa_state current = state then 0 else 1),
                  sa_state := state, sa_result_ref := or_default (td_resultRef details) (sa_result_ref current),
                  sa_error_summary := or_default (td_errorSummary details) (sa_error_summary current),
                  sa_updated_at := sbo_now (tc_subagents cfg) (tp_subagentClock t) \<rparr>
            in return nxt (t \<lparr> tp_subagentClock := tp_subagentClock t + 1,
                 tp_subagents := jm_set subagentRef nxt (tp_subagents t) \<rparr>))"

definition complete_subagent :: "topology_config \<Rightarrow> string \<Rightarrow> string \<Rightarrow> topology \<Rightarrow> subagent topology_outcome" where
  "complete_subagent cfg subagentRef resultRef t =
     subagent_transition cfg subagentRef COMPLETED \<lparr> td_resultRef = Some (Some resultRef), td_errorSummary = None \<rparr> t"

definition fail_subagent :: "topology_config \<Rightarrow> string \<Rightarrow> string \<Rightarrow> topology \<Rightarrow> subagent topology_outcome" where
  "fail_subagent cfg subagentRef errorSummary t =
     subagent_transition cfg subagentRef FAILED \<lparr> td_resultRef = None, td_errorSummary = Some (Some errorSummary) \<rparr> t"

definition recoverOrphans :: "topology_config \<Rightarrow> topology \<Rightarrow> subagent list" where
  "recoverOrphans cfg t = filter (\<lambda>s. case sa_parent_ref s of None \<Rightarrow> False
     | Some p \<Rightarrow> \<not> jm_has (tp_subagents t) p \<and> p \<noteq> sbo_primaryAgentRef (tc_subagents cfg)) (jm_values (tp_subagents t))"

definition requestRemoteAccess :: "topology_config \<Rightarrow> string \<Rightarrow> string \<Rightarrow> string \<Rightarrow> topology
    \<Rightarrow> topology_failure + (string \<times> string \<times> string)" where
  "requestRemoteAccess cfg subagentRef endpointRef capability t = (case jm_get (tp_subagents t) subagentRef of
     None \<Rightarrow> Inl (Subagent Sub_UNKNOWN_SUBAGENT)
   | Some s \<Rightarrow>
       if sa_state s = ARCHIVED \<or> sa_state s = CANCELLED then Inl (Subagent Sub_UNKNOWN_SUBAGENT)
       else if capability \<notin> set (sa_capability_grant_scope s) \<or>
         (case sbo_authorizeRemoteAccess (tc_subagents cfg) of None \<Rightarrow> True | Some auth \<Rightarrow> \<not> auth subagentRef endpointRef capability)
       then Inl (Subagent Sub_REMOTE_ACCESS_DENIED)
       else Inr (subagentRef, endpointRef, capability))"

definition subagent_list :: "topology \<Rightarrow> subagent list" where
  "subagent_list t = jm_values (tp_subagents t)"

definition get_subagent :: "string \<Rightarrow> topology \<Rightarrow> topology_failure + subagent" where
  "get_subagent subagentRef t = (case jm_get (tp_subagents t) subagentRef of
     None \<Rightarrow> Inl (Subagent Sub_UNKNOWN_SUBAGENT) | Some s \<Rightarrow> Inr s)"

end
