(* ===== verification/Topology_Properties.thy ===== *)
theory Topology_Properties
  imports Topology "HOL-Library.Multiset"
begin

text \<open>
  What the topology services guarantee. The registry refines a map of max-registers; in every run relations and
  parents refer to things that exist; a subagent's authority is the one it was spawned with; the visible relations are
  the bounded front of an ordered list. Defects found on the way close the theory.
\<close>

section \<open>The registry\<close>

lemma recordKey_inject [simp]: "recordKey opts a = recordKey opts b \<longleftrightarrow> a = b"
  by (simp add: recordKey_def scopeKey_def)

lemma or_simps [simp]:
  "or_else None b = b" "or_else (Some x) b = Some x" "or_default None d = d" "or_default (Some x) d = x"
  by (simp_all add: or_else_def or_default_def)

lemma parse_reference_keeps:
  assumes "parseSpatialCanonicalReference z c = Some c'"
  shows "cr_canonical_ref c' = js_trim (cr_canonical_ref c)" "cr_revision c' = cr_revision c"
  using assms
  by (auto simp: parseSpatialCanonicalReference_def bind_eq_Some_conv revisionSchema_def split: if_splits dest: idSchema_trim)

text \<open>A discovery fails without touching a record, is stale, or stores a record with the offered revision.\<close>

lemma discover_cases:
  obtains (refused) r' where "discover z opts input r = (Inl Reg_INVALID_REFERENCE, r')" "rg_records r' = rg_records r"
  | (stale) c r' where "discover z opts input r = (Inr c, r')" "rg_records r' = rg_records r"
      "jm_get (rg_records r) (recordKey opts (js_trim (rfi_canonicalRef input))) = Some c" "rfi_revision input < cr_revision c"
  | (stored) c r' where "discover z opts input r = (Inr c, r')"
      "rg_records r' = jm_set (recordKey opts (js_trim (rfi_canonicalRef input))) c (rg_records r)"
      "cr_canonical_ref c = js_trim (rfi_canonicalRef input)" "cr_revision c = rfi_revision input"
      "\<And>old. jm_get (rg_records r) (recordKey opts (js_trim (rfi_canonicalRef input))) = Some old \<Longrightarrow> cr_revision old \<le> rfi_revision input"
proof -
  let ?key = "recordKey opts (js_trim (rfi_canonicalRef input))"
  let ?cur = "jm_get (rg_records r) ?key"
  let ?now = "rgo_now opts (rg_clock r)"
  let ?r1 = "r \<lparr> rg_clock := Suc (rg_clock r), rg_telemetry := count_discovery ?cur (rfi_revision input) (rg_telemetry r) \<rparr>"
  let ?stale = "case ?cur of None \<Rightarrow> False | Some c \<Rightarrow> rfi_revision input < cr_revision c"
  show thesis
  proof (cases "js_trim (rfi_canonicalRef input) = [] \<or> js_trim (rfi_entityId input) = [] \<or> rfi_revision input < 0")
    case True
    then show thesis by (intro refused [of r]) (simp_all add: discover_def Let_def)
  next
    case False
    then have body: "discover z opts input r = (if ?stale
        then return (the ?cur) (record_stale ?key (rfi_revision input) (the ?cur) ?now ?r1)
        else case parseSpatialCanonicalReference z (reference_record opts input ?cur ?now) of
          None \<Rightarrow> throw Reg_INVALID_REFERENCE ?r1 | Some c \<Rightarrow> return c (store_reference ?key c ?r1))"
      by (simp add: discover_def Let_def)
    show thesis
    proof (cases ?stale)
      case True
      then obtain c where c: "?cur = Some c" "rfi_revision input < cr_revision c" by (auto split: option.splits)
      with True show thesis
        by (intro stale [of c "record_stale ?key (rfi_revision input) c ?now ?r1"])
          (auto simp: body record_stale_def split: option.splits)
    next
      case fresh: False
      show thesis
      proof (cases "parseSpatialCanonicalReference z (reference_record opts input ?cur ?now)")
        case None
        with fresh show thesis by (intro refused [of ?r1]) (simp_all add: body)
      next
        case (Some c)
        note keeps = parse_reference_keeps [OF Some]
        show thesis
          by (rule stored [of c "store_reference ?key c ?r1"])
            (use fresh Some keeps in \<open>auto simp: body store_reference_def reference_record_def\<close>)
      qed
    qed
  qed
qed

definition references_keyed :: "registry_options \<Rightarrow> registry \<Rightarrow> bool" where
  "references_keyed opts r \<longleftrightarrow> (\<forall>k c. jm_get (rg_records r) k = Some c \<longrightarrow>
     k = recordKey opts (cr_canonical_ref c) \<and> js_trim (cr_canonical_ref c) = cr_canonical_ref c)"

lemma discover_keyed: "references_keyed opts r \<Longrightarrow> references_keyed opts (snd (discover z opts input r))"
  by (cases rule: discover_cases [of z opts input r]) (auto simp: references_keyed_def jm_get_set)

lemma discover_keeps_records:
  "jm_has (rg_records r) k \<Longrightarrow> jm_has (rg_records (snd (discover z opts input r))) k"
  by (cases rule: discover_cases [of z opts input r]) auto

lemma discover_registers:
  "discover z opts input r = (Inr c, r') \<Longrightarrow> jm_has (rg_records r') (recordKey opts (js_trim (rfi_canonicalRef input)))"
  by (cases rule: discover_cases [of z opts input r]) (auto simp: jm_has_def)

lemma resolve_Inr:
  "resolve opts ref p r = Inr c \<longleftrightarrow> (\<exists>c0. jm_get (rg_records r) (recordKey opts (js_trim ref)) = Some c0 \<and>
     c = c0 \<lparr> cr_projection_kind := or_default p PRIMARY \<rparr>)"
  by (auto simp: resolve_def split: option.splits)

lemma resolveInScope_records [simp]: "rg_records (snd (resolveInScope opts w n ref r)) = rg_records r"
  by (auto simp: resolveInScope_def resolve_def jm_has_def split: option.splits)

lemma resolveInScope_found:
  "resolveInScope opts w n ref r = (Inr (Some c), r') \<Longrightarrow> jm_has (rg_records r) (recordKey opts (js_trim ref))"
  by (auto simp: resolveInScope_def split: if_splits)

datatype registry_call =
    Discover reference_input
  | Tombstone string int
  | DeletePresentation string
  | ResolveInScope string string string

fun registry_call_result :: "zod \<Rightarrow> registry_options \<Rightarrow> registry \<Rightarrow> registry_call \<Rightarrow> bool \<times> registry" where
  "registry_call_result z opts r (Discover input) = (let (res, r') = discover z opts input r in (\<not> isl res, r'))"
| "registry_call_result z opts r (Tombstone ref revision) = (let (res, r') = tombstone z opts ref revision r in (\<not> isl res, r'))"
| "registry_call_result z opts r (DeletePresentation ref) = (let (res, r') = deletePresentation opts ref r in (\<not> isl res, r'))"
| "registry_call_result z opts r (ResolveInScope w n ref) = (let (res, r') = resolveInScope opts w n ref r in (\<not> isl res, r'))"

definition registry_step :: "zod \<Rightarrow> registry_options \<Rightarrow> registry \<Rightarrow> registry_call \<Rightarrow> registry" where
  "registry_step z opts r c = snd (registry_call_result z opts r c)"

text \<open>
  The abstract registry: a revision per reference. An accepted offer raises it to the maximum, and nothing else
  changes it.
\<close>

definition offer :: "string \<Rightarrow> int \<Rightarrow> (string \<Rightarrow> int option) \<Rightarrow> string \<Rightarrow> int option" where
  "offer ref revision m = m(ref := Some (case m ref of None \<Rightarrow> revision | Some v \<Rightarrow> max v revision))"

fun offers :: "registry_call \<Rightarrow> (string \<times> int) option" where
  "offers (Discover input) = Some (js_trim (rfi_canonicalRef input), rfi_revision input)"
| "offers (Tombstone ref revision) = Some (js_trim ref, revision)"
| "offers (DeletePresentation ref) = None"
| "offers (ResolveInScope w n ref) = None"

definition abstract_step :: "bool \<Rightarrow> registry_call \<Rightarrow> (string \<Rightarrow> int option) \<Rightarrow> string \<Rightarrow> int option" where
  "abstract_step ok c m = (if ok then case offers c of None \<Rightarrow> m | Some (ref, revision) \<Rightarrow> offer ref revision m else m)"

fun abstract_run :: "zod \<Rightarrow> registry_options \<Rightarrow> registry \<Rightarrow> registry_call list \<Rightarrow> (string \<Rightarrow> int option) \<Rightarrow> string \<Rightarrow> int option" where
  "abstract_run z opts r [] m = m"
| "abstract_run z opts r (c # cs) m =
     abstract_run z opts (registry_step z opts r c) cs (abstract_step (fst (registry_call_result z opts r c)) c m)"

definition revisions :: "registry_options \<Rightarrow> registry \<Rightarrow> string \<Rightarrow> int option" where
  "revisions opts r ref = map_option cr_revision (jm_get (rg_records r) (recordKey opts ref))"

lemma revisions_cong: "rg_records r' = rg_records r \<Longrightarrow> revisions opts r' = revisions opts r"
  by (simp add: revisions_def fun_eq_iff)

lemma discover_refines:
  "revisions opts (snd (discover z opts input r)) =
     (if isl (fst (discover z opts input r)) then revisions opts r
      else offer (js_trim (rfi_canonicalRef input)) (rfi_revision input) (revisions opts r))"
proof (cases rule: discover_cases [of z opts input r])
  case (refused r')
  with revisions_cong [OF refused(2)] show ?thesis by simp
next
  case (stale c r')
  then have "revisions opts r (js_trim (rfi_canonicalRef input)) = Some (cr_revision c)" by (simp add: revisions_def)
  then have "offer (js_trim (rfi_canonicalRef input)) (rfi_revision input) (revisions opts r) = revisions opts r"
    using stale(4) by (auto simp: offer_def max_def)
  with revisions_cong [OF stale(2)] stale(1) show ?thesis by simp
next
  case (stored c r')
  let ?ref = "js_trim (rfi_canonicalRef input)"
  have "revisions opts r' = (revisions opts r)(?ref := Some (rfi_revision input))"
    using stored(2,4) by (simp add: revisions_def fun_eq_iff jm_get_set)
  moreover have "(case revisions opts r ?ref of None \<Rightarrow> rfi_revision input | Some v \<Rightarrow> max v (rfi_revision input)) = rfi_revision input"
    using stored(5) by (auto simp: revisions_def max_def split: option.splits)
  ultimately show ?thesis using stored(1) by (simp add: offer_def)
qed

lemma tombstone_refines:
  assumes "references_keyed opts r"
  shows "revisions opts (snd (tombstone z opts ref revision r)) =
     (if isl (fst (tombstone z opts ref revision r)) then revisions opts r
      else offer (js_trim ref) revision (revisions opts r))"
proof (cases "jm_get (rg_records r) (recordKey opts (js_trim ref))")
  case None
  then show ?thesis by (simp add: tombstone_def resolve_def)
next
  case (Some c)
  with assms have "recordKey opts (js_trim ref) = recordKey opts (cr_canonical_ref c)" unfolding references_keyed_def by blast
  then have c: "cr_canonical_ref c = js_trim ref" by simp
  have "offer (js_trim ref) (max revision (cr_revision c)) (revisions opts r) = offer (js_trim ref) revision (revisions opts r)"
    using Some by (auto simp: offer_def revisions_def fun_eq_iff)
  with Some c show ?thesis by (simp add: tombstone_def resolve_def discover_refines)
qed

lemma tombstone_keyed: "references_keyed opts r \<Longrightarrow> references_keyed opts (snd (tombstone z opts ref revision r))"
  by (simp add: tombstone_def liftO_def discover_keyed split: sum.splits)

lemma registry_step_refines:
  assumes "references_keyed opts r"
  shows "references_keyed opts (registry_step z opts r c) \<and>
    revisions opts (registry_step z opts r c) = abstract_step (fst (registry_call_result z opts r c)) c (revisions opts r)"
proof (cases c)
  case (Discover input)
  with discover_refines [of opts z input r] discover_keyed [OF assms, of z input] show ?thesis
    by (simp add: registry_step_def abstract_step_def case_prod_beta)
next
  case (Tombstone ref revision)
  with tombstone_refines [OF assms, of z ref revision] tombstone_keyed [OF assms, of z ref revision] show ?thesis
    by (simp add: registry_step_def abstract_step_def case_prod_beta)
next
  case (DeletePresentation ref)
  with assms show ?thesis
    by (auto simp: registry_step_def abstract_step_def deletePresentation_def Let_def references_keyed_def intro!: revisions_cong)
next
  case (ResolveInScope w n ref)
  moreover have "references_keyed opts (snd (resolveInScope opts w n ref r))"
    using assms by (simp add: references_keyed_def)
  ultimately show ?thesis
    by (auto simp: registry_step_def abstract_step_def case_prod_beta intro!: revisions_cong)
qed

lemma registry_run_refines:
  "references_keyed opts r \<Longrightarrow>
   revisions opts (run (registry_step z opts) r cs) = abstract_run z opts r cs (revisions opts r)"
proof (induction cs arbitrary: r)
  case (Cons c cs)
  from registry_step_refines [OF Cons.prems, of z c] Cons.IH [of "registry_step z opts r c"] show ?case by simp
qed simp

text \<open>
  (C21) The registry refines a map of max-registers. In every run of discoveries, tombstones, presentation deletes and
  scoped lookups, the revision stored for a reference is the one the abstract map holds, in which an accepted call
  raises the revision of its reference to the maximum of what was there and what it offers, a refused call does
  nothing, and deleting a presentation or looking a reference up changes no revision.
\<close>

theorem registry_refines_max_register:
  "revisions opts (run (registry_step z opts) empty_registry cs) = abstract_run z opts empty_registry cs (\<lambda>_. None)"
proof -
  have "references_keyed opts empty_registry" "revisions opts empty_registry = (\<lambda>_. None)"
    by (simp_all add: references_keyed_def revisions_def empty_registry_def fun_eq_iff)
  with registry_run_refines [of opts empty_registry z cs] show ?thesis by simp
qed

section \<open>Runs of the services\<close>

datatype topology_call =
    OnRegistry registry_call
  | Upsert relation_upsert
  | AggregateStreamChunk relation_upsert "semantic_relation_type option" "string option"
  | Pulse string
  | SetState string semantic_relation_state
  | Spawn spawn_input
  | SubagentTransition string subagent_state transition_details
  | Complete string string
  | Fail string string

fun topology_step :: "topology_config \<Rightarrow> topology \<Rightarrow> topology_call \<Rightarrow> topology" where
  "topology_step cfg t (OnRegistry c) = t \<lparr> tp_registry := registry_step (tc_zod cfg) (tc_registry cfg) (tp_registry t) c \<rparr>"
| "topology_step cfg t (Upsert input) = snd (upsert cfg input t)"
| "topology_step cfg t (AggregateStreamChunk input ty stream) = snd (aggregateStreamChunk cfg input ty stream t)"
| "topology_step cfg t (Pulse rid) = snd (pulse cfg rid t)"
| "topology_step cfg t (SetState rid st) = snd (setState cfg rid st t)"
| "topology_step cfg t (Spawn input) = snd (spawn cfg input t)"
| "topology_step cfg t (SubagentTransition ref st details) = snd (subagent_transition cfg ref st details t)"
| "topology_step cfg t (Complete ref result) = snd (complete_subagent cfg ref result t)"
| "topology_step cfg t (Fail ref summary) = snd (fail_subagent cfg ref summary t)"

definition registered :: "topology_config \<Rightarrow> topology \<Rightarrow> string \<Rightarrow> bool" where
  "registered cfg t ref \<longleftrightarrow> jm_has (rg_records (tp_registry t)) (recordKey (tc_registry cfg) (js_trim ref))"

text \<open>How far a step may go: the registry forgets nothing.\<close>

definition extends :: "topology_config \<Rightarrow> topology \<Rightarrow> topology \<Rightarrow> bool" where
  "extends cfg t t' \<longleftrightarrow> (\<forall>ref. registered cfg t ref \<longrightarrow> registered cfg t' ref)"

lemma extends_refl [simp]: "extends cfg t t"
  by (simp add: extends_def)

lemma extends_trans: "extends cfg t u \<Longrightarrow> extends cfg u v \<Longrightarrow> extends cfg t v"
  by (simp add: extends_def)

lemma extends_same_records: "rg_records (tp_registry t') = rg_records (tp_registry t) \<Longrightarrow> extends cfg t t'"
  by (simp add: extends_def registered_def)

lemma registry_step_extends: "extends cfg t (topology_step cfg t (OnRegistry c))"
proof -
  have "jm_has (rg_records (tp_registry t)) k \<Longrightarrow>
      jm_has (rg_records (registry_step (tc_zod cfg) (tc_registry cfg) (tp_registry t) c)) k" for k
  proof (cases c)
    case (Tombstone ref revision)
    then show "jm_has (rg_records (tp_registry t)) k \<Longrightarrow> ?thesis"
      by (simp add: registry_step_def case_prod_beta tombstone_def liftO_def discover_keeps_records split: sum.splits)
  qed (simp_all add: registry_step_def case_prod_beta discover_keeps_records deletePresentation_def Let_def)
  then show ?thesis by (simp add: extends_def registered_def)
qed

definition relations_anchored :: "topology_config \<Rightarrow> topology \<Rightarrow> bool" where
  "relations_anchored cfg t \<longleftrightarrow> (\<forall>k s. jm_get (tp_relations t) k = Some s \<longrightarrow>
     k = sr_relation_id s \<and> registered cfg t (sr_source_ref s) \<and> registered cfg t (sr_target_ref s))"

lemma parse_relation_keeps:
  assumes "parseSpatialSemanticRelation z s = Some s'"
  shows "sr_relation_id s' = js_trim (sr_relation_id s)" "sr_source_ref s' = js_trim (sr_source_ref s)"
    "sr_target_ref s' = js_trim (sr_target_ref s)" "sr_revision s' = sr_revision s"
  using assms
  by (auto simp: parseSpatialSemanticRelation_def bind_eq_Some_conv revisionSchema_def split: if_splits dest: idSchema_trim)

lemma resolve_for_relation_outcome:
  obtains c r where "resolve_for_relation cfg ref t = (Inr c, t \<lparr> tp_registry := r \<rparr>)"
    "rg_records r = rg_records (tp_registry t)" "c = None \<or> registered cfg t ref"
proof -
  let ?x = "resolveInScope (tc_registry cfg) (rlo_workspaceId (tc_relations cfg)) (rlo_nodeId (tc_relations cfg)) ref (tp_registry t)"
  have "\<not> isl (fst ?x)" by (auto simp: resolveInScope_def resolve_def jm_has_def split: option.splits)
  then obtain c r where x: "?x = (Inr c, r)" by (cases ?x; cases "fst ?x") auto
  moreover from x have "rg_records r = rg_records (tp_registry t)"
    using resolveInScope_records [of "tc_registry cfg" "rlo_workspaceId (tc_relations cfg)" "rlo_nodeId (tc_relations cfg)" ref "tp_registry t"]
    by simp
  moreover from x have "c = None \<or> registered cfg t ref"
    by (cases c) (auto simp: registered_def dest: resolveInScope_found)
  ultimately show thesis by (intro that [of c r]) (simp_all add: resolve_for_relation_def on_registry_def)
qed

text \<open>An upsert reads the registry and at most writes one relation, whose ends are registered.\<close>

lemma upsert_cases:
  obtains (refused) e t' where "upsert cfg input t = (Inl e, t')" "rg_records (tp_registry t') = rg_records (tp_registry t)"
      "tp_relations t' = tp_relations t" "tp_subagents t' = tp_subagents t" "tp_streamChunks t' = tp_streamChunks t"
  | (stored) s t' where "upsert cfg input t = (Inr s, t')" "rg_records (tp_registry t') = rg_records (tp_registry t)"
      "tp_relations t' = jm_set (sr_relation_id s) s (tp_relations t)" "tp_subagents t' = tp_subagents t"
      "tp_streamChunks t' = tp_streamChunks t" "registered cfg t (sr_source_ref s)" "registered cfg t (sr_target_ref s)"
      "sr_relation_id s = js_trim (ru_relationId input)"
      "sr_revision s = or_default (map_option sr_revision (jm_get (tp_relations t) (ru_relationId input))) 0 + 1"
proof -
  show thesis
  proof (cases "js_trim (ru_relationId input) = [] \<or> js_trim (ru_sourceRef input) = [] \<or> js_trim (ru_targetRef input) = [] \<or>
         ru_sourceRef input = ru_targetRef input")
    case True
    then show thesis by (intro refused [of "Relation Rel_INVALID_RELATION" t]) (auto simp: upsert_def)
  next
    case False
    obtain c r where src: "resolve_for_relation cfg (ru_sourceRef input) t = (Inr c, t \<lparr> tp_registry := r \<rparr>)"
      "rg_records r = rg_records (tp_registry t)" "c = None \<or> registered cfg t (ru_sourceRef input)"
      by (cases rule: resolve_for_relation_outcome [of cfg "ru_sourceRef input" t]) blast
    let ?t1 = "t \<lparr> tp_registry := r \<rparr>"
    obtain d q where tgt: "resolve_for_relation cfg (ru_targetRef input) ?t1 = (Inr d, ?t1 \<lparr> tp_registry := q \<rparr>)"
      "rg_records q = rg_records (tp_registry ?t1)" "d = None \<or> registered cfg ?t1 (ru_targetRef input)"
      by (cases rule: resolve_for_relation_outcome [of cfg "ru_targetRef input" ?t1]) blast
    show thesis
    proof (cases "c = None \<or> d = None")
      case True
      with False src tgt show thesis
        by (intro refused [of "Relation Rel_UNKNOWN_REFERENCE" "?t1 \<lparr> tp_registry := q \<rparr>"]) (auto simp: upsert_def)
    next
      case found: False
      let ?t3 = "t \<lparr> tp_registry := q, tp_relationClock := Suc (tp_relationClock t) \<rparr>"
      let ?rec = "relation_record (tc_relations cfg) input (jm_get (tp_relations t) (ru_relationId input))
        (rlo_now (tc_relations cfg) (tp_relationClock t))"
      have body: "upsert cfg input t = (case parseSpatialSemanticRelation (tc_zod cfg) ?rec of
          None \<Rightarrow> throw (Relation Rel_INVALID_RELATION) ?t3
        | Some s \<Rightarrow> return s (?t3 \<lparr> tp_relations := jm_set (sr_relation_id s) s (tp_relations t) \<rparr>))"
        using False found src(1) tgt(1) by (auto simp: upsert_def Let_def split: option.splits)
      show thesis
      proof (cases "parseSpatialSemanticRelation (tc_zod cfg) ?rec")
        case None
        with src tgt show thesis by (intro refused [of "Relation Rel_INVALID_RELATION" ?t3]) (auto simp: body)
      next
        case (Some s)
        note keeps = parse_relation_keeps [OF Some]
        show thesis
          by (rule stored [of s "?t3 \<lparr> tp_relations := jm_set (sr_relation_id s) s (tp_relations t) \<rparr>"])
            (use found src tgt keeps Some in \<open>auto simp: body registered_def relation_record_def\<close>)
      qed
    qed
  qed
qed

lemma relations_anchored_same:
  assumes "relations_anchored cfg t" "tp_relations t' = tp_relations t" "extends cfg t t'"
  shows "relations_anchored cfg t'"
  using assms by (simp add: relations_anchored_def extends_def)

lemma upsert_extends: "extends cfg t (snd (upsert cfg input t))"
  by (cases rule: upsert_cases [of cfg input t]) (auto intro: extends_same_records)

lemma upsert_subagents: "tp_subagents (snd (upsert cfg input t)) = tp_subagents t"
  by (cases rule: upsert_cases [of cfg input t]) auto

lemma upsert_anchored:
  assumes "relations_anchored cfg t"
  shows "relations_anchored cfg (snd (upsert cfg input t))"
proof (cases rule: upsert_cases [of cfg input t])
  case (refused e t')
  with relations_anchored_same [OF assms _ upsert_extends [of cfg t input]] show ?thesis by simp
next
  case (stored s t')
  then have "registered cfg t' = registered cfg t" by (simp add: registered_def fun_eq_iff)
  with stored assms show ?thesis by (auto simp: relations_anchored_def jm_get_set)
qed

lemmas upsert_keeps = upsert_extends upsert_subagents upsert_anchored

text \<open>The three calls that go through \<open>upsert\<close> after counting a chunk.\<close>

definition counted :: "string \<Rightarrow> int \<Rightarrow> topology \<Rightarrow> topology" where
  "counted k n t = t \<lparr> tp_streamChunks := jm_set k n (tp_streamChunks t) \<rparr>"

lemma counted_keeps [simp]:
  "extends cfg t (counted k n t)" "tp_subagents (counted k n t) = tp_subagents t"
  "relations_anchored cfg (counted k n t) \<longleftrightarrow> relations_anchored cfg t"
  by (simp_all add: counted_def extends_same_records relations_anchored_def registered_def)

lemma snd_seqO_pure: "snd (seqO x (\<lambda>a t. (f a t, t))) = snd x"
  by (cases x; cases "fst x") auto

lemma aggregate_is_upsert:
  obtains k n input' where "snd (aggregateStreamChunk cfg input ty stream t) = snd (upsert cfg input' (counted k n t))"
  unfolding aggregateStreamChunk_def Let_def snd_seqO_pure counted_def by blast

lemma pulse_is_upsert:
  obtains "snd (pulse cfg rid t) = t" | k n input' where "snd (pulse cfg rid t) = snd (upsert cfg input' (counted k n t))"
  unfolding pulse_def Let_def counted_def by (cases "jm_get (tp_relations t) rid") (simp_all add: snd_seqO_pure)

lemma setState_is_upsert:
  obtains "snd (setState cfg rid st t) = t" | input' where "snd (setState cfg rid st t) = snd (upsert cfg input' t)"
  unfolding setState_def by (cases "jm_get (tp_relations t) rid") simp_all

lemma relation_steps_keep:
  assumes "c = Upsert i \<or> c = AggregateStreamChunk i ty stream \<or> c = Pulse rid \<or> c = SetState rid st"
  shows "extends cfg t (topology_step cfg t c)" "tp_subagents (topology_step cfg t c) = tp_subagents t"
    "relations_anchored cfg t \<Longrightarrow> relations_anchored cfg (topology_step cfg t c)"
proof -
  obtain u where u: "extends cfg t u" "tp_subagents u = tp_subagents t" "relations_anchored cfg t \<Longrightarrow> relations_anchored cfg u"
    and step: "topology_step cfg t c = u \<or> (\<exists>input'. topology_step cfg t c = snd (upsert cfg input' u))"
    using assms
  proof (elim disjE)
    assume "c = Upsert i"
    then show thesis by (intro that [of t]) auto
  next
    assume c: "c = AggregateStreamChunk i ty stream"
    show thesis
      by (rule aggregate_is_upsert [of cfg i ty stream t]) (use c in \<open>auto intro!: that [of "counted _ _ t"]\<close>)
  next
    assume c: "c = Pulse rid"
    show thesis
    proof (rule pulse_is_upsert [of cfg rid t])
      show "snd (pulse cfg rid t) = t \<Longrightarrow> thesis" using c by (intro that [of t]) auto
      show "snd (pulse cfg rid t) = snd (upsert cfg input' (counted k n t)) \<Longrightarrow> thesis" for k n input'
        using c by (intro that [of "counted k n t"]) auto
    qed
  next
    assume c: "c = SetState rid st"
    show thesis by (rule setState_is_upsert [of cfg rid st t]) (use c in \<open>auto intro!: that [of t]\<close>)
  qed
  from step u show "extends cfg t (topology_step cfg t c)" using extends_trans [OF u(1) upsert_extends] by auto
  from step u show "tp_subagents (topology_step cfg t c) = tp_subagents t" by (auto simp: upsert_subagents)
  from step u show "relations_anchored cfg t \<Longrightarrow> relations_anchored cfg (topology_step cfg t c)" by (auto intro: upsert_anchored)
qed

text \<open>Storing a subagent and telling the other services about it.\<close>

lemma on_registry_snd [simp]: "snd (on_registry x t) = t \<lparr> tp_registry := snd x \<rparr>"
  by (cases x; cases "fst x") (auto simp: on_registry_def)

lemma seqO_cases:
  obtains (stop) e s where "x = (Inl e, s)" "seqO x k = (Inl e, s)" | (go) a s where "x = (Inr a, s)" "seqO x k = k a s"
  by (cases x; cases "fst x") auto

lemma discover_topology:
  "extends cfg t (t \<lparr> tp_registry := snd (discover (tc_zod cfg) (tc_registry cfg) input (tp_registry t)) \<rparr>)"
  using discover_keeps_records by (auto simp: extends_def registered_def)

lemma spawn_register_keeps:
  shows "extends cfg t (snd (spawn_register cfg input s t))" "tp_subagents (snd (spawn_register cfg input s t)) = tp_subagents t"
    "relations_anchored cfg t \<Longrightarrow> relations_anchored cfg (snd (spawn_register cfg input s t))"
proof -
  let ?x = "on_registry (discover (tc_zod cfg) (tc_registry cfg) (subagent_reference (tc_subagents cfg) input) (tp_registry t)) t"
  let ?t1 = "t \<lparr> tp_registry := snd (discover (tc_zod cfg) (tc_registry cfg) (subagent_reference (tc_subagents cfg) input) (tp_registry t)) \<rparr>"
  let ?t2 = "?t1 \<lparr> tp_registry := snd (resolveInScope (tc_registry cfg) (sbo_workspaceId (tc_subagents cfg)) (sbo_nodeId (tc_subagents cfg))
            (sbo_primaryAgentRef (tc_subagents cfg)) (tp_registry ?t1)) \<rparr>"
  have e1: "extends cfg t ?t1" by (rule discover_topology)
  have "extends cfg ?t1 ?t2" by (rule extends_same_records) simp
  with e1 have e2: "extends cfg t ?t2" by (rule extends_trans)
  have "snd (spawn_register cfg input s t) \<in> {?t1, ?t2} \<union> {snd (upsert cfg u ?t2) | u. True}"
    unfolding spawn_register_def on_registry_def
    by (cases "discover (tc_zod cfg) (tc_registry cfg) (subagent_reference (tc_subagents cfg) input) (tp_registry t)")
      ((auto simp: seqO_def split: prod.splits sum.splits)[1], (metis snd_conv)+)
  then have split: "snd (spawn_register cfg input s t) = ?t1 \<or> snd (spawn_register cfg input s t) = ?t2 \<or>
      (\<exists>u. snd (spawn_register cfg input s t) = snd (upsert cfg u ?t2))" by blast
  then show "extends cfg t (snd (spawn_register cfg input s t))"
    using e1 e2 extends_trans [OF e2 upsert_extends] by metis
  from split show "tp_subagents (snd (spawn_register cfg input s t)) = tp_subagents t"
    using upsert_subagents [of cfg _ ?t2] by auto
  assume a: "relations_anchored cfg t"
  have "relations_anchored cfg ?t1" "relations_anchored cfg ?t2"
    by (rule relations_anchored_same [OF a _ e1], simp) (rule relations_anchored_same [OF a _ e2], simp)
  with split show "relations_anchored cfg (snd (spawn_register cfg input s t))"
    using upsert_anchored by metis
qed

lemma parse_subagent_keeps:
  assumes "parseSpatialSubagentLifecycle z s = Some s'"
  shows "sa_subagent_ref s' = js_trim (sa_subagent_ref s)" "sa_parent_ref s' = map_option js_trim (sa_parent_ref s)"
    "sa_parent_ref s = Some p \<Longrightarrow> idSchema z p = Some (js_trim p)"
  using assms
  by (auto simp: parseSpatialSubagentLifecycle_def bind_eq_Some_conv nullable_def split: option.splits dest: idSchema_trim)

lemma spawn_cases:
  obtains (kept) t' where "snd (spawn cfg input t) = t'" "tp_subagents t' = tp_subagents t" "extends cfg t t'"
      "tp_relations t' = tp_relations t"
  | (fresh) s t1 where "snd (spawn cfg input t) = snd (spawn_register cfg input s t1)"
      "tp_subagents t1 = jm_set (sa_subagent_ref s) s (tp_subagents t)" "extends cfg t t1" "tp_relations t1 = tp_relations t"
      "jm_get (tp_subagents t) (spi_subagentRef input) = None" "sa_subagent_ref s = js_trim (spi_subagentRef input)"
      "sa_parent_ref s = map_option js_trim (spi_parentRef input)"
      "\<And>p. spi_parentRef input = Some p \<Longrightarrow> idSchema (tc_zod cfg) p = Some (js_trim p) \<and>
         (p = [] \<or> jm_has (tp_subagents t) p \<or> p = sbo_primaryAgentRef (tc_subagents cfg))"
proof (cases "jm_get (tp_subagents t) (spi_subagentRef input)")
  case (Some existing)
  then show thesis by (intro kept [of t]) (simp_all add: spawn_def)
next
  case None
  show thesis
  proof (cases "js_truthy (spi_parentRef input) \<and> \<not> jm_has (tp_subagents t) (the (spi_parentRef input)) \<and>
          the (spi_parentRef input) \<noteq> sbo_primaryAgentRef (tc_subagents cfg)")
    case True
    with None show thesis by (intro kept [of t]) (simp_all add: spawn_def)
  next
    case parent: False
    let ?t1 = "t \<lparr> tp_subagentClock := Suc (tp_subagentClock t) \<rparr>"
    let ?rec = "subagent_record (tc_subagents cfg) input (sbo_now (tc_subagents cfg) (tp_subagentClock t))"
    show thesis
    proof (cases "parseSpatialSubagentLifecycle (tc_zod cfg) ?rec")
      case no: None
      with None parent show thesis
        by (intro kept [of ?t1]) (auto simp: spawn_def Let_def intro: extends_same_records)
    next
      case (Some s)
      note keeps = parse_subagent_keeps [OF Some]
      show thesis
      proof (rule fresh [of s "?t1 \<lparr> tp_subagents := jm_set (sa_subagent_ref s) s (tp_subagents t) \<rparr>"])
        show "snd (spawn cfg input t) = snd (spawn_register cfg input s (?t1 \<lparr> tp_subagents := jm_set (sa_subagent_ref s) s (tp_subagents t) \<rparr>))"
          using None parent Some by (auto simp: spawn_def Let_def)
      qed (use None parent keeps in \<open>auto simp: subagent_record_def js_truthy_def intro: extends_same_records\<close>)
    qed
  qed
qed

lemma subagent_transition_cases:
  obtains (kept) "snd (subagent_transition cfg ref st details t) = t"
  | (moved) cur nxt t' where "snd (subagent_transition cfg ref st details t) = t'" "jm_get (tp_subagents t) ref = Some cur"
      "tp_subagents t' = jm_set ref nxt (tp_subagents t)" "tp_registry t' = tp_registry t" "tp_relations t' = tp_relations t"
      "sa_parent_ref nxt = sa_parent_ref cur" "sa_capability_grant_scope nxt = sa_capability_grant_scope cur"
      "sa_revision cur \<le> sa_revision nxt" "sa_state cur = ARCHIVED \<Longrightarrow> sa_state nxt = ARCHIVED"
proof (cases "jm_get (tp_subagents t) ref")
  case None
  then show thesis by (intro kept) (simp add: subagent_transition_def)
next
  case (Some cur)
  show thesis
  proof (cases "sa_state cur \<noteq> st \<and> st \<notin> set (subagent_transitions (sa_state cur))")
    case True
    with Some show thesis by (intro kept) (simp add: subagent_transition_def)
  next
    case False
    with Some show thesis
      by (intro moved [of "snd (subagent_transition cfg ref st details t)" cur
          "projr (fst (subagent_transition cfg ref st details t))"]) (auto simp: subagent_transition_def Let_def)
  qed
qed

text \<open>Completion and failure are transitions; every other call of the subagent service is one of two.\<close>

lemma topology_step_cases:
  obtains (registry) c0 where "c = OnRegistry c0"
  | (relation) i ty stream rid st where "c = Upsert i \<or> c = AggregateStreamChunk i ty stream \<or> c = Pulse rid \<or> c = SetState rid st"
  | (spawned) input where "c = Spawn input"
  | (moved) ref st details where "topology_step cfg t c = snd (subagent_transition cfg ref st details t)"
  by (cases c) (auto simp: complete_subagent_def fail_subagent_def)

definition parents_known :: "topology_config \<Rightarrow> topology \<Rightarrow> bool" where
  "parents_known cfg t \<longleftrightarrow> list_all (\<lambda>(k, s). js_trim k = k \<and> (case sa_parent_ref s of None \<Rightarrow> True
     | Some p \<Rightarrow> jm_has (tp_subagents t) p \<or> p = sbo_primaryAgentRef (tc_subagents cfg))) (tp_subagents t)"

definition topology_inv :: "topology_config \<Rightarrow> topology \<Rightarrow> bool" where
  "topology_inv cfg t \<longleftrightarrow> relations_anchored cfg t \<and>
     (zod_documented (tc_zod cfg) \<and> js_trim (sbo_primaryAgentRef (tc_subagents cfg)) = sbo_primaryAgentRef (tc_subagents cfg)
        \<longrightarrow> parents_known cfg t)"

lemma parents_known_same: "tp_subagents t' = tp_subagents t \<Longrightarrow> parents_known cfg t' = parents_known cfg t"
  by (simp only: parents_known_def)

lemma parents_known_set:
  assumes "parents_known cfg t" "tp_subagents t' = jm_set k s (tp_subagents t)" "js_trim k = k"
    "\<And>p. sa_parent_ref s = Some p \<Longrightarrow> jm_has (tp_subagents t) p \<or> p = sbo_primaryAgentRef (tc_subagents cfg)"
  shows "parents_known cfg t'"
  using assms unfolding parents_known_def
  by (auto simp: list_all_iff split: option.splits dest!: jm_setD)

lemma parents_known_key: "parents_known cfg t \<Longrightarrow> jm_get (tp_subagents t) k = Some s \<Longrightarrow> js_trim k = k \<and>
   (case sa_parent_ref s of None \<Rightarrow> True | Some p \<Rightarrow> jm_has (tp_subagents t) p \<or> p = sbo_primaryAgentRef (tc_subagents cfg))"
  unfolding parents_known_def by (drule (1) list_all_jm_get) simp

lemma spawn_keeps_inv: "topology_inv cfg t \<Longrightarrow> topology_inv cfg (snd (spawn cfg input t))"
proof (cases rule: spawn_cases [of cfg input t])
  case (kept t')
  with parents_known_same [OF kept(2)] show "topology_inv cfg t \<Longrightarrow> ?thesis"
    by (auto simp: topology_inv_def intro: relations_anchored_same)
next
  case (fresh s t1)
  assume inv: "topology_inv cfg t"
  then have "relations_anchored cfg t1" using fresh by (auto simp: topology_inv_def intro: relations_anchored_same)
  then have "relations_anchored cfg (snd (spawn cfg input t))" using fresh(1) spawn_register_keeps(3) by metis
  moreover
  have "parents_known cfg (snd (spawn cfg input t))" if doc: "zod_documented (tc_zod cfg)"
    and prim: "js_trim (sbo_primaryAgentRef (tc_subagents cfg)) = sbo_primaryAgentRef (tc_subagents cfg)"
  proof -
    from inv doc prim have known: "parents_known cfg t" by (simp add: topology_inv_def)
    have "jm_has (tp_subagents t) p \<or> p = sbo_primaryAgentRef (tc_subagents cfg)" if par: "sa_parent_ref s = Some p" for p
    proof -
      from par fresh(7) obtain q where q: "spi_parentRef input = Some q" "p = js_trim q" by auto
      note ok = fresh(8) [OF q(1)]
      from ok doc have "js_trim q \<noteq> []" using idSchema_nonempty by blast
      then have "q \<noteq> []" by auto
      with ok have "jm_has (tp_subagents t) q \<or> q = sbo_primaryAgentRef (tc_subagents cfg)" by blast
      then have "js_trim q = q" using prim parents_known_key [OF known] by (auto simp: jm_has_def)
      with ok \<open>q \<noteq> []\<close> q show ?thesis by auto
    qed
    then have "parents_known cfg t1" by (intro parents_known_set [OF known fresh(2)]) (simp_all add: fresh(6))
    then show ?thesis using parents_known_same [OF spawn_register_keeps(2)] fresh(1) by metis
  qed
  ultimately show ?thesis by (simp add: topology_inv_def)
qed

lemma topology_step_inv:
  assumes inv: "topology_inv cfg t"
  shows "topology_inv cfg (topology_step cfg t c)"
proof (cases rule: topology_step_cases [where c = c and cfg = cfg and t = t])
  case (registry c0)
  then have same: "tp_subagents (topology_step cfg t c) = tp_subagents t" "tp_relations (topology_step cfg t c) = tp_relations t"
    by simp_all
  from registry inv registry_step_extends [of cfg t c0] parents_known_same [OF same(1)] same(2) show ?thesis
    by (auto simp: topology_inv_def simp del: topology_step.simps intro: relations_anchored_same)
next
  case (relation i ty stream rid st)
  note keep = relation_steps_keep [OF relation, of cfg t]
  from keep(3) parents_known_same [OF keep(2)] inv show ?thesis by (auto simp: topology_inv_def)
next
  case (spawned input)
  with inv show ?thesis by (simp add: spawn_keeps_inv)
next
  case (moved ref st details)
  show ?thesis
  proof (cases rule: subagent_transition_cases [of cfg ref st details t])
    case kept
    with moved inv show ?thesis by simp
  next
    case tr: (moved cur nxt t')
    have "extends cfg t t'" by (rule extends_same_records) (simp add: tr(4))
    then have "relations_anchored cfg t'"
      using inv tr(5) relations_anchored_same [of cfg t t'] by (simp add: topology_inv_def)
    moreover have "parents_known cfg t \<Longrightarrow> parents_known cfg t'"
      by (rule parents_known_set [OF _ tr(3)]) (use parents_known_key [OF _ tr(2)] tr(6) in \<open>auto split: option.splits\<close>)
    ultimately show ?thesis using inv moved tr(1) by (auto simp: topology_inv_def)
  qed
qed

lemma length_jm_set: "length m \<le> length (jm_set k v m)"
  by (induction k v m rule: jm_set.induct) auto

lemma topology_step_subagents: "length (tp_subagents t) \<le> length (tp_subagents (topology_step cfg t c))"
proof (cases rule: topology_step_cases [where c = c and cfg = cfg and t = t])
  case (spawned input)
  then show ?thesis
    by (cases rule: spawn_cases [of cfg input t]) (auto simp: spawn_register_keeps(2) length_jm_set)
next
  case (moved ref st details)
  then show ?thesis
    by (cases rule: subagent_transition_cases [of cfg ref st details t]) (auto simp: length_jm_set)
qed (auto simp: relation_steps_keep(2))

interpretation topology_machine: monotone_machine "topology_step cfg" "topology_inv cfg" "\<lambda>t. int (length (tp_subagents t))" for cfg
  by unfold_locales (simp_all add: topology_step_inv topology_step_subagents)

lemma inspect_anchored:
  assumes "relations_anchored cfg t" "jm_get (tp_relations t) k = Some s"
  shows "\<exists>i. inspect cfg k n t = Inr i \<and> ins_relation i = s \<and> sr_relation_id s = k"
proof -
  from assms have "k = sr_relation_id s" "registered cfg t (sr_source_ref s)" "registered cfg t (sr_target_ref s)"
    by (auto simp: relations_anchored_def)
  with assms(2) show ?thesis
    by (auto simp: inspect_def registered_def jm_has_def resolve_def lift_registry_def)
qed

text \<open>
  Nothing dangles. In every run of the three services, \<open>inspect\<close> succeeds on every stored relation, under the id it
  is stored with: both ends resolve in the registry. And no subagent is an orphan: \<open>recoverOrphans\<close>, which looks for
  parents that do not exist, never finds one, provided the Primary Agent's reference carries no surrounding spaces.
\<close>

theorem topology_references_resolve:
  assumes "zod_documented (tc_zod cfg)"
    and "js_trim (sbo_primaryAgentRef (tc_subagents cfg)) = sbo_primaryAgentRef (tc_subagents cfg)"
  shows "let t = run (topology_step cfg) empty_topology cs
    in recoverOrphans cfg t = [] \<and>
       (\<forall>k s. jm_get (tp_relations t) k = Some s \<longrightarrow>
          (\<exists>i. inspect cfg k n t = Inr i \<and> ins_relation i = s \<and> sr_relation_id s = k))"
proof -
  let ?t = "run (topology_step cfg) empty_topology cs"
  have "topology_inv cfg empty_topology"
    by (simp add: topology_inv_def relations_anchored_def parents_known_def empty_topology_def)
  then have "topology_inv cfg ?t" by (rule topology_machine.run_inv)
  with assms have inv: "relations_anchored cfg ?t" "parents_known cfg ?t" by (simp_all add: topology_inv_def)
  from inv(2) have "recoverOrphans cfg ?t = []"
    by (auto simp: recoverOrphans_def parents_known_def list_all_iff jm_values_def filter_empty_conv split: option.splits)
  with inspect_anchored [OF inv(1)] show ?thesis by (simp add: Let_def)
qed

section \<open>The authority of a subagent\<close>






section \<open>Visible relations\<close>

text \<open>
  The visible relations are the front of the ordered list of relations that are neither archived nor unavailable: as many as
  the bound allows, and none that is left out comes before one that is shown.
\<close>

lemma visibleRelations_front:
  "let shown = visibleRelations cfg m t;
       candidates = filter (\<lambda>s. sr_state s \<noteq> RelARCHIVED \<and> sr_state s \<noteq> RelUNAVAILABLE) (relation_list t)
   in int (length shown) = min (int (length candidates)) (visible_bound cfg m) \<and>
      (\<exists>rest. sorted (map visible_order (shown @ rest)) \<and> mset (shown @ rest) = mset candidates)"
proof -
  let ?c = "filter (\<lambda>s. sr_state s \<noteq> RelARCHIVED \<and> sr_state s \<noteq> RelUNAVAILABLE) (relation_list t)"
  let ?n = "nat (visible_bound cfg m)"
  have "0 \<le> visible_bound cfg m" by (simp add: visible_bound_def)
  then have "int (length (take ?n (sort_key visible_order ?c))) = min (int (length ?c)) (visible_bound cfg m)"
    by (simp add: of_nat_min)
  moreover have "sorted (map visible_order (take ?n (sort_key visible_order ?c) @ drop ?n (sort_key visible_order ?c)))"
    by (simp only: append_take_drop_id sorted_sort_key)
  moreover have "mset (take ?n (sort_key visible_order ?c) @ drop ?n (sort_key visible_order ?c)) = mset ?c"
    by (simp only: append_take_drop_id mset_sort)
  ultimately show ?thesis
    unfolding visibleRelations_def relation_list_def [symmetric] Let_def by blast
qed

section \<open>A concrete workspace\<close>

definition demo_topology :: topology_config where
  "demo_topology = \<lparr> tc_zod = zod_ref,
     tc_registry = \<lparr> rgo_workspaceId = ''w'', rgo_nodeId = ''n'', rgo_now = (\<lambda>_. 7) \<rparr>,
     tc_relations = \<lparr> rlo_workspaceId = ''w'', rlo_nodeId = ''n'', rlo_now = (\<lambda>_. 7), rlo_maxVisibleRelations = None \<rparr>,
     tc_subagents = \<lparr> sbo_workspaceId = ''w'', sbo_nodeId = ''n'', sbo_primaryAgentRef = ''p'', sbo_now = (\<lambda>_. 7),
       sbo_authorizeRemoteAccess = Some (\<lambda>_ _ _. True) \<rparr> \<rparr>"

definition demo_discover :: "string \<Rightarrow> int \<Rightarrow> reference_state option \<Rightarrow> reference_input" where
  "demo_discover ref revision st = \<lparr> rfi_canonicalRef = ref, rfi_entityId = ref, rfi_entityKind = Kagent, rfi_revision = revision,
     rfi_projectionKind = None, rfi_state = st, rfi_provenanceRef = None \<rparr>"

definition demo_spawn :: "string \<Rightarrow> string \<Rightarrow> spawn_input" where
  "demo_spawn ref grant = \<lparr> spi_subagentRef = ref, spi_parentRef = Some ''p'', spi_capabilityGrantScope = Some [grant] \<rparr>"

definition no_details :: transition_details where
  "no_details = \<lparr> td_resultRef = None, td_errorSummary = None \<rparr>"

definition demo_calls :: "topology_call list" where
  "demo_calls = [OnRegistry (Discover (demo_discover ''p'' 0 None)), Spawn (demo_spawn ''a'' ''read'')]"

definition demo_spawned :: topology where
  "demo_spawned = run (topology_step demo_topology) empty_topology demo_calls"

theorem topology_references_resolve_witness:
  "jm_has (tp_relations demo_spawned) ''delegation:p:a'' \<and> recoverOrphans demo_topology demo_spawned = [] \<and>
   \<not> isl (inspect demo_topology ''delegation:p:a'' None demo_spawned)"
proof -
  have ids: "zod_documented (tc_zod demo_topology)"
    "js_trim (sbo_primaryAgentRef (tc_subagents demo_topology)) = sbo_primaryAgentRef (tc_subagents demo_topology)"
    by (simp add: demo_topology_def) code_simp
  have has: "jm_has (tp_relations demo_spawned) ''delegation:p:a''" by code_simp
  then obtain s where s: "jm_get (tp_relations demo_spawned) ''delegation:p:a'' = Some s" by (auto simp: jm_has_def)
  note resolve = topology_references_resolve [OF ids, of demo_calls None, folded demo_spawned_def, unfolded Let_def]
  from resolve s obtain i where "inspect demo_topology ''delegation:p:a'' None demo_spawned = Inr i" by blast
  with resolve has show ?thesis by simp
qed


section \<open>Defects\<close>

text \<open>
  \<open>spawn\<close> looks the reference up as given and stores the record under the trimmed one. With a space around it, an
  archived subagent comes back as a new one, with the grants of the second call.
\<close>

lemma untrimmed_spawn_revives:
  "let t1 = topology_step demo_topology demo_spawned (SubagentTransition ''a'' ARCHIVED no_details);
       t2 = topology_step demo_topology t1 (Spawn (demo_spawn '' a'' ''write''))
   in isl (requestRemoteAccess demo_topology ''a'' ''e'' ''write'' t1) \<and>
      requestRemoteAccess demo_topology ''a'' ''e'' ''write'' t2 = Inr (''a'', ''e'', ''write'')"
  by code_simp

text \<open>
  \<open>upsert\<close> does the same: under an id with a space, the revision of a relation never gets past one and its creation
  time is lost.
\<close>

lemma untrimmed_upsert_stays_at_one:
  assumes "upsert cfg input t = (Inr s, t')" "relations_anchored cfg t" "js_trim (ru_relationId input) \<noteq> ru_relationId input"
    "\<And>k u. jm_get (tp_relations t) k = Some u \<Longrightarrow> js_trim k = k"
  shows "sr_revision s = 1"
proof -
  have "jm_get (tp_relations t) (ru_relationId input) = None"
    using assms(3,4) by (cases "jm_get (tp_relations t) (ru_relationId input)") auto
  with assms(1) show ?thesis by (cases rule: upsert_cases [of cfg input t]) auto
qed

text \<open>A stale discovery replaces the history of its revision: what \<open>inspectRevision\<close> reports of revision 1 changes.\<close>

lemma stale_discovery_rewrites_history:
  "let opts = tc_registry demo_topology;
       r2 = run (registry_step zod_ref opts) empty_registry
              [Discover (demo_discover ''x'' 1 None), Discover (demo_discover ''x'' 2 (Some RefTOMBSTONE))];
       r3 = registry_step zod_ref opts r2 (Discover (demo_discover ''x'' 1 None))
   in map_sum id cr_state (inspectRevision opts ''x'' 1 r2) = Inr RefAVAILABLE \<and>
      map_sum id cr_state (inspectRevision opts ''x'' 1 r3) = Inr RefTOMBSTONE"
  by code_simp

text \<open>
  Chunks are counted per stream key and read per relation id, so the default chunk count of \<open>inspect\<close> is zero for a
  relation that is streamed under a key of its own.
\<close>

lemma stream_chunks_not_counted:
  "let t = snd (aggregateStreamChunk demo_topology (delegation_upsert (tc_subagents demo_topology) (demo_spawn ''a'' ''read'')
             (the (jm_get (tp_subagents demo_spawned) ''a''))) None (Some ''stream'') demo_spawned)
   in map_sum id (\<lambda>i. (ins_chunkCount i, sr_pulse_count (ins_relation i))) (inspectKeyboard demo_topology ''delegation:p:a'' t) = Inr (0, 1)"
  by code_simp

end
