(* ===== verification/Rollout.thy ===== *)
theory Rollout
  imports Contracts
begin

text \<open>
  \<open>spatial/hardening/rollout.ts\<close>: the gates of a rollout stage and \<open>SpatialRolloutController\<close>, which moves a feature flag
  through the stages one at a time or rolls it back. \<open>new Date()\<close> and the id factory are streams of the configuration;
  \<open>Date.parse\<close> is implementation-defined outside one format and a parameter. The percentage is an integer. What the
  controller guarantees follows the model.
\<close>

section \<open>Stages and gates\<close>

datatype rollout_stage = DEVELOPER | LOCAL_FIXTURE | TEST_NODE | LAN_NODES | OPT_IN_PREVIEW | DEFAULT_ON | ROLLED_BACK

datatype rollout_compatibility = COMPATIBLE | REBUILD_REQUIRED | BLOCKED

datatype rollout_presentation = SPATIAL | CLASSIC

record rollout_record =
  ro_rollout_id :: string
  ro_workspace_id :: string
  ro_node_id :: string
  ro_flag :: string
  ro_stage :: rollout_stage
  ro_enabled :: bool
  ro_rollback_stage :: "rollout_stage option"
  ro_compatibility_state :: rollout_compatibility
  ro_error_budget_percent :: int
  ro_evidence_refs :: "string list"
  ro_updated_at :: timestamp

definition errorBudgetSchema :: "zod \<Rightarrow> int \<Rightarrow> int option" where
  "errorBudgetSchema z n = (if z_number_nonnegative z n \<and> z_number_max z 100 n then Some n else None)"

definition parseSpatialRolloutStage :: "zod \<Rightarrow> rollout_record \<Rightarrow> rollout_record option" where
  "parseSpatialRolloutStage z r = do {
     rollout \<leftarrow> idSchema z (ro_rollout_id r);
     workspace \<leftarrow> idSchema z (ro_workspace_id r);
     node \<leftarrow> idSchema z (ro_node_id r);
     flag \<leftarrow> idSchema z (ro_flag r);
     budget \<leftarrow> errorBudgetSchema z (ro_error_budget_percent r);
     evidence \<leftarrow> arrayMax z 128 (idSchema z) (ro_evidence_refs r);
     Some (r \<lparr> ro_rollout_id := rollout, ro_workspace_id := workspace, ro_node_id := node, ro_flag := flag,
       ro_error_budget_percent := budget, ro_evidence_refs := evidence \<rparr>) }"

definition SPATIAL_ROLLOUT_ORDER :: "rollout_stage list" where
  "SPATIAL_ROLLOUT_ORDER = [DEVELOPER, LOCAL_FIXTURE, TEST_NODE, LAN_NODES, OPT_IN_PREVIEW, DEFAULT_ON]"

record rollout_gates =
  gt_errorBudgetPercent :: int
  gt_compatibility :: rollout_compatibility
  gt_rollbackVerified :: bool
  gt_migrationReversible :: bool
  gt_generatedAssetsAtomic :: bool
  gt_securitySignedOff :: bool
  gt_reliabilitySignedOff :: bool
  gt_accessibilitySignedOff :: bool
  gt_performanceSignedOff :: bool

datatype rollout_reason = INVALID_ERROR_BUDGET | COMPATIBILITY_BLOCKED | MIGRATION_NOT_REVERSIBLE | ROLLBACK_NOT_VERIFIED
  | GENERATED_ASSETS_NOT_ATOMIC | SIGN_OFF_MISSING | GATES_PASSED | STAGE_ORDER_VIOLATION | STAGE_ADVANCED | ROLLED_BACK_TO_CLASSIC

record rollout_decision =
  rd_allowed :: bool
  rd_reason :: rollout_reason
  rd_fallback :: rollout_presentation

definition refuse :: "rollout_reason \<Rightarrow> rollout_decision" where
  "refuse reason = \<lparr> rd_allowed = False, rd_reason = reason, rd_fallback = CLASSIC \<rparr>"

fun list_index :: "'a \<Rightarrow> 'a list \<Rightarrow> int" where
  "list_index x [] = - 1"
| "list_index x (y # ys) = (if x = y then 0 else let i = list_index x ys in if i < 0 then - 1 else i + 1)"

definition rollout_indexOf :: "rollout_stage \<Rightarrow> int" where
  "rollout_indexOf stage = list_index stage SPATIAL_ROLLOUT_ORDER"

text \<open>A stage is a member of the closed union, so the test for an unknown stage never applies.\<close>

definition evaluateSpatialRolloutGate :: "rollout_stage \<Rightarrow> rollout_gates \<Rightarrow> rollout_decision" where
  "evaluateSpatialRolloutGate stage gates =
     (if gt_errorBudgetPercent gates < 0 \<or> 100 < gt_errorBudgetPercent gates then refuse INVALID_ERROR_BUDGET
      else if gt_compatibility gates = BLOCKED then refuse COMPATIBILITY_BLOCKED
      else if gt_compatibility gates = REBUILD_REQUIRED \<and> \<not> gt_migrationReversible gates then refuse MIGRATION_NOT_REVERSIBLE
      else if \<not> gt_rollbackVerified gates then refuse ROLLBACK_NOT_VERIFIED
      else if \<not> gt_generatedAssetsAtomic gates then refuse GENERATED_ASSETS_NOT_ATOMIC
      else if stage = DEFAULT_ON \<and> (\<not> gt_securitySignedOff gates \<or> \<not> gt_reliabilitySignedOff gates \<or>
                \<not> gt_accessibilitySignedOff gates \<or> \<not> gt_performanceSignedOff gates) then refuse SIGN_OFF_MISSING
      else \<lparr> rd_allowed = True, rd_reason = GATES_PASSED, rd_fallback = SPATIAL \<rparr>)"

section \<open>The controller\<close>

datatype rollout_error = InvalidRolloutState | InvalidRolloutTransition | InvalidRolloutRollback

record rollout_config =
  rlc_zod :: zod
  rlc_now :: "nat \<Rightarrow> timestamp"
  rlc_dateParse :: "string \<Rightarrow> timestamp option"
  rlc_idFactory :: "string \<Rightarrow> string"

record rollout_controller =
  rol_current :: rollout_record
  rol_clock :: nat

definition rollout_isoNow :: "rollout_config \<Rightarrow> date_input option \<Rightarrow> nat \<Rightarrow> timestamp \<times> nat" where
  "rollout_isoNow cfg v n = (case v of
     Some (DateValue d) \<Rightarrow> (d, n)
   | Some (DateText s) \<Rightarrow> (case rlc_dateParse cfg s of Some d \<Rightarrow> (d, n) | None \<Rightarrow> (rlc_now cfg n, n + 1))
   | None \<Rightarrow> (rlc_now cfg n, n + 1))"

definition createSpatialRolloutController ::
  "rollout_config \<Rightarrow> string \<Rightarrow> string \<Rightarrow> string \<Rightarrow> date_input option \<Rightarrow> rollout_error + rollout_controller" where
  "createSpatialRolloutController cfg workspaceId nodeId flag now =
     (let (ts, n) = rollout_isoNow cfg now 0 in
      case parseSpatialRolloutStage (rlc_zod cfg) \<lparr> ro_rollout_id = rlc_idFactory cfg ''rollout'', ro_workspace_id = workspaceId,
          ro_node_id = nodeId, ro_flag = flag, ro_stage = DEVELOPER, ro_enabled = False, ro_rollback_stage = None,
          ro_compatibility_state = COMPATIBLE, ro_error_budget_percent = 100, ro_evidence_refs = [], ro_updated_at = ts \<rparr> of
        None \<Rightarrow> Inl InvalidRolloutState
      | Some r \<Rightarrow> Inr \<lparr> rol_current = r, rol_clock = n \<rparr>)"

definition rollback :: "rollout_config \<Rightarrow> string list \<Rightarrow> rollout_controller
    \<Rightarrow> (rollout_error, rollout_decision, rollout_controller) outcome" where
  "rollback cfg evidenceRefs c =
     (let cur = rol_current c; c1 = c \<lparr> rol_clock := rol_clock c + 1 \<rparr> in
      case parseSpatialRolloutStage (rlc_zod cfg) (cur \<lparr> ro_stage := ROLLED_BACK, ro_enabled := False,
          ro_rollback_stage := Some (ro_stage cur), ro_compatibility_state := COMPATIBLE,
          ro_evidence_refs := js_uniq evidenceRefs, ro_updated_at := rlc_now cfg (rol_clock c) \<rparr>) of
        None \<Rightarrow> throw InvalidRolloutRollback c1
      | Some r \<Rightarrow> return \<lparr> rd_allowed = True, rd_reason = ROLLED_BACK_TO_CLASSIC, rd_fallback = CLASSIC \<rparr> (c1 \<lparr> rol_current := r \<rparr>))"

definition advance :: "rollout_config \<Rightarrow> rollout_stage \<Rightarrow> rollout_gates \<Rightarrow> string list \<Rightarrow> rollout_controller
    \<Rightarrow> (rollout_error, rollout_decision, rollout_controller) outcome" where
  "advance cfg nextStage gates evidenceRefs c =
     (let cur = rol_current c; decision = evaluateSpatialRolloutGate nextStage gates; c1 = c \<lparr> rol_clock := rol_clock c + 1 \<rparr> in
      if nextStage = ROLLED_BACK then rollback cfg evidenceRefs c
      else if rollout_indexOf nextStage \<noteq> rollout_indexOf (ro_stage cur) + 1 then return (refuse STAGE_ORDER_VIOLATION) c
      else if \<not> rd_allowed decision then return decision c
      else case parseSpatialRolloutStage (rlc_zod cfg) (cur \<lparr> ro_stage := nextStage, ro_enabled := nextStage \<noteq> DEVELOPER,
          ro_rollback_stage := Some (ro_stage cur), ro_compatibility_state := gt_compatibility gates,
          ro_error_budget_percent := gt_errorBudgetPercent gates, ro_evidence_refs := js_uniq evidenceRefs,
          ro_updated_at := rlc_now cfg (rol_clock c) \<rparr>) of
        None \<Rightarrow> throw InvalidRolloutTransition c1
      | Some r \<Rightarrow> return \<lparr> rd_allowed = True, rd_reason = STAGE_ADVANCED, rd_fallback = SPATIAL \<rparr> (c1 \<lparr> rol_current := r \<rparr>))"

definition presentation :: "rollout_controller \<Rightarrow> rollout_presentation" where
  "presentation c =
     (if ro_enabled (rol_current c) \<and> ro_stage (rol_current c) \<noteq> ROLLED_BACK then SPATIAL else CLASSIC)"

end
