(* ===== verification/Status.thy ===== *)
theory Status
  imports Contracts
begin

text \<open>
  The Node status aggregator of \<open>spatial/status/aggregator.ts\<close> and the status contract it parses
  (\<open>spatialNodeStatusSchema\<close>).

  A probe is a callback of the caller: a refresh takes, beside each probe's declaration, how its promise settled
  (\<open>None\<close> for a rejection). The clock is a stream of \<open>Date\<close>s of which the state counts the readings; \<open>None\<close> is an
  invalid \<open>Date\<close>, which the code tests for. \<open>Date.parse\<close> on a text is a parameter. An optional or nullable field is an
  option: the code never tells \<open>null\<close> from \<open>undefined\<close> here. Ages are compared in milliseconds
  (\<open>age / 1000 > ttl\<close> is \<open>age > 1000 * ttl\<close>); a time to live is a whole number of seconds, which is all the contract
  accepts.
\<close>

section \<open>The status contract\<close>

datatype status_state = StONLINE | StREADY | StRUNNING | StSTARTING | StSTOPPING | StRESTARTING | StDEGRADED
  | StOFFLINE | StDISCONNECTED | StBLOCKED | StUNKNOWN | StSTALE

datatype component_kind = CkNode | CkHypervisor | CkPrimaryAgent | CkMcp | CkHooks | CkNetwork | CkConsensus | CkWallet
  | CkSessions | CkTasks | CkEndpoints | CkProviders | CkRuntimes | CkResources | CkRenderer | CkOther

datatype recovery_action = RESTART_SERVICE | STOP_UNSAFE_RUNTIME | SUSPEND_AGENT_BINDING | REVOKE_BINDING_CREDENTIALS
  | DISABLE_HOOK | RETRY_HOOK_DEAD_LETTER | BLOCK_REMOTE_ENDPOINT | RETURN_TO_CLASSIC

datatype freshness_state = FrFRESH | FrSTALE | FrPARTIAL | FrUNKNOWN | FrUNAVAILABLE

datatype evidence_authorization = AuAUTHORIZED | AuREDACTED | AuUNAVAILABLE

record status_freshness =
  fr_state :: freshness_state
  fr_observed_at :: timestamp
  fr_stale_after_seconds :: int
  fr_source :: string

record evidence_ref =
  er_ref :: string
  er_kind :: "string option"
  er_label :: "string option"
  er_observed_at :: "timestamp option"
  er_authorized :: bool
  er_redacted :: bool

record status_event =
  se_id :: string
  se_occurred_at :: timestamp
  se_state :: string
  se_message :: "string option"

record status_details =
  sd_identity :: "string option"
  sd_runtime :: "string option"
  sd_connection :: "string option"
  sd_last_events :: "status_event list"
  sd_safe_raw_evidence :: "string list"
  sd_authorization :: evidence_authorization

record status_component =
  cm_component_id :: string
  cm_component_type :: string
  cm_kind :: component_kind
  cm_state :: status_state
  cm_observed_at :: timestamp
  cm_freshness :: status_freshness
  cm_source :: string
  cm_revision :: "int option"
  cm_stale_after :: "timestamp option"
  cm_evidence_refs :: "evidence_ref list"
  cm_issue_code :: "string option"
  cm_available_actions :: "recovery_action list"
  cm_spatial_ref :: "string option"
  cm_authorization :: evidence_authorization
  cm_detail_ref :: "string option"
  cm_details :: "status_details option"

record status_provenance =
  sp_canonical_ref :: string
  sp_revision :: int
  sp_source :: string

record node_status =
  ns_node_id :: string
  ns_revision :: int
  ns_state :: status_state
  ns_observed_at :: timestamp
  ns_freshness :: status_freshness
  ns_components :: "status_component list"
  ns_generated_at :: "timestamp option"
  ns_node_revision :: "int option"
  ns_overall_state :: "status_state option"
  ns_partial :: bool
  ns_cached :: bool
  ns_last_known_at :: "timestamp option"
  ns_active_sessions :: int
  ns_running_tasks :: int
  ns_active_endpoints :: int
  ns_warning_count :: int
  ns_evidence_refs :: "evidence_ref list"
  ns_provenance :: "status_provenance option"

definition MAX_STALE_AFTER_SECONDS :: int where
  "MAX_STALE_AFTER_SECONDS = 31536000"

definition sourceSchema :: "zod \<Rightarrow> string \<Rightarrow> string option" where
  "sourceSchema z v = (let t = js_trim v in if z_string_min z 1 t \<and> z_string_max z 128 t then Some t else None)"

definition staleAfterSchema :: "zod \<Rightarrow> int \<Rightarrow> int option" where
  "staleAfterSchema z n = (if z_int_nonnegative z n \<and> z_number_max z MAX_STALE_AFTER_SECONDS n then Some n else None)"

definition spatialFreshnessSchema :: "zod \<Rightarrow> status_freshness \<Rightarrow> status_freshness option" where
  "spatialFreshnessSchema z f = do {
     ttl \<leftarrow> staleAfterSchema z (fr_stale_after_seconds f);
     src \<leftarrow> sourceSchema z (fr_source f);
     Some (f \<lparr> fr_stale_after_seconds := ttl, fr_source := src \<rparr>) }"

definition evidenceKindSchema :: "zod \<Rightarrow> string \<Rightarrow> string option" where
  "evidenceKindSchema z v = (let t = js_toLowerCase (js_trim v) in
     if z_string_min z 1 t \<and> z_string_max z 64 t then Some t else None)"

definition statusEvidenceRefSchema :: "zod \<Rightarrow> evidence_ref \<Rightarrow> evidence_ref option" where
  "statusEvidenceRefSchema z e = do {
     ref \<leftarrow> idSchema z (er_ref e);
     kind \<leftarrow> nullable (evidenceKindSchema z) (er_kind e);
     label \<leftarrow> nullable (labelSchema z) (er_label e);
     Some (e \<lparr> er_ref := ref, er_kind := kind, er_label := label \<rparr>) }"

text \<open>\<open>z.string().max(n)\<close>: no trimming.\<close>

definition boundedText :: "zod \<Rightarrow> int \<Rightarrow> string \<Rightarrow> string option" where
  "boundedText z n v = (if z_string_max z n v then Some v else None)"

definition statusEventSchema :: "zod \<Rightarrow> status_event \<Rightarrow> status_event option" where
  "statusEventSchema z e = do {
     eid \<leftarrow> idSchema z (se_id e);
     state \<leftarrow> stateSchema z (se_state e);
     message \<leftarrow> nullable (boundedText z 240) (se_message e);
     Some (e \<lparr> se_id := eid, se_state := state, se_message := message \<rparr>) }"

definition statusDetailsSchema :: "zod \<Rightarrow> status_details \<Rightarrow> status_details option" where
  "statusDetailsSchema z d = do {
     identity \<leftarrow> nullable (boundedText z 240) (sd_identity d);
     runtime \<leftarrow> nullable (boundedText z 240) (sd_runtime d);
     connection \<leftarrow> nullable (boundedText z 240) (sd_connection d);
     events \<leftarrow> arrayMax z 20 (statusEventSchema z) (sd_last_events d);
     evidence \<leftarrow> arrayMax z 20 (boundedText z 512) (sd_safe_raw_evidence d);
     Some (d \<lparr> sd_identity := identity, sd_runtime := runtime, sd_connection := connection,
       sd_last_events := events, sd_safe_raw_evidence := evidence \<rparr>) }"

definition statusComponentSchema :: "zod \<Rightarrow> status_component \<Rightarrow> status_component option" where
  "statusComponentSchema z c = do {
     cid \<leftarrow> idSchema z (cm_component_id c);
     ctype \<leftarrow> labelSchema z (cm_component_type c);
     freshness \<leftarrow> spatialFreshnessSchema z (cm_freshness c);
     src \<leftarrow> sourceSchema z (cm_source c);
     revision \<leftarrow> nullable (revisionSchema z) (cm_revision c);
     evidence \<leftarrow> arrayMax z 32 (statusEvidenceRefSchema z) (cm_evidence_refs c);
     issue \<leftarrow> nullable (stateSchema z) (cm_issue_code c);
     actions \<leftarrow> arrayMax z 16 Some (cm_available_actions c);
     sref \<leftarrow> nullable (idSchema z) (cm_spatial_ref c);
     dref \<leftarrow> nullable (idSchema z) (cm_detail_ref c);
     details \<leftarrow> nullable (statusDetailsSchema z) (cm_details c);
     Some (c \<lparr> cm_component_id := cid, cm_component_type := ctype, cm_freshness := freshness, cm_source := src,
       cm_revision := revision, cm_evidence_refs := evidence, cm_issue_code := issue, cm_available_actions := actions,
       cm_spatial_ref := sref, cm_detail_ref := dref, cm_details := details \<rparr>) }"

definition statusProvenanceSchema :: "zod \<Rightarrow> status_provenance \<Rightarrow> status_provenance option" where
  "statusProvenanceSchema z p = do {
     ref \<leftarrow> idSchema z (sp_canonical_ref p);
     revision \<leftarrow> revisionSchema z (sp_revision p);
     src \<leftarrow> sourceSchema z (sp_source p);
     Some \<lparr> sp_canonical_ref = ref, sp_revision = revision, sp_source = src \<rparr> }"

definition parseSpatialNodeStatus :: "zod \<Rightarrow> node_status \<Rightarrow> node_status option" where
  "parseSpatialNodeStatus z s = do {
     node \<leftarrow> idSchema z (ns_node_id s);
     revision \<leftarrow> revisionSchema z (ns_revision s);
     freshness \<leftarrow> spatialFreshnessSchema z (ns_freshness s);
     components \<leftarrow> arrayMax z 256 (statusComponentSchema z) (ns_components s);
     node_revision \<leftarrow> nullable (revisionSchema z) (ns_node_revision s);
     sessions \<leftarrow> revisionSchema z (ns_active_sessions s);
     tasks \<leftarrow> revisionSchema z (ns_running_tasks s);
     endpoints \<leftarrow> revisionSchema z (ns_active_endpoints s);
     warnings \<leftarrow> revisionSchema z (ns_warning_count s);
     evidence \<leftarrow> arrayMax z 64 (statusEvidenceRefSchema z) (ns_evidence_refs s);
     provenance \<leftarrow> nullable (statusProvenanceSchema z) (ns_provenance s);
     Some (s \<lparr> ns_node_id := node, ns_revision := revision, ns_freshness := freshness, ns_components := components,
       ns_node_revision := node_revision, ns_active_sessions := sessions, ns_running_tasks := tasks,
       ns_active_endpoints := endpoints, ns_warning_count := warnings, ns_evidence_refs := evidence,
       ns_provenance := provenance \<rparr>) }"

section \<open>Reducing observations\<close>

datatype aggregator_error = Agg_INVALID_NODE | Agg_INVALID_SNAPSHOT | Agg_STALE_REVISION

text \<open>What a probe reports; \<open>refresh\<close> overwrites the identity, so it is the declaration of the probe that carries it.\<close>

record observation =
  ob_component_id :: string
  ob_component_type :: string
  ob_kind :: "component_kind option"
  ob_state :: status_state
  ob_observed_at :: "date_input option"
  ob_stale_after_seconds :: "int option"
  ob_source :: string
  ob_revision :: "int option"
  ob_evidence_refs :: "evidence_ref list option"
  ob_issue_code :: "string option"
  ob_available_actions :: "recovery_action list option"
  ob_spatial_ref :: "string option"
  ob_authorization :: "evidence_authorization option"
  ob_details :: "status_details option"

record status_probe =
  pb_component_id :: string
  pb_component_type :: string
  pb_kind :: component_kind

record aggregator_config =
  agc_zod :: zod
  agc_nodeId :: string
  agc_now :: "nat \<Rightarrow> timestamp option"
  agc_dateParse :: "string \<Rightarrow> timestamp option"
  agc_staleAfterSeconds :: int

text \<open>An empty text is falsy, so it takes the fallback.\<close>

definition asDate :: "aggregator_config \<Rightarrow> date_input option \<Rightarrow> timestamp \<Rightarrow> aggregator_error + timestamp" where
  "asDate cfg v fallback = (case v of
     None \<Rightarrow> Inr fallback
   | Some (DateValue d) \<Rightarrow> Inr d
   | Some (DateText s) \<Rightarrow> if s = [] then Inr fallback
       else (case agc_dateParse cfg s of None \<Rightarrow> Inl Agg_INVALID_SNAPSHOT | Some d \<Rightarrow> Inr d))"

definition aggregate_freshness :: "status_component list \<Rightarrow> bool \<Rightarrow> timestamp \<Rightarrow> freshness_state" where
  "aggregate_freshness cs partial now =
     (if partial then FrPARTIAL
      else if list_ex (\<lambda>c. fr_state (cm_freshness c) \<in> {FrUNKNOWN, FrUNAVAILABLE}) cs then FrUNKNOWN
      else if list_ex (\<lambda>c. fr_state (cm_freshness c) = FrSTALE) cs then FrSTALE
      else if list_ex (\<lambda>c. now - cm_observed_at c > 1000 * fr_stale_after_seconds (cm_freshness c)) cs then FrSTALE
      else FrFRESH)"

fun stateRank :: "status_state \<Rightarrow> int" where
  "stateRank StONLINE = 1"
| "stateRank StREADY = 1"
| "stateRank StRUNNING = 1"
| "stateRank StSTARTING = 2"
| "stateRank StSTOPPING = 2"
| "stateRank StRESTARTING = 2"
| "stateRank StDEGRADED = 3"
| "stateRank StSTALE = 4"
| "stateRank StBLOCKED = 5"
| "stateRank StDISCONNECTED = 5"
| "stateRank StOFFLINE = 6"
| "stateRank StUNKNOWN = 7"

definition worse :: "status_state \<Rightarrow> status_component \<Rightarrow> status_state" where
  "worse cur c = (if stateRank (cm_state c) > stateRank cur then cm_state c else cur)"

definition worstState :: "status_component list \<Rightarrow> status_state" where
  "worstState cs = foldl worse StONLINE cs"

definition aggregateState :: "status_component list \<Rightarrow> bool \<Rightarrow> status_state" where
  "aggregateState cs partial =
     (if cs = [] then StUNKNOWN
      else if partial \<and> list_all (\<lambda>c. cm_state c = StUNKNOWN) cs then StUNKNOWN
      else if partial then StDEGRADED
      else let worst = worstState cs in
        if worst = StOFFLINE \<and> list_ex (\<lambda>c. cm_kind c = CkNode \<and> cm_state c = StOFFLINE) cs then StOFFLINE
        else if worst \<in> {StONLINE, StREADY, StRUNNING} then StONLINE
        else worst)"

definition status_printable :: "char \<Rightarrow> bool" where
  "status_printable c \<longleftrightarrow> (of_char c :: int) > 31 \<and> (of_char c :: int) \<noteq> 127"

text \<open>\<open>safeText\<close> on a string or \<open>undefined\<close>.\<close>

definition safeText :: "string option \<Rightarrow> nat \<Rightarrow> string option" where
  "safeText v limit = (case v of None \<Rightarrow> None
   | Some s \<Rightarrow> let normalized = filter status_printable (js_trim s) in
       if normalized = [] then None else Some (take limit normalized))"

definition safe_or :: "string \<Rightarrow> nat \<Rightarrow> string \<Rightarrow> string" where
  "safe_or s limit fallback = (case safeText (Some s) limit of None \<Rightarrow> fallback | Some t \<Rightarrow> t)"

definition redactEvidence :: "evidence_ref list option \<Rightarrow> evidence_ref list" where
  "redactEvidence refs = map (\<lambda>e. \<lparr> er_ref = safe_or (er_ref e) 256 ''redacted-evidence'', er_kind = safeText (er_kind e) 64,
       er_label = safeText (er_label e) 240, er_observed_at = er_observed_at e, er_authorized = er_authorized e,
       er_redacted = (er_redacted e \<or> \<not> er_authorized e) \<rparr>)
     (take 32 (case refs of None \<Rightarrow> [] | Some rs \<Rightarrow> rs))"

definition redactDetails :: "status_details option \<Rightarrow> status_details option" where
  "redactDetails details = map_option (\<lambda>d. \<lparr> sd_identity = safeText (sd_identity d) 240, sd_runtime = safeText (sd_runtime d) 240,
       sd_connection = safeText (sd_connection d) 240,
       sd_last_events = map (\<lambda>e. \<lparr> se_id = safe_or (se_id e) 256 ''event'', se_occurred_at = se_occurred_at e,
         se_state = safe_or (se_state e) 96 ''UNKNOWN'', se_message = safeText (se_message e) 240 \<rparr>) (take 20 (sd_last_events d)),
       sd_safe_raw_evidence = filter (\<lambda>t. t \<noteq> []) (map (\<lambda>t. safe_or t 512 []) (take 20 (sd_safe_raw_evidence d))),
       sd_authorization = sd_authorization d \<rparr>) details"

text \<open>
  The filter on \<open>available_actions\<close> keeps every action of the declared type, because every declared state is one of
  \<open>SPATIAL_NODE_STATUS_STATES\<close>. An invalid \<open>Date\<close> object behaves as an unparseable text.
\<close>

definition observation_ttl :: "observation \<Rightarrow> int \<Rightarrow> int" where
  "observation_ttl ob fallback = (case ob_stale_after_seconds ob of
     Some n \<Rightarrow> if n \<ge> 0 then n else fallback | None \<Rightarrow> fallback)"

definition componentFromObservation ::
  "aggregator_config \<Rightarrow> timestamp \<Rightarrow> observation \<Rightarrow> aggregator_error + status_component" where
  "componentFromObservation cfg now ob = bindR (asDate cfg (ob_observed_at ob) now) (\<lambda>observedAt.
     let ttl = observation_ttl ob (agc_staleAfterSeconds cfg); age = max 0 (now - observedAt);
         src = safe_or (ob_source ob) 128 ''node-status-aggregator''
     in Inr \<lparr> cm_component_id = safe_or (ob_component_id ob) 256 ''unknown-component'',
          cm_component_type = safe_or (ob_component_type ob) 240 ''Unknown component'',
          cm_kind = (case ob_kind ob of None \<Rightarrow> CkOther | Some k \<Rightarrow> k), cm_state = ob_state ob, cm_observed_at = observedAt,
          cm_freshness = \<lparr> fr_state = (if age > 1000 * ttl then FrSTALE else if ob_state ob = StUNKNOWN then FrUNKNOWN else FrFRESH),
            fr_observed_at = observedAt, fr_stale_after_seconds = ttl, fr_source = src \<rparr>,
          cm_source = src, cm_revision = ob_revision ob, cm_stale_after = None,
          cm_evidence_refs = redactEvidence (ob_evidence_refs ob), cm_issue_code = safeText (ob_issue_code ob) 96,
          cm_available_actions = (case ob_available_actions ob of None \<Rightarrow> [] | Some as \<Rightarrow> as),
          cm_spatial_ref = ob_spatial_ref ob,
          cm_authorization = (case ob_authorization ob of None \<Rightarrow> AuAUTHORIZED | Some a \<Rightarrow> a),
          cm_detail_ref = None, cm_details = redactDetails (ob_details ob) \<rparr>)"

section \<open>The aggregator\<close>

record aggregator =
  ag_revision :: int
  ag_current :: "node_status option"
  ag_clock :: nat

type_synonym 'a aggregator_step = "aggregator \<Rightarrow> (aggregator_error, 'a, aggregator) outcome"

record status_context =
  cx_activeSessions :: "int option"
  cx_runningTasks :: "int option"
  cx_activeEndpoints :: "int option"

definition nowDate :: "aggregator_config \<Rightarrow> timestamp aggregator_step" where
  "nowDate cfg s = (let s1 = s \<lparr> ag_clock := ag_clock s + 1 \<rparr> in
     case agc_now cfg (ag_clock s) of None \<Rightarrow> throw Agg_INVALID_SNAPSHOT s1 | Some t \<Rightarrow> return t s1)"

fun mapR :: "('a \<Rightarrow> 'e + 'b) \<Rightarrow> 'a list \<Rightarrow> 'e + 'b list" where
  "mapR f [] = Inr []"
| "mapR f (x # xs) = bindR (f x) (\<lambda>y. bindR (mapR f xs) (\<lambda>ys. Inr (y # ys)))"

definition green :: "status_state \<Rightarrow> bool" where
  "green st \<longleftrightarrow> st \<in> {StONLINE, StREADY, StRUNNING}"

definition next_status_revision :: "int \<Rightarrow> status_component list \<Rightarrow> int" where
  "next_status_revision revision cs =
     foldl max (revision + 1) (map (\<lambda>c. case cm_revision c of None \<Rightarrow> 0 | Some r \<Rightarrow> r) cs)"

definition context_count :: "int option \<Rightarrow> int" where
  "context_count v = (case v of None \<Rightarrow> 0 | Some n \<Rightarrow> max 0 n)"

definition status_candidate ::
  "aggregator_config \<Rightarrow> aggregator \<Rightarrow> status_component list \<Rightarrow> bool \<Rightarrow> status_context \<Rightarrow> timestamp \<Rightarrow> node_status" where
  "status_candidate cfg s cs partial ctx now =
     (let state = aggregateState cs partial; revision = next_status_revision (ag_revision s) cs in
      \<lparr> ns_node_id = agc_nodeId cfg, ns_revision = revision, ns_state = state, ns_observed_at = now,
        ns_freshness = \<lparr> fr_state = aggregate_freshness cs partial now, fr_observed_at = now,
          fr_stale_after_seconds = agc_staleAfterSeconds cfg, fr_source = ''node-status-aggregator'' \<rparr>,
        ns_components = cs, ns_generated_at = Some now, ns_node_revision = Some revision, ns_overall_state = Some state,
        ns_partial = partial, ns_cached = False, ns_last_known_at = Option.bind (ag_current s) ns_last_known_at,
        ns_active_sessions = context_count (cx_activeSessions ctx), ns_running_tasks = context_count (cx_runningTasks ctx),
        ns_active_endpoints = context_count (cx_activeEndpoints ctx),
        ns_warning_count = int (length (filter (\<lambda>c. \<not> green (cm_state c)) cs)),
        ns_evidence_refs = take 64 (concat (map cm_evidence_refs cs)),
        ns_provenance = Some \<lparr> sp_canonical_ref = ''node:'' @ agc_nodeId cfg, sp_revision = revision,
          sp_source = ''node-status-aggregator'' \<rparr> \<rparr>)"

definition store_status :: "aggregator_config \<Rightarrow> node_status \<Rightarrow> node_status aggregator_step" where
  "store_status cfg candidate s = (case parseSpatialNodeStatus (agc_zod cfg) candidate of
     None \<Rightarrow> throw Agg_INVALID_SNAPSHOT s
   | Some parsed \<Rightarrow> return parsed (s \<lparr> ag_revision := ns_revision parsed, ag_current := Some parsed \<rparr>))"

definition build :: "aggregator_config \<Rightarrow> observation list \<Rightarrow> string list \<Rightarrow> status_context \<Rightarrow> node_status aggregator_step" where
  "build cfg obs failed ctx s = seqO (nowDate cfg s) (\<lambda>now s1.
     liftO (mapR (componentFromObservation cfg now) obs) s1 (\<lambda>cs.
       store_status cfg (status_candidate cfg s1 cs (failed \<noteq> []) ctx now) s1))"

text \<open>A fulfilled probe reports under the identity its declaration has; a rejected one becomes an \<open>UNKNOWN\<close> observation.\<close>

definition settle :: "status_probe \<times> observation option \<Rightarrow> observation" where
  "settle p = (case p of (pb, Some ob) \<Rightarrow> ob \<lparr> ob_component_id := pb_component_id pb,
       ob_component_type := pb_component_type pb, ob_kind := Some (pb_kind pb) \<rparr>
   | (pb, None) \<Rightarrow> \<lparr> ob_component_id = pb_component_id pb, ob_component_type = pb_component_type pb,
       ob_kind = Some (pb_kind pb), ob_state = StUNKNOWN, ob_observed_at = None, ob_stale_after_seconds = None,
       ob_source = ''probe.'' @ (case pb_kind pb of CkNode \<Rightarrow> ''node'' | CkHypervisor \<Rightarrow> ''hypervisor''
         | CkPrimaryAgent \<Rightarrow> ''primary-agent'' | CkMcp \<Rightarrow> ''mcp'' | CkHooks \<Rightarrow> ''hooks'' | CkNetwork \<Rightarrow> ''network''
         | CkConsensus \<Rightarrow> ''consensus'' | CkWallet \<Rightarrow> ''wallet'' | CkSessions \<Rightarrow> ''sessions'' | CkTasks \<Rightarrow> ''tasks''
         | CkEndpoints \<Rightarrow> ''endpoints'' | CkProviders \<Rightarrow> ''providers'' | CkRuntimes \<Rightarrow> ''runtimes''
         | CkResources \<Rightarrow> ''resources'' | CkRenderer \<Rightarrow> ''renderer'' | CkOther \<Rightarrow> ''other''),
       ob_revision = None, ob_evidence_refs = None, ob_issue_code = Some ''PROBE_UNAVAILABLE'',
       ob_available_actions = Some [], ob_spatial_ref = None, ob_authorization = None, ob_details = None \<rparr>)"

definition failed_probes :: "(status_probe \<times> observation option) list \<Rightarrow> string list" where
  "failed_probes ps = map (\<lambda>p. pb_component_id (fst p)) (filter (\<lambda>p. snd p = None) ps)"

definition refresh :: "aggregator_config \<Rightarrow> (status_probe \<times> observation option) list \<Rightarrow> status_context
    \<Rightarrow> (node_status \<times> string list) aggregator_step" where
  "refresh cfg ps ctx s = seqO (build cfg (map settle ps) (failed_probes ps) ctx s)
     (\<lambda>snapshot s1. return (snapshot, failed_probes ps) s1)"

definition ingest :: "aggregator_config \<Rightarrow> node_status \<Rightarrow> node_status aggregator_step" where
  "ingest cfg snapshot s =
     (if ns_node_id snapshot \<noteq> agc_nodeId cfg then throw Agg_INVALID_NODE s
      else if (case ag_current s of None \<Rightarrow> False | Some c \<Rightarrow> ns_revision snapshot < ns_revision c) then throw Agg_STALE_REVISION s
      else store_status cfg snapshot s)"

definition status_read :: "aggregator \<Rightarrow> node_status option" where
  "status_read s = ag_current s"

definition last_known_component :: "status_component \<Rightarrow> status_component" where
  "last_known_component c = c \<lparr> cm_state := (if green (cm_state c) then StSTALE else cm_state c),
     cm_freshness := (cm_freshness c) \<lparr> fr_state := FrSTALE \<rparr> \<rparr>"

definition last_known :: "node_status \<Rightarrow> timestamp \<Rightarrow> node_status" where
  "last_known cur now = cur \<lparr> ns_state := (if green (ns_state cur) then StSTALE else ns_state cur),
     ns_overall_state := map_option (\<lambda>st. if green st then StSTALE else st) (ns_overall_state cur),
     ns_cached := True, ns_last_known_at := Some (ns_observed_at cur),
     ns_freshness := (ns_freshness cur) \<lparr> fr_state := FrSTALE, fr_observed_at := ns_observed_at cur \<rparr>,
     ns_components := map last_known_component (ns_components cur), ns_observed_at := now, ns_generated_at := Some now \<rparr>"

definition readCached :: "aggregator_config \<Rightarrow> node_status option aggregator_step" where
  "readCached cfg s = (case status_read s of None \<Rightarrow> return None s
   | Some cur \<Rightarrow> seqO (nowDate cfg s) (\<lambda>now s1. return (Some (last_known cur now)) s1))"

record aggregator_options =
  ago_nodeId :: string
  ago_staleAfterSeconds :: "int option"
  ago_revision :: "int option"
  ago_cachedSnapshot :: "node_status option"

definition aggregator_config_of :: "zod \<Rightarrow> (nat \<Rightarrow> timestamp option) \<Rightarrow> (string \<Rightarrow> timestamp option) \<Rightarrow> aggregator_options
    \<Rightarrow> aggregator_config" where
  "aggregator_config_of z now dateParse opts = \<lparr> agc_zod = z, agc_nodeId = js_trim (ago_nodeId opts), agc_now = now,
     agc_dateParse = dateParse,
     agc_staleAfterSeconds = (case ago_staleAfterSeconds opts of None \<Rightarrow> 900 | Some n \<Rightarrow> max 0 n) \<rparr>"

definition initial_aggregator :: "aggregator_options \<Rightarrow> aggregator" where
  "initial_aggregator opts = \<lparr> ag_revision = max 0 (case ago_revision opts of Some r \<Rightarrow> r
       | None \<Rightarrow> (case ago_cachedSnapshot opts of Some c \<Rightarrow> ns_revision c | None \<Rightarrow> 0)),
     ag_current = None, ag_clock = 0 \<rparr>"

text \<open>
  The constructor. It calls \<open>ingest\<close> before \<open>this.current\<close> is assigned, so the revision check of \<open>ingest\<close> does not
  apply to the cached snapshot.
\<close>

definition createStatusAggregator :: "zod \<Rightarrow> (nat \<Rightarrow> timestamp option) \<Rightarrow> (string \<Rightarrow> timestamp option) \<Rightarrow> aggregator_options
    \<Rightarrow> aggregator_error + (aggregator_config \<times> aggregator)" where
  "createStatusAggregator z now dateParse opts =
     (let cfg = aggregator_config_of z now dateParse opts; s = initial_aggregator opts in
      if agc_nodeId cfg = [] then Inl Agg_INVALID_NODE
      else case ago_cachedSnapshot opts of
        None \<Rightarrow> Inr (cfg, s)
      | Some c \<Rightarrow> (case ingest cfg c s of (Inl e, _) \<Rightarrow> Inl e | (Inr _, s1) \<Rightarrow> Inr (cfg, s1)))"

end
