(* ===== verification/Status_Properties.thy ===== *)
theory Status_Properties
  imports Status
begin

text \<open>
  What the status aggregator guarantees: the state it reports is the worst one observed and is green exactly when every
  probe reported green, revisions only grow, a cached snapshot is never green, and a restart from the last snapshot
  resumes where the aggregator stopped. The last section records where the code departs from its documentation.
\<close>

section \<open>The contract\<close>

lemma Some_normalising [schema_normalising]: "normalising Some"
  by (simp add: normalising_def)

lemma sourceSchema_normalising [schema_normalising]: "normalising (sourceSchema z)"
  by (auto simp: normalising_def sourceSchema_def Let_def split: if_splits)

lemma staleAfterSchema_normalising [schema_normalising]: "normalising (staleAfterSchema z)"
  by (auto simp: normalising_def staleAfterSchema_def split: if_splits)

lemma boundedText_normalising [schema_normalising]: "normalising (boundedText z n)"
  by (auto simp: normalising_def boundedText_def split: if_splits)

lemma evidenceKindSchema_normalising [schema_normalising]: "normalising (evidenceKindSchema z)"
  by (auto simp: normalising_def evidenceKindSchema_def Let_def split: if_splits)

lemma spatialFreshnessSchema_normalising [schema_normalising]: "normalising (spatialFreshnessSchema z)"
  unfolding normalising_def spatialFreshnessSchema_def
  by (clarsimp simp: bind_eq_Some_conv) (intro exI conjI; (rule refl | erule normalisingD [rotated]; intro schema_normalising))

lemma statusEvidenceRefSchema_normalising [schema_normalising]: "normalising (statusEvidenceRefSchema z)"
  unfolding normalising_def statusEvidenceRefSchema_def
  by (clarsimp simp: bind_eq_Some_conv) (intro exI conjI; (rule refl | erule normalisingD [rotated]; intro schema_normalising))

lemma statusEventSchema_normalising [schema_normalising]: "normalising (statusEventSchema z)"
  unfolding normalising_def statusEventSchema_def
  by (clarsimp simp: bind_eq_Some_conv) (intro exI conjI; (rule refl | erule normalisingD [rotated]; intro schema_normalising))

lemma statusDetailsSchema_normalising [schema_normalising]: "normalising (statusDetailsSchema z)"
  unfolding normalising_def statusDetailsSchema_def
  by (clarsimp simp: bind_eq_Some_conv) (intro exI conjI; (rule refl | erule normalisingD [rotated]; intro schema_normalising))

lemma statusComponentSchema_normalising [schema_normalising]: "normalising (statusComponentSchema z)"
  unfolding normalising_def statusComponentSchema_def
  by (clarsimp simp: bind_eq_Some_conv) (intro exI conjI; (rule refl | erule normalisingD [rotated]; intro schema_normalising))

lemma statusProvenanceSchema_normalising [schema_normalising]: "normalising (statusProvenanceSchema z)"
  unfolding normalising_def statusProvenanceSchema_def
  by (clarsimp simp: bind_eq_Some_conv) (intro conjI; erule normalisingD [rotated]; intro schema_normalising)

lemma parseSpatialNodeStatus_normalising [schema_normalising]: "normalising (parseSpatialNodeStatus z)"
  unfolding normalising_def parseSpatialNodeStatus_def
  by (clarsimp simp: bind_eq_Some_conv) (intro exI conjI; (rule refl | erule normalisingD [rotated]; intro schema_normalising))

lemma spatialFreshnessSchema_keeps: "spatialFreshnessSchema z f = Some g \<Longrightarrow> fr_state g = fr_state f"
  by (auto simp: spatialFreshnessSchema_def split: Option.bind_splits)

lemma statusComponentSchema_keeps:
  assumes "statusComponentSchema z c = Some d"
  shows "cm_state d = cm_state c" "cm_kind d = cm_kind c" "cm_component_id d = js_trim (cm_component_id c)"
    "fr_state (cm_freshness d) = fr_state (cm_freshness c)"
  using assms
  by (auto simp: statusComponentSchema_def bind_eq_Some_conv dest: idSchema_trim spatialFreshnessSchema_keeps)

lemma parseSpatialNodeStatus_keeps:
  assumes "parseSpatialNodeStatus z s = Some p"
  shows "ns_node_id p = js_trim (ns_node_id s)" "ns_revision p = ns_revision s" "ns_state p = ns_state s"
    "ns_partial p = ns_partial s" "ns_cached p = ns_cached s" "ns_overall_state p = ns_overall_state s"
    "fr_state (ns_freshness p) = fr_state (ns_freshness s)" "ns_observed_at p = ns_observed_at s"
    "map cm_state (ns_components p) = map cm_state (ns_components s)"
    "map cm_component_id (ns_components p) = map (\<lambda>c. js_trim (cm_component_id c)) (ns_components s)"
    "map (\<lambda>c. fr_state (cm_freshness c)) (ns_components p) = map (\<lambda>c. fr_state (cm_freshness c)) (ns_components s)"
  using assms
  by (auto simp: parseSpatialNodeStatus_def bind_eq_Some_conv revisionSchema_def split: if_splits
      dest: idSchema_trim spatialFreshnessSchema_keeps
      elim!: arrayMax_map statusComponentSchema_keeps)

section \<open>The worst state\<close>

text \<open>The fold is a least upper bound: it ranks at least as high as every component, and some component attains it.\<close>

lemma worse_rank: "stateRank (worse cur c) = max (stateRank cur) (stateRank (cm_state c))"
  by (simp add: worse_def)

lemma foldl_worse_rank: "stateRank (foldl worse cur cs) = foldl max (stateRank cur) (map (\<lambda>c. stateRank (cm_state c)) cs)"
  by (induction cs arbitrary: cur) (simp_all add: worse_rank)

lemma foldl_worse_mem: "foldl worse cur cs \<in> insert cur (cm_state ` set cs)"
proof (induction cs arbitrary: cur)
  case (Cons c cs)
  from Cons [of "worse cur c"] show ?case by (auto simp: worse_def split: if_splits)
qed simp

lemma foldl_max_Max: "foldl max a xs = Max (insert a (set xs))" for a :: int
proof (induction xs arbitrary: a)
  case (Cons x xs)
  show ?case by (cases "xs = []") (simp_all add: Cons max.assoc)
qed simp

lemma worst_is_max:
  "stateRank (worstState cs) = Max (insert 1 ((\<lambda>c. stateRank (cm_state c)) ` set cs))"
  using foldl_worse_rank [of StONLINE cs] by (simp add: worstState_def foldl_max_Max)

lemma rank_ge_1: "1 \<le> stateRank st"
  by (cases st) auto

lemma green_rank: "green st \<longleftrightarrow> stateRank st = 1"
  by (cases st) (auto simp: green_def)

lemma worst_upper: "c \<in> set cs \<Longrightarrow> stateRank (cm_state c) \<le> stateRank (worstState cs)"
  by (simp add: worst_is_max)

lemma worst_attained: "worstState cs \<in> insert StONLINE (cm_state ` set cs)"
  using foldl_worse_mem [of StONLINE cs] by (simp add: worstState_def)

lemma worst_green: "green (worstState cs) \<longleftrightarrow> (\<forall>c \<in> set cs. green (cm_state c))"
proof
  assume "green (worstState cs)"
  then have "stateRank (worstState cs) = 1" by (simp add: green_rank)
  then show "\<forall>c \<in> set cs. green (cm_state c)"
    using worst_upper rank_ge_1 by (metis antisym green_rank)
next
  assume "\<forall>c \<in> set cs. green (cm_state c)"
  then show "green (worstState cs)" using worst_attained [of cs] by (auto simp: green_def)
qed

lemma aggregate_green:
  "green (aggregateState cs partial) \<longleftrightarrow> cs \<noteq> [] \<and> \<not> partial \<and> (\<forall>c \<in> set cs. green (cm_state c))"
  using worst_green [of cs] by (auto simp: aggregateState_def Let_def green_def)


section \<open>Refreshing\<close>

lemma mapR_Inr: "mapR f xs = Inr ys \<longleftrightarrow> list_all2 (\<lambda>x y. f x = Inr y) xs ys"
  by (induction xs arbitrary: ys) (auto simp: bindR_Inr list_all2_Cons1)

lemma mapR_Inl: "x \<in> set xs \<Longrightarrow> f x = Inl e \<Longrightarrow> (\<And>x e'. f x = Inl e' \<Longrightarrow> e' = e) \<Longrightarrow> mapR f xs = Inl e"
proof (induction xs)
  case Nil
  from Nil.prems(1) show ?case by simp
next
  case (Cons y xs)
  show ?case
  proof (cases "f y")
    case (Inl e')
    with Cons.prems(3) have "e' = e" by blast
    with Inl show ?thesis by simp
  next
    case (Inr b)
    then have "x \<in> set xs" using Cons.prems(1,2) by auto
    then have "mapR f xs = Inl e" using Cons.prems(2,3) by (rule Cons.IH)
    with Inr show ?thesis by simp
  qed
qed

lemma component_keeps:
  assumes "componentFromObservation cfg now ob = Inr c"
  shows "cm_state c = ob_state ob" "cm_component_id c = safe_or (ob_component_id ob) 256 ''unknown-component''"
    "cm_freshness c = \<lparr> fr_state = (if max 0 (now - cm_observed_at c) > 1000 * observation_ttl ob (agc_staleAfterSeconds cfg) then FrSTALE
        else if ob_state ob = StUNKNOWN then FrUNKNOWN else FrFRESH),
      fr_observed_at = cm_observed_at c, fr_stale_after_seconds = observation_ttl ob (agc_staleAfterSeconds cfg), fr_source = cm_source c \<rparr>"
proof -
  obtain observedAt where "asDate cfg (ob_observed_at ob) now = Inr observedAt"
    using assms by (auto simp: componentFromObservation_def bindR_Inr)
  with assms show "cm_state c = ob_state ob" "cm_component_id c = safe_or (ob_component_id ob) 256 ''unknown-component''"
    "cm_freshness c = \<lparr> fr_state = (if max 0 (now - cm_observed_at c) > 1000 * observation_ttl ob (agc_staleAfterSeconds cfg) then FrSTALE
        else if ob_state ob = StUNKNOWN then FrUNKNOWN else FrFRESH),
      fr_observed_at = cm_observed_at c, fr_stale_after_seconds = observation_ttl ob (agc_staleAfterSeconds cfg), fr_source = cm_source c \<rparr>"
    unfolding componentFromObservation_def Let_def by (simp_all only: bindR_simps sum.inject) (drule sym, simp)+
qed

lemma nowDate_frame:
  assumes "nowDate cfg s = (r, s')"
  shows "ag_revision s' = ag_revision s" "ag_current s' = ag_current s"
  using assms by (auto simp: nowDate_def Let_def split: option.splits)

lemma store_status_Inr:
  "store_status cfg c s = (Inr p, s') \<longleftrightarrow> parseSpatialNodeStatus (agc_zod cfg) c = Some p \<and>
     s' = s \<lparr> ag_revision := ns_revision p, ag_current := Some p \<rparr>"
  by (auto simp: store_status_def split: option.splits)

lemma store_status_Inl: "store_status cfg c s = (Inl e, s') \<Longrightarrow> s' = s"
  by (auto simp: store_status_def split: option.splits)

lemma build_Inr:
  assumes "build cfg obs failed ctx s = (Inr p, s')"
  obtains now cs where "list_all2 (\<lambda>ob c. componentFromObservation cfg now ob = Inr c) obs cs"
    "parseSpatialNodeStatus (agc_zod cfg) (status_candidate cfg s cs (failed \<noteq> []) ctx now) = Some p"
    "ag_revision s' = ns_revision p" "ag_current s' = Some p"
proof -
  from assms obtain now s1 cs where h: "nowDate cfg s = (Inr now, s1)" "mapR (componentFromObservation cfg now) obs = Inr cs"
    "store_status cfg (status_candidate cfg s1 cs (failed \<noteq> []) ctx now) s1 = (Inr p, s')"
    unfolding build_def seqO_Inr liftO_Inr by blast
  have "status_candidate cfg s1 cs (failed \<noteq> []) ctx now = status_candidate cfg s cs (failed \<noteq> []) ctx now"
    using nowDate_frame [OF h(1)] by (simp add: status_candidate_def)
  with h show thesis by (intro that [of now cs]) (auto simp: mapR_Inr store_status_Inr)
qed

lemma build_error_frame:
  assumes "build cfg obs failed ctx s = (Inl e, s')"
  shows "ag_revision s' = ag_revision s" "ag_current s' = ag_current s"
proof -
  have "ag_revision s' = ag_revision s \<and> ag_current s' = ag_current s"
  proof (cases "nowDate cfg s")
    case (Pair r s1)
    then have f: "ag_revision s1 = ag_revision s" "ag_current s1 = ag_current s" by (auto dest: nowDate_frame)
    show ?thesis
    proof (cases r)
      case (Inl x)
      with Pair assms f show ?thesis by (simp add: build_def)
    next
      case (Inr now)
      with Pair assms have "s' = s1" by (auto simp: build_def liftO_Inl dest: store_status_Inl)
      with f show ?thesis by simp
    qed
  qed
  then show "ag_revision s' = ag_revision s" "ag_current s' = ag_current s" by auto
qed

lemma refresh_Inr:
  "refresh cfg ps ctx s = (Inr (p, failed), s') \<longleftrightarrow>
     build cfg (map settle ps) (failed_probes ps) ctx s = (Inr p, s') \<and> failed = failed_probes ps"
  by (auto simp: refresh_def seqO_Inr)


lemma settle_id [simp]: "ob_component_id (settle p) = pb_component_id (fst p)"
  by (simp add: settle_def split: prod.splits option.splits)




section \<open>Sequences of calls\<close>

datatype status_call =
    Refresh "(status_probe \<times> observation option) list" status_context
  | Ingest node_status
  | ReadCached

definition status_step :: "aggregator_config \<Rightarrow> aggregator \<Rightarrow> status_call \<Rightarrow> aggregator" where
  "status_step cfg s call = (case call of
     Refresh ps ctx \<Rightarrow> snd (refresh cfg ps ctx s)
   | Ingest snapshot \<Rightarrow> snd (ingest cfg snapshot s)
   | ReadCached \<Rightarrow> snd (readCached cfg s))"

definition status_inv :: "aggregator_config \<Rightarrow> aggregator \<Rightarrow> bool" where
  "status_inv cfg s \<longleftrightarrow> zod_documented (agc_zod cfg) \<and> js_trim (agc_nodeId cfg) = agc_nodeId cfg \<and>
     (case ag_current s of None \<Rightarrow> True
      | Some c \<Rightarrow> ag_revision s = ns_revision c \<and> parseSpatialNodeStatus (agc_zod cfg) c = Some c \<and>
          0 \<le> ns_revision c \<and> ns_node_id c = agc_nodeId cfg)"

definition held_revision :: "aggregator \<Rightarrow> int" where
  "held_revision s = (case ag_current s of None \<Rightarrow> - 1 | Some c \<Rightarrow> ns_revision c)"

lemma next_status_revision_above: "revision < next_status_revision revision cs"
proof -
  have "revision + 1 \<le> next_status_revision revision cs"
    unfolding next_status_revision_def foldl_max_Max by (rule Max_ge) auto
  then show ?thesis by simp
qed

lemma parse_revision_nonneg: "zod_documented z \<Longrightarrow> parseSpatialNodeStatus z c = Some p \<Longrightarrow> 0 \<le> ns_revision p"
  by (auto simp: parseSpatialNodeStatus_def bind_eq_Some_conv revisionSchema_def zod_documented_def split: if_splits)

lemma stored_inv:
  assumes "status_inv cfg s" and p: "parseSpatialNodeStatus (agc_zod cfg) c = Some p" and "ns_node_id c = agc_nodeId cfg"
    and "ag_revision s' = ns_revision p" "ag_current s' = Some p"
  shows "status_inv cfg s'"
  using assms parse_revision_nonneg [OF _ p] normalisingD [OF parseSpatialNodeStatus_normalising p]
    parseSpatialNodeStatus_keeps(1) [OF p]
  by (simp add: status_inv_def)

lemma refresh_revision:
  assumes "refresh cfg ps ctx s = (Inr (p, failed), s')" "status_inv cfg s"
  shows "held_revision s < ns_revision p" "ag_revision s < ns_revision p" "held_revision s' = ns_revision p" "status_inv cfg s'"
proof -
  from assms(1) have "build cfg (map settle ps) (failed_probes ps) ctx s = (Inr p, s')" by (simp add: refresh_Inr)
  then obtain now cs where h:
    "parseSpatialNodeStatus (agc_zod cfg) (status_candidate cfg s cs (failed_probes ps \<noteq> []) ctx now) = Some p"
    "ag_revision s' = ns_revision p" "ag_current s' = Some p"
    by (rule build_Inr)
  have r: "ns_revision p = next_status_revision (ag_revision s) cs"
    using parseSpatialNodeStatus_keeps(2) [OF h(1)] by (simp add: status_candidate_def Let_def)
  then show "ag_revision s < ns_revision p" by (simp add: next_status_revision_above)
  moreover have "0 \<le> ns_revision p" using assms(2) h(1) by (auto simp: status_inv_def intro: parse_revision_nonneg)
  ultimately show "held_revision s < ns_revision p"
    using assms(2) by (auto simp: held_revision_def status_inv_def split: option.splits)
  show "held_revision s' = ns_revision p" using h(3) by (simp add: held_revision_def)
  show "status_inv cfg s'"
    by (rule stored_inv [OF assms(2) h(1) _ h(2,3)]) (simp add: status_candidate_def Let_def)
qed

lemma inv_frame:
  "status_inv cfg s \<Longrightarrow> ag_revision s' = ag_revision s \<Longrightarrow> ag_current s' = ag_current s \<Longrightarrow>
     status_inv cfg s' \<and> held_revision s \<le> held_revision s'"
  by (simp add: status_inv_def held_revision_def split: option.splits)

lemma refresh_step:
  assumes "status_inv cfg s" shows "status_inv cfg (snd (refresh cfg ps ctx s)) \<and> held_revision s \<le> held_revision (snd (refresh cfg ps ctx s))"
proof (cases "refresh cfg ps ctx s")
  case (Pair r s')
  show ?thesis
  proof (cases r)
    case (Inl e)
    with Pair have "build cfg (map settle ps) (failed_probes ps) ctx s = (Inl e, s')"
      by (cases "build cfg (map settle ps) (failed_probes ps) ctx s"; cases "fst (build cfg (map settle ps) (failed_probes ps) ctx s)")
        (auto simp: refresh_def)
    with Pair inv_frame [OF assms] show ?thesis by (auto dest: build_error_frame)
  next
    case (Inr v)
    obtain p failed where v: "v = (p, failed)" by (cases v)
    show ?thesis using refresh_revision [OF _ assms, of ps ctx p failed s'] Pair Inr v by auto
  qed
qed

lemma ingest_step:
  assumes "status_inv cfg s" shows "status_inv cfg (snd (ingest cfg c s)) \<and> held_revision s \<le> held_revision (snd (ingest cfg c s))"
proof (cases "ingest cfg c s = store_status cfg c s \<and> (\<exists>p. parseSpatialNodeStatus (agc_zod cfg) c = Some p) \<and> ns_node_id c = agc_nodeId cfg
    \<and> held_revision s \<le> max (- 1) (ns_revision c)")
  case True
  then obtain p where p: "parseSpatialNodeStatus (agc_zod cfg) c = Some p" by blast
  let ?s = "s \<lparr> ag_revision := ns_revision p, ag_current := Some p \<rparr>"
  have s': "snd (ingest cfg c s) = ?s" using True p by (simp add: store_status_def)
  have "status_inv cfg ?s" using True by (intro stored_inv [OF assms p]) auto
  moreover have "held_revision s \<le> held_revision ?s"
    using True parse_revision_nonneg [OF _ p] parseSpatialNodeStatus_keeps(2) [OF p] assms
    by (auto simp: held_revision_def status_inv_def)
  ultimately show ?thesis by (simp add: s')
next
  case False
  then have "snd (ingest cfg c s) = s"
    by (auto simp: ingest_def store_status_def held_revision_def split: option.splits if_splits)
  with assms show ?thesis by simp
qed

lemma readCached_step:
  assumes "status_inv cfg s" shows "status_inv cfg (snd (readCached cfg s)) \<and> held_revision s \<le> held_revision (snd (readCached cfg s))"
proof -
  have "ag_revision (snd (readCached cfg s)) = ag_revision s \<and> ag_current (snd (readCached cfg s)) = ag_current s"
    by (auto simp: readCached_def nowDate_def Let_def status_read_def split: option.splits)
  with inv_frame [OF assms] show ?thesis by blast
qed

interpretation status: monotone_machine "status_step cfg" "status_inv cfg" held_revision
  by unfold_locales
    (auto simp: status_step_def split: status_call.split dest: refresh_step ingest_step readCached_step)

lemma create_Inr:
  assumes "createStatusAggregator z now dp opts = Inr (cfg, s)"
  shows "cfg = aggregator_config_of z now dp opts"
    and "s = initial_aggregator opts \<or> (\<exists>c. s = snd (ingest cfg c (initial_aggregator opts)))"
  using assms by (auto simp: createStatusAggregator_def Let_def split: if_splits option.splits prod.splits sum.splits; metis snd_conv)+

lemma create_inv:
  assumes "zod_documented z" "createStatusAggregator z now dp opts = Inr (cfg, s)"
  shows "status_inv cfg s" "agc_zod cfg = z" "agc_nodeId cfg = js_trim (ago_nodeId opts)"
proof -
  show c: "agc_zod cfg = z" "agc_nodeId cfg = js_trim (ago_nodeId opts)"
    using create_Inr(1) [OF assms(2)] by (simp_all add: aggregator_config_of_def)
  then have "status_inv cfg (initial_aggregator opts)" using assms(1) by (simp add: status_inv_def initial_aggregator_def)
  with create_Inr(2) [OF assms(2)] ingest_step show "status_inv cfg s" by blast
qed

lemma parse_node_nonempty: "zod_documented z \<Longrightarrow> parseSpatialNodeStatus z c = Some p \<Longrightarrow> ns_node_id p \<noteq> []"
  by (auto simp: parseSpatialNodeStatus_def bind_eq_Some_conv dest: idSchema_nonempty)

lemma create_cached:
  assumes "ago_cachedSnapshot opts = Some c" "js_trim (ago_nodeId opts) = ns_node_id c" "ns_node_id c \<noteq> []"
    and "parseSpatialNodeStatus z c = Some c"
  obtains cfg s where "createStatusAggregator z now dp opts = Inr (cfg, s)" "ag_current s = Some c" "ag_revision s = ns_revision c"
    "agc_zod cfg = z" "agc_nodeId cfg = ns_node_id c"
  using assms by (auto simp: createStatusAggregator_def aggregator_config_of_def initial_aggregator_def Let_def ingest_def store_status_def)

section \<open>What the aggregator guarantees\<close>


text \<open>
  Revisions only grow: after any sequence of refreshes, ingested snapshots and cached reads, errors included, a
  refresh numbers its snapshot above every snapshot the aggregator has held.
\<close>
theorem status_revisions_grow:
  assumes "zod_documented z" and "createStatusAggregator z now dateParse opts = Inr (cfg, s0)"
    and "ag_current (run (status_step cfg) s0 before) = Some held"
    and "refresh cfg ps ctx (run (status_step cfg) s0 (before @ after)) = (Inr (snapshot, failed), s')"
  shows "ns_revision held < ns_revision snapshot"
proof -
  let ?a = "run (status_step cfg) s0 before" and ?b = "run (status_step cfg) s0 (before @ after)"
  have i: "status_inv cfg ?a" by (rule status.run_inv) (rule create_inv(1) [OF assms(1,2)])
  then have j: "status_inv cfg ?b" unfolding run_append by (rule status.run_inv)
  have "held_revision ?a \<le> held_revision ?b" unfolding run_append by (rule status.run_mono [OF i])
  also have "\<dots> < ns_revision snapshot" by (rule refresh_revision(1) [OF assms(4) j])
  finally show ?thesis by (simp add: held_revision_def assms(3))
qed

text \<open>
  A cached read is never green: neither the Node nor any of its components is reported online, ready or running,
  every freshness is stale, the snapshot is marked cached with the time of the last real observation, and what it shows
  has the revision and the components of the snapshot held.
\<close>
theorem cached_status_never_green:
  assumes "readCached cfg s = (Inr (Some shown), s')"
  shows "\<exists>held. ag_current s = Some held \<and> ns_cached shown \<and> \<not> green (ns_state shown) \<and>
    (\<forall>st. ns_overall_state shown = Some st \<longrightarrow> \<not> green st) \<and> fr_state (ns_freshness shown) = FrSTALE \<and>
    list_all (\<lambda>c. \<not> green (cm_state c) \<and> fr_state (cm_freshness c) = FrSTALE) (ns_components shown) \<and>
    ns_last_known_at shown = Some (ns_observed_at held) \<and> ns_revision shown = ns_revision held \<and>
    map cm_component_id (ns_components shown) = map cm_component_id (ns_components held)"
  using assms
  by (auto simp: readCached_def status_read_def last_known_def last_known_component_def list_all_iff green_def comp_def seqO_Inr
      split: option.splits if_splits)

text \<open>
  Restart: an aggregator created from the snapshot another one held, whatever happened to that one before, holds
  the same snapshot and goes on numbering above it. An explicit \<open>revision\<close> option has no effect on it.
\<close>
theorem status_restart_roundtrip:
  assumes "zod_documented z" and "createStatusAggregator z now dateParse opts = Inr (cfg, s0)"
    and "ag_current (run (status_step cfg) s0 calls) = Some held"
    and "ago_nodeId opts' = agc_nodeId cfg" "ago_cachedSnapshot opts' = Some held"
  shows "\<exists>cfg' s. createStatusAggregator z now' dateParse opts' = Inr (cfg', s) \<and> ag_current s = Some held \<and>
    ag_revision s = ns_revision held \<and> agc_nodeId cfg' = agc_nodeId cfg \<and>
    (\<forall>ps ctx snapshot failed s'. refresh cfg' ps ctx s = (Inr (snapshot, failed), s') \<longrightarrow> ns_revision held < ns_revision snapshot)"
proof -
  note inv0 = create_inv [OF assms(1,2)]
  have i: "status_inv cfg (run (status_step cfg) s0 calls)" by (rule status.run_inv) (rule inv0(1))
  then have h: "parseSpatialNodeStatus z held = Some held" "ns_node_id held = agc_nodeId cfg" "js_trim (agc_nodeId cfg) = agc_nodeId cfg"
    using inv0(2) assms(3) by (auto simp: status_inv_def)
  have ne: "ns_node_id held \<noteq> []" by (rule parse_node_nonempty [OF assms(1) h(1)])
  have t: "js_trim (ago_nodeId opts') = ns_node_id held" using assms(4) h by simp
  obtain cfg' s where c: "createStatusAggregator z now' dateParse opts' = Inr (cfg', s)" "ag_current s = Some held"
    "ag_revision s = ns_revision held" "agc_zod cfg' = z" "agc_nodeId cfg' = ns_node_id held"
    by (rule create_cached [OF assms(5) t ne h(1)])
  have "ns_revision held < ns_revision snapshot" if "refresh cfg' ps ctx s = (Inr (snapshot, failed), s')" for ps ctx snapshot failed s'
    using refresh_revision(2) [OF that create_inv(1) [OF assms(1) c(1)]] c(3) by simp
  with c h(2) show ?thesis by auto
qed

section \<open>Where the code departs from its documentation\<close>

text \<open>
  One observation whose time cannot be parsed makes the whole refresh fail, whatever the other probes report: the
  snapshot held does not change and the healthy observations are lost.
\<close>

lemma unparseable_time_erases_refresh:
  assumes "agc_now cfg (ag_clock s) = Some t" and "(pb, Some ob) \<in> set ps"
    and "ob_observed_at ob = Some (DateText d)" "d \<noteq> []" "agc_dateParse cfg d = None"
  shows "fst (refresh cfg ps ctx s) = Inl Agg_INVALID_SNAPSHOT" and "ag_current (snd (refresh cfg ps ctx s)) = ag_current s"
proof -
  have "mapR (componentFromObservation cfg t) (map settle ps) = Inl Agg_INVALID_SNAPSHOT"
  proof (rule mapR_Inl)
    show "settle (pb, Some ob) \<in> set (map settle ps)" using assms(2) by simp
    show "componentFromObservation cfg t (settle (pb, Some ob)) = Inl Agg_INVALID_SNAPSHOT"
      using assms by (simp add: componentFromObservation_def asDate_def settle_def)
    show "e' = Agg_INVALID_SNAPSHOT" if "componentFromObservation cfg t x = Inl e'" for x e'
      using that by (auto simp: componentFromObservation_def asDate_def Let_def bindR_def split: option.splits date_input.splits if_splits sum.splits)
  qed
  then show "fst (refresh cfg ps ctx s) = Inl Agg_INVALID_SNAPSHOT" "ag_current (snd (refresh cfg ps ctx s)) = ag_current s"
    using assms(1) by (simp_all add: refresh_def build_def nowDate_def Let_def)
qed

text \<open>
  The state of a component, and with it the state of the Node, does not depend on how old the observation is: an
  observation past its time to live is marked stale in its freshness but stays online.
\<close>

lemma stale_observation_stays_green:
  assumes "componentFromObservation cfg now ob = Inr c" "observation_ttl ob (agc_staleAfterSeconds cfg) \<ge> 0"
    and "now - cm_observed_at c > 1000 * observation_ttl ob (agc_staleAfterSeconds cfg)" "green (ob_state ob)"
  shows "fr_state (cm_freshness c) = FrSTALE" "green (aggregateState [c] False)"
  using component_keeps [OF assms(1)] assms by (simp_all add: aggregate_green)

text \<open>A failing probe hides a worse state: beside a Node that is offline, the Node is reported degraded.\<close>

lemma failing_probe_masks_offline_node:
  assumes "cm_kind c = CkNode" "cm_state c = StOFFLINE" "cm_state d = StUNKNOWN"
  shows "aggregateState [c] False = StOFFLINE" "aggregateState [c, d] True = StDEGRADED"
  using assms by (simp_all add: aggregateState_def worstState_def worse_def)

text \<open>Evidence the operator is not authorised for is flagged as redacted, with its reference and label in clear.\<close>

lemma unauthorized_evidence_in_clear:
  assumes "\<not> er_authorized e" "list_all status_printable (er_ref e)" "js_trim (er_ref e) = er_ref e" "er_ref e \<noteq> []" "length (er_ref e) \<le> 256"
  shows "map er_ref (redactEvidence (Some [e])) = [er_ref e]" "map er_redacted (redactEvidence (Some [e])) = [True]"
  using assms by (simp_all add: redactEvidence_def safe_or_def safeText_def Let_def list_all_iff filter_id_conv)

section \<open>Examples\<close>

definition ex_zero_context :: status_context where
  "ex_zero_context = \<lparr> cx_activeSessions = None, cx_runningTasks = None, cx_activeEndpoints = None \<rparr>"

definition ex_observation :: "status_state \<Rightarrow> observation" where
  "ex_observation st = \<lparr> ob_component_id = ''x'', ob_component_type = ''X'', ob_kind = None, ob_state = st, ob_observed_at = None,
     ob_stale_after_seconds = None, ob_source = ''probe'', ob_revision = None, ob_evidence_refs = None, ob_issue_code = None,
     ob_available_actions = None, ob_spatial_ref = None, ob_authorization = None, ob_details = None \<rparr>"

definition ex_probes :: "(status_probe \<times> observation option) list" where
  "ex_probes = [(\<lparr> pb_component_id = ''hv'', pb_component_type = ''Hypervisor'', pb_kind = CkHypervisor \<rparr>, Some (ex_observation StONLINE)),
     (\<lparr> pb_component_id = ''hooks'', pb_component_type = ''Hooks'', pb_kind = CkHooks \<rparr>, None)]"

definition ex_options :: aggregator_options where
  "ex_options = \<lparr> ago_nodeId = ''n'', ago_staleAfterSeconds = Some 60, ago_revision = None, ago_cachedSnapshot = None \<rparr>"

definition ex_agg :: "aggregator_config \<times> aggregator" where
  "ex_agg = projr (createStatusAggregator zod_ref (\<lambda>n. Some 5000) (\<lambda>_. None) ex_options)"




lemma ex_agg_created: "createStatusAggregator zod_ref (\<lambda>n. Some 5000) (\<lambda>_. None) ex_options = Inr (fst ex_agg, snd ex_agg)"
proof -
  have "\<not> isl (createStatusAggregator zod_ref (\<lambda>n. Some 5000) (\<lambda>_. None) ex_options)" by code_simp
  then show ?thesis by (simp add: ex_agg_def)
qed

definition ex_status_run :: "status_call list \<Rightarrow> aggregator" where
  "ex_status_run calls = run (status_step (fst ex_agg)) (snd ex_agg) calls"

lemma ex_held: "map_option ns_revision (ag_current (ex_status_run [Refresh ex_probes ex_zero_context])) = Some 1"
  by code_simp

theorem status_revisions_grow_witness:
  "\<exists>held snapshot failed s'. ag_current (ex_status_run [Refresh ex_probes ex_zero_context]) = Some held \<and>
     refresh (fst ex_agg) ex_probes ex_zero_context (ex_status_run [Refresh ex_probes ex_zero_context, ReadCached]) =
       (Inr (snapshot, failed), s') \<and> ns_revision held < ns_revision snapshot"
proof -
  let ?b = "[Refresh ex_probes ex_zero_context]" and ?s = "ex_status_run [Refresh ex_probes ex_zero_context, ReadCached]"
  obtain held where held: "ag_current (ex_status_run ?b) = Some held" using ex_held by auto
  have "\<not> isl (fst (refresh (fst ex_agg) ex_probes ex_zero_context ?s))" by code_simp
  then obtain snapshot failed s' where r: "refresh (fst ex_agg) ex_probes ex_zero_context ?s = (Inr (snapshot, failed), s')"
    by (metis outcome_ok surj_pair)
  have "ns_revision held < ns_revision snapshot"
    by (rule status_revisions_grow [OF zod_ref_documented ex_agg_created, where before = ?b and after = "[ReadCached]"])
      (use held r in \<open>simp_all add: ex_status_run_def\<close>)
  with held r show ?thesis by blast
qed

theorem cached_status_never_green_witness:
  "\<exists>shown s'. readCached (fst ex_agg) (ex_status_run [Refresh (take 1 ex_probes) ex_zero_context]) = (Inr (Some shown), s') \<and>
     \<not> green (ns_state shown) \<and> green (ns_state (the (ag_current (ex_status_run [Refresh (take 1 ex_probes) ex_zero_context]))))"
proof -
  let ?s = "ex_status_run [Refresh (take 1 ex_probes) ex_zero_context]"
  have "(case fst (readCached (fst ex_agg) ?s) of Inr (Some _) \<Rightarrow> True | _ \<Rightarrow> False) \<and> green (ns_state (the (ag_current ?s)))"
    by code_simp
  then obtain shown s' where r: "readCached (fst ex_agg) ?s = (Inr (Some shown), s')" and g: "green (ns_state (the (ag_current ?s)))"
    by (auto split: sum.splits option.splits prod.splits) (metis prod.collapse)
  show ?thesis using cached_status_never_green [OF r] r g by blast
qed

theorem status_restart_roundtrip_witness:
  "\<exists>held. ag_current (ex_status_run [Refresh ex_probes ex_zero_context]) = Some held \<and>
     (\<exists>cfg s. createStatusAggregator zod_ref (\<lambda>n. Some 9000) (\<lambda>_. None)
        \<lparr> ago_nodeId = ''n'', ago_staleAfterSeconds = None, ago_revision = Some 100, ago_cachedSnapshot = Some held \<rparr> = Inr (cfg, s) \<and>
        ag_current s = Some held \<and> ag_revision s = 1)"
proof -
  obtain held where held: "ag_current (ex_status_run [Refresh ex_probes ex_zero_context]) = Some held" "ns_revision held = 1"
    using ex_held by auto
  have n: "agc_nodeId (fst ex_agg) = ''n''" by code_simp
  show ?thesis
    using status_restart_roundtrip [OF zod_ref_documented ex_agg_created held(1) [unfolded ex_status_run_def],
        of "\<lparr> ago_nodeId = ''n'', ago_staleAfterSeconds = None, ago_revision = Some 100, ago_cachedSnapshot = Some held \<rparr>" "\<lambda>n. Some 9000"]
      held n by auto
qed

end
