(* ===== verification/Recovery.thy ===== *)
theory Recovery
  imports Status Topology
begin

text \<open>
  The recovery commands of \<open>spatial/status/recovery.ts\<close>: \<open>SpatialRecoveryCommandService\<close> (plan, apply, audit trail)
  with the contracts it parses, and \<open>StatusWorkspaceBridge\<close>, which reads the canonical reference registry of
  \<open>Topology\<close>.

  \<open>apply\<close> awaits a handler of the caller between its checks and the recording of the result, so it is modelled in two
  halves: \<open>apply_begin\<close> runs to the call of the handler, \<open>apply_finish\<close> from its settlement to the return; \<open>apply\<close>
  composes them when nothing runs in between. Handlers are parameters: \<open>rvc_registered\<close> says which actions have one, and
  how a call settled is an argument (\<open>True\<close> for a fulfilled promise). The state keeps, beside the fields of the class,
  the list \<open>rv_invoked\<close> of the commands whose handler was called. The browser clock is a stream of timestamps.
\<close>

section \<open>Contracts\<close>

datatype recovery_result_state = RrPLANNED | RrAPPLIED | RrNOOP | RrREJECTED | RrFAILED

record recovery_command =
  rc_command_id :: string
  rc_node_id :: string
  rc_target_ref :: string
  rc_action :: recovery_action
  rc_requested_revision :: int
  rc_plan_hash :: string
  rc_actor_ref :: string
  rc_capability :: string
  rc_consequence :: string
  rc_requires_confirmation :: bool
  rc_confirmation :: bool
  rc_created_at :: timestamp
  rc_idempotency_key :: string

record recovery_result =
  rr_command_id :: string
  rr_node_id :: string
  rr_target_ref :: string
  rr_action :: recovery_action
  rr_state :: recovery_result_state
  rr_plan_hash :: string
  rr_revision :: int
  rr_observed_at :: timestamp
  rr_audit_ref :: string
  rr_error_code :: "string option"
  rr_message :: "string option"

text \<open>The optional literal \<open>confirmation: true\<close> is a Boolean: present or not.\<close>

definition parseSpatialRecoveryCommand :: "zod \<Rightarrow> recovery_command \<Rightarrow> recovery_command option" where
  "parseSpatialRecoveryCommand z c = do {
     cid \<leftarrow> idSchema z (rc_command_id c);
     node \<leftarrow> idSchema z (rc_node_id c);
     tgt \<leftarrow> idSchema z (rc_target_ref c);
     revision \<leftarrow> revisionSchema z (rc_requested_revision c);
     hash \<leftarrow> idSchema z (rc_plan_hash c);
     actor \<leftarrow> idSchema z (rc_actor_ref c);
     capability \<leftarrow> idSchema z (rc_capability c);
     consequence \<leftarrow> labelSchema z (rc_consequence c);
     key \<leftarrow> idSchema z (rc_idempotency_key c);
     Some (c \<lparr> rc_command_id := cid, rc_node_id := node, rc_target_ref := tgt, rc_requested_revision := revision,
       rc_plan_hash := hash, rc_actor_ref := actor, rc_capability := capability, rc_consequence := consequence,
       rc_idempotency_key := key \<rparr>) }"

definition parseSpatialRecoveryResult :: "zod \<Rightarrow> recovery_result \<Rightarrow> recovery_result option" where
  "parseSpatialRecoveryResult z r = do {
     cid \<leftarrow> idSchema z (rr_command_id r);
     node \<leftarrow> idSchema z (rr_node_id r);
     tgt \<leftarrow> idSchema z (rr_target_ref r);
     hash \<leftarrow> idSchema z (rr_plan_hash r);
     revision \<leftarrow> revisionSchema z (rr_revision r);
     audit \<leftarrow> idSchema z (rr_audit_ref r);
     error \<leftarrow> nullable (idSchema z) (rr_error_code r);
     message \<leftarrow> nullable (labelSchema z) (rr_message r);
     Some (r \<lparr> rr_command_id := cid, rr_node_id := node, rr_target_ref := tgt, rr_plan_hash := hash, rr_revision := revision,
       rr_audit_ref := audit, rr_error_code := error, rr_message := message \<rparr>) }"

section \<open>The command service\<close>

datatype recovery_error = Rec_INVALID_PLAN | Rec_STALE_PLAN | Rec_CAPABILITY_DENIED | Rec_CONFIRMATION_REQUIRED
  | Rec_DUPLICATE_PLAN | Rec_HANDLER_FAILED

record recovery_plan_input =
  rpi_nodeId :: string
  rpi_targetRef :: string
  rpi_action :: recovery_action
  rpi_currentRevision :: int
  rpi_actorRef :: "string option"
  rpi_idempotencyKey :: "string option"
  rpi_now :: "timestamp option option"

record recovery_apply_input =
  rai_plan :: recovery_command
  rai_currentRevision :: int
  rai_capabilities :: "string list"
  rai_confirmed :: bool
  rai_actorRef :: "string option"

record recovery_audit =
  ra_audit_ref :: string
  ra_command_id :: string
  ra_actor_ref :: string
  ra_action :: recovery_action
  ra_target_ref :: string
  ra_state :: recovery_result_state
  ra_observed_at :: timestamp

record consequence =
  cq_capability :: string
  cq_consequence :: string
  cq_requiresConfirmation :: bool

fun CONSEQUENCES :: "recovery_action \<Rightarrow> consequence" where
  "CONSEQUENCES RESTART_SERVICE = \<lparr> cq_capability = ''recovery.restart-service'',
     cq_consequence = ''Restart a permitted Node service.'', cq_requiresConfirmation = True \<rparr>"
| "CONSEQUENCES STOP_UNSAFE_RUNTIME = \<lparr> cq_capability = ''recovery.stop-unsafe-runtime'',
     cq_consequence = ''Stop a runtime marked unsafe.'', cq_requiresConfirmation = True \<rparr>"
| "CONSEQUENCES SUSPEND_AGENT_BINDING = \<lparr> cq_capability = ''recovery.suspend-agent-binding'',
     cq_consequence = ''Suspend the Primary Agent binding without deleting Workspace state.'', cq_requiresConfirmation = True \<rparr>"
| "CONSEQUENCES REVOKE_BINDING_CREDENTIALS = \<lparr> cq_capability = ''recovery.revoke-binding-credentials'',
     cq_consequence = ''Revoke binding credentials; future delivery is blocked.'', cq_requiresConfirmation = True \<rparr>"
| "CONSEQUENCES DISABLE_HOOK = \<lparr> cq_capability = ''recovery.disable-hook'',
     cq_consequence = ''Disable one Hook subscription.'', cq_requiresConfirmation = True \<rparr>"
| "CONSEQUENCES RETRY_HOOK_DEAD_LETTER = \<lparr> cq_capability = ''recovery.retry-hook-dead-letter'',
     cq_consequence = ''Retry one bounded Hook dead-letter item.'', cq_requiresConfirmation = False \<rparr>"
| "CONSEQUENCES BLOCK_REMOTE_ENDPOINT = \<lparr> cq_capability = ''recovery.block-remote-endpoint'',
     cq_consequence = ''Block a remote Endpoint through Node policy.'', cq_requiresConfirmation = True \<rparr>"
| "CONSEQUENCES RETURN_TO_CLASSIC = \<lparr> cq_capability = ''recovery.return-to-classic'',
     cq_consequence = ''Return the operator to the Classic advanced surface.'', cq_requiresConfirmation = False \<rparr>"

fun action_name :: "recovery_action \<Rightarrow> string" where
  "action_name RESTART_SERVICE = ''RESTART_SERVICE''"
| "action_name STOP_UNSAFE_RUNTIME = ''STOP_UNSAFE_RUNTIME''"
| "action_name SUSPEND_AGENT_BINDING = ''SUSPEND_AGENT_BINDING''"
| "action_name REVOKE_BINDING_CREDENTIALS = ''REVOKE_BINDING_CREDENTIALS''"
| "action_name DISABLE_HOOK = ''DISABLE_HOOK''"
| "action_name RETRY_HOOK_DEAD_LETTER = ''RETRY_HOOK_DEAD_LETTER''"
| "action_name BLOCK_REMOTE_ENDPOINT = ''BLOCK_REMOTE_ENDPOINT''"
| "action_name RETURN_TO_CLASSIC = ''RETURN_TO_CLASSIC''"

text \<open>Two 32-bit hashes; the bitwise operators and \<open>Math.imul\<close> work modulo \<open>2 ^ 32\<close>.\<close>

unbundle bit_operations_syntax

fun stable_hash_loop :: "32 word \<Rightarrow> 32 word \<Rightarrow> nat \<Rightarrow> string \<Rightarrow> 32 word \<times> 32 word" where
  "stable_hash_loop a b i [] = (a, b)"
| "stable_hash_loop a b i (c # cs) =
     stable_hash_loop ((a XOR of_nat (of_char c)) * 16777619) ((b XOR of_nat (of_char c + i)) * 3266489917) (i + 1) cs"

definition recovery_stableHash :: "string \<Rightarrow> string" where
  "recovery_stableHash value =
     (case stable_hash_loop 2166136261 2246822519 0 value of (a, b) \<Rightarrow> hex8 8 (uint a) @ hex8 8 (uint b))"

definition recovery_id :: "string \<Rightarrow> string \<Rightarrow> string" where
  "recovery_id prefix value = prefix @ ''-'' @ recovery_stableHash value"

definition normalizeCapabilities :: "string list \<Rightarrow> string set" where
  "normalizeCapabilities cs = set (filter (\<lambda>c. c \<noteq> []) (map (\<lambda>c. js_toLowerCase (js_trim c)) cs))"

record recovery_config =
  rvc_zod :: zod
  rvc_clock :: "nat \<Rightarrow> timestamp"
  rvc_registered :: "recovery_action \<Rightarrow> bool"

record recovery =
  rv_applied :: "(string, recovery_result) jsmap"
  rv_audit :: "recovery_audit list"
  rv_ticks :: nat
  rv_invoked :: "recovery_command list"

definition empty_recovery :: recovery where
  "empty_recovery = \<lparr> rv_applied = [], rv_audit = [], rv_ticks = 0, rv_invoked = [] \<rparr>"

definition recovery_nowIso :: "recovery_config \<Rightarrow> timestamp option option \<Rightarrow> recovery
    \<Rightarrow> (recovery_error, timestamp, recovery) outcome" where
  "recovery_nowIso cfg v s = (case v of
     None \<Rightarrow> return (rvc_clock cfg (rv_ticks s)) (s \<lparr> rv_ticks := rv_ticks s + 1 \<rparr>)
   | Some None \<Rightarrow> throw Rec_INVALID_PLAN s
   | Some (Some t) \<Rightarrow> return t s)"

definition recovery_key :: "recovery_plan_input \<Rightarrow> string \<Rightarrow> string \<Rightarrow> string" where
  "recovery_key input nodeId targetRef =
     (let given = (case rpi_idempotencyKey input of None \<Rightarrow> [] | Some k \<Rightarrow> js_trim k) in
      if given \<noteq> [] then given
      else recovery_id ''idem'' (nodeId @ '':'' @ targetRef @ '':'' @ action_name (rpi_action input) @ '':'' @ show_int (rpi_currentRevision input)))"

definition recovery_candidate :: "recovery_plan_input \<Rightarrow> string \<Rightarrow> string \<Rightarrow> string \<Rightarrow> timestamp \<Rightarrow> recovery_command" where
  "recovery_candidate input nodeId targetRef actorRef createdAt =
     (let cq = CONSEQUENCES (rpi_action input); key = recovery_key input nodeId targetRef;
          action = action_name (rpi_action input); revision = show_int (rpi_currentRevision input)
      in \<lparr> rc_command_id = recovery_id ''recovery'' (nodeId @ '':'' @ targetRef @ '':'' @ action @ '':'' @ revision @ '':'' @ key),
           rc_node_id = nodeId, rc_target_ref = targetRef, rc_action = rpi_action input,
           rc_requested_revision = rpi_currentRevision input,
           rc_plan_hash = recovery_id ''plan'' (nodeId @ ''|'' @ targetRef @ ''|'' @ action @ ''|'' @ revision @ ''|'' @ actorRef @ ''|'' @ cq_capability cq),
           rc_actor_ref = actorRef, rc_capability = cq_capability cq, rc_consequence = cq_consequence cq,
           rc_requires_confirmation = cq_requiresConfirmation cq, rc_confirmation = False,
           rc_created_at = createdAt, rc_idempotency_key = key \<rparr>)"

definition recovery_plan :: "recovery_config \<Rightarrow> recovery_plan_input \<Rightarrow> recovery
    \<Rightarrow> (recovery_error, recovery_command, recovery) outcome" where
  "recovery_plan cfg input s =
     (let nodeId = js_trim (rpi_nodeId input); targetRef = js_trim (rpi_targetRef input);
          actorRef = js_trim (case rpi_actorRef input of None \<Rightarrow> ''operator-dashboard'' | Some a \<Rightarrow> a)
      in if nodeId = [] \<or> targetRef = [] \<or> actorRef = [] \<or> rpi_currentRevision input < 0 then throw Rec_INVALID_PLAN s
         else seqO (recovery_nowIso cfg (rpi_now input) s) (\<lambda>createdAt s1.
           case parseSpatialRecoveryCommand (rvc_zod cfg) (recovery_candidate input nodeId targetRef actorRef createdAt) of
             None \<Rightarrow> throw Rec_INVALID_PLAN s1
           | Some c \<Rightarrow> return c s1))"

text \<open>Where \<open>apply\<close> stands when it reaches the handler: it has returned already, or it waits with what it computed.\<close>

record pending_recovery =
  pd_plan :: recovery_command
  pd_input :: recovery_apply_input
  pd_observedAt :: timestamp
  pd_auditRef :: string

datatype apply_progress = Replayed recovery_result | Waiting pending_recovery

definition apply_begin :: "recovery_config \<Rightarrow> recovery_apply_input \<Rightarrow> recovery
    \<Rightarrow> (recovery_error, apply_progress, recovery) outcome" where
  "apply_begin cfg input s =
     (case parseSpatialRecoveryCommand (rvc_zod cfg) (rai_plan input) of
        None \<Rightarrow> throw Rec_INVALID_PLAN s
      | Some plan \<Rightarrow> (case jm_get (rv_applied s) (rc_idempotency_key plan) of
          Some prior \<Rightarrow> return (Replayed (prior \<lparr> rr_state := RrNOOP,
            rr_message := Some ''Idempotent replay; the prior result is authoritative.'' \<rparr>)) s
        | None \<Rightarrow>
            if rc_requested_revision plan \<noteq> rai_currentRevision input then throw Rec_STALE_PLAN s
            else if js_toLowerCase (rc_capability plan) \<notin> normalizeCapabilities (rai_capabilities input) then throw Rec_CAPABILITY_DENIED s
            else if rc_requires_confirmation plan \<and> \<not> rai_confirmed input then throw Rec_CONFIRMATION_REQUIRED s
            else return (Waiting \<lparr> pd_plan = plan, pd_input = input, pd_observedAt = rvc_clock cfg (rv_ticks s),
                   pd_auditRef = recovery_id ''audit'' (rc_command_id plan @ '':'' @ rc_plan_hash plan) \<rparr>)
                 (s \<lparr> rv_ticks := rv_ticks s + 1,
                   rv_invoked := rv_invoked s @ (if rvc_registered cfg (rc_action plan) then [plan] else []) \<rparr>)))"

definition recovery_outcome :: "bool \<Rightarrow> pending_recovery \<Rightarrow> recovery_result" where
  "recovery_outcome ok p = (let plan = pd_plan p in
     \<lparr> rr_command_id = rc_command_id plan, rr_node_id = rc_node_id plan, rr_target_ref = rc_target_ref plan, rr_action = rc_action plan,
       rr_state = (if ok then RrAPPLIED else RrFAILED), rr_plan_hash = rc_plan_hash plan, rr_revision = rai_currentRevision (pd_input p),
       rr_observed_at = pd_observedAt p, rr_audit_ref = pd_auditRef p,
       rr_error_code = (if ok then None else Some ''RECOVERY_HANDLER_FAILED''),
       rr_message = Some (if ok then ''Recovery action applied through the canonical command path.''
         else ''Recovery action failed; inspect the bounded evidence in Status.'') \<rparr>)"

text \<open>An action without a handler cannot fail: \<open>this.handlers[plan.action]?.(plan)\<close> is \<open>undefined\<close>.\<close>

definition handler_settled :: "recovery_config \<Rightarrow> pending_recovery \<Rightarrow> bool \<Rightarrow> bool" where
  "handler_settled cfg p ok \<longleftrightarrow> ok \<or> \<not> rvc_registered cfg (rc_action (pd_plan p))"

definition apply_finish :: "recovery_config \<Rightarrow> pending_recovery \<Rightarrow> bool \<Rightarrow> recovery
    \<Rightarrow> (recovery_error, recovery_result, recovery) outcome" where
  "apply_finish cfg p ok s =
     (let plan = pd_plan p; input = pd_input p in
      case parseSpatialRecoveryResult (rvc_zod cfg) (recovery_outcome (handler_settled cfg p ok) p) of
        None \<Rightarrow> throw Rec_HANDLER_FAILED s
      | Some r \<Rightarrow> return r (s \<lparr> rv_applied := jm_set (rc_idempotency_key plan) r (rv_applied s),
          rv_audit := rv_audit s @ [\<lparr> ra_audit_ref = rr_audit_ref r, ra_command_id = rc_command_id plan,
            ra_actor_ref = (case rai_actorRef input of None \<Rightarrow> rc_actor_ref plan | Some a \<Rightarrow> a), ra_action = rc_action plan,
            ra_target_ref = rc_target_ref plan, ra_state = rr_state r, ra_observed_at = rr_observed_at r \<rparr>] \<rparr>))"

text \<open>\<open>apply\<close> with nothing running while it awaits the handler.\<close>

definition recovery_apply :: "recovery_config \<Rightarrow> recovery_apply_input \<times> bool \<Rightarrow> recovery
    \<Rightarrow> (recovery_error, recovery_result, recovery) outcome" where
  "recovery_apply cfg call s = seqO (apply_begin cfg (fst call) s) (\<lambda>progress s1. case progress of
       Replayed r \<Rightarrow> return r s1
     | Waiting p \<Rightarrow> apply_finish cfg p (snd call) s1)"

definition auditRecords :: "recovery \<Rightarrow> recovery_audit list" where
  "auditRecords s = rv_audit s"

section \<open>Status to Workspace\<close>

datatype bridge_reason = NO_SPATIAL_REPRESENTATION | STALE_REFERENCE | BridgeUNAVAILABLE

datatype bridge_rejection = WRONG_WORKSPACE | UNKNOWN_REFERENCE

datatype bridge_result = FOCUS_EXISTING string | DETAILS_ONLY string bridge_reason | BRIDGE_REJECTED bridge_rejection

record bridge_request =
  br_workspaceId :: string
  br_nodeId :: string
  br_canonicalRef :: string
  br_hasSpatialRepresentation :: "bool option"
  br_stale :: bool

definition showInWorkspace :: "registry_options \<Rightarrow> bridge_request \<Rightarrow> registry
    \<Rightarrow> (registry_error, bridge_result, registry) outcome" where
  "showInWorkspace opts req r =
     (if br_workspaceId req \<noteq> rgo_workspaceId opts \<or> br_nodeId req \<noteq> rgo_nodeId opts then return (BRIDGE_REJECTED WRONG_WORKSPACE) r
      else seqO (resolveInScope opts (br_workspaceId req) (br_nodeId req) (br_canonicalRef req) r) (\<lambda>reference r1.
        case reference of None \<Rightarrow> return (BRIDGE_REJECTED UNKNOWN_REFERENCE) r1
        | Some c \<Rightarrow> return (if br_stale req then DETAILS_ONLY (cr_canonical_ref c) STALE_REFERENCE
             else if cr_state c \<noteq> RefAVAILABLE then DETAILS_ONLY (cr_canonical_ref c) BridgeUNAVAILABLE
             else if br_hasSpatialRepresentation req = Some False then DETAILS_ONLY (cr_canonical_ref c) NO_SPATIAL_REPRESENTATION
             else FOCUS_EXISTING (cr_canonical_ref c)) r1))"

end
