(* ===== verification/Recovery_Properties.thy ===== *)
theory Recovery_Properties
  imports Recovery Topology_Properties "HOL-Library.Multiset"
begin

text \<open>
  What the recovery commands guarantee: a handler runs only behind the checks of \<open>apply\<close>, every run is recorded and
  audited, a key runs at most once as long as calls do not overlap, and a fresh plan can be carried out. The last
  section shows what the checks do not cover.
\<close>

section \<open>Contracts\<close>

lemma parseSpatialRecoveryCommand_normalising [schema_normalising]: "normalising (parseSpatialRecoveryCommand z)"
  unfolding normalising_def parseSpatialRecoveryCommand_def
  by (clarsimp simp: bind_eq_Some_conv) (intro exI conjI; (rule refl | erule normalisingD [rotated]; intro schema_normalising))

lemma hex8_last: "k > 0 \<Longrightarrow> last (hex8 k n) = hex_digit (n mod 16)" "k > 0 \<Longrightarrow> hex8 k n \<noteq> []"
  by (cases k; simp)+

lemma length_recovery_id: "length (recovery_id prefix v) = length prefix + 17"
  by (simp add: recovery_id_def recovery_stableHash_def split: prod.splits)

lemma recovery_id_last: "\<not> js_space (last (recovery_id prefix v))"
  by (simp add: recovery_id_def recovery_stableHash_def hex8_last hex_digit_not_space split: prod.splits)

lemma recovery_id_schema:
  assumes "zod_documented z" "prefix \<noteq> []" "\<not> js_space (hd prefix)" "length prefix \<le> 20"
  shows "idSchema z (recovery_id prefix v) = Some (recovery_id prefix v)"
proof (rule idSchema_fixed [OF assms(1)])
  have "hd (recovery_id prefix v) = hd prefix" using assms(2) by (simp add: recovery_id_def)
  then show "js_trim (recovery_id prefix v) = recovery_id prefix v"
    using assms(3) recovery_id_last by (simp add: js_trim_id_iff)
  show "recovery_id prefix v \<noteq> []" by (simp add: recovery_id_def)
  show "length (recovery_id prefix v) \<le> 256" using assms(4) by (simp add: length_recovery_id)
qed

lemma parsed_command_fields:
  assumes "parseSpatialRecoveryCommand z c = Some plan"
  shows "idSchema z (rc_command_id plan) = Some (rc_command_id plan)" "idSchema z (rc_node_id plan) = Some (rc_node_id plan)"
    "idSchema z (rc_target_ref plan) = Some (rc_target_ref plan)" "idSchema z (rc_plan_hash plan) = Some (rc_plan_hash plan)"
    "revisionSchema z (rc_requested_revision plan) = Some (rc_requested_revision plan)"
    "rc_action plan = rc_action c" "rc_requires_confirmation plan = rc_requires_confirmation c"
    "rc_requested_revision plan = rc_requested_revision c" "rc_capability plan = js_trim (rc_capability c)"
    "rc_idempotency_key plan = js_trim (rc_idempotency_key c)"
  using assms
  by (auto simp: parseSpatialRecoveryCommand_def bind_eq_Some_conv revisionSchema_def split: if_splits
      intro: normalisingD [OF idSchema_normalising] dest: idSchema_trim)

text \<open>Once the checks have passed, the result contract accepts the result: \<open>HANDLER_FAILED\<close> is never thrown.\<close>

lemma recovery_outcome_valid:
  assumes z: "zod_documented z" and plan: "parseSpatialRecoveryCommand z c = Some (pd_plan p)"
    and "rai_currentRevision (pd_input p) = rc_requested_revision (pd_plan p)" "pd_auditRef p = recovery_id ''audit'' v"
  shows "parseSpatialRecoveryResult z (recovery_outcome ok p) = Some (recovery_outcome ok p)"
proof -
  have "idSchema z (recovery_id ''audit'' v) = Some (recovery_id ''audit'' v)"
    by (rule recovery_id_schema [OF z]) (simp_all add: js_space_def)
  moreover have "idSchema z ''RECOVERY_HANDLER_FAILED'' = Some ''RECOVERY_HANDLER_FAILED''"
    by (rule idSchema_fixed [OF z]) (simp_all add: js_trim_id_iff js_space_def)
  moreover have "labelSchema z m = Some m" if "m \<in> {''Recovery action applied through the canonical command path.'',
      ''Recovery action failed; inspect the bounded evidence in Status.''}" for m
    using that by (intro labelSchema_fixed [OF z]) (auto simp: js_trim_id_iff js_space_def)
  ultimately show ?thesis
    using parsed_command_fields [OF plan] assms(3,4)
    by (simp add: parseSpatialRecoveryResult_def recovery_outcome_def Let_def nullable_def)
qed

section \<open>One call\<close>

lemma apply_begin_Waiting:
  assumes "apply_begin cfg input s = (Inr (Waiting p), s')"
  shows "parseSpatialRecoveryCommand (rvc_zod cfg) (rai_plan input) = Some (pd_plan p)" "pd_input p = input"
    "jm_get (rv_applied s) (rc_idempotency_key (pd_plan p)) = None"
    "rc_requested_revision (pd_plan p) = rai_currentRevision input"
    "js_toLowerCase (rc_capability (pd_plan p)) \<in> normalizeCapabilities (rai_capabilities input)"
    "rc_requires_confirmation (pd_plan p) \<longrightarrow> rai_confirmed input"
    "pd_auditRef p = recovery_id ''audit'' (rc_command_id (pd_plan p) @ '':'' @ rc_plan_hash (pd_plan p))"
    "s' = s \<lparr> rv_ticks := rv_ticks s + 1,
       rv_invoked := rv_invoked s @ (if rvc_registered cfg (rc_action (pd_plan p)) then [pd_plan p] else []) \<rparr>"
  using assms by (auto simp: apply_begin_def split: option.splits if_splits)

lemma apply_begin_frame: "apply_begin cfg input s = (Inl e, s') \<Longrightarrow> s' = s"
  "apply_begin cfg input s = (Inr (Replayed r), s') \<Longrightarrow> s' = s \<and> rr_state r = RrNOOP"
  by (auto simp: apply_begin_def split: option.splits if_splits)

lemma apply_finish_ok:
  assumes "zod_documented (rvc_zod cfg)" "apply_begin cfg input s = (Inr (Waiting p), s1)"
  shows "apply_finish cfg p ok t = (Inr (recovery_outcome (handler_settled cfg p ok) p),
    t \<lparr> rv_applied := jm_set (rc_idempotency_key (pd_plan p)) (recovery_outcome (handler_settled cfg p ok) p) (rv_applied t),
      rv_audit := rv_audit t @ [\<lparr> ra_audit_ref = pd_auditRef p, ra_command_id = rc_command_id (pd_plan p),
        ra_actor_ref = (case rai_actorRef input of None \<Rightarrow> rc_actor_ref (pd_plan p) | Some a \<Rightarrow> a), ra_action = rc_action (pd_plan p),
        ra_target_ref = rc_target_ref (pd_plan p), ra_state = (if handler_settled cfg p ok then RrAPPLIED else RrFAILED),
        ra_observed_at = pd_observedAt p \<rparr>] \<rparr>)"
proof -
  note w = apply_begin_Waiting [OF assms(2)]
  have "parseSpatialRecoveryResult (rvc_zod cfg) (recovery_outcome (handler_settled cfg p ok) p)
      = Some (recovery_outcome (handler_settled cfg p ok) p)"
    by (rule recovery_outcome_valid [OF assms(1) w(1) _ w(7)]) (simp add: w(2,4))
  then show ?thesis by (simp add: apply_finish_def Let_def w(2) recovery_outcome_def)
qed

section \<open>Overlapping calls\<close>

text \<open>Calls begin in any order and their handlers settle in any order; the second component holds the calls that wait.\<close>

datatype recovery_event = Begin recovery_apply_input | Settle nat bool

definition recovery_step :: "recovery_config \<Rightarrow> recovery \<times> pending_recovery list \<Rightarrow> recovery_event
    \<Rightarrow> recovery \<times> pending_recovery list" where
  "recovery_step cfg st ev = (case ev of
     Begin input \<Rightarrow> (case apply_begin cfg input (fst st) of
         (Inr (Waiting p), s) \<Rightarrow> (s, snd st @ [p]) | (_, s) \<Rightarrow> (s, snd st))
   | Settle i ok \<Rightarrow> if i < length (snd st)
       then (snd (apply_finish cfg (snd st ! i) ok (fst st)), take i (snd st) @ drop (Suc i) (snd st)) else st)"








section \<open>Calls one after the other\<close>

definition documented :: "recovery_config \<Rightarrow> recovery_config" where
  "documented cfg = (if zod_documented (rvc_zod cfg) then cfg else cfg \<lparr> rvc_zod := zod_ref \<rparr>)"

lemma documented_zod: "zod_documented (rvc_zod (documented cfg))"
  by (simp add: documented_def)

lemma documented_id: "zod_documented (rvc_zod cfg) \<Longrightarrow> documented cfg = cfg"
  by (simp add: documented_def)

definition call_key :: "recovery_apply_input \<times> bool \<Rightarrow> string" where
  "call_key call = js_trim (rc_idempotency_key (rai_plan (fst call)))"

definition executed :: "recovery_result \<Rightarrow> bool" where
  "executed r \<longleftrightarrow> rr_state r \<in> {RrAPPLIED, RrFAILED}"

lemma recovery_apply_cases [consumes 1, case_names Refused Repeated Ran]:
  assumes "zod_documented (rvc_zod cfg)"
  obtains (Refused) e where "recovery_apply cfg call s = (Inl e, s)"
  | (Repeated) r where "recovery_apply cfg call s = (Inr r, s)" "rr_state r = RrNOOP" "jm_has (rv_applied s) (call_key call)"
  | (Ran) p s1 where "apply_begin cfg (fst call) s = (Inr (Waiting p), s1)" "recovery_apply cfg call s = apply_finish cfg p (snd call) s1"
      "\<not> jm_has (rv_applied s) (call_key call)" "rc_idempotency_key (pd_plan p) = call_key call"
      "executed (recovery_outcome (handler_settled cfg p (snd call)) p)"
proof (cases "apply_begin cfg (fst call) s")
  case (Pair r s1)
  show thesis
  proof (cases r)
    case (Inl e)
    with Pair apply_begin_frame(1) have "recovery_apply cfg call s = (Inl e, s)" by (auto simp: recovery_apply_def)
    then show thesis by (rule Refused)
  next
    case (Inr progress)
    show thesis
    proof (cases progress)
      case (Replayed x)
      with Pair Inr have a: "apply_begin cfg (fst call) s = (Inr (Replayed x), s1)" by simp
      then have "jm_has (rv_applied s) (call_key call)"
        by (auto simp: apply_begin_def call_key_def jm_has_def split: option.splits if_splits dest: parsed_command_fields(10))
      with a show thesis using apply_begin_frame(2) [OF a] by (intro Repeated) (auto simp: recovery_apply_def)
    next
      case (Waiting p)
      with Pair Inr have a: "apply_begin cfg (fst call) s = (Inr (Waiting p), s1)" by simp
      note w = apply_begin_Waiting [OF a]
      have k: "rc_idempotency_key (pd_plan p) = call_key call"
        using parsed_command_fields(10) [OF w(1)] by (simp add: call_key_def)
      show thesis
        using a w(3) k by (intro Ran [OF a]) (auto simp: recovery_apply_def jm_has_def executed_def recovery_outcome_def Let_def)
    qed
  qed
qed

interpretation recovery: idempotent_command
  "\<lambda>s call. recovery_apply (documented cfg) call s" call_key "\<lambda>s k. jm_has (rv_applied s) k" executed
proof
  fix s :: recovery and op e s' r k
  note cases = recovery_apply_cases [OF documented_zod, of cfg op s]
  note ok = apply_finish_ok [OF documented_zod]
  show "recovery_apply (documented cfg) op s = (Inl e, s') \<Longrightarrow> s' = s"
    by (cases rule: cases) (auto simp: ok)
  show "recovery_apply (documented cfg) op s = (Inr r, s') \<Longrightarrow> \<not> executed r \<Longrightarrow> s' = s"
    by (cases rule: cases) (auto simp: ok)
  show "jm_has (rv_applied s) (call_key op) \<Longrightarrow> snd (recovery_apply (documented cfg) op s) = s"
    by (cases rule: cases) (auto simp: ok)
  show "recovery_apply (documented cfg) op s = (Inr r, s') \<Longrightarrow> executed r \<Longrightarrow> jm_has (rv_applied s') (call_key op)"
    by (cases rule: cases) (auto simp: ok executed_def)
  show "jm_has (rv_applied s) k \<Longrightarrow> jm_has (rv_applied (snd (recovery_apply (documented cfg) op s))) k"
    by (cases rule: cases) (auto simp: ok dest: apply_begin_Waiting(8))
qed

definition once_inv :: "recovery \<Rightarrow> bool" where
  "once_inv s \<longleftrightarrow> distinct (map rc_idempotency_key (rv_invoked s)) \<and>
     (\<forall>plan \<in> set (rv_invoked s). jm_has (rv_applied s) (rc_idempotency_key plan))"

lemma once_step:
  assumes z: "zod_documented (rvc_zod cfg)" and inv: "once_inv s"
  shows "once_inv (snd (recovery_apply cfg call s))"
  using z
proof (cases rule: recovery_apply_cases [where call = call and s = s])
  case (Ran p s1)
  note w = apply_begin_Waiting [OF Ran(1)]
  show ?thesis
    using inv Ran(2,3) w(8) apply_finish_ok [OF z Ran(1)] Ran(4) by (auto simp: once_inv_def split: if_splits)
qed (use inv in auto)

lemma once_run:
  "zod_documented (rvc_zod cfg) \<Longrightarrow> once_inv s \<Longrightarrow> once_inv (run (\<lambda>s call. snd (recovery_apply cfg call s)) s calls)"
  by (induction calls arbitrary: s) (auto intro: once_step)

section \<open>What the recovery commands guarantee\<close>


text \<open>
  As long as each call returns before the next begins, the handler is called at most once per idempotency key over
  any sequence of calls, and a call repeated after it ran changes nothing.
\<close>
theorem recovery_runs_once_per_key:
  assumes "zod_documented (rvc_zod cfg)"
  shows "distinct (map rc_idempotency_key (rv_invoked (run (\<lambda>s call. snd (recovery_apply cfg call s)) empty_recovery calls))) \<and>
    (\<forall>s call r later. fst (recovery_apply cfg call s) = Inr r \<and> rr_state r \<in> {RrAPPLIED, RrFAILED} \<longrightarrow>
       run (\<lambda>s call. snd (recovery_apply cfg call s)) (snd (recovery_apply cfg call s)) (later @ [call]) =
       run (\<lambda>s call. snd (recovery_apply cfg call s)) (snd (recovery_apply cfg call s)) later)"
proof (intro conjI allI impI)
  have "once_inv empty_recovery" by (simp add: once_inv_def empty_recovery_def)
  then show "distinct (map rc_idempotency_key (rv_invoked (run (\<lambda>s call. snd (recovery_apply cfg call s)) empty_recovery calls)))"
    using once_run [OF assms] by (simp add: once_inv_def)
next
  fix s call r later
  assume "fst (recovery_apply cfg call s) = Inr r \<and> rr_state r \<in> {RrAPPLIED, RrFAILED}"
  then show "run (\<lambda>s call. snd (recovery_apply cfg call s)) (snd (recovery_apply cfg call s)) (later @ [call]) =
      run (\<lambda>s call. snd (recovery_apply cfg call s)) (snd (recovery_apply cfg call s)) later"
    using recovery.at_most_once [of cfg call s r later] by (simp add: documented_id [OF assms] executed_def)
qed

text \<open>
  (C28) A plan can be carried out: the command \<open>plan\<close> returns, applied at the revision it was made for by an operator who
  holds the capability of its action and confirms, under a key not used yet, runs the registered handler once and
  returns its outcome under the command's identifier; \<open>apply\<close> never refuses it and never throws after the handler ran.
\<close>
theorem recovery_plan_can_be_applied:
  assumes "zod_documented (rvc_zod cfg)" and "recovery_plan cfg input s0 = (Inr plan, s1)"
    and "\<not> jm_has (rv_applied s) (rc_idempotency_key plan)"
    and "cq_capability (CONSEQUENCES (rpi_action input)) \<in> set capabilities"
  shows "\<exists>r s'. recovery_apply cfg (\<lparr> rai_plan = plan, rai_currentRevision = rpi_currentRevision input,
        rai_capabilities = capabilities, rai_confirmed = True, rai_actorRef = actor \<rparr>, ok) s = (Inr r, s') \<and>
      rr_state r = (if ok \<or> \<not> rvc_registered cfg (rpi_action input) then RrAPPLIED else RrFAILED) \<and>
      rr_command_id r = rc_command_id plan \<and> rr_action r = rpi_action input \<and>
      rv_invoked s' = rv_invoked s @ (if rvc_registered cfg (rpi_action input) then [plan] else []) \<and>
      jm_get (rv_applied s') (rc_idempotency_key plan) = Some r"
proof -
  obtain c where c: "parseSpatialRecoveryCommand (rvc_zod cfg) c = Some plan" "rc_action c = rpi_action input"
    "rc_requested_revision c = rpi_currentRevision input" "rc_capability c = cq_capability (CONSEQUENCES (rpi_action input))"
    using assms(2) by (fastforce simp: recovery_plan_def Let_def seqO_Inr recovery_candidate_def split: if_splits option.splits)
  note f = parsed_command_fields [OF c(1)]
  have p: "parseSpatialRecoveryCommand (rvc_zod cfg) plan = Some plan"
    by (rule normalisingD [OF parseSpatialRecoveryCommand_normalising c(1)])
  have cap: "js_toLowerCase (rc_capability plan) \<in> normalizeCapabilities capabilities"
    using assms(4) f(9) c(4) by (cases "rpi_action input")
      (auto simp: normalizeCapabilities_def js_trim_def js_space_def image_iff js_toLowerCase_def js_lower_char_def intro!: bexI)
  let ?in = "\<lparr> rai_plan = plan, rai_currentRevision = rpi_currentRevision input,
        rai_capabilities = capabilities, rai_confirmed = True, rai_actorRef = actor \<rparr>"
  obtain pd s1' where b: "apply_begin cfg ?in s = (Inr (Waiting pd), s1')"
    using p cap assms(3) f(8) c(3) by (simp add: apply_begin_def jm_has_def)
  note w = apply_begin_Waiting [OF b]
  have plan: "pd_plan pd = plan" using w(1) p by simp
  show ?thesis
    using b w(8) f(6) c(2) by (auto simp: recovery_apply_def apply_finish_ok [OF assms(1) b] plan recovery_outcome_def handler_settled_def)
qed

text \<open>
  Showing a status row in the Workspace never fails and never changes the registry; it asks for focus exactly when
  the request is for the registry's own Workspace and Node, the reference is registered and available, and the request
  is neither stale nor known to have no spatial representation, and then under the registered canonical reference.
\<close>
theorem focus_only_existing_references:
  "snd (showInWorkspace opts req r) = r \<and> \<not> isl (fst (showInWorkspace opts req r)) \<and>
   (fst (showInWorkspace opts req r) = Inr (FOCUS_EXISTING ref) \<longleftrightarrow>
      br_workspaceId req = rgo_workspaceId opts \<and> br_nodeId req = rgo_nodeId opts \<and> \<not> br_stale req \<and>
      br_hasSpatialRepresentation req \<noteq> Some False \<and>
      (\<exists>c. jm_get (rg_records r) (recordKey opts (js_trim (br_canonicalRef req))) = Some c \<and>
        cr_state c = RefAVAILABLE \<and> cr_canonical_ref c = ref))"
  by (auto simp: showInWorkspace_def resolveInScope_def resolve_def jm_has_def split: option.splits)

section \<open>What the checks do not cover\<close>

text \<open>
  \<open>apply\<close> takes capability and confirmation from the plan it is given, and nothing ties the plan to \<open>CONSEQUENCES\<close> or to
  its own hash: with these two fields rewritten, any command runs for an operator with an unrelated capability and
  without confirmation.
\<close>

lemma rewritten_plan_runs:
  assumes "zod_documented (rvc_zod cfg)" "parseSpatialRecoveryCommand (rvc_zod cfg) plan = Some plan"
    and "\<not> jm_has (rv_applied s) (rc_idempotency_key plan)" "rvc_registered cfg (rc_action plan)"
    and "idSchema (rvc_zod cfg) capability = Some capability" "js_toLowerCase capability = capability"
  shows "\<exists>r s'. recovery_apply cfg (\<lparr> rai_plan = plan \<lparr> rc_capability := capability, rc_requires_confirmation := False \<rparr>,
        rai_currentRevision = rc_requested_revision plan, rai_capabilities = [capability], rai_confirmed = False, rai_actorRef = None \<rparr>, True) s
      = (Inr r, s') \<and> rr_state r = RrAPPLIED \<and> length (rv_invoked s') = length (rv_invoked s) + 1"
proof -
  let ?plan = "plan \<lparr> rc_capability := capability, rc_requires_confirmation := False \<rparr>"
  let ?in = "\<lparr> rai_plan = ?plan, rai_currentRevision = rc_requested_revision plan, rai_capabilities = [capability],
    rai_confirmed = False, rai_actorRef = None \<rparr>"
  have p: "parseSpatialRecoveryCommand (rvc_zod cfg) ?plan = Some ?plan"
    using assms(2,5) by (cases plan) (auto simp: parseSpatialRecoveryCommand_def bind_eq_Some_conv)
  have "js_trim capability = capability" "capability \<noteq> []"
    using assms(1,5) idSchema_trim idSchema_nonempty by metis+
  then have cap: "js_toLowerCase capability \<in> normalizeCapabilities [capability]"
    using assms(6) by (simp add: normalizeCapabilities_def)
  obtain pd s1 where b: "apply_begin cfg ?in s = (Inr (Waiting pd), s1)"
    using p cap assms(3) by (simp add: apply_begin_def jm_has_def)
  note w = apply_begin_Waiting [OF b]
  have "pd_plan pd = ?plan" using w(1) p by simp
  then show ?thesis
    using b w(8) assms(4) by (auto simp: recovery_apply_def apply_finish_ok [OF assms(1) b] recovery_outcome_def handler_settled_def)
qed

text \<open>
  A failed run is recorded under its key like a successful one: the same plan sent again answers \<open>NOOP\<close> and the action
  is not tried again.
\<close>

lemma failed_action_not_retried:
  assumes "jm_get (rv_applied s) (js_trim (rc_idempotency_key (rai_plan input))) = Some r" "rr_state r = RrFAILED"
    and "parseSpatialRecoveryCommand (rvc_zod cfg) (rai_plan input) = Some plan"
  shows "recovery_apply cfg (input, ok) s =
    (Inr (r \<lparr> rr_state := RrNOOP, rr_message := Some ''Idempotent replay; the prior result is authoritative.'' \<rparr>), s)"
  using assms parsed_command_fields(10) [OF assms(3)] by (simp add: recovery_apply_def apply_begin_def)

text \<open>Two calls that overlap both pass the check of the key: the handler runs twice and both runs are audited.\<close>

definition ex_recovery_config :: recovery_config where
  "ex_recovery_config = \<lparr> rvc_zod = zod_ref, rvc_clock = (\<lambda>n. 1000 + int n), rvc_registered = (\<lambda>_. True) \<rparr>"

definition ex_plan_input :: recovery_plan_input where
  "ex_plan_input = \<lparr> rpi_nodeId = ''n'', rpi_targetRef = ''hook:1'', rpi_action = DISABLE_HOOK, rpi_currentRevision = 7,
     rpi_actorRef = None, rpi_idempotencyKey = Some ''k'', rpi_now = None \<rparr>"

definition ex_plan :: recovery_command where
  "ex_plan = \<lparr> rc_command_id = ''c'', rc_node_id = ''n'', rc_target_ref = ''h'', rc_action = DISABLE_HOOK, rc_requested_revision = 7,
     rc_plan_hash = ''p'', rc_actor_ref = ''o'', rc_capability = ''hook'', rc_consequence = ''q'', rc_requires_confirmation = True,
     rc_confirmation = False, rc_created_at = 1, rc_idempotency_key = ''k'' \<rparr>"

definition ex_apply :: recovery_apply_input where
  "ex_apply = \<lparr> rai_plan = ex_plan, rai_currentRevision = 7, rai_capabilities = ['' Hook''], rai_confirmed = True,
     rai_actorRef = None \<rparr>"

lemma overlapping_calls_run_twice:
  "map rc_idempotency_key (rv_invoked (fst (run (recovery_step ex_recovery_config) (empty_recovery, [])
     [Begin ex_apply, Begin ex_apply, Settle 0 True, Settle 0 True]))) = [''k'', ''k'']"
  by code_simp

text \<open>An action nobody registered a handler for is reported as applied.\<close>

lemma unhandled_action_reported_applied:
  "rr_state (projr (fst (recovery_apply (ex_recovery_config \<lparr> rvc_registered := (\<lambda>_. False) \<rparr>) (ex_apply, True) empty_recovery))) = RrAPPLIED \<and>
   rv_invoked (snd (recovery_apply (ex_recovery_config \<lparr> rvc_registered := (\<lambda>_. False) \<rparr>) (ex_apply, True) empty_recovery)) = []"
  by code_simp

section \<open>Examples\<close>

lemma ex_recovery_documented [simp]: "zod_documented (rvc_zod ex_recovery_config)"
  by (simp add: ex_recovery_config_def)


theorem recovery_runs_once_per_key_witness:
  "zod_documented (rvc_zod ex_recovery_config) \<and>
   length (rv_invoked (run (\<lambda>s call. snd (recovery_apply ex_recovery_config call s)) empty_recovery [(ex_apply, False), (ex_apply, True)])) = 1 \<and>
   distinct (map rc_idempotency_key (rv_invoked (run (\<lambda>s call. snd (recovery_apply ex_recovery_config call s)) empty_recovery
     [(ex_apply, False), (ex_apply, True)])))"
proof -
  have "length (rv_invoked (run (\<lambda>s call. snd (recovery_apply ex_recovery_config call s)) empty_recovery [(ex_apply, False), (ex_apply, True)])) = 1"
    by code_simp
  then show ?thesis
    using ex_recovery_documented conjunct1 [OF recovery_runs_once_per_key [OF ex_recovery_documented]] by blast
qed

theorem recovery_plan_can_be_applied_witness:
  "\<exists>plan s1 r s'. recovery_plan ex_recovery_config ex_plan_input empty_recovery = (Inr plan, s1) \<and>
     recovery_apply ex_recovery_config (\<lparr> rai_plan = plan, rai_currentRevision = 7,
       rai_capabilities = [''recovery.disable-hook''], rai_confirmed = True, rai_actorRef = None \<rparr>, False) empty_recovery = (Inr r, s') \<and>
     rr_state r = RrFAILED"
proof -
  have "\<not> isl (fst (recovery_plan ex_recovery_config ex_plan_input empty_recovery))" by code_simp
  then obtain plan s1 where p: "recovery_plan ex_recovery_config ex_plan_input empty_recovery = (Inr plan, s1)"
    by (metis outcome_ok)
  have "\<not> jm_has (rv_applied empty_recovery) (rc_idempotency_key plan)" by (simp add: empty_recovery_def jm_has_def)
  moreover have "cq_capability (CONSEQUENCES (rpi_action ex_plan_input)) \<in> set [''recovery.disable-hook'']" by (simp add: ex_plan_input_def)
  moreover have "rpi_currentRevision ex_plan_input = 7" "rpi_action ex_plan_input = DISABLE_HOOK" "rvc_registered ex_recovery_config DISABLE_HOOK"
    by (simp_all add: ex_plan_input_def ex_recovery_config_def)
  ultimately show ?thesis
    using recovery_plan_can_be_applied [OF ex_recovery_documented p, of empty_recovery "[''recovery.disable-hook'']" None False] p by auto
qed

end
