(* ===== verification/Authorization.thy ===== *)
theory Authorization
  imports Contracts "HOL-Library.Sublist"
begin

text \<open>
  Authorization decisions, payload redaction and the audit trail of \<open>spatial/hardening/authorization.ts\<close>, with the two
  contracts they parse.

  Revision numbers are integers, on which \<open>Math.trunc\<close> is the identity. A clock option of the services returns a
  text: \<open>Date.parse\<close> is a parameter, and a text it rejects makes \<open>isoNow\<close> read the browser clock, a stream of its own.
  Identifier factories are streams of which the state counts the readings. An ES \<open>Set\<close> of capabilities is a set.
\<close>

section \<open>Contracts\<close>

datatype authorization_decision = ALLOW | DENY | STALE_DECISION | REDACTED_DECISION

datatype audit_result = AACCEPTED | AREJECTED | AAPPLIED | AFAILED | APARTIAL | AROLLED_BACK

record decision_record =
  dc_decision_id :: string
  dc_workspace_id :: string
  dc_node_id :: string
  dc_actor_ref :: string
  dc_target_ref :: string
  dc_action_id :: string
  dc_required_capabilities :: "string list"
  dc_granted_capabilities :: "string list"
  dc_decision :: authorization_decision
  dc_reason_code :: string
  dc_target_revision :: int
  dc_current_revision :: int
  dc_correlation_id :: "string option"
  dc_created_at :: timestamp

definition parseSpatialAuthorizationDecision :: "zod \<Rightarrow> decision_record \<Rightarrow> decision_record option" where
  "parseSpatialAuthorizationDecision z d = do {
     did \<leftarrow> idSchema z (dc_decision_id d);
     workspace \<leftarrow> idSchema z (dc_workspace_id d);
     node \<leftarrow> idSchema z (dc_node_id d);
     actor \<leftarrow> idSchema z (dc_actor_ref d);
     tgt \<leftarrow> idSchema z (dc_target_ref d);
     action \<leftarrow> idSchema z (dc_action_id d);
     required \<leftarrow> arrayMax z 128 (idSchema z) (dc_required_capabilities d);
     granted \<leftarrow> arrayMax z 128 (idSchema z) (dc_granted_capabilities d);
     reason \<leftarrow> idSchema z (dc_reason_code d);
     target_revision \<leftarrow> revisionSchema z (dc_target_revision d);
     current_revision \<leftarrow> revisionSchema z (dc_current_revision d);
     correlation \<leftarrow> nullable (idSchema z) (dc_correlation_id d);
     Some (d \<lparr> dc_decision_id := did, dc_workspace_id := workspace, dc_node_id := node, dc_actor_ref := actor,
       dc_target_ref := tgt, dc_action_id := action, dc_required_capabilities := required, dc_granted_capabilities := granted,
       dc_reason_code := reason, dc_target_revision := target_revision, dc_current_revision := current_revision,
       dc_correlation_id := correlation \<rparr>) }"

record audit_record =
  au_audit_id :: string
  au_workspace_id :: string
  au_node_id :: string
  au_actor_ref :: string
  au_target_ref :: string
  au_target_type :: string
  au_action_id :: string
  au_decision :: authorization_decision
  au_result :: audit_result
  au_target_revision :: "int option"
  au_resulting_revision :: "int option"
  au_idempotency_key :: string
  au_correlation_id :: "string option"
  au_redacted_fields :: "string list"
  au_evidence_refs :: "string list"
  au_occurred_at :: timestamp

definition parseSpatialAuditRecord :: "zod \<Rightarrow> audit_record \<Rightarrow> audit_record option" where
  "parseSpatialAuditRecord z a = do {
     aid \<leftarrow> idSchema z (au_audit_id a);
     workspace \<leftarrow> idSchema z (au_workspace_id a);
     node \<leftarrow> idSchema z (au_node_id a);
     actor \<leftarrow> idSchema z (au_actor_ref a);
     tgt \<leftarrow> idSchema z (au_target_ref a);
     ttype \<leftarrow> idSchema z (au_target_type a);
     action \<leftarrow> idSchema z (au_action_id a);
     target_revision \<leftarrow> nullable (revisionSchema z) (au_target_revision a);
     resulting_revision \<leftarrow> nullable (revisionSchema z) (au_resulting_revision a);
     key \<leftarrow> idSchema z (au_idempotency_key a);
     correlation \<leftarrow> nullable (idSchema z) (au_correlation_id a);
     redacted \<leftarrow> arrayMax z 256 (idSchema z) (au_redacted_fields a);
     evidence \<leftarrow> arrayMax z 256 (idSchema z) (au_evidence_refs a);
     Some (a \<lparr> au_audit_id := aid, au_workspace_id := workspace, au_node_id := node, au_actor_ref := actor, au_target_ref := tgt,
       au_target_type := ttype, au_action_id := action, au_target_revision := target_revision,
       au_resulting_revision := resulting_revision, au_idempotency_key := key, au_correlation_id := correlation,
       au_redacted_fields := redacted, au_evidence_refs := evidence \<rparr>) }"

section \<open>Clocks and sets\<close>

record hardening_config =
  hc_zod :: zod
  hc_now :: "nat \<Rightarrow> string"
  hc_browserClock :: "nat \<Rightarrow> timestamp"
  hc_dateParse :: "string \<Rightarrow> timestamp option"
  hc_idFactory :: "string \<Rightarrow> nat \<Rightarrow> string"

text \<open>How often the clocks and the identifier factory have been read.\<close>

record readings =
  rd_now :: nat
  rd_browser :: nat
  rd_ids :: nat

definition browser_now :: "hardening_config \<Rightarrow> readings \<Rightarrow> timestamp \<times> readings" where
  "browser_now cfg n = (hc_browserClock cfg (rd_browser n), n \<lparr> rd_browser := rd_browser n + 1 \<rparr>)"

definition auth_isoNow :: "hardening_config \<Rightarrow> date_input option \<Rightarrow> readings \<Rightarrow> timestamp \<times> readings" where
  "auth_isoNow cfg v n = (case v of
     Some (DateValue d) \<Rightarrow> (d, n)
   | Some (DateText s) \<Rightarrow> (case hc_dateParse cfg s of Some d \<Rightarrow> (d, n) | None \<Rightarrow> browser_now cfg n)
   | None \<Rightarrow> browser_now cfg n)"

definition unique :: "string list \<Rightarrow> string list" where
  "unique vs = js_uniq (filter (\<lambda>v. v \<noteq> []) (map js_trim vs))"

definition capabilitySet :: "string list \<Rightarrow> string set" where
  "capabilitySet vs = set (unique vs)"

section \<open>Authorization\<close>

datatype hardening_error = InvalidDecision | InvalidAuditRecord | SensitivePayload "string list"

record authorization_request =
  rq_workspaceId :: string
  rq_nodeId :: string
  rq_actorRef :: string
  rq_targetRef :: string
  rq_actionId :: string
  rq_requiredCapabilities :: "string list"
  rq_grantedCapabilities :: "string list"
  rq_targetRevision :: int
  rq_currentRevision :: "int option"
  rq_correlationId :: "string option"
  rq_now :: "date_input option"

record authorization_service =
  sv_workspaceId :: string
  sv_nodeId :: string
  sv_currentRevision :: "int option"
  sv_revoked :: "(string, string set) jsmap"
  sv_readings :: readings

definition no_readings :: readings where
  "no_readings = \<lparr> rd_now = 0, rd_browser = 0, rd_ids = 0 \<rparr>"

definition createAuthorizationService ::
  "string \<Rightarrow> string \<Rightarrow> int option \<Rightarrow> (string \<times> string list) list \<Rightarrow> authorization_service" where
  "createAuthorizationService workspaceId nodeId currentRevision revoked = \<lparr> sv_workspaceId = workspaceId, sv_nodeId = nodeId,
     sv_currentRevision = currentRevision,
     sv_revoked = fold (\<lambda>(actor, caps). jm_set actor (capabilitySet caps)) revoked [], sv_readings = no_readings \<rparr>"

definition revoked_for :: "authorization_service \<Rightarrow> string \<Rightarrow> string set" where
  "revoked_for s actorRef = (case jm_get (sv_revoked s) actorRef of None \<Rightarrow> {} | Some r \<Rightarrow> r)"

definition auth_revoke :: "string \<Rightarrow> string list \<Rightarrow> authorization_service \<Rightarrow> authorization_service" where
  "auth_revoke actorRef caps s =
     s \<lparr> sv_revoked := jm_set actorRef (revoked_for s actorRef \<union> js_trim ` set caps) (sv_revoked s) \<rparr>"

definition clearRevocation :: "string \<Rightarrow> string list \<Rightarrow> authorization_service \<Rightarrow> authorization_service" where
  "clearRevocation actorRef caps s =
     (if caps = [] then s \<lparr> sv_revoked := jm_delete actorRef (sv_revoked s) \<rparr>
      else case jm_get (sv_revoked s) actorRef of
        None \<Rightarrow> s
      | Some r \<Rightarrow> let r' = r - js_trim ` set caps in
          s \<lparr> sv_revoked := (if r' = {} then jm_delete actorRef (sv_revoked s) else jm_set actorRef r' (sv_revoked s)) \<rparr>)"

definition auth_target_revision :: "authorization_request \<Rightarrow> int" where
  "auth_target_revision rq = max 0 (rq_targetRevision rq)"

definition auth_current_revision :: "authorization_service \<Rightarrow> authorization_request \<Rightarrow> int" where
  "auth_current_revision s rq = max 0 (case rq_currentRevision rq of Some r \<Rightarrow> r
     | None \<Rightarrow> (case sv_currentRevision s of Some r \<Rightarrow> r | None \<Rightarrow> auth_target_revision rq))"

definition auth_granted :: "authorization_service \<Rightarrow> authorization_request \<Rightarrow> string list" where
  "auth_granted s rq = filter (\<lambda>c. c \<notin> revoked_for s (rq_actorRef rq)) (unique (rq_grantedCapabilities rq))"

definition auth_missing :: "authorization_service \<Rightarrow> authorization_request \<Rightarrow> string list" where
  "auth_missing s rq = filter (\<lambda>c. c \<notin> capabilitySet (auth_granted s rq)) (unique (rq_requiredCapabilities rq))"

definition decide :: "authorization_service \<Rightarrow> authorization_request \<Rightarrow> authorization_decision \<times> string" where
  "decide s rq =
     (if rq_workspaceId rq \<noteq> sv_workspaceId s \<or> rq_nodeId rq \<noteq> sv_nodeId s then (DENY, ''SCOPE_MISMATCH'')
      else if auth_target_revision rq \<noteq> auth_current_revision s rq then (STALE_DECISION, ''STALE_REVISION'')
      else if auth_missing s rq \<noteq> [] then
        (DENY, if list_ex (\<lambda>c. c \<in> revoked_for s (rq_actorRef rq)) (unique (rq_requiredCapabilities rq))
               then ''CAPABILITY_REVOKED'' else ''MISSING_CAPABILITY'')
      else (ALLOW, ''CAPABILITIES_GRANTED''))"

text \<open>The service clock is read only when the request carries no time.\<close>

definition authorize :: "hardening_config \<Rightarrow> authorization_request \<Rightarrow> authorization_service
    \<Rightarrow> (hardening_error, decision_record \<times> bool, authorization_service) outcome" where
  "authorize cfg rq s =
     (let n0 = sv_readings s; did = hc_idFactory cfg ''decision'' (rd_ids n0); n1 = n0 \<lparr> rd_ids := rd_ids n0 + 1 \<rparr>;
          (time, n2) = (case rq_now rq of
              Some t \<Rightarrow> auth_isoNow cfg (Some t) n1
            | None \<Rightarrow> auth_isoNow cfg (Some (DateText (hc_now cfg (rd_now n1)))) (n1 \<lparr> rd_now := rd_now n1 + 1 \<rparr>));
          s1 = s \<lparr> sv_readings := n2 \<rparr>
      in case parseSpatialAuthorizationDecision (hc_zod cfg) \<lparr> dc_decision_id = did, dc_workspace_id = rq_workspaceId rq,
          dc_node_id = rq_nodeId rq, dc_actor_ref = rq_actorRef rq, dc_target_ref = rq_targetRef rq, dc_action_id = rq_actionId rq,
          dc_required_capabilities = unique (rq_requiredCapabilities rq), dc_granted_capabilities = auth_granted s rq,
          dc_decision = fst (decide s rq), dc_reason_code = snd (decide s rq), dc_target_revision = auth_target_revision rq,
          dc_current_revision = auth_current_revision s rq, dc_correlation_id = rq_correlationId rq, dc_created_at = time \<rparr> of
        None \<Rightarrow> throw InvalidDecision s1
      | Some d \<Rightarrow> return (d, dc_decision d = ALLOW) s1)"

section \<open>Redaction\<close>

definition SENSITIVE_AUDIT_KEYS :: "string list" where
  "SENSITIVE_AUDIT_KEYS = [''secret'', ''token'', ''password'', ''credential'', ''private_key'', ''prompt'', ''transcript'', ''content'']"

definition isSensitiveKey :: "string \<Rightarrow> bool" where
  "isSensitiveKey k = (let normalized = map (\<lambda>c. if c = CHR ''-'' \<or> js_space c then CHR ''_'' else c) (js_toLowerCase k) in
     list_ex (\<lambda>candidate. sublist candidate normalized) SENSITIVE_AUDIT_KEYS)"

definition child_path :: "string \<Rightarrow> string \<Rightarrow> string" where
  "child_path path key = (if path = [] then key else path @ ''.'' @ key)"

text \<open>The paths are collected in the order of the visit.\<close>

definition merge_redaction :: "'a \<times> string list \<Rightarrow> 'a list \<times> string list \<Rightarrow> 'a list \<times> string list" where
  "merge_redaction r rs = (fst r # fst rs, snd r @ snd rs)"

fun redact_visit :: "string \<Rightarrow> json \<Rightarrow> json \<times> string list"
  and redact_items :: "string \<Rightarrow> int \<Rightarrow> json list \<Rightarrow> json list \<times> string list"
  and redact_entries :: "string \<Rightarrow> (string \<times> json) list \<Rightarrow> (string \<times> json) list \<times> string list" where
  "redact_visit path (JArr xs) = map_prod JArr id (redact_items path 0 xs)"
| "redact_visit path (JObj kvs) = map_prod JObj id (redact_entries path kvs)"
| "redact_visit path v = (v, [])"
| "redact_items path i [] = ([], [])"
| "redact_items path i (x # xs) = merge_redaction (redact_visit (path @ ''['' @ show_int i @ '']'') x) (redact_items path (i + 1) xs)"
| "redact_entries path [] = ([], [])"
| "redact_entries path ((k, v) # kvs) = merge_redaction (map_prod (Pair k) id
     (if isSensitiveKey k then (JStr ''[REDACTED]'', [child_path path k]) else redact_visit (child_path path k) v))
     (redact_entries path kvs)"

definition redactSensitiveKeys :: "json \<Rightarrow> string \<Rightarrow> json \<times> string list" where
  "redactSensitiveKeys v path = redact_visit path v"

definition assertNoSensitivePayload :: "json \<Rightarrow> hardening_error + unit" where
  "assertNoSensitivePayload v = (let fields = snd (redactSensitiveKeys v []) in
     if fields \<noteq> [] then Inl (SensitivePayload fields) else Inr ())"

section \<open>The audit trail\<close>

record audit_input =
  ai_auditId :: "string option"
  ai_workspace_id :: string
  ai_node_id :: string
  ai_actor_ref :: string
  ai_target_ref :: string
  ai_target_type :: string
  ai_action_id :: string
  ai_decision :: authorization_decision
  ai_result :: audit_result
  ai_target_revision :: "int option"
  ai_resulting_revision :: "int option"
  ai_idempotency_key :: string
  ai_correlation_id :: "string option"
  ai_redacted_fields :: "string list"
  ai_evidence_refs :: "string list"
  ai_occurredAt :: "date_input option"

record audit_service =
  as_retentionMs :: int
  as_records :: "(string, audit_record) jsmap"
  as_idempotency :: "(string, string) jsmap"
  as_readings :: readings

definition createAuditService :: "int option \<Rightarrow> audit_service" where
  "createAuditService retentionMs = \<lparr> as_retentionMs = max 0 (case retentionMs of None \<Rightarrow> 2592000000 | Some r \<Rightarrow> r),
     as_records = [], as_idempotency = [], as_readings = no_readings \<rparr>"

text \<open>The time of a record, as the contract reads it: an unparseable text is rejected with the record.\<close>

definition contract_time :: "hardening_config \<Rightarrow> date_input \<Rightarrow> timestamp option" where
  "contract_time cfg v = (case v of DateValue d \<Rightarrow> Some d | DateText s \<Rightarrow> hc_dateParse cfg s)"

definition audit_candidate :: "audit_input \<Rightarrow> string \<Rightarrow> timestamp \<Rightarrow> audit_record" where
  "audit_candidate input auditId time = \<lparr> au_audit_id = auditId, au_workspace_id = ai_workspace_id input, au_node_id = ai_node_id input,
     au_actor_ref = ai_actor_ref input, au_target_ref = ai_target_ref input, au_target_type = ai_target_type input,
     au_action_id = ai_action_id input, au_decision = ai_decision input, au_result = ai_result input,
     au_target_revision = ai_target_revision input, au_resulting_revision = ai_resulting_revision input,
     au_idempotency_key = ai_idempotency_key input, au_correlation_id = ai_correlation_id input,
     au_redacted_fields = unique (ai_redacted_fields input), au_evidence_refs = unique (ai_evidence_refs input),
     au_occurred_at = time \<rparr>"

definition store_audit :: "audit_record \<Rightarrow> audit_service \<Rightarrow> audit_service" where
  "store_audit a s = s \<lparr> as_records := jm_set (au_audit_id a) a (as_records s),
     as_idempotency := jm_set (au_idempotency_key a) (au_audit_id a) (as_idempotency s) \<rparr>"

definition audit_id_read :: "hardening_config \<Rightarrow> audit_input \<Rightarrow> readings \<Rightarrow> string \<times> readings" where
  "audit_id_read cfg input n = (case ai_auditId input of Some i \<Rightarrow> (i, n)
     | None \<Rightarrow> (hc_idFactory cfg ''audit'' (rd_ids n), n \<lparr> rd_ids := rd_ids n + 1 \<rparr>))"

definition audit_time_read :: "hardening_config \<Rightarrow> audit_input \<Rightarrow> readings \<Rightarrow> date_input \<times> readings" where
  "audit_time_read cfg input n = (case ai_occurredAt input of Some t \<Rightarrow> (t, n)
     | None \<Rightarrow> (DateText (hc_now cfg (rd_now n)), n \<lparr> rd_now := rd_now n + 1 \<rparr>))"

text \<open>
  A repeated key returns \<open>records.get(existingId)\<close>, which is \<open>undefined\<close> when that record is gone: the result is an
  option. An identifier in the map is never empty, so the test of \<open>existingId\<close> is the test of its presence.
\<close>

definition audit_append :: "hardening_config \<Rightarrow> audit_input \<Rightarrow> audit_service
    \<Rightarrow> (hardening_error, audit_record option, audit_service) outcome" where
  "audit_append cfg input s = (case jm_get (as_idempotency s) (ai_idempotency_key input) of
     Some existingId \<Rightarrow> return (jm_get (as_records s) existingId) s
   | None \<Rightarrow>
       (let (auditId, n1) = audit_id_read cfg input (as_readings s); (time, n2) = audit_time_read cfg input n1;
            s1 = s \<lparr> as_readings := n2 \<rparr>
        in case Option.bind (contract_time cfg time) (\<lambda>t. parseSpatialAuditRecord (hc_zod cfg) (audit_candidate input auditId t)) of
             None \<Rightarrow> throw InvalidAuditRecord s1
           | Some a \<Rightarrow> return (Some a) (store_audit a s1)))"

record decision_options =
  do_idempotencyKey :: string
  do_targetType :: "string option"
  do_evidenceRefs :: "string list"
  do_resultingRevision :: "int option"

definition decision_input :: "decision_record \<Rightarrow> audit_result option \<Rightarrow> decision_options option \<Rightarrow> audit_input" where
  "decision_input d result options =
     (let opts = (case options of Some x \<Rightarrow> x | None \<Rightarrow> \<lparr> do_idempotencyKey = dc_decision_id d, do_targetType = None,
            do_evidenceRefs = [], do_resultingRevision = None \<rparr>)
      in \<lparr> ai_auditId = None, ai_workspace_id = dc_workspace_id d, ai_node_id = dc_node_id d, ai_actor_ref = dc_actor_ref d,
           ai_target_ref = dc_target_ref d, ai_target_type = (case do_targetType opts of None \<Rightarrow> ''resource'' | Some t \<Rightarrow> t),
           ai_action_id = dc_action_id d, ai_decision = dc_decision d,
           ai_result = (case result of Some r \<Rightarrow> r | None \<Rightarrow> if dc_decision d = ALLOW then AACCEPTED else AREJECTED),
           ai_target_revision = Some (dc_target_revision d), ai_resulting_revision = do_resultingRevision opts,
           ai_idempotency_key = do_idempotencyKey opts, ai_correlation_id = dc_correlation_id d,
           ai_redacted_fields = [], ai_evidence_refs = do_evidenceRefs opts, ai_occurredAt = None \<rparr>)"

definition recordDecision :: "hardening_config \<Rightarrow> decision_record \<Rightarrow> audit_result option \<Rightarrow> decision_options option
    \<Rightarrow> audit_service \<Rightarrow> (hardening_error, audit_record option, audit_service) outcome" where
  "recordDecision cfg d result options s = audit_append cfg (decision_input d result options) s"

text \<open>The sort is stable and orders ISO texts, which is the order of the times they denote.\<close>

definition audit_list :: "audit_service \<Rightarrow> audit_record list" where
  "audit_list s = sort_key au_occurred_at (jm_values (as_records s))"

text \<open>With an unparseable time the cutoff is \<open>NaN\<close> and nothing is older than it.\<close>

definition purge_one :: "timestamp \<Rightarrow> string \<times> audit_record \<Rightarrow> audit_service \<times> int \<Rightarrow> audit_service \<times> int" where
  "purge_one cutoff = (\<lambda>(aid, a) (s, removed).
     if au_occurred_at a < cutoff then (s \<lparr> as_records := jm_delete aid (as_records s),
       as_idempotency := jm_delete (au_idempotency_key a) (as_idempotency s) \<rparr>, removed + 1)
     else (s, removed))"

definition purgeExpired :: "hardening_config \<Rightarrow> string option \<Rightarrow> audit_service \<Rightarrow> int \<times> audit_service" where
  "purgeExpired cfg now s =
     (let (text, s1) = (case now of Some t \<Rightarrow> (t, s)
            | None \<Rightarrow> (hc_now cfg (rd_now (as_readings s)), s \<lparr> as_readings := (as_readings s) \<lparr> rd_now := rd_now (as_readings s) + 1 \<rparr> \<rparr>))
      in case hc_dateParse cfg text of
           None \<Rightarrow> (0, s1)
         | Some t \<Rightarrow> (case fold (purge_one (t - as_retentionMs s1)) (as_records s1) (s1, 0) of (s2, removed) \<Rightarrow> (removed, s2)))"

end
