(* ===== verification/Hardening.thy ===== *)
theory Hardening
  imports Authorization
begin

text \<open>
  Three services of \<open>spatial/hardening\<close>: \<open>SpatialReliabilityController\<close> (\<open>reliability.ts\<close>),
  \<open>SpatialPrivacyLifecycleService\<close> (\<open>privacy.ts\<close>) and \<open>BoundedSpatialTelemetry\<close> (\<open>observability.ts\<close>), with the
  contracts they parse. Clocks, \<open>Date.parse\<close> and identifier factories are as in \<open>Authorization\<close>. The names of the safety
  invariants and of the metrics are closed unions, so the record keys and names always satisfy \<open>idSchema\<close>; metric values
  are integers.
\<close>

section \<open>Reliability incidents\<close>

datatype reliability_fault = EVENT_DISCONNECT | EVENT_REORDER | EVENT_DUPLICATE | API_PARTIAL_OUTAGE | AGENT_FAILURE
  | AGENT_REPLACED | HOOK_DEAD_LETTER | WORKSPACE_CONFLICT | CORRUPT_PRESENTATION | STALE_STATUS | ENDPOINT_TIMEOUT
  | MALICIOUS_REMOTE_OUTPUT | BROWSER_SLEEP | NODE_SWITCH | RENDERER_CONTEXT_LOSS

datatype reliability_state = InOPEN | InCONTAINED | InRECOVERED | InESCALATED

datatype reliability_invariant = NoSilentDataLoss | NoIncorrectGreenStatus | NoDuplicateAction | NoDuplicateCharge
  | RecoveryVisible | ClassicFallbackAvailable | RendererRebuildsFromCanonical

datatype invariant_result = InvPASS | InvFAIL | InvUNKNOWN

type_synonym invariant_results = "(reliability_invariant, invariant_result) jsmap"

record reliability_incident =
  in_incident_id :: string
  in_workspace_id :: string
  in_node_id :: string
  in_fault :: reliability_fault
  in_state :: reliability_state
  in_recovery_action :: string
  in_invariant_results :: invariant_results
  in_source_revision :: "int option"
  in_correlation_id :: "string option"
  in_opened_at :: timestamp
  in_updated_at :: timestamp

definition parseSpatialReliabilityIncident :: "zod \<Rightarrow> reliability_incident \<Rightarrow> reliability_incident option" where
  "parseSpatialReliabilityIncident z i = do {
     iid \<leftarrow> idSchema z (in_incident_id i);
     workspace \<leftarrow> idSchema z (in_workspace_id i);
     node \<leftarrow> idSchema z (in_node_id i);
     action \<leftarrow> idSchema z (in_recovery_action i);
     revision \<leftarrow> nullable (revisionSchema z) (in_source_revision i);
     correlation \<leftarrow> nullable (idSchema z) (in_correlation_id i);
     Some (i \<lparr> in_incident_id := iid, in_workspace_id := workspace, in_node_id := node, in_recovery_action := action,
       in_source_revision := revision, in_correlation_id := correlation \<rparr>) }"

fun RELIABILITY_RECOVERY_ACTIONS :: "reliability_fault \<Rightarrow> string" where
  "RELIABILITY_RECOVERY_ACTIONS EVENT_DISCONNECT = ''pause-stream-and-reconnect''"
| "RELIABILITY_RECOVERY_ACTIONS EVENT_REORDER = ''replay-from-last-revision''"
| "RELIABILITY_RECOVERY_ACTIONS EVENT_DUPLICATE = ''dedupe-by-event-id''"
| "RELIABILITY_RECOVERY_ACTIONS API_PARTIAL_OUTAGE = ''degrade-to-cached-read''"
| "RELIABILITY_RECOVERY_ACTIONS AGENT_FAILURE = ''mark-agent-offline-and-retry-safe''"
| "RELIABILITY_RECOVERY_ACTIONS AGENT_REPLACED = ''invalidate-grant-and-rebind''"
| "RELIABILITY_RECOVERY_ACTIONS HOOK_DEAD_LETTER = ''hold-for-explicit-retry''"
| "RELIABILITY_RECOVERY_ACTIONS WORKSPACE_CONFLICT = ''request-fresh-revision''"
| "RELIABILITY_RECOVERY_ACTIONS CORRUPT_PRESENTATION = ''rebuild-from-canonical''"
| "RELIABILITY_RECOVERY_ACTIONS STALE_STATUS = ''show-stale-and-refresh''"
| "RELIABILITY_RECOVERY_ACTIONS ENDPOINT_TIMEOUT = ''cancel-without-duplicate-charge''"
| "RELIABILITY_RECOVERY_ACTIONS MALICIOUS_REMOTE_OUTPUT = ''quarantine-remote-result''"
| "RELIABILITY_RECOVERY_ACTIONS BROWSER_SLEEP = ''pause-and-reconcile-on-wake''"
| "RELIABILITY_RECOVERY_ACTIONS NODE_SWITCH = ''invalidate-node-cache-and-reload''"
| "RELIABILITY_RECOVERY_ACTIONS RENDERER_CONTEXT_LOSS = ''rebuild-renderer-from-canonical''"

definition RELIABILITY_INVARIANTS :: "reliability_invariant list" where
  "RELIABILITY_INVARIANTS = [NoSilentDataLoss, NoIncorrectGreenStatus, NoDuplicateAction, NoDuplicateCharge, RecoveryVisible,
     ClassicFallbackAvailable, RendererRebuildsFromCanonical]"

definition DEFAULT_INVARIANTS :: invariant_results where
  "DEFAULT_INVARIANTS = map (\<lambda>n. (n, InvUNKNOWN)) RELIABILITY_INVARIANTS"

text \<open>\<open>{ ...a, ...b }\<close>\<close>

definition spread :: "('k, 'v) jsmap \<Rightarrow> ('k, 'v) jsmap \<Rightarrow> ('k, 'v) jsmap" where
  "spread a b = fold (\<lambda>(k, v). jm_set k v) b a"

definition invariantRecord :: "invariant_results \<Rightarrow> invariant_results" where
  "invariantRecord input = spread DEFAULT_INVARIANTS input"

definition all_pass :: "invariant_results \<Rightarrow> bool" where
  "all_pass results = list_all (\<lambda>n. jm_get results n = Some InvPASS) RELIABILITY_INVARIANTS"

datatype reliability_error = InvalidIncident | InvalidIncidentUpdate | UnknownIncident | ActionMismatch

record fault_input =
  fi_workspaceId :: string
  fi_nodeId :: string
  fi_correlationId :: "string option"
  fi_sourceRevision :: "int option"
  fi_now :: "date_input option"
  fi_invariantResults :: invariant_results

record reliability =
  rl_incidents :: "(string, reliability_incident) jsmap"
  rl_actionKeys :: "string set"
  rl_readings :: readings

definition empty_reliability :: reliability where
  "empty_reliability = \<lparr> rl_incidents = [], rl_actionKeys = {}, rl_readings = no_readings \<rparr>"

type_synonym incident_outcome = "(reliability_error, reliability_incident, reliability) outcome"

definition service_now :: "hardening_config \<Rightarrow> readings \<Rightarrow> date_input \<times> readings" where
  "service_now cfg n = (DateText (hc_now cfg (rd_now n)), n \<lparr> rd_now := rd_now n + 1 \<rparr>)"

text \<open>Here an unusable time falls back to the text of the service clock, which the contract then checks.\<close>

definition reliability_isoNow :: "hardening_config \<Rightarrow> date_input option \<Rightarrow> readings \<Rightarrow> date_input \<times> readings" where
  "reliability_isoNow cfg v n = (case v of
     Some (DateValue d) \<Rightarrow> (DateValue d, n)
   | Some (DateText s) \<Rightarrow> (case hc_dateParse cfg s of Some d \<Rightarrow> (DateValue d, n) | None \<Rightarrow> service_now cfg n)
   | None \<Rightarrow> service_now cfg n)"

definition open_incident :: "hardening_config \<Rightarrow> reliability_fault \<Rightarrow> fault_input \<Rightarrow> reliability \<Rightarrow> incident_outcome" where
  "open_incident cfg fault input s =
     (let (openedAt, n1) = reliability_isoNow cfg (fi_now input) (rl_readings s);
          s1 = s \<lparr> rl_readings := n1 \<lparr> rd_ids := rd_ids n1 + 1 \<rparr> \<rparr>
      in case Option.bind (contract_time cfg openedAt) (\<lambda>t. parseSpatialReliabilityIncident (hc_zod cfg)
          \<lparr> in_incident_id = hc_idFactory cfg ''incident'' (rd_ids n1), in_workspace_id = fi_workspaceId input,
            in_node_id = fi_nodeId input, in_fault = fault, in_state = InOPEN, in_recovery_action = RELIABILITY_RECOVERY_ACTIONS fault,
            in_invariant_results = invariantRecord (fi_invariantResults input), in_source_revision = fi_sourceRevision input,
            in_correlation_id = fi_correlationId input, in_opened_at = t, in_updated_at = t \<rparr>) of
        None \<Rightarrow> throw InvalidIncident s1
      | Some i \<Rightarrow> return i (s1 \<lparr> rl_incidents := jm_set (in_incident_id i) i (rl_incidents s1) \<rparr>))"

definition require_incident :: "string \<Rightarrow> reliability \<Rightarrow> reliability_error + reliability_incident" where
  "require_incident incidentId s = (case jm_get (rl_incidents s) incidentId of None \<Rightarrow> Inl UnknownIncident | Some i \<Rightarrow> Inr i)"

definition update_incident :: "hardening_config \<Rightarrow> reliability_incident \<Rightarrow> reliability_state \<Rightarrow> invariant_results
    \<Rightarrow> reliability \<Rightarrow> incident_outcome" where
  "update_incident cfg incident state results s =
     (let (time, n1) = service_now cfg (rl_readings s); s1 = s \<lparr> rl_readings := n1 \<rparr> in
      case Option.bind (contract_time cfg time) (\<lambda>t. parseSpatialReliabilityIncident (hc_zod cfg) (incident \<lparr> in_state := state,
          in_invariant_results := spread (in_invariant_results incident) results, in_updated_at := t \<rparr>)) of
        None \<Rightarrow> throw InvalidIncidentUpdate s1
      | Some i \<Rightarrow> return i (s1 \<lparr> rl_incidents := jm_set (in_incident_id i) i (rl_incidents s1) \<rparr>))"

definition contain :: "hardening_config \<Rightarrow> string \<Rightarrow> invariant_results \<Rightarrow> reliability \<Rightarrow> incident_outcome" where
  "contain cfg incidentId results s = liftO (require_incident incidentId s) s (\<lambda>incident.
     if in_state incident = InRECOVERED then return incident s else update_incident cfg incident InCONTAINED results s)"

definition recover :: "hardening_config \<Rightarrow> string \<Rightarrow> invariant_results \<Rightarrow> reliability \<Rightarrow> incident_outcome" where
  "recover cfg incidentId results s = liftO (require_incident incidentId s) s (\<lambda>incident.
     let merged = spread (in_invariant_results incident) results in
     if \<not> all_pass merged then update_incident cfg incident InESCALATED merged s
     else update_incident cfg incident InRECOVERED merged s)"

definition executeRecovery :: "hardening_config \<Rightarrow> string \<Rightarrow> string \<Rightarrow> reliability \<Rightarrow> incident_outcome" where
  "executeRecovery cfg incidentId actionKey s = liftO (require_incident incidentId s) s (\<lambda>incident.
     if in_state incident = InRECOVERED then return incident s
     else let key = incidentId @ '':'' @ actionKey in
       if key \<in> rl_actionKeys s then return incident s
       else if actionKey \<noteq> in_recovery_action incident then throw ActionMismatch s
       else update_incident cfg incident InCONTAINED [(RecoveryVisible, InvPASS)] (s \<lparr> rl_actionKeys := insert key (rl_actionKeys s) \<rparr>))"

definition get_incident :: "string \<Rightarrow> reliability \<Rightarrow> reliability_incident option" where
  "get_incident incidentId s = jm_get (rl_incidents s) incidentId"

definition list_incidents :: "reliability \<Rightarrow> reliability_incident list" where
  "list_incidents s = jm_values (rl_incidents s)"

definition isSafeForGreen :: "string \<Rightarrow> reliability \<Rightarrow> reliability_error + bool" where
  "isSafeForGreen incidentId s = bindR (require_incident incidentId s) (\<lambda>incident.
     Inr (in_state incident = InRECOVERED \<and> all_pass (in_invariant_results incident)))"

definition requireClassicFallback :: "string \<Rightarrow> reliability \<Rightarrow> reliability_error + bool" where
  "requireClassicFallback incidentId s = bindR (require_incident incidentId s) (\<lambda>incident.
     Inr (in_state incident \<noteq> InRECOVERED \<or> jm_get (in_invariant_results incident) ClassicFallbackAvailable \<noteq> Some InvPASS))"

section \<open>Privacy records\<close>

datatype privacy_classification = PvPUBLIC | PvOPERATOR | PvPRIVATE | PvSECRET

datatype privacy_lifecycle = PvACTIVE | PvARCHIVED | PvDELETED | PvREDACTED

record privacy_record =
  pr_record_id :: string
  pr_workspace_id :: string
  pr_node_id :: string
  pr_subject_ref :: string
  pr_classification :: privacy_classification
  pr_lifecycle :: privacy_lifecycle
  pr_disclosed_fields :: "string list"
  pr_redacted_fields :: "string list"
  pr_retention_until :: "timestamp option"
  pr_evidence_refs :: "string list"
  pr_updated_at :: timestamp

definition parseSpatialPrivacyRecord :: "zod \<Rightarrow> privacy_record \<Rightarrow> privacy_record option" where
  "parseSpatialPrivacyRecord z p = do {
     rid \<leftarrow> idSchema z (pr_record_id p);
     workspace \<leftarrow> idSchema z (pr_workspace_id p);
     node \<leftarrow> idSchema z (pr_node_id p);
     subject \<leftarrow> idSchema z (pr_subject_ref p);
     disclosed \<leftarrow> arrayMax z 256 (idSchema z) (pr_disclosed_fields p);
     redacted \<leftarrow> arrayMax z 256 (idSchema z) (pr_redacted_fields p);
     evidence \<leftarrow> arrayMax z 256 (idSchema z) (pr_evidence_refs p);
     Some (p \<lparr> pr_record_id := rid, pr_workspace_id := workspace, pr_node_id := node, pr_subject_ref := subject,
       pr_disclosed_fields := disclosed, pr_redacted_fields := redacted, pr_evidence_refs := evidence \<rparr>) }"

datatype privacy_error = InvalidPrivacyRecord | InvalidPrivacyTransition | UnknownPrivacyRecord | PresentationReferenced

text \<open>\<open>retentionUntil\<close>: \<open>None\<close> is an omitted option, \<open>Some None\<close> an explicit \<open>null\<close>.\<close>

record privacy_registration =
  pg_workspaceId :: string
  pg_nodeId :: string
  pg_subjectRef :: string
  pg_classification :: privacy_classification
  pg_lifecycle :: "privacy_lifecycle option"
  pg_disclosedFields :: "string list"
  pg_redactedFields :: "string list"
  pg_retentionUntil :: "date_input option option"
  pg_evidenceRefs :: "string list"
  pg_now :: "date_input option"

record privacy_service =
  pv_records :: "(string, privacy_record) jsmap"
  pv_readings :: readings

definition empty_privacy :: privacy_service where
  "empty_privacy = \<lparr> pv_records = [], pv_readings = no_readings \<rparr>"

definition register :: "hardening_config \<Rightarrow> privacy_registration \<Rightarrow> privacy_service
    \<Rightarrow> (privacy_error, privacy_record, privacy_service) outcome" where
  "register cfg input s =
     (let (now, n1) = auth_isoNow cfg (pg_now input) (pv_readings s);
          rid = hc_idFactory cfg ''privacy'' (rd_ids n1); n2 = n1 \<lparr> rd_ids := rd_ids n1 + 1 \<rparr>;
          (retention, n3) = (case pg_retentionUntil input of
              Some None \<Rightarrow> (None, n2)
            | Some (Some v) \<Rightarrow> map_prod Some id (auth_isoNow cfg (Some v) n2)
            | None \<Rightarrow> map_prod Some id (auth_isoNow cfg None n2));
          s1 = s \<lparr> pv_readings := n3 \<rparr>
      in case parseSpatialPrivacyRecord (hc_zod cfg) \<lparr> pr_record_id = rid, pr_workspace_id = pg_workspaceId input,
            pr_node_id = pg_nodeId input, pr_subject_ref = pg_subjectRef input, pr_classification = pg_classification input,
            pr_lifecycle = (case pg_lifecycle input of None \<Rightarrow> PvACTIVE | Some l \<Rightarrow> l),
            pr_disclosed_fields = unique (pg_disclosedFields input), pr_redacted_fields = unique (pg_redactedFields input),
            pr_retention_until = retention, pr_evidence_refs = unique (pg_evidenceRefs input), pr_updated_at = now \<rparr> of
           None \<Rightarrow> throw InvalidPrivacyRecord s1
         | Some p \<Rightarrow> return p (s1 \<lparr> pv_records := jm_set (pr_record_id p) p (pv_records s1) \<rparr>))"

text \<open>The time of a transition is a \<open>Date\<close> of the caller or of the browser.\<close>

definition privacy_transition :: "hardening_config \<Rightarrow> string \<Rightarrow> privacy_lifecycle \<Rightarrow> timestamp option \<Rightarrow> privacy_service
    \<Rightarrow> (privacy_error, privacy_record, privacy_service) outcome" where
  "privacy_transition cfg recordId lifecycle now s =
     (let (time, n1) = (case now of Some t \<Rightarrow> (t, pv_readings s) | None \<Rightarrow> browser_now cfg (pv_readings s)); s1 = s \<lparr> pv_readings := n1 \<rparr> in
      case jm_get (pv_records s1) recordId of
        None \<Rightarrow> throw UnknownPrivacyRecord s1
      | Some p \<Rightarrow> (case parseSpatialPrivacyRecord (hc_zod cfg) (p \<lparr> pr_lifecycle := lifecycle, pr_updated_at := time \<rparr>) of
          None \<Rightarrow> throw InvalidPrivacyTransition s1
        | Some q \<Rightarrow> return q (s1 \<lparr> pv_records := jm_set recordId q (pv_records s1) \<rparr>)))"

definition privacy_archive :: "hardening_config \<Rightarrow> string \<Rightarrow> privacy_service \<Rightarrow> (privacy_error, privacy_record, privacy_service) outcome" where
  "privacy_archive cfg recordId = privacy_transition cfg recordId PvARCHIVED None"

definition privacy_delete :: "hardening_config \<Rightarrow> string \<Rightarrow> privacy_service \<Rightarrow> (privacy_error, privacy_record, privacy_service) outcome" where
  "privacy_delete cfg recordId = privacy_transition cfg recordId PvDELETED None"

definition privacy_redact :: "hardening_config \<Rightarrow> string \<Rightarrow> privacy_service \<Rightarrow> (privacy_error, privacy_record, privacy_service) outcome" where
  "privacy_redact cfg recordId = privacy_transition cfg recordId PvREDACTED None"

definition privacy_list :: "privacy_service \<Rightarrow> privacy_record list" where
  "privacy_list s = jm_values (pv_records s)"

record workspace_export =
  we_workspace_id :: string
  we_node_id :: string
  we_canonical_refs :: "string list"
  we_revisions :: "(string, int) jsmap"
  we_evidence_refs :: "string list"
  we_privacy_records :: "privacy_record list"
  we_exported_at :: timestamp

definition export_record :: "privacy_record \<Rightarrow> privacy_record" where
  "export_record p = (if pr_classification p = PvSECRET
     then p \<lparr> pr_classification := PvPRIVATE, pr_lifecycle := PvREDACTED, pr_disclosed_fields := [],
       pr_redacted_fields := unique (pr_redacted_fields p @ [''secret'']) \<rparr>
     else p)"

definition exportWorkspace :: "string \<Rightarrow> string \<Rightarrow> string list \<Rightarrow> (string, int) jsmap \<Rightarrow> string list \<Rightarrow> timestamp
    \<Rightarrow> privacy_service \<Rightarrow> workspace_export" where
  "exportWorkspace workspaceId nodeId canonicalRefs revisions evidenceRefs exportedAt s = \<lparr> we_workspace_id = workspaceId,
     we_node_id = nodeId, we_canonical_refs = unique canonicalRefs, we_revisions = revisions, we_evidence_refs = unique evidenceRefs,
     we_privacy_records = map export_record (filter (\<lambda>p. pr_workspace_id p = workspaceId \<and> pr_node_id p = nodeId) (privacy_list s)),
     we_exported_at = exportedAt \<rparr>"

definition privacy_expired :: "timestamp \<Rightarrow> privacy_record \<Rightarrow> bool" where
  "privacy_expired now p = (case pr_retention_until p of None \<Rightarrow> False | Some t \<Rightarrow> t \<le> now)"

definition privacy_purge :: "timestamp \<Rightarrow> privacy_service \<Rightarrow> int \<times> privacy_service" where
  "privacy_purge now s = fold (\<lambda>(rid, p) (removed, s).
     if privacy_expired now p then (removed + 1, s \<lparr> pv_records := jm_delete rid (pv_records s) \<rparr>) else (removed, s)) (pv_records s) (0, s)"

definition canGarbageCollectPresentation :: "string \<Rightarrow> string list \<Rightarrow> bool" where
  "canGarbageCollectPresentation presentationRef evidenceRefs \<longleftrightarrow> presentationRef \<notin> set evidenceRefs"

definition assertPresentationGarbageCollectionSafe :: "string \<Rightarrow> string list \<Rightarrow> privacy_error + unit" where
  "assertPresentationGarbageCollectionSafe presentationRef evidenceRefs =
     (if \<not> canGarbageCollectPresentation presentationRef evidenceRefs then Inl PresentationReferenced else Inr ())"

section \<open>Telemetry\<close>

datatype metric_name = Mrenderer_init | Mrenderer_fallback | Mframe_fps_bucket | Mframe_p95_bucket | Mevent_lag_bucket
  | Mreconnect_count | Mschema_rejection | Mview_model_failure | Mduplicate_entity | Mplanner_rejection
  | Mattention_backlog_bucket | Mworkspace_conflict | Mremote_quarantine | Mcomponent_error_boundary | Mclassic_fallback

datatype telemetry_violation = SENSITIVE_CONTENT | CARDINALITY_LIMIT | INVALID_METRIC

record telemetry_input =
  ti_workspaceId :: string
  ti_nodeId :: string
  ti_name :: metric_name
  ti_value :: int
  ti_unit :: string
  ti_bucket :: "string option"
  ti_correlationId :: "string option"
  ti_dimensions :: "(string, string) jsmap"
  ti_observedAt :: "date_input option"

record metric =
  mt_metric_id :: string
  mt_workspace_id :: string
  mt_node_id :: string
  mt_name :: metric_name
  mt_value :: int
  mt_unit :: string
  mt_bucket :: string
  mt_correlation_id :: "string option"
  mt_dimensions :: "(string, string) jsmap"
  mt_observed_at :: timestamp

text \<open>A record schema parses keys and values; the parsed entries are written one after the other.\<close>

definition dimensionSchema :: "zod \<Rightarrow> string \<times> string \<Rightarrow> (string \<times> string) option" where
  "dimensionSchema z kv = do { k \<leftarrow> idSchema z (fst kv); v \<leftarrow> idSchema z (snd kv); Some (k, v) }"

definition dimensionsSchema :: "zod \<Rightarrow> (string, string) jsmap \<Rightarrow> (string, string) jsmap option" where
  "dimensionsSchema z d = do {
     entries \<leftarrow> arrayOf (dimensionSchema z) d;
     let parsed = spread [] entries in if length parsed \<le> 16 then Some parsed else None }"

definition parseSpatialObservabilityMetric :: "zod \<Rightarrow> metric \<Rightarrow> metric option" where
  "parseSpatialObservabilityMetric z m = do {
     mid \<leftarrow> idSchema z (mt_metric_id m);
     workspace \<leftarrow> idSchema z (mt_workspace_id m);
     node \<leftarrow> idSchema z (mt_node_id m);
     unit \<leftarrow> idSchema z (mt_unit m);
     bucket \<leftarrow> idSchema z (mt_bucket m);
     correlation \<leftarrow> nullable (idSchema z) (mt_correlation_id m);
     dimensions \<leftarrow> dimensionsSchema z (mt_dimensions m);
     Some (m \<lparr> mt_metric_id := mid, mt_workspace_id := workspace, mt_node_id := node, mt_unit := unit, mt_bucket := bucket,
       mt_correlation_id := correlation, mt_dimensions := dimensions \<rparr>) }"

definition SENSITIVE_WORDS :: "string list" where
  "SENSITIVE_WORDS = [''prompt'', ''token'', ''secret'', ''password'', ''credential'', ''transcript'', ''private'', ''message'',
     ''content'', ''authorization'']"

definition sensitive_text :: "string \<Rightarrow> bool" where
  "sensitive_text t = list_ex (\<lambda>w. sublist w (js_toLowerCase t)) SENSITIVE_WORDS"

definition safe_telemetry_text :: "string \<Rightarrow> bool" where
  "safe_telemetry_text t \<longleftrightarrow> t \<noteq> [] \<and> length t \<le> 128 \<and> \<not> sensitive_text t"

definition metric_bucket :: "int \<Rightarrow> string" where
  "metric_bucket v = (if v < 1 then ''0'' else if v < 5 then ''1-4'' else if v < 10 then ''5-9'' else if v < 25 then ''10-24''
     else if v < 50 then ''25-49'' else if v < 100 then ''50-99'' else ''100+'')"

record telemetry =
  tm_maxCardinality :: int
  tm_values :: "(metric_name, string list) jsmap"
  tm_records :: "metric list"
  tm_readings :: readings

definition createTelemetry :: "int option \<Rightarrow> telemetry" where
  "createTelemetry maxCardinality = \<lparr> tm_maxCardinality = max 1 (case maxCardinality of None \<Rightarrow> 100 | Some n \<Rightarrow> n),
     tm_values = [], tm_records = [], tm_readings = no_readings \<rparr>"

definition telemetry_content_safe :: "telemetry_input \<Rightarrow> bool" where
  "telemetry_content_safe input \<longleftrightarrow> safe_telemetry_text (ti_workspaceId input) \<and> safe_telemetry_text (ti_nodeId input) \<and>
     safe_telemetry_text (ti_unit input) \<and> (js_truthy (ti_correlationId input) \<longrightarrow> safe_telemetry_text (the (ti_correlationId input)))"

definition dimension_key :: "(string, string) jsmap \<Rightarrow> string" where
  "dimension_key d = stringify (JObj (map (\<lambda>(k, v). (k, JStr v)) d))"

definition record_metric :: "hardening_config \<Rightarrow> telemetry_input \<Rightarrow> telemetry \<Rightarrow> (telemetry_violation, metric, telemetry) outcome" where
  "record_metric cfg input s =
     (let dimensions = ti_dimensions input; key = dimension_key dimensions;
          seen = (case jm_get (tm_values s) (ti_name input) of None \<Rightarrow> [] | Some v \<Rightarrow> v) in
      if \<not> telemetry_content_safe input then throw SENSITIVE_CONTENT s
      else if length dimensions > 16 then throw CARDINALITY_LIMIT s
      else if \<not> list_all (\<lambda>(k, v). safe_telemetry_text k \<and> safe_telemetry_text v) dimensions then throw SENSITIVE_CONTENT s
      else if key \<notin> set seen \<and> int (length seen) \<ge> tm_maxCardinality s then throw CARDINALITY_LIMIT s
      else let s1 = s \<lparr> tm_values := jm_set (ti_name input) (if key \<in> set seen then seen else seen @ [key]) (tm_values s) \<rparr>;
               n1 = tm_readings s1; mid = hc_idFactory cfg ''metric'' (rd_ids n1);
               (time, n2) = auth_isoNow cfg (ti_observedAt input) (n1 \<lparr> rd_ids := rd_ids n1 + 1 \<rparr>); s2 = s1 \<lparr> tm_readings := n2 \<rparr>
           in case parseSpatialObservabilityMetric (hc_zod cfg) \<lparr> mt_metric_id = mid, mt_workspace_id = ti_workspaceId input,
                mt_node_id = ti_nodeId input, mt_name = ti_name input, mt_value = ti_value input, mt_unit = ti_unit input,
                mt_bucket = (case ti_bucket input of Some b \<Rightarrow> b | None \<Rightarrow> metric_bucket (ti_value input)),
                mt_correlation_id = ti_correlationId input, mt_dimensions = dimensions, mt_observed_at = time \<rparr> of
              None \<Rightarrow> throw INVALID_METRIC s2
            | Some m \<Rightarrow> return m (s2 \<lparr> tm_records := tm_records s2 @ [m] \<rparr>))"

definition flush :: "telemetry \<Rightarrow> metric list \<times> telemetry" where
  "flush s = (tm_records s, s \<lparr> tm_records := [] \<rparr>)"

definition telemetry_size :: "telemetry \<Rightarrow> int" where
  "telemetry_size s = int (length (tm_records s))"

end
