(* ===== verification/Hardening_Properties.thy ===== *)
theory Hardening_Properties
  imports Hardening Authorization_Properties
begin

text \<open>
  What the reliability controller, the privacy service and the telemetry guarantee: an incident counts as green exactly
  when the classic fallback is no longer required, and only after a recovery with every invariant passed; an export
  holds no secret; telemetry stays within its cardinality and free of sensitive words. The last section lists what the
  services let through.
\<close>

section \<open>Incidents\<close>

lemma incident_normalising [schema_normalising]: "normalising (parseSpatialReliabilityIncident z)"
  unfolding normalising_def parseSpatialReliabilityIncident_def
  by (clarsimp simp: bind_eq_Some_conv) (intro exI conjI; (rule refl | erule normalisingD [rotated]; intro schema_normalising))

lemma incident_keeps:
  assumes "parseSpatialReliabilityIncident z i = Some j"
  shows "in_state j = in_state i" "in_invariant_results j = in_invariant_results i" "in_incident_id j = js_trim (in_incident_id i)"
  using assms by (auto simp: parseSpatialReliabilityIncident_def bind_eq_Some_conv dest: idSchema_trim)

text \<open>The contract looks at neither state, invariant results nor the time of the update.\<close>

lemma incident_update_valid:
  assumes "parseSpatialReliabilityIncident z i = Some i"
  shows "parseSpatialReliabilityIncident z (i \<lparr> in_state := st, in_invariant_results := r, in_updated_at := t \<rparr>) =
    Some (i \<lparr> in_state := st, in_invariant_results := r, in_updated_at := t \<rparr>)"
  using assms by (cases i) (auto simp: parseSpatialReliabilityIncident_def bind_eq_Some_conv)

datatype incident_call =
    Open reliability_fault fault_input
  | Contain string invariant_results
  | Recover string invariant_results
  | Execute string string

definition incident_exec :: "hardening_config \<Rightarrow> reliability \<Rightarrow> incident_call \<Rightarrow> incident_outcome" where
  "incident_exec cfg s call = (case call of
     Open fault input \<Rightarrow> open_incident cfg fault input s
   | Contain i r \<Rightarrow> contain cfg i r s
   | Recover i r \<Rightarrow> recover cfg i r s
   | Execute i k \<Rightarrow> executeRecovery cfg i k s)"

definition recovered_by :: "incident_call list \<Rightarrow> string \<Rightarrow> reliability_incident \<Rightarrow> bool" where
  "recovered_by calls iid i \<longleftrightarrow> in_state i = InRECOVERED \<longrightarrow>
     all_pass (in_invariant_results i) \<and> (\<exists>results. Recover iid results \<in> set calls)"

definition incident_inv :: "hardening_config \<Rightarrow> incident_call list \<Rightarrow> reliability \<Rightarrow> bool" where
  "incident_inv cfg calls s \<longleftrightarrow> (\<forall>iid i. jm_get (rl_incidents s) iid = Some i \<longrightarrow>
     in_incident_id i = iid \<and> parseSpatialReliabilityIncident (hc_zod cfg) i = Some i \<and> jm_wf (in_invariant_results i) \<and>
     recovered_by calls iid i)"

lemma recovered_by_mono: "recovered_by calls iid i \<Longrightarrow> recovered_by (calls @ later) iid i"
  by (auto simp: recovered_by_def)

lemma incident_inv_mono: "incident_inv cfg calls s \<Longrightarrow> incident_inv cfg (calls @ later) s"
  by (auto simp: incident_inv_def intro: recovered_by_mono)

lemma spread_wf: "jm_wf a \<Longrightarrow> jm_wf (spread a b)"
  unfolding spread_def by (rule jm.put_all_wf)

lemma spread_get: "jm_wf b \<Longrightarrow> jm_get b k = Some v \<Longrightarrow> jm_get (spread a b) k = Some v"
  unfolding spread_def by (rule jm.put_all_get) (auto simp: jm_wf_def jm_keys_def dest: jm_getD)

lemma all_pass_spread: "jm_wf b \<Longrightarrow> all_pass b \<Longrightarrow> all_pass (spread a b)"
  by (auto simp: all_pass_def list_all_iff intro: spread_get)

lemma update_incident_cases:
  obtains (Bad_Clock) s' where "update_incident cfg i st r s = (Inl InvalidIncidentUpdate, s')" "rl_incidents s' = rl_incidents s"
  | (Updated) j t s' where "update_incident cfg i st r s = (Inr j, s')" "rl_incidents s' = jm_set (in_incident_id j) j (rl_incidents s)"
      "parseSpatialReliabilityIncident (hc_zod cfg) (i \<lparr> in_state := st, in_invariant_results := spread (in_invariant_results i) r, in_updated_at := t \<rparr>) = Some j"
  by (cases "Option.bind (contract_time cfg (fst (service_now cfg (rl_readings s)))) (\<lambda>t. parseSpatialReliabilityIncident (hc_zod cfg)
        (i \<lparr> in_state := st, in_invariant_results := spread (in_invariant_results i) r, in_updated_at := t \<rparr>))")
    (auto simp: update_incident_def Let_def case_prod_beta bind_eq_Some_conv)

lemma update_inv:
  assumes inv: "incident_inv cfg calls s" and i: "jm_get (rl_incidents s) iid = Some i" and s: "rl_incidents s0 = rl_incidents s"
    and st: "st = InRECOVERED \<longrightarrow> all_pass (spread (in_invariant_results i) r) \<and> (\<exists>results. Recover iid results \<in> set calls)"
  shows "incident_inv cfg calls (snd (update_incident cfg i st r s0))"
proof (cases rule: update_incident_cases [where cfg = cfg and i = i and st = st and r = r and s = s0])
  case (Bad_Clock s')
  then show ?thesis using inv s by (simp add: incident_inv_def)
next
  case (Updated j t s')
  have f: "in_incident_id i = iid" "parseSpatialReliabilityIncident (hc_zod cfg) i = Some i"
    "jm_wf (in_invariant_results i)"
    using inv i by (auto simp: incident_inv_def)
  from Updated(3) have j: "j = i \<lparr> in_state := st, in_invariant_results := spread (in_invariant_results i) r, in_updated_at := t \<rparr>"
    by (simp add: incident_update_valid [OF f(2)])
  have "recovered_by calls iid j" using st by (simp add: recovered_by_def j)
  then show ?thesis
    using inv s Updated(1,2) f incident_update_valid [OF f(2)] by (auto simp: incident_inv_def jm_get_set j spread_wf)
qed

lemma default_invariants_wf: "jm_wf DEFAULT_INVARIANTS"
  by (simp add: DEFAULT_INVARIANTS_def RELIABILITY_INVARIANTS_def jm_wf_def jm_keys_def)

lemma open_inv:
  assumes inv: "incident_inv cfg calls s"
  shows "incident_inv cfg calls (snd (open_incident cfg fault input s))"
proof -
  obtain t n where n: "reliability_isoNow cfg (fi_now input) (rl_readings s) = (t, n)" by fastforce
  show ?thesis
  proof (cases "\<exists>j. fst (open_incident cfg fault input s) = Inr j")
    case True
    then obtain i j where j: "parseSpatialReliabilityIncident (hc_zod cfg) i = Some j" "in_state i = InOPEN"
        "in_invariant_results i = invariantRecord (fi_invariantResults input)"
      and s: "rl_incidents (snd (open_incident cfg fault input s)) = jm_set (in_incident_id j) j (rl_incidents s)"
      by (force simp: open_incident_def n Let_def bind_eq_Some_conv split: option.splits)
    have "parseSpatialReliabilityIncident (hc_zod cfg) j = Some j" by (rule normalisingD [OF incident_normalising j(1)])
    moreover have "recovered_by calls (in_incident_id j) j" using incident_keeps(1) [OF j(1)] j(2) by (simp add: recovered_by_def)
    moreover have "jm_wf (in_invariant_results j)"
      using incident_keeps(2) [OF j(1)] j(3) by (simp add: invariantRecord_def spread_wf default_invariants_wf)
    ultimately show ?thesis using inv s by (auto simp: incident_inv_def jm_get_set)
  next
    case False
    then have "rl_incidents (snd (open_incident cfg fault input s)) = rl_incidents s"
      by (auto simp: open_incident_def n Let_def split: option.splits)
    with inv show ?thesis by (simp add: incident_inv_def)
  qed
qed

lemma exec_inv:
  assumes inv: "incident_inv cfg calls s"
  shows "incident_inv cfg (calls @ [call]) (snd (incident_exec cfg s call))"
proof -
  note inv' = incident_inv_mono [OF inv, of "[call]"]
  show ?thesis
  proof (cases call)
    case (Open fault input)
    then show ?thesis using open_inv [OF inv'] by (simp add: incident_exec_def)
  next
    case (Contain iid r)
    then show ?thesis using inv' update_inv [OF inv' _ refl, of iid _ InCONTAINED r]
      by (auto simp: incident_exec_def contain_def require_incident_def split: option.splits)
  next
    case (Execute iid k)
    then show ?thesis using inv' update_inv [OF inv', of iid _ _ InCONTAINED]
      by (auto simp: incident_exec_def executeRecovery_def require_incident_def Let_def split: option.splits)
  next
    case (Recover iid r)
    show ?thesis
    proof (cases "jm_get (rl_incidents s) iid")
      case None
      then show ?thesis using inv' Recover by (simp add: incident_exec_def recover_def require_incident_def)
    next
      case (Some i)
      let ?m = "spread (in_invariant_results i) r"
      have "jm_wf ?m" using inv Some by (auto simp: incident_inv_def intro: spread_wf)
      then have "all_pass ?m \<Longrightarrow> all_pass (spread (in_invariant_results i) ?m)" by (rule all_pass_spread)
      then show ?thesis
        using Recover Some update_inv [OF inv' Some refl, of InESCALATED ?m] update_inv [OF inv' Some refl, of InRECOVERED ?m]
        by (auto simp: incident_exec_def recover_def require_incident_def Let_def)
    qed
  qed
qed

lemma incident_run_inv: "incident_inv cfg calls (run (\<lambda>s call. snd (incident_exec cfg s call)) empty_reliability calls)"
proof (induction calls rule: rev_induct)
  case Nil
  show ?case by (simp add: incident_inv_def empty_reliability_def)
next
  case (snoc call calls)
  then show ?case unfolding run_append run.simps by (rule exec_inv)
qed

text \<open>
  (C32) After any sequence of calls, errors included, an incident is safe for green exactly when it does not require the
  classic fallback, and then every safety invariant is recorded as passed and a recovery was reported for that very
  incident: opening, containing and executing a recovery action never make it green.
\<close>
theorem green_only_after_recovery:
  assumes "s = run (\<lambda>s call. snd (incident_exec cfg s call)) empty_reliability calls"
    and "isSafeForGreen iid s = Inr safe"
  shows "requireClassicFallback iid s = Inr (\<not> safe) \<and>
    (safe \<longrightarrow> (\<exists>i results. jm_get (rl_incidents s) iid = Some i \<and> all_pass (in_invariant_results i) \<and> Recover iid results \<in> set calls))"
proof -
  from assms(2) obtain i where i: "jm_get (rl_incidents s) iid = Some i"
    and safe: "safe \<longleftrightarrow> in_state i = InRECOVERED \<and> all_pass (in_invariant_results i)"
    by (auto simp: isSafeForGreen_def require_incident_def bindR_Inr split: option.splits)
  have r: "recovered_by calls iid i" using incident_run_inv [of cfg calls] i assms(1) by (simp add: incident_inv_def)
  have "all_pass (in_invariant_results i) \<Longrightarrow> jm_get (in_invariant_results i) ClassicFallbackAvailable = Some InvPASS"
    by (simp add: all_pass_def RELIABILITY_INVARIANTS_def)
  then show ?thesis using i safe r by (auto simp: requireClassicFallback_def require_incident_def recovered_by_def)
qed

text \<open>
  With a clock that returns times the contract reads, containing or recovering a known incident never fails, and an
  incident is recovered exactly when its merged invariants pass.
\<close>

lemma recover_known:
  assumes "s = run (\<lambda>s call. snd (incident_exec cfg s call)) empty_reliability calls" "jm_get (rl_incidents s) iid = Some i"
    and "hc_dateParse cfg (hc_now cfg (rd_now (rl_readings s))) = Some t"
  shows "\<exists>j s'. recover cfg iid results s = (Inr j, s') \<and> in_incident_id j = iid \<and>
    in_state j = (if all_pass (spread (in_invariant_results i) results) then InRECOVERED else InESCALATED)"
proof -
  have f: "in_incident_id i = iid" "parseSpatialReliabilityIncident (hc_zod cfg) i = Some i"
    using incident_run_inv [of cfg calls] assms(1,2) by (auto simp: incident_inv_def)
  then show ?thesis
    using assms(2,3) by (simp add: recover_def require_incident_def update_incident_def service_now_def contract_time_def
        incident_update_valid [OF f(2)] Let_def)
qed

section \<open>Privacy\<close>

text \<open>
  An export of a Workspace lists exactly the records registered for that Workspace and Node, in order; none of them
  is classified secret, a secret one appears redacted and discloses no field, and every other is exported as it is.
\<close>
theorem export_holds_no_secret:
  "map pr_record_id (we_privacy_records (exportWorkspace w n refs revs ev t s)) =
     map pr_record_id (filter (\<lambda>p. pr_workspace_id p = w \<and> pr_node_id p = n) (privacy_list s)) \<and>
   list_all (\<lambda>e. pr_classification e \<noteq> PvSECRET \<and> pr_workspace_id e = w \<and> pr_node_id e = n \<and>
       (e \<in> set (privacy_list s) \<or> pr_lifecycle e = PvREDACTED \<and> pr_disclosed_fields e = [] \<and> ''secret'' \<in> set (pr_redacted_fields e)))
     (we_privacy_records (exportWorkspace w n refs revs ev t s))"
proof
  show "map pr_record_id (we_privacy_records (exportWorkspace w n refs revs ev t s)) =
     map pr_record_id (filter (\<lambda>p. pr_workspace_id p = w \<and> pr_node_id p = n) (privacy_list s))"
    by (auto simp: exportWorkspace_def export_record_def)
  have "js_trim ''secret'' = ''secret''" by (simp add: js_trim_id_iff js_space_def)
  then have "''secret'' \<in> set (unique (xs @ [''secret'']))" for xs unfolding set_unique by (metis Diff_iff UnCI image_eqI list.distinct(1) list.set_intros(1) set_append singletonD)
  then show "list_all (\<lambda>e. pr_classification e \<noteq> PvSECRET \<and> pr_workspace_id e = w \<and> pr_node_id e = n \<and>
       (e \<in> set (privacy_list s) \<or> pr_lifecycle e = PvREDACTED \<and> pr_disclosed_fields e = [] \<and> ''secret'' \<in> set (pr_redacted_fields e)))
     (we_privacy_records (exportWorkspace w n refs revs ev t s))"
    by (auto simp: exportWorkspace_def export_record_def list_all_iff)
qed

section \<open>Telemetry\<close>

datatype telemetry_call = Record telemetry_input | Flush

definition telemetry_step :: "hardening_config \<Rightarrow> telemetry \<Rightarrow> telemetry_call \<Rightarrow> telemetry" where
  "telemetry_step cfg s call = (case call of Record input \<Rightarrow> snd (record_metric cfg input s) | Flush \<Rightarrow> snd (flush s))"

definition content_free :: "metric \<Rightarrow> bool" where
  "content_free m \<longleftrightarrow> \<not> sensitive_text (mt_workspace_id m) \<and> \<not> sensitive_text (mt_node_id m) \<and> \<not> sensitive_text (mt_unit m) \<and>
     (\<forall>c. mt_correlation_id m = Some c \<longrightarrow> \<not> sensitive_text c) \<and>
     list_all (\<lambda>(k, v). \<not> sensitive_text k \<and> \<not> sensitive_text v) (mt_dimensions m)"

definition telemetry_inv :: "telemetry \<Rightarrow> bool" where
  "telemetry_inv s \<longleftrightarrow> 1 \<le> tm_maxCardinality s \<and> list_all content_free (tm_records s) \<and>
     list_all (\<lambda>(_, seen). distinct seen \<and> int (length seen) \<le> tm_maxCardinality s) (tm_values s)"

lemma js_trim_sublist: "sublist (js_trim s) s"
proof -
  have "suffix (dropWhile js_space s) s" by (rule suffix_dropWhile)
  moreover have "prefix (js_trim s) (dropWhile js_space s)"
    unfolding js_trim_def by (metis rev_rev_ident suffix_dropWhile suffix_to_prefix)
  ultimately show ?thesis by (meson prefix_imp_sublist sublist_order.order.trans suffix_imp_sublist)
qed

lemma trimmed_not_sensitive: "\<not> sensitive_text s \<Longrightarrow> \<not> sensitive_text (js_trim s)"
proof -
  have "sublist (js_toLowerCase (js_trim s)) (js_toLowerCase s)"
    using js_trim_sublist [of s] unfolding js_toLowerCase_def by (rule map_mono_sublist)
  then show "\<not> sensitive_text s \<Longrightarrow> \<not> sensitive_text (js_trim s)"
    unfolding sensitive_text_def list_ex_iff by (meson sublist_order.order.trans)
qed

lemma safe_not_sensitive: "safe_telemetry_text t \<Longrightarrow> \<not> sensitive_text t"
  by (simp add: safe_telemetry_text_def)

lemma not_sensitive_Nil: "\<not> sensitive_text []"
  by (simp add: sensitive_text_def SENSITIVE_WORDS_def js_toLowerCase_def)

lemma dimensions_safe:
  assumes "dimensionsSchema z d = Some e" "list_all (\<lambda>(k, v). safe_telemetry_text k \<and> safe_telemetry_text v) d"
  shows "list_all (\<lambda>(k, v). \<not> sensitive_text k \<and> \<not> sensitive_text v) e"
proof -
  let ?P = "\<lambda>(k, v). \<not> sensitive_text k \<and> \<not> sensitive_text v"
  from assms(1) obtain es where es: "arrayOf (dimensionSchema z) d = Some es" "e = spread [] es"
    by (auto simp: dimensionsSchema_def bind_eq_Some_conv Let_def split: if_splits)
  have "map id es = map (map_prod js_trim js_trim) d"
    by (rule arrayOf_map [OF es(1)]) (auto simp: dimensionSchema_def bind_eq_Some_conv dest: idSchema_trim)
  then have "list_all ?P es"
    using assms(2) trimmed_not_sensitive safe_not_sensitive by (fastforce simp: list_all_iff)
  moreover have "list_all ?P xs \<Longrightarrow> list_all ?P m \<Longrightarrow> list_all ?P (spread m xs)" for xs m
    unfolding spread_def by (induction xs arbitrary: m) (auto intro: list_all_jm_set)
  ultimately show ?thesis by (simp add: es(2))
qed

lemma parsed_not_sensitive: "idSchema z v = Some t \<Longrightarrow> \<not> sensitive_text v \<Longrightarrow> \<not> sensitive_text t"
  using idSchema_trim trimmed_not_sensitive by metis

lemma metric_content_free:
  assumes "parseSpatialObservabilityMetric z m = Some m'" "\<not> sensitive_text (mt_workspace_id m)" "\<not> sensitive_text (mt_node_id m)"
    and "\<not> sensitive_text (mt_unit m)" "\<And>c. mt_correlation_id m = Some c \<Longrightarrow> \<not> sensitive_text c"
    and "list_all (\<lambda>(k, v). safe_telemetry_text k \<and> safe_telemetry_text v) (mt_dimensions m)"
  shows "content_free m'"
  using assms
  by (auto simp: parseSpatialObservabilityMetric_def bind_eq_Some_conv content_free_def nullable_def
      split: option.splits dest: parsed_not_sensitive dimensions_safe)

lemma record_inv:
  assumes inv: "telemetry_inv s"
  shows "telemetry_inv (snd (record_metric cfg input s))"
proof -
  let ?key = "dimension_key (ti_dimensions input)"
  let ?seen = "case jm_get (tm_values s) (ti_name input) of None \<Rightarrow> [] | Some v \<Rightarrow> v"
  let ?vals = "jm_set (ti_name input) (if ?key \<in> set ?seen then ?seen else ?seen @ [?key]) (tm_values s)"
  show ?thesis
  proof (cases "telemetry_content_safe input \<and> length (ti_dimensions input) \<le> 16 \<and>
      list_all (\<lambda>(k, v). safe_telemetry_text k \<and> safe_telemetry_text v) (ti_dimensions input) \<and>
      (?key \<in> set ?seen \<or> int (length ?seen) < tm_maxCardinality s)")
    case False
    then have "snd (record_metric cfg input s) = s" by (auto simp: record_metric_def Let_def)
    with inv show ?thesis by simp
  next
    case True
    have seen: "distinct ?seen \<and> int (length ?seen) \<le> tm_maxCardinality s"
      using inv by (auto simp: telemetry_inv_def split: option.splits dest: list_all_jm_get)
    have vals: "list_all (\<lambda>(_, seen). distinct seen \<and> int (length seen) \<le> tm_maxCardinality s) ?vals"
      by (rule list_all_jm_set) (use inv seen True in \<open>auto simp: telemetry_inv_def\<close>)
    obtain t n where n: "auth_isoNow cfg (ti_observedAt input) ((tm_readings s) \<lparr> rd_ids := rd_ids (tm_readings s) + 1 \<rparr>) = (t, n)" by fastforce
    have safe: "\<not> sensitive_text (ti_workspaceId input)" "\<not> sensitive_text (ti_nodeId input)" "\<not> sensitive_text (ti_unit input)"
      "\<And>c. ti_correlationId input = Some c \<Longrightarrow> \<not> sensitive_text c"
      using True not_sensitive_Nil by (auto simp: telemetry_content_safe_def safe_telemetry_text_def)
    have m: "content_free m" if "parseSpatialObservabilityMetric (hc_zod cfg) \<lparr> mt_metric_id = mid, mt_workspace_id = ti_workspaceId input,
        mt_node_id = ti_nodeId input, mt_name = ti_name input, mt_value = ti_value input, mt_unit = ti_unit input, mt_bucket = b,
        mt_correlation_id = ti_correlationId input, mt_dimensions = ti_dimensions input, mt_observed_at = t \<rparr> = Some m" for mid b m
      by (rule metric_content_free [OF that]) (use safe True in auto)
    show ?thesis
      using inv vals True n
      by (auto simp: record_metric_def Let_def telemetry_inv_def split: option.splits dest: m)
  qed
qed

lemma telemetry_run_inv: "telemetry_inv s \<Longrightarrow> telemetry_inv (run (telemetry_step cfg) s calls)"
proof (induction calls arbitrary: s)
  case (Cons call calls)
  have "telemetry_inv (telemetry_step cfg s call)"
    using Cons.prems record_inv by (cases call) (auto simp: telemetry_step_def flush_def telemetry_inv_def)
  then show ?case by (simp add: Cons.IH)
qed simp

lemma run_maxCardinality: "tm_maxCardinality (run (telemetry_step cfg) s calls) = tm_maxCardinality s"
proof (induction calls arbitrary: s)
  case (Cons call calls)
  have "tm_maxCardinality (telemetry_step cfg s call) = tm_maxCardinality s"
    by (auto simp: telemetry_step_def flush_def record_metric_def Let_def case_prod_beta split: telemetry_call.split option.split)
  then show ?case by (simp add: Cons.IH)
qed simp

text \<open>
  Telemetry stays bounded and free of content: after any sequence of calls, refused ones included, no metric name
  has seen more distinct sets of dimensions than the configured limit (at least one), and no kept metric has a sensitive
  word in its Workspace, Node, unit, correlation identifier or dimensions, in any letter case.
\<close>
theorem telemetry_bounded_and_content_free:
  assumes "s = run (telemetry_step cfg) (createTelemetry limit) calls"
  shows "list_all (\<lambda>(_, seen). distinct seen \<and> int (length seen) \<le> max 1 (case limit of None \<Rightarrow> 100 | Some n \<Rightarrow> n)) (tm_values s) \<and>
    list_all (\<lambda>m. \<not> sensitive_text (mt_workspace_id m) \<and> \<not> sensitive_text (mt_node_id m) \<and> \<not> sensitive_text (mt_unit m) \<and>
      (\<forall>c. mt_correlation_id m = Some c \<longrightarrow> \<not> sensitive_text c) \<and>
      list_all (\<lambda>(k, v). \<not> sensitive_text k \<and> \<not> sensitive_text v) (mt_dimensions m)) (tm_records s)"
proof -
  have "telemetry_inv (createTelemetry limit)" by (simp add: telemetry_inv_def createTelemetry_def)
  then have "telemetry_inv s" unfolding assms by (rule telemetry_run_inv)
  moreover have "tm_maxCardinality s = max 1 (case limit of None \<Rightarrow> 100 | Some n \<Rightarrow> n)"
    by (simp add: assms run_maxCardinality createTelemetry_def)
  ultimately show ?thesis unfolding telemetry_inv_def content_free_def by simp
qed

section \<open>What the services let through\<close>

text \<open>
  An incident can be reported as recovered without any recovery action having been executed, with every invariant
  asserted by the caller.
\<close>

definition ex_fault_input :: fault_input where
  "ex_fault_input = \<lparr> fi_workspaceId = ''w'', fi_nodeId = ''n'', fi_correlationId = None, fi_sourceRevision = None, fi_now = None,
     fi_invariantResults = [] \<rparr>"

definition ex_incidents :: "incident_call list \<Rightarrow> reliability" where
  "ex_incidents calls = run (\<lambda>s call. snd (incident_exec ex_hcfg s call)) empty_reliability calls"

lemma recovered_without_execution:
  "isSafeForGreen ''incident:'' (ex_incidents [Open HOOK_DEAD_LETTER ex_fault_input,
     Recover ''incident:'' (map (\<lambda>n. (n, InvPASS)) RELIABILITY_INVARIANTS)]) = Inr True"
  by code_simp

text \<open>A record registered without a retention date is retained until the moment of its registration: the next purge drops it.\<close>

lemma default_retention_is_now:
  assumes "register cfg input s = (Inr p, s')" "pg_retentionUntil input = None" "hc_browserClock cfg = (\<lambda>_. t)" "t \<le> now"
  shows "pr_retention_until p = Some t" "privacy_expired now p"
proof -
  have "pr_retention_until q = pr_retention_until x" if "parseSpatialPrivacyRecord (hc_zod cfg) x = Some q" for x q
    using that by (auto simp: parseSpatialPrivacyRecord_def bind_eq_Some_conv)
  then show "pr_retention_until p = Some t"
    using assms by (auto simp: register_def Let_def auth_isoNow_def browser_now_def case_prod_beta split: option.splits)
  then show "privacy_expired now p" using assms(4) by (simp add: privacy_expired_def)
qed

text \<open>A deleted record can be made active again, and until then it is exported with the fields it disclosed.\<close>

lemma deleted_record_exported:
  assumes "pr_classification p \<noteq> PvSECRET" "pr_lifecycle p = PvDELETED" "pv_records s = [(rid, p)]"
  shows "we_privacy_records (exportWorkspace (pr_workspace_id p) (pr_node_id p) refs revs ev t s) = [p]"
  using assms by (simp add: exportWorkspace_def privacy_list_def jm_values_def export_record_def)

text \<open>The bucket of a metric is not checked: any text the caller puts there is kept.\<close>

definition ex_metric :: telemetry_input where
  "ex_metric = \<lparr> ti_workspaceId = ''w'', ti_nodeId = ''n'', ti_name = Mrenderer_init, ti_value = 1, ti_unit = ''count'',
     ti_bucket = Some ''password hunter2'', ti_correlationId = None, ti_dimensions = [(''route'', ''x'')], ti_observedAt = None \<rparr>"

lemma bucket_not_checked:
  "map mt_bucket (tm_records (snd (record_metric ex_hcfg ex_metric (createTelemetry None)))) = [''password hunter2'']"
  by code_simp

section \<open>Examples\<close>

theorem green_only_after_recovery_witness:
  "isSafeForGreen ''incident:'' (ex_incidents [Open HOOK_DEAD_LETTER ex_fault_input]) = Inr False \<and>
   requireClassicFallback ''incident:'' (ex_incidents [Open HOOK_DEAD_LETTER ex_fault_input]) = Inr True"
proof -
  have "isSafeForGreen ''incident:'' (ex_incidents [Open HOOK_DEAD_LETTER ex_fault_input]) = Inr False" by code_simp
  from green_only_after_recovery [OF ex_incidents_def this] this show ?thesis by simp
qed

theorem telemetry_bounded_and_content_free_witness:
  "length (tm_records (run (telemetry_step ex_hcfg) (createTelemetry (Some 1)) [Record ex_metric, Record (ex_metric \<lparr> ti_dimensions := [] \<rparr>)])) = 1 \<and>
   list_all (\<lambda>(_, seen). distinct seen \<and> int (length seen) \<le> 1)
     (tm_values (run (telemetry_step ex_hcfg) (createTelemetry (Some 1)) [Record ex_metric, Record (ex_metric \<lparr> ti_dimensions := [] \<rparr>)]))"
proof -
  have "length (tm_records (run (telemetry_step ex_hcfg) (createTelemetry (Some 1)) [Record ex_metric, Record (ex_metric \<lparr> ti_dimensions := [] \<rparr>)])) = 1"
    by code_simp
  then show ?thesis
    using conjunct1 [OF telemetry_bounded_and_content_free [OF refl, where cfg = ex_hcfg and limit = "Some 1"]]
    by (simp del: run.simps)
qed

end
