(* ===== verification/Workspace.thy ===== *)
theory Workspace
  imports Status
begin

text \<open>
  The Workspace repository of \<open>spatial/workspace/repository.ts\<close> (\<open>InMemorySpatialWorkspaceRepository\<close>) and the model of
  \<open>spatial/workspace/model.ts\<close>, with the entity, relation, workspace and viewport contracts.

  The payload of an operation is of type \<open>unknown\<close>: the model distinguishes the entities, the relations and the bare
  references a caller can pass, and everything else, which no contract accepts. Every method runs to completion
  without awaiting anything, so calls do not interleave; \<open>structuredClone\<close> makes results independent of the state, which
  is what values are in HOL. Coordinates are the rationals the finite numbers denote. The browser clock is a stream; the
  authorization callback is a parameter.
\<close>

section \<open>Entities and relations\<close>

datatype availability = AvAVAILABLE | AvDEGRADED | AvUNAVAILABLE | AvUNKNOWN

datatype agent_role = RolePRIMARY | RoleSUBAGENT | RoleAGENT

datatype session_type = SessWORKSPACE | SessPROTOCOL | SessSESSION

datatype attention_severity = SevINFO | SevNOTICE | SevWARNING | SevCRITICAL

text \<open>What the kinds of entity have beside the common fields.\<close>

datatype entity_detail =
    AgentDetail agent_role "string option" "string list"
  | EndpointDetail string "string list" "string option" "string option"
  | ServiceDetail string "string option"
  | SessionDetail session_type "string option" "string list"
  | ArtifactDetail string string int
  | AttentionDetail attention_severity bool "timestamp option"

record entity =
  en_id :: string
  en_canonical_ref :: string
  en_node_id :: string
  en_revision :: int
  en_label :: string
  en_state :: string
  en_availability :: availability
  en_freshness :: status_freshness
  en_created_at :: timestamp
  en_updated_at :: timestamp
  en_provenance :: "status_provenance option"
  en_detail :: entity_detail

fun entityDetailSchema :: "zod \<Rightarrow> entity_detail \<Rightarrow> entity_detail option" where
  "entityDetailSchema z (AgentDetail role binding caps) = do {
     b \<leftarrow> nullable (idSchema z) binding; c \<leftarrow> arrayMax z 128 (idSchema z) caps; Some (AgentDetail role b c) }"
| "entityDetailSchema z (EndpointDetail etype caps provider owner) = do {
     t \<leftarrow> labelSchema z etype; c \<leftarrow> arrayMax z 128 (idSchema z) caps; p \<leftarrow> nullable (idSchema z) provider;
     own \<leftarrow> nullable (idSchema z) owner; Some (EndpointDetail t c p own) }"
| "entityDetailSchema z (ServiceDetail stype component) = do {
     t \<leftarrow> labelSchema z stype; c \<leftarrow> nullable (idSchema z) component; Some (ServiceDetail t c) }"
| "entityDetailSchema z (SessionDetail stype protocol actors) = do {
     p \<leftarrow> nullable (idSchema z) protocol; a \<leftarrow> arrayMax z 128 (idSchema z) actors; Some (SessionDetail stype p a) }"
| "entityDetailSchema z (ArtifactDetail atype provenance revision) = do {
     t \<leftarrow> labelSchema z atype; p \<leftarrow> idSchema z provenance; r \<leftarrow> revisionSchema z revision; Some (ArtifactDetail t p r) }"
| "entityDetailSchema z (AttentionDetail severity operator expires) = Some (AttentionDetail severity operator expires)"

definition parseSpatialEntity :: "zod \<Rightarrow> entity \<Rightarrow> entity option" where
  "parseSpatialEntity z e = do {
     eid \<leftarrow> idSchema z (en_id e);
     ref \<leftarrow> idSchema z (en_canonical_ref e);
     node \<leftarrow> idSchema z (en_node_id e);
     revision \<leftarrow> revisionSchema z (en_revision e);
     label \<leftarrow> labelSchema z (en_label e);
     state \<leftarrow> stateSchema z (en_state e);
     freshness \<leftarrow> spatialFreshnessSchema z (en_freshness e);
     provenance \<leftarrow> nullable (statusProvenanceSchema z) (en_provenance e);
     detail \<leftarrow> entityDetailSchema z (en_detail e);
     Some (e \<lparr> en_id := eid, en_canonical_ref := ref, en_node_id := node, en_revision := revision, en_label := label,
       en_state := state, en_freshness := freshness, en_provenance := provenance, en_detail := detail \<rparr>) }"

datatype relation_state = RstACTIVE | RstARCHIVED | RstUNKNOWN | RstSTALE | RstUNAVAILABLE

record relation =
  re_relation_id :: string
  re_node_id :: string
  re_revision :: int
  re_relation_type :: string
  re_source_ref :: string
  re_target_ref :: string
  re_state :: relation_state
  re_freshness :: status_freshness
  re_created_at :: timestamp
  re_updated_at :: timestamp

definition parseSpatialRelation :: "zod \<Rightarrow> relation \<Rightarrow> relation option" where
  "parseSpatialRelation z r = do {
     rid \<leftarrow> idSchema z (re_relation_id r);
     node \<leftarrow> idSchema z (re_node_id r);
     revision \<leftarrow> revisionSchema z (re_revision r);
     rtype \<leftarrow> stateSchema z (re_relation_type r);
     src \<leftarrow> idSchema z (re_source_ref r);
     tgt \<leftarrow> idSchema z (re_target_ref r);
     freshness \<leftarrow> spatialFreshnessSchema z (re_freshness r);
     Some (r \<lparr> re_relation_id := rid, re_node_id := node, re_revision := revision, re_relation_type := rtype,
       re_source_ref := src, re_target_ref := tgt, re_freshness := freshness \<rparr>) }"

section \<open>Workspace and viewport\<close>

record semantic_anchor =
  sm_canonical_ref :: string
  sm_position :: "rat \<times> rat \<times> rat"
  sm_region :: string
  sm_cluster_ref :: "string option"

definition semanticAnchorSchema :: "zod \<Rightarrow> semantic_anchor \<Rightarrow> semantic_anchor option" where
  "semanticAnchorSchema z a = do {
     ref \<leftarrow> idSchema z (sm_canonical_ref a);
     region \<leftarrow> stateSchema z (sm_region a);
     cluster \<leftarrow> nullable (idSchema z) (sm_cluster_ref a);
     Some (a \<lparr> sm_canonical_ref := ref, sm_region := region, sm_cluster_ref := cluster \<rparr>) }"

definition clusterEntrySchema :: "zod \<Rightarrow> string \<times> string \<Rightarrow> (string \<times> string) option" where
  "clusterEntrySchema z kv = do { k \<leftarrow> idSchema z (fst kv); v \<leftarrow> idSchema z (snd kv); Some (k, v) }"

record workspace_snapshot =
  wk_workspace_id :: string
  wk_node_id :: string
  wk_revision :: int
  wk_semantic_revision :: int
  wk_created_at :: timestamp
  wk_updated_at :: timestamp
  wk_entities :: "entity list"
  wk_relations :: "relation list"
  wk_semantic_anchors :: "semantic_anchor list"
  wk_cluster_membership :: "(string, string) jsmap"
  wk_primary_agent_ref :: "string option"

definition parseSpatialWorkspace :: "zod \<Rightarrow> workspace_snapshot \<Rightarrow> workspace_snapshot option" where
  "parseSpatialWorkspace z w = do {
     workspace \<leftarrow> idSchema z (wk_workspace_id w);
     node \<leftarrow> idSchema z (wk_node_id w);
     revision \<leftarrow> revisionSchema z (wk_revision w);
     semantic \<leftarrow> revisionSchema z (wk_semantic_revision w);
     entities \<leftarrow> arrayMax z 10000 (parseSpatialEntity z) (wk_entities w);
     relations \<leftarrow> arrayMax z 20000 (parseSpatialRelation z) (wk_relations w);
     anchors \<leftarrow> arrayMax z 10000 (semanticAnchorSchema z) (wk_semantic_anchors w);
     clusters \<leftarrow> arrayOf (clusterEntrySchema z) (wk_cluster_membership w);
     agent \<leftarrow> nullable (idSchema z) (wk_primary_agent_ref w);
     Some (w \<lparr> wk_workspace_id := workspace, wk_node_id := node, wk_revision := revision, wk_semantic_revision := semantic,
       wk_entities := entities, wk_relations := relations, wk_semantic_anchors := anchors,
       wk_cluster_membership := fold (\<lambda>(k, v). jm_set k v) clusters [], wk_primary_agent_ref := agent \<rparr>) }"

record camera =
  ca_x :: rat
  ca_y :: rat
  ca_zoom :: rat
  ca_focus_id :: "string option"

datatype quality_profile = QLOW | QMOBILE | QDESKTOP | QHIGH

record viewport =
  vw_workspace_id :: string
  vw_node_id :: string
  vw_device_id :: string
  vw_presentation_revision :: int
  vw_camera :: camera
  vw_selection_ref :: "string option"
  vw_opened_frame_refs :: "string list"
  vw_temporary_focus_ref :: "string option"
  vw_transient_discovery_refs :: "string list"
  vw_quality_profile :: quality_profile
  vw_updated_at :: timestamp

definition cameraPositionSchema :: "zod \<Rightarrow> camera \<Rightarrow> camera option" where
  "cameraPositionSchema z c = do {
     focus \<leftarrow> nullable (idSchema z) (ca_focus_id c);
     if z_finite_positive z (ca_zoom c) then Some (c \<lparr> ca_focus_id := focus \<rparr>) else None }"

definition parseSpatialViewport :: "zod \<Rightarrow> viewport \<Rightarrow> viewport option" where
  "parseSpatialViewport z v = do {
     workspace \<leftarrow> idSchema z (vw_workspace_id v);
     node \<leftarrow> idSchema z (vw_node_id v);
     device \<leftarrow> idSchema z (vw_device_id v);
     revision \<leftarrow> revisionSchema z (vw_presentation_revision v);
     cam \<leftarrow> cameraPositionSchema z (vw_camera v);
     selection \<leftarrow> nullable (idSchema z) (vw_selection_ref v);
     frames \<leftarrow> arrayMax z 256 (idSchema z) (vw_opened_frame_refs v);
     focus \<leftarrow> nullable (idSchema z) (vw_temporary_focus_ref v);
     discovery \<leftarrow> arrayMax z 256 (idSchema z) (vw_transient_discovery_refs v);
     Some (v \<lparr> vw_workspace_id := workspace, vw_node_id := node, vw_device_id := device, vw_presentation_revision := revision,
       vw_camera := cam, vw_selection_ref := selection, vw_opened_frame_refs := frames, vw_temporary_focus_ref := focus,
       vw_transient_discovery_refs := discovery \<rparr>) }"

section \<open>The model functions\<close>

datatype workspace_conflict = Wk_NODE_MISMATCH | Wk_STALE_REVISION | Wk_CORRUPT_PRESENTATION | Wk_UNAUTHORIZED
  | Wk_AGENT_REPLACED | Wk_PARTIAL_PERSISTENCE | Wk_VALIDATION | Wk_SCOPE_CONFLICT

definition HOME_CAMERA :: camera where
  "HOME_CAMERA = \<lparr> ca_x = 0, ca_y = 1 / 2, ca_zoom = 1, ca_focus_id = None \<rparr>"

definition createSpatialPresentationSnapshot :: "workspace_snapshot \<Rightarrow> string \<Rightarrow> quality_profile \<Rightarrow> timestamp \<Rightarrow> viewport" where
  "createSpatialPresentationSnapshot w deviceId quality now = \<lparr> vw_workspace_id = wk_workspace_id w, vw_node_id = wk_node_id w,
     vw_device_id = deviceId, vw_presentation_revision = 0, vw_camera = HOME_CAMERA, vw_selection_ref = None,
     vw_opened_frame_refs = [], vw_temporary_focus_ref = None, vw_transient_discovery_refs = [], vw_quality_profile = quality,
     vw_updated_at = now \<rparr>"

definition resetSpatialPresentation :: "viewport \<Rightarrow> timestamp \<Rightarrow> viewport" where
  "resetSpatialPresentation v now = v \<lparr> vw_presentation_revision := vw_presentation_revision v + 1, vw_camera := HOME_CAMERA,
     vw_selection_ref := None, vw_opened_frame_refs := [], vw_temporary_focus_ref := None, vw_transient_discovery_refs := [],
     vw_updated_at := now \<rparr>"

definition createSpatialWorkspaceModel :: "zod \<Rightarrow> workspace_snapshot \<Rightarrow> viewport \<Rightarrow> scope
    \<Rightarrow> workspace_conflict + (workspace_snapshot \<times> viewport)" where
  "createSpatialWorkspaceModel z w v sc = (case parseSpatialWorkspace z w of
     None \<Rightarrow> Inl Wk_NODE_MISMATCH
   | Some snapshot \<Rightarrow> (case parseSpatialViewport z v of
       None \<Rightarrow> Inl Wk_CORRUPT_PRESENTATION
     | Some presentation \<Rightarrow>
         if wk_node_id snapshot \<noteq> scope_node_id sc \<or> vw_node_id presentation \<noteq> scope_node_id sc then Inl Wk_NODE_MISMATCH
         else if vw_workspace_id presentation \<noteq> wk_workspace_id snapshot then Inl Wk_NODE_MISMATCH
         else Inr (snapshot, presentation)))"

definition applySpatialSemanticSnapshot :: "zod \<Rightarrow> workspace_snapshot \<Rightarrow> workspace_snapshot \<Rightarrow> scope
    \<Rightarrow> workspace_conflict + workspace_snapshot" where
  "applySpatialSemanticSnapshot z current nextInput sc = (case parseSpatialWorkspace z nextInput of
     None \<Rightarrow> Inl Wk_STALE_REVISION
   | Some n \<Rightarrow> if wk_node_id n \<noteq> scope_node_id sc then Inl Wk_NODE_MISMATCH
       else if wk_workspace_id n \<noteq> wk_workspace_id current then Inl Wk_NODE_MISMATCH
       else if wk_semantic_revision n < wk_semantic_revision current then Inl Wk_STALE_REVISION
       else Inr n)"

section \<open>The repository\<close>

datatype operation_kind = UpsertEntity | UpsertRelation | ArchiveEntity

datatype operation_payload = PEntity entity | PRelation relation | PRef string | POther

record semantic_operation =
  op_operation_id :: string
  op_idempotency_key :: string
  op_actor_ref :: string
  op_expected_revision :: int
  op_kind :: operation_kind
  op_payload :: operation_payload
  op_agent_binding_revision :: "int option"

record workspace_change =
  ch_change_id :: string
  ch_workspace_id :: string
  ch_node_id :: string
  ch_semantic_revision :: int
  ch_operation_id :: string
  ch_actor_ref :: string
  ch_kind :: operation_kind
  ch_occurred_at :: timestamp

record mutation_result =
  mr_snapshot :: workspace_snapshot
  mr_change :: workspace_change

record workspace_config =
  wsc_zod :: zod
  wsc_authorize :: "(scope \<Rightarrow> semantic_operation \<Rightarrow> bool) option"
  wsc_clock :: "nat \<Rightarrow> timestamp"

record workspace_repository =
  wr_snapshot :: workspace_snapshot
  wr_presentations :: "(string, viewport) jsmap"
  wr_changes :: "workspace_change list"
  wr_operations :: "(string, mutation_result) jsmap"
  wr_failNextPersistence :: bool
  wr_agentBindingRevision :: int
  wr_ticks :: nat

type_synonym 'a workspace_op = "workspace_repository \<Rightarrow> (workspace_conflict, 'a, workspace_repository) outcome"

definition createWorkspaceRepository :: "zod \<Rightarrow> workspace_snapshot \<Rightarrow> bool \<Rightarrow> int \<Rightarrow> workspace_conflict + workspace_repository" where
  "createWorkspaceRepository z w failNext bindingRevision = (case parseSpatialWorkspace z w of
     None \<Rightarrow> Inl Wk_CORRUPT_PRESENTATION
   | Some s \<Rightarrow> Inr \<lparr> wr_snapshot = s, wr_presentations = [], wr_changes = [], wr_operations = [], wr_failNextPersistence = failNext,
       wr_agentBindingRevision = bindingRevision, wr_ticks = 0 \<rparr>)"

definition setAgentBindingRevision :: "int \<Rightarrow> workspace_repository \<Rightarrow> workspace_repository" where
  "setAgentBindingRevision revision r = r \<lparr> wr_agentBindingRevision := revision \<rparr>"

definition failNextWrite :: "workspace_repository \<Rightarrow> workspace_repository" where
  "failNextWrite r = r \<lparr> wr_failNextPersistence := True \<rparr>"

definition owns :: "workspace_repository \<Rightarrow> scope \<Rightarrow> bool" where
  "owns r sc \<longleftrightarrow> wk_node_id (wr_snapshot r) = scope_node_id sc"

definition workspace_getSnapshot :: "scope \<Rightarrow> workspace_repository \<Rightarrow> workspace_conflict + workspace_snapshot" where
  "workspace_getSnapshot sc r = (if owns r sc then Inr (wr_snapshot r) else Inl Wk_NODE_MISMATCH)"

definition workspace_getChanges :: "scope \<Rightarrow> int \<Rightarrow> workspace_repository \<Rightarrow> workspace_conflict + workspace_change list" where
  "workspace_getChanges sc afterRevision r =
     (if \<not> owns r sc then Inl Wk_NODE_MISMATCH
      else if afterRevision < 0 then Inl Wk_VALIDATION
      else Inr (filter (\<lambda>c. ch_semantic_revision c > afterRevision) (wr_changes r)))"

text \<open>\<open>assertSpatialScope\<close>: the normalised scope against the Node of the parsed value.\<close>

definition assertSpatialScope :: "zod \<Rightarrow> scope \<Rightarrow> string \<Rightarrow> bool" where
  "assertSpatialScope z sc expected = (case (normalizeSpatialNodeScope z sc, idSchema z expected) of
     (Some n, Some e) \<Rightarrow> scope_node_id n = e | _ \<Rightarrow> False)"

definition bump :: "workspace_snapshot \<Rightarrow> timestamp \<Rightarrow> workspace_snapshot" where
  "bump w t = w \<lparr> wk_revision := wk_revision w + 1, wk_semantic_revision := wk_semantic_revision w + 1, wk_updated_at := t \<rparr>"

definition upsert_entity :: "workspace_config \<Rightarrow> scope \<Rightarrow> operation_payload \<Rightarrow> workspace_snapshot \<Rightarrow> workspace_conflict + workspace_snapshot" where
  "upsert_entity cfg sc payload w = (case (case payload of PEntity e \<Rightarrow> parseSpatialEntity (wsc_zod cfg) e | _ \<Rightarrow> None) of
     None \<Rightarrow> Inl Wk_PARTIAL_PERSISTENCE
   | Some e \<Rightarrow> if \<not> assertSpatialScope (wsc_zod cfg) sc (en_node_id e) then Inl Wk_SCOPE_CONFLICT
       else Inr ((bump w (en_updated_at e)) \<lparr> wk_entities := filter (\<lambda>x. en_canonical_ref x \<noteq> en_canonical_ref e) (wk_entities w) @ [e] \<rparr>))"

definition upsert_relation :: "workspace_config \<Rightarrow> scope \<Rightarrow> operation_payload \<Rightarrow> workspace_snapshot \<Rightarrow> workspace_conflict + workspace_snapshot" where
  "upsert_relation cfg sc payload w = (case (case payload of PRelation x \<Rightarrow> parseSpatialRelation (wsc_zod cfg) x | _ \<Rightarrow> None) of
     None \<Rightarrow> Inl Wk_PARTIAL_PERSISTENCE
   | Some x \<Rightarrow> if \<not> assertSpatialScope (wsc_zod cfg) sc (re_node_id x) then Inl Wk_SCOPE_CONFLICT
       else Inr ((bump w (re_updated_at x)) \<lparr> wk_relations := filter (\<lambda>y. re_relation_id y \<noteq> re_relation_id x) (wk_relations w) @ [x] \<rparr>))"

fun payload_ref :: "operation_payload \<Rightarrow> string" where
  "payload_ref (PEntity e) = en_canonical_ref e"
| "payload_ref (PRef ref) = ref"
| "payload_ref _ = []"

definition archive_entity :: "string \<Rightarrow> timestamp \<Rightarrow> workspace_snapshot \<Rightarrow> workspace_snapshot" where
  "archive_entity ref now w = (bump w now) \<lparr> wk_entities := map (\<lambda>e. if en_canonical_ref e = ref
     then e \<lparr> en_state := ''ARCHIVED'', en_availability := AvUNAVAILABLE, en_updated_at := now \<rparr> else e) (wk_entities w) \<rparr>"

text \<open>The next snapshot of an operation, and the repository after the readings of the clock it took.\<close>

definition next_snapshot :: "workspace_config \<Rightarrow> scope \<Rightarrow> semantic_operation \<Rightarrow> workspace_snapshot workspace_op" where
  "next_snapshot cfg sc op r = (case op_kind op of
     UpsertEntity \<Rightarrow> (upsert_entity cfg sc (op_payload op) (wr_snapshot r), r)
   | UpsertRelation \<Rightarrow> (upsert_relation cfg sc (op_payload op) (wr_snapshot r), r)
   | ArchiveEntity \<Rightarrow> let ref = payload_ref (op_payload op) in
       if ref = [] \<or> \<not> list_ex (\<lambda>e. en_canonical_ref e = ref) (wk_entities (wr_snapshot r)) then throw Wk_PARTIAL_PERSISTENCE r
       else return (archive_entity ref (wsc_clock cfg (wr_ticks r)) (wr_snapshot r)) (r \<lparr> wr_ticks := wr_ticks r + 1 \<rparr>))"

definition workspace_change_of :: "semantic_operation \<Rightarrow> workspace_snapshot \<Rightarrow> workspace_change" where
  "workspace_change_of op w = \<lparr> ch_change_id = ''change-'' @ show_int (wk_semantic_revision w), ch_workspace_id = wk_workspace_id w,
     ch_node_id = wk_node_id w, ch_semantic_revision = wk_semantic_revision w, ch_operation_id = op_operation_id op,
     ch_actor_ref = op_actor_ref op, ch_kind = op_kind op, ch_occurred_at = wk_updated_at w \<rparr>"

definition commit_snapshot :: "semantic_operation \<Rightarrow> workspace_snapshot \<Rightarrow> mutation_result workspace_op" where
  "commit_snapshot op w r = (let result = \<lparr> mr_snapshot = w, mr_change = workspace_change_of op w \<rparr> in
     return result (r \<lparr> wr_snapshot := w, wr_operations := jm_set (op_idempotency_key op) result (wr_operations r),
       wr_changes := wr_changes r @ [workspace_change_of op w] \<rparr>))"

definition applySemanticOperation :: "workspace_config \<Rightarrow> scope \<Rightarrow> semantic_operation \<Rightarrow> mutation_result workspace_op" where
  "applySemanticOperation cfg sc op r =
     (if \<not> owns r sc then throw Wk_NODE_MISMATCH r
      else if js_trim (op_operation_id op) = [] \<or> js_trim (op_idempotency_key op) = [] \<or> js_trim (op_actor_ref op) = [] then throw Wk_VALIDATION r
      else if op_expected_revision op < 0 then throw Wk_VALIDATION r
      else case jm_get (wr_operations r) (op_idempotency_key op) of
        Some existing \<Rightarrow> return existing r
      | None \<Rightarrow>
          if (case wsc_authorize cfg of None \<Rightarrow> False | Some f \<Rightarrow> \<not> f sc op) then throw Wk_UNAUTHORIZED r
          else if op_expected_revision op \<noteq> wk_semantic_revision (wr_snapshot r) then throw Wk_STALE_REVISION r
          else seqO (next_snapshot cfg sc op r) (\<lambda>w r1.
            if op_agent_binding_revision op \<noteq> None \<and> op_agent_binding_revision op \<noteq> Some (wr_agentBindingRevision r1) then throw Wk_AGENT_REPLACED r1
            else if wr_failNextPersistence r1 then throw Wk_PARTIAL_PERSISTENCE (r1 \<lparr> wr_failNextPersistence := False \<rparr>)
            else commit_snapshot op w r1))"

definition putPresentation :: "workspace_config \<Rightarrow> scope \<Rightarrow> viewport \<Rightarrow> viewport workspace_op" where
  "putPresentation cfg sc input r = (case parseSpatialViewport (wsc_zod cfg) input of
     None \<Rightarrow> throw Wk_CORRUPT_PRESENTATION r
   | Some v \<Rightarrow>
       if \<not> owns r sc then throw Wk_NODE_MISMATCH r
       else if vw_node_id v \<noteq> scope_node_id sc \<or> vw_workspace_id v \<noteq> wk_workspace_id (wr_snapshot r) then throw Wk_NODE_MISMATCH r
       else return v (r \<lparr> wr_presentations := jm_set (vw_device_id v) v (wr_presentations r) \<rparr>))"

text \<open>The result of a reset says whether the presentation had to be recovered. The fallback reads the clock in any case.\<close>

definition resetPresentation :: "workspace_config \<Rightarrow> scope \<Rightarrow> string \<Rightarrow> (viewport \<times> bool) workspace_op" where
  "resetPresentation cfg sc deviceId r =
     (if \<not> owns r sc then throw Wk_NODE_MISMATCH r
      else let parsed = Option.bind (jm_get (wr_presentations r) deviceId) (parseSpatialViewport (wsc_zod cfg));
               fallback = createSpatialPresentationSnapshot (wr_snapshot r) deviceId QDESKTOP (wsc_clock cfg (wr_ticks r));
               r1 = r \<lparr> wr_ticks := wr_ticks r + 1 \<rparr>
           in case parsed of
                None \<Rightarrow> return (fallback, True) (r1 \<lparr> wr_presentations := jm_set deviceId fallback (wr_presentations r1) \<rparr>)
              | Some v \<Rightarrow> let reset = resetSpatialPresentation v (wsc_clock cfg (wr_ticks r1)) in
                  return (reset, False) (r1 \<lparr> wr_ticks := wr_ticks r1 + 1, wr_presentations := jm_set deviceId reset (wr_presentations r1) \<rparr>))"

definition workspace_getEntity :: "scope \<Rightarrow> string \<Rightarrow> workspace_repository \<Rightarrow> workspace_conflict + entity option" where
  "workspace_getEntity sc ref r = (if \<not> owns r sc then Inl Wk_NODE_MISMATCH
     else Inr (List.find (\<lambda>e. en_canonical_ref e = ref) (wk_entities (wr_snapshot r))))"

definition workspace_getRelation :: "scope \<Rightarrow> string \<Rightarrow> workspace_repository \<Rightarrow> workspace_conflict + relation option" where
  "workspace_getRelation sc ref r = (if \<not> owns r sc then Inl Wk_NODE_MISMATCH
     else Inr (List.find (\<lambda>x. re_relation_id x = ref) (wk_relations (wr_snapshot r))))"

end
