(* ===== verification/Workspace_Properties.thy ===== *)
theory Workspace_Properties
  imports Workspace
begin

text \<open>
  What the Workspace repository guarantees: the change feed has no gap and no duplicate, an operation is committed at
  most once and never over a revision its author has not seen, an upserted entity is what is read back and nothing else
  changes, and presentation calls never touch the semantic state. The last section lists what is not checked.
\<close>

section \<open>One operation\<close>

text \<open>The semantic part of the repository.\<close>

definition semantic :: "workspace_repository \<Rightarrow> workspace_snapshot \<times> workspace_change list \<times> (string, mutation_result) jsmap" where
  "semantic r = (wr_snapshot r, wr_changes r, wr_operations r)"

lemma next_snapshot_frame:
  assumes "next_snapshot cfg sc op r = (res, r')"
  shows "semantic r' = semantic r" "wr_presentations r' = wr_presentations r"
    "wr_agentBindingRevision r' = wr_agentBindingRevision r" "wr_failNextPersistence r' = wr_failNextPersistence r"
  using assms by (auto simp: next_snapshot_def semantic_def Let_def split: operation_kind.splits if_splits)

lemma upsert_entity_next:
  assumes "upsert_entity cfg sc p w = Inr w'"
  shows "wk_semantic_revision w' = wk_semantic_revision w + 1" "wk_workspace_id w' = wk_workspace_id w" "wk_node_id w' = wk_node_id w"
  using assms by (auto simp: upsert_entity_def bump_def split: option.splits if_splits operation_payload.splits)

lemma upsert_relation_next:
  assumes "upsert_relation cfg sc p w = Inr w'"
  shows "wk_semantic_revision w' = wk_semantic_revision w + 1" "wk_workspace_id w' = wk_workspace_id w" "wk_node_id w' = wk_node_id w"
    "wk_entities w' = wk_entities w"
  using assms by (auto simp: upsert_relation_def bump_def split: option.splits if_splits operation_payload.splits)

lemma next_snapshot_Inr:
  assumes "next_snapshot cfg sc op r = (Inr w, r')"
  shows "wk_semantic_revision w = wk_semantic_revision (wr_snapshot r) + 1" "wk_workspace_id w = wk_workspace_id (wr_snapshot r)"
    "wk_node_id w = wk_node_id (wr_snapshot r)"
  using assms by (auto simp: next_snapshot_def Let_def archive_entity_def bump_def
      dest: upsert_entity_next upsert_relation_next split: operation_kind.splits if_splits)

lemma apply_cases:
  obtains (Refused) e r' where "applySemanticOperation cfg sc op r = (Inl e, r')" "semantic r' = semantic r" "wr_presentations r' = wr_presentations r"
  | (Repeated) res where "applySemanticOperation cfg sc op r = (Inr res, r)" "jm_get (wr_operations r) (op_idempotency_key op) = Some res"
  | (Committed) w r1 where "applySemanticOperation cfg sc op r = commit_snapshot op w r1" "next_snapshot cfg sc op r = (Inr w, r1)"
      "jm_get (wr_operations r) (op_idempotency_key op) = None" "op_expected_revision op = wk_semantic_revision (wr_snapshot r)"
      "semantic r1 = semantic r" "wr_presentations r1 = wr_presentations r" "owns r sc"
proof (cases "\<exists>w r1. applySemanticOperation cfg sc op r = commit_snapshot op w r1 \<and> next_snapshot cfg sc op r = (Inr w, r1) \<and>
    jm_get (wr_operations r) (op_idempotency_key op) = None \<and> op_expected_revision op = wk_semantic_revision (wr_snapshot r) \<and> owns r sc")
  case True
  then show thesis using Committed next_snapshot_frame by blast
next
  case False
  show thesis
  proof (cases "jm_get (wr_operations r) (op_idempotency_key op) \<noteq> None \<and> (\<exists>res. applySemanticOperation cfg sc op r = (Inr res, r))")
    case True
    then show thesis using Repeated by (auto simp: applySemanticOperation_def split: if_splits)
  next
    case n: False
    obtain res r1 where nx: "next_snapshot cfg sc op r = (res, r1)" by fastforce
    note fr = next_snapshot_frame [OF nx]
    have "\<exists>e r'. applySemanticOperation cfg sc op r = (Inl e, r') \<and> (r' = r \<or> r' = r1 \<or> r' = r1 \<lparr> wr_failNextPersistence := False \<rparr>)"
      using False n nx unfolding applySemanticOperation_def
      by (cases res) (auto split: option.splits if_splits)
    then show thesis using Refused fr by (auto simp: semantic_def)
  qed
qed

section \<open>Sequences of calls\<close>

datatype workspace_call =
    Apply scope semantic_operation
  | Put scope viewport
  | Reset scope string
  | SetBinding int
  | FailNext

definition workspace_step :: "workspace_config \<Rightarrow> workspace_repository \<Rightarrow> workspace_call \<Rightarrow> workspace_repository" where
  "workspace_step cfg r call = (case call of
     Apply sc op \<Rightarrow> snd (applySemanticOperation cfg sc op r)
   | Put sc v \<Rightarrow> snd (putPresentation cfg sc v r)
   | Reset sc device \<Rightarrow> snd (resetPresentation cfg sc device r)
   | SetBinding revision \<Rightarrow> setAgentBindingRevision revision r
   | FailNext \<Rightarrow> failNextWrite r)"

lemma commit_semantic:
  "commit_snapshot op w r = (Inr \<lparr> mr_snapshot = w, mr_change = workspace_change_of op w \<rparr>, snd (commit_snapshot op w r))"
  "semantic (snd (commit_snapshot op w r)) = (w, wr_changes r @ [workspace_change_of op w],
     jm_set (op_idempotency_key op) \<lparr> mr_snapshot = w, mr_change = workspace_change_of op w \<rparr> (wr_operations r))"
  "wr_presentations (snd (commit_snapshot op w r)) = wr_presentations r"
  by (simp_all add: commit_snapshot_def semantic_def Let_def)

lemma other_calls_semantic:
  assumes "\<forall>sc op. call \<noteq> Apply sc op"
  shows "semantic (workspace_step cfg r call) = semantic r"
  using assms
  by (cases call) (auto simp: workspace_step_def putPresentation_def resetPresentation_def setAgentBindingRevision_def failNextWrite_def
      semantic_def Let_def split: option.splits)

lemma workspace_step_cases:
  obtains (Same) "semantic (workspace_step cfg r call) = semantic r"
  | (Commit) sc op w where "call = Apply sc op" "jm_get (wr_operations r) (op_idempotency_key op) = None"
      "op_expected_revision op = wk_semantic_revision (wr_snapshot r)"
      "wk_semantic_revision w = wk_semantic_revision (wr_snapshot r) + 1"
      "wk_workspace_id w = wk_workspace_id (wr_snapshot r)" "wk_node_id w = wk_node_id (wr_snapshot r)"
      "semantic (workspace_step cfg r call) = (w, wr_changes r @ [workspace_change_of op w],
         jm_set (op_idempotency_key op) \<lparr> mr_snapshot = w, mr_change = workspace_change_of op w \<rparr> (wr_operations r))"
proof (cases "\<exists>sc op. call = Apply sc op")
  case True
  then obtain sc op where c: "call = Apply sc op" by blast
  show thesis
  proof (cases rule: apply_cases [where cfg = cfg and sc = sc and op = op and r = r])
    case (Refused e r')
    then show thesis using Same c by (simp add: workspace_step_def)
  next
    case (Repeated res)
    then show thesis using Same c by (simp add: workspace_step_def)
  next
    case (Committed w r1)
    have "semantic (workspace_step cfg r call) = (w, wr_changes r @ [workspace_change_of op w],
         jm_set (op_idempotency_key op) \<lparr> mr_snapshot = w, mr_change = workspace_change_of op w \<rparr> (wr_operations r))"
      using Committed(1,5) c commit_semantic(2) [of op w r1] by (simp add: workspace_step_def semantic_def)
    then show thesis using Commit c Committed(3,4) next_snapshot_Inr [OF Committed(2)] by blast
  qed
next
  case False
  then show thesis using Same other_calls_semantic by blast
qed

definition workspace_inv :: "workspace_snapshot \<Rightarrow> workspace_repository \<Rightarrow> bool" where
  "workspace_inv w0 r \<longleftrightarrow> wk_workspace_id (wr_snapshot r) = wk_workspace_id w0 \<and> wk_node_id (wr_snapshot r) = wk_node_id w0 \<and>
     wk_semantic_revision w0 \<le> wk_semantic_revision (wr_snapshot r) \<and>
     map ch_semantic_revision (wr_changes r) = [wk_semantic_revision w0 + 1 .. wk_semantic_revision (wr_snapshot r)]"

lemma semantic_eq: "semantic r = semantic r' \<longleftrightarrow> wr_snapshot r = wr_snapshot r' \<and> wr_changes r = wr_changes r' \<and> wr_operations r = wr_operations r'"
  by (simp add: semantic_def)

lemma workspace_step_inv: "workspace_inv w0 r \<Longrightarrow> workspace_inv w0 (workspace_step cfg r call)"
proof (cases rule: workspace_step_cases [where cfg = cfg and r = r and call = call])
  case Same
  assume "workspace_inv w0 r"
  with Same show ?thesis by (simp add: workspace_inv_def semantic_eq)
next
  case (Commit sc op w)
  assume inv: "workspace_inv w0 r"
  let ?n = "wk_semantic_revision (wr_snapshot r)"
  have "[wk_semantic_revision w0 + 1 .. ?n + 1] = [wk_semantic_revision w0 + 1 .. ?n] @ [?n + 1]"
    using inv upto_rec2 [of "wk_semantic_revision w0 + 1" "?n + 1"] by (simp add: workspace_inv_def)
  moreover have "wr_snapshot (workspace_step cfg r call) = w" "wr_changes (workspace_step cfg r call) = wr_changes r @ [workspace_change_of op w]"
    using Commit(7) by (auto simp: semantic_def)
  ultimately show ?thesis using inv Commit(4-6) by (simp add: workspace_inv_def workspace_change_of_def)
qed

lemma workspace_step_revision:
  "wk_semantic_revision (wr_snapshot r) \<le> wk_semantic_revision (wr_snapshot (workspace_step cfg r call))"
  by (cases rule: workspace_step_cases [where cfg = cfg and r = r and call = call]) (auto simp: semantic_def)

interpretation workspace: monotone_machine "workspace_step cfg" "workspace_inv w0" "\<lambda>r. wk_semantic_revision (wr_snapshot r)"
  by unfold_locales (auto intro: workspace_step_inv workspace_step_revision)

lemma run_revision: "wk_semantic_revision (wr_snapshot r) \<le> wk_semantic_revision (wr_snapshot (run (workspace_step cfg) r calls))"
  by (induction calls arbitrary: r) (auto intro: order_trans workspace_step_revision)

lemma run_keeps_result:
  "jm_get (wr_operations r) k = Some res \<Longrightarrow> jm_get (wr_operations (run (workspace_step cfg) r calls)) k = Some res"
proof (induction calls arbitrary: r)
  case (Cons call calls)
  have "jm_get (wr_operations (workspace_step cfg r call)) k = Some res"
    using Cons.prems by (cases rule: workspace_step_cases [where cfg = cfg and r = r and call = call]) (auto simp: semantic_def jm_get_set)
  then show ?case by (simp add: Cons.IH)
qed simp

lemma run_keeps_node: "wk_node_id (wr_snapshot (run (workspace_step cfg) r calls)) = wk_node_id (wr_snapshot r)"
proof (induction calls arbitrary: r)
  case (Cons call calls)
  have "wk_node_id (wr_snapshot (workspace_step cfg r call)) = wk_node_id (wr_snapshot r)"
    by (cases rule: workspace_step_cases [where cfg = cfg and r = r and call = call]) (auto simp: semantic_def)
  then show ?case by (simp add: Cons.IH)
qed simp

section \<open>What the repository guarantees\<close>

text \<open>
  The change feed has no gap and no duplicate: after any sequence of calls on a new repository, failed ones
  included, the changes after a revision are those of exactly the following revisions, one each and in order, up to the
  revision of the snapshot.
\<close>
theorem workspace_changes_gap_free:
  assumes "createWorkspaceRepository (wsc_zod cfg) w failNext binding = Inr r0"
    and "workspace_getChanges sc afterRevision (run (workspace_step cfg) r0 calls) = Inr changes"
  shows "map ch_semantic_revision changes = [max (wk_semantic_revision (wr_snapshot r0)) afterRevision + 1 ..
    wk_semantic_revision (wr_snapshot (run (workspace_step cfg) r0 calls))]"
proof -
  let ?r = "run (workspace_step cfg) r0 calls"
  have "wr_changes r0 = []" using assms(1) by (auto simp: createWorkspaceRepository_def split: option.splits)
  then have "workspace_inv (wr_snapshot r0) r0" by (simp add: workspace_inv_def)
  then have i: "workspace_inv (wr_snapshot r0) ?r" by (rule workspace.run_inv)
  have "map ch_semantic_revision changes = filter (\<lambda>n. afterRevision < n) (map ch_semantic_revision (wr_changes ?r))"
    using assms(2) by (auto simp: workspace_getChanges_def filter_map comp_def split: if_splits)
  also have "\<dots> = [max (wk_semantic_revision (wr_snapshot r0) + 1) (afterRevision + 1) .. wk_semantic_revision (wr_snapshot ?r)]"
    using i by (simp add: workspace_inv_def filter_upto)
  finally show ?thesis by (simp add: max_def split: if_splits)
qed

text \<open>
  (C33) No lost update: once an operation is committed, whatever calls follow, another operation made against the same
  revision under a new key is refused and changes nothing of the semantic state, while the same key sent again, by a
  caller whose request is well formed, returns the recorded result and changes nothing at all.
\<close>
theorem workspace_no_lost_update:
  assumes "applySemanticOperation cfg sc op r = (Inr res, r1)" and "jm_get (wr_operations r) (op_idempotency_key op) = None"
    and r2: "r2 = run (workspace_step cfg) r1 calls"
  shows "(op_expected_revision other = op_expected_revision op \<and> jm_get (wr_operations r2) (op_idempotency_key other) = None \<longrightarrow>
      (\<exists>e r3. applySemanticOperation cfg sc' other r2 = (Inl e, r3) \<and> semantic r3 = semantic r2)) \<and>
    applySemanticOperation cfg sc op r2 = (Inr res, r2)"
proof -
  obtain w r' where c: "applySemanticOperation cfg sc op r = commit_snapshot op w r'" "next_snapshot cfg sc op r = (Inr w, r')"
    "op_expected_revision op = wk_semantic_revision (wr_snapshot r)" "owns r sc"
    by (cases rule: apply_cases [where cfg = cfg and sc = sc and op = op and r = r]) (use assms in auto)
  have s1: "semantic r1 = (w, wr_changes r' @ [workspace_change_of op w], jm_set (op_idempotency_key op) res (wr_operations r'))"
    and n: "wk_node_id w = wk_node_id (wr_snapshot r)" "wk_semantic_revision w = wk_semantic_revision (wr_snapshot r) + 1"
    using c(1) assms(1) next_snapshot_Inr [OF c(2)] by (auto simp: commit_snapshot_def semantic_def Let_def)
  then have r1: "jm_get (wr_operations r1) (op_idempotency_key op) = Some res" "wr_snapshot r1 = w" by (auto simp: semantic_def)
  have k: "jm_get (wr_operations r2) (op_idempotency_key op) = Some res" unfolding r2 by (rule run_keeps_result [OF r1(1)])
  have valid: "\<not> (js_trim (op_operation_id op) = [] \<or> js_trim (op_idempotency_key op) = [] \<or> js_trim (op_actor_ref op) = [])" "\<not> op_expected_revision op < 0"
    using assms(1) by (auto simp: applySemanticOperation_def split: if_splits)
  have "owns r2 sc" using c(4) n(1) r1(2) unfolding r2 owns_def by (simp add: run_keeps_node)
  then have again: "applySemanticOperation cfg sc op r2 = (Inr res, r2)" using valid k by (simp add: applySemanticOperation_def)
  have rev: "op_expected_revision op < wk_semantic_revision (wr_snapshot r2)"
    using run_revision [of r1 cfg calls] n(2) c(3) r1(2) by (simp add: r2)
  show ?thesis
  proof (rule conjI [OF _ again], rule impI)
    assume o: "op_expected_revision other = op_expected_revision op \<and> jm_get (wr_operations r2) (op_idempotency_key other) = None"
    show "\<exists>e r3. applySemanticOperation cfg sc' other r2 = (Inl e, r3) \<and> semantic r3 = semantic r2"
      by (cases rule: apply_cases [where cfg = cfg and sc = sc' and op = other and r = r2]) (use o rev in auto)
  qed
qed

lemma entity_keeps:
  "parseSpatialEntity z e = Some e' \<Longrightarrow> en_canonical_ref e' = js_trim (en_canonical_ref e) \<and> en_node_id e' = js_trim (en_node_id e)"
  by (auto simp: parseSpatialEntity_def bind_eq_Some_conv dest: idSchema_trim)

lemma find_filter_other:
  "ref \<noteq> f x \<Longrightarrow> List.find (\<lambda>e. f e = ref) (filter (\<lambda>y. f y \<noteq> f x) xs @ [x]) = List.find (\<lambda>e. f e = ref) xs"
  by (induction xs) auto

lemma find_filter_same: "List.find (\<lambda>e. f e = f x) (filter (\<lambda>y. f y \<noteq> f x) xs @ [x]) = Some x"
  by (induction xs) auto

text \<open>
  What is written is what is read: after an upsert is committed, the entity under its canonical reference is the
  payload as the contract parses it, every other entity and every relation reads as before, and no reference occurs
  twice among the entities if none did.
\<close>
theorem upsert_lookup_roundtrip:
  assumes "applySemanticOperation cfg sc op r = (Inr res, r1)" "jm_get (wr_operations r) (op_idempotency_key op) = None"
    and "op_kind op = UpsertEntity" "op_payload op = PEntity e"
  shows "\<exists>e'. parseSpatialEntity (wsc_zod cfg) e = Some e' \<and>
    workspace_getEntity sc (en_canonical_ref e') r1 = Inr (Some e') \<and>
    (\<forall>ref. ref \<noteq> en_canonical_ref e' \<longrightarrow> workspace_getEntity sc ref r1 = workspace_getEntity sc ref r) \<and>
    (\<forall>ref. workspace_getRelation sc ref r1 = workspace_getRelation sc ref r) \<and>
    (distinct (map en_canonical_ref (wk_entities (wr_snapshot r))) \<longrightarrow> distinct (map en_canonical_ref (wk_entities (wr_snapshot r1))))"
proof -
  obtain w r' where c: "applySemanticOperation cfg sc op r = commit_snapshot op w r'" "next_snapshot cfg sc op r = (Inr w, r')" "owns r sc"
    by (cases rule: apply_cases [where cfg = cfg and sc = sc and op = op and r = r]) (use assms in auto)
  obtain e' where e': "parseSpatialEntity (wsc_zod cfg) e = Some e'"
    and w: "wk_entities w = filter (\<lambda>x. en_canonical_ref x \<noteq> en_canonical_ref e') (wk_entities (wr_snapshot r)) @ [e']"
      "wk_relations w = wk_relations (wr_snapshot r)" "wk_node_id w = wk_node_id (wr_snapshot r)"
    using c(2) assms(3,4) by (auto simp: next_snapshot_def upsert_entity_def bump_def split: option.splits if_splits)
  have s: "wr_snapshot r1 = w" using c(1) assms(1) by (simp add: commit_snapshot_def Let_def)
  have own: "owns r1 sc" using c(3) s w(3) by (simp add: owns_def)
  have d: "distinct (map en_canonical_ref (wk_entities (wr_snapshot r1)))" if "distinct (map en_canonical_ref (wk_entities (wr_snapshot r)))"
    using that by (auto simp: s w(1) distinct_map_filter)
  show ?thesis
    using e' own c(3) d by (auto simp: workspace_getEntity_def workspace_getRelation_def s w find_filter_same find_filter_other)
qed

text \<open>Presentation and semantic state are separate: calls of the one kind never change the other.\<close>

lemma presentation_never_semantic:
  "semantic (snd (putPresentation cfg sc v r)) = semantic r" "semantic (snd (resetPresentation cfg sc device r)) = semantic r"
  "wr_presentations (snd (applySemanticOperation cfg sc op r)) = wr_presentations r"
proof -
  show "semantic (snd (putPresentation cfg sc v r)) = semantic r" "semantic (snd (resetPresentation cfg sc device r)) = semantic r"
    using other_calls_semantic [of "Put sc v" cfg r] other_calls_semantic [of "Reset sc device" cfg r] by (auto simp: workspace_step_def)
  show "wr_presentations (snd (applySemanticOperation cfg sc op r)) = wr_presentations r"
  proof (cases rule: apply_cases [where cfg = cfg and sc = sc and op = op and r = r])
    case (Committed w r1)
    then show ?thesis using commit_semantic(3) [of op w r1] by simp
  qed auto
qed

text \<open>A presentation can always be reset by the owner, and what a reset stores is at home with nothing selected.\<close>

lemma reset_always_succeeds:
  assumes "owns r sc"
  shows "\<exists>v recovered r'. resetPresentation cfg sc device r = (Inr (v, recovered), r') \<and> vw_camera v = HOME_CAMERA \<and>
    vw_selection_ref v = None \<and> vw_opened_frame_refs v = [] \<and> jm_get (wr_presentations r') device = Some v"
  using assms
  by (cases "Option.bind (jm_get (wr_presentations r) device) (parseSpatialViewport (wsc_zod cfg))")
    (simp_all add: resetPresentation_def Let_def createSpatialPresentationSnapshot_def resetSpatialPresentation_def, blast+)

section \<open>What is not checked\<close>

text \<open>A repeated key is answered before authorization is asked: a caller without authority gets the recorded snapshot.\<close>

lemma replay_skips_authorization:
  assumes "owns r sc" "js_trim (op_operation_id op) \<noteq> []" "js_trim (op_idempotency_key op) \<noteq> []" "js_trim (op_actor_ref op) \<noteq> []"
    and "0 \<le> op_expected_revision op" "jm_get (wr_operations r) (op_idempotency_key op) = Some res"
  shows "applySemanticOperation (cfg \<lparr> wsc_authorize := Some (\<lambda>_ _. False) \<rparr>) sc op r = (Inr res, r)"
  using assms by (simp add: applySemanticOperation_def)

text \<open>
  An operation is not checked against the limits of the snapshot contract: with ten thousand entities, one more is
  accepted, and the snapshot no longer parses.
\<close>

lemma snapshot_outgrows_contract:
  assumes "zod_documented (wsc_zod cfg)" "applySemanticOperation cfg sc op r = (Inr res, r1)" "op_kind op = UpsertEntity" "op_payload op = PEntity e"
    and "jm_get (wr_operations r) (op_idempotency_key op) = None"
    and "10000 \<le> length (filter (\<lambda>x. en_canonical_ref x \<noteq> js_trim (en_canonical_ref e)) (wk_entities (wr_snapshot r)))"
  shows "parseSpatialWorkspace (wsc_zod cfg) (wr_snapshot r1) = None"
proof -
  obtain w r' where c: "applySemanticOperation cfg sc op r = commit_snapshot op w r'" "next_snapshot cfg sc op r = (Inr w, r')"
    by (cases rule: apply_cases [where cfg = cfg and sc = sc and op = op and r = r]) (use assms in auto)
  obtain e' where e': "parseSpatialEntity (wsc_zod cfg) e = Some e'"
    and w: "wk_entities w = filter (\<lambda>x. en_canonical_ref x \<noteq> en_canonical_ref e') (wk_entities (wr_snapshot r)) @ [e']"
    using c(2) assms(3,4) by (auto simp: next_snapshot_def upsert_entity_def bump_def split: option.splits if_splits)
  have "length (wk_entities (wr_snapshot r1)) > 10000"
    using assms(2,6) c(1) w entity_keeps [OF e'] by (auto simp: commit_snapshot_def Let_def)
  then have "arrayMax (wsc_zod cfg) 10000 (parseSpatialEntity (wsc_zod cfg)) (wk_entities (wr_snapshot r1)) = None"
    using assms(1) by (simp add: arrayMax_def zod_documented_def)
  then show ?thesis by (auto simp: parseSpatialWorkspace_def Option.bind_eq_None_conv)
qed

text \<open>The revision of the entity is not compared: an older one replaces a newer one.\<close>

definition ex_fresh :: status_freshness where
  "ex_fresh = \<lparr> fr_state = FrFRESH, fr_observed_at = 1, fr_stale_after_seconds = 60, fr_source = ''node'' \<rparr>"

definition ex_entity :: "int \<Rightarrow> entity" where
  "ex_entity revision = \<lparr> en_id = ''e'', en_canonical_ref = ''service:e'', en_node_id = ''n'', en_revision = revision, en_label = ''E'',
     en_state = ''READY'', en_availability = AvAVAILABLE, en_freshness = ex_fresh, en_created_at = 1, en_updated_at = 2,
     en_provenance = None, en_detail = ServiceDetail ''api'' None \<rparr>"

definition ex_op :: "string \<Rightarrow> int \<Rightarrow> int \<Rightarrow> semantic_operation" where
  "ex_op key expected revision = \<lparr> op_operation_id = ''op'', op_idempotency_key = key, op_actor_ref = ''a'', op_expected_revision = expected,
     op_kind = UpsertEntity, op_payload = PEntity (ex_entity revision), op_agent_binding_revision = None \<rparr>"

definition ex_wscope :: scope where
  "ex_wscope = \<lparr> scope_hypervisor_id = ''h'', scope_node_id = ''n'' \<rparr>"

definition ex_wcfg :: workspace_config where
  "ex_wcfg = \<lparr> wsc_zod = zod_ref, wsc_authorize = None, wsc_clock = (\<lambda>n. 5) \<rparr>"

definition ex_snapshot :: workspace_snapshot where
  "ex_snapshot = \<lparr> wk_workspace_id = ''w'', wk_node_id = ''n'', wk_revision = 3, wk_semantic_revision = 3, wk_created_at = 0,
     wk_updated_at = 0, wk_entities = [], wk_relations = [], wk_semantic_anchors = [], wk_cluster_membership = [], wk_primary_agent_ref = None \<rparr>"

definition ex_repo :: workspace_repository where
  "ex_repo = projr (createWorkspaceRepository zod_ref ex_snapshot False 0)"

lemma older_entity_overwrites:
  "map en_revision (wk_entities (wr_snapshot (run (workspace_step ex_wcfg) ex_repo
     [Apply ex_wscope (ex_op ''k1'' 3 9), Apply ex_wscope (ex_op ''k2'' 4 1)]))) = [1]"
  by code_simp

section \<open>Examples\<close>

lemma ex_repo_created: "createWorkspaceRepository (wsc_zod ex_wcfg) ex_snapshot False 0 = Inr ex_repo"
  by code_simp

theorem workspace_changes_gap_free_witness:
  "\<exists>changes. workspace_getChanges ex_wscope 0 (run (workspace_step ex_wcfg) ex_repo
     [Apply ex_wscope (ex_op ''k1'' 3 9), Apply ex_wscope (ex_op ''k1'' 3 9), Apply ex_wscope (ex_op ''k2'' 4 1)]) = Inr changes \<and>
     map ch_semantic_revision changes = [4, 5]"
proof -
  let ?r = "run (workspace_step ex_wcfg) ex_repo
     [Apply ex_wscope (ex_op ''k1'' 3 9), Apply ex_wscope (ex_op ''k1'' 3 9), Apply ex_wscope (ex_op ''k2'' 4 1)]"
  have "\<not> isl (workspace_getChanges ex_wscope 0 ?r)" by code_simp
  then obtain changes where c: "workspace_getChanges ex_wscope 0 ?r = Inr changes" by (cases "workspace_getChanges ex_wscope 0 ?r") auto
  have "wk_semantic_revision (wr_snapshot ?r) = 5" "wk_semantic_revision (wr_snapshot ex_repo) = 3" by code_simp+
  then have "map ch_semantic_revision changes = [4 .. 5]" using workspace_changes_gap_free [OF ex_repo_created c] by simp
  moreover have "[4 .. 5] = [4, 5 :: int]" by code_simp
  ultimately show ?thesis using c by auto
qed

theorem workspace_no_lost_update_witness:
  "\<exists>res r1. applySemanticOperation ex_wcfg ex_wscope (ex_op ''k1'' 3 9) ex_repo = (Inr res, r1) \<and>
     applySemanticOperation ex_wcfg ex_wscope (ex_op ''k1'' 3 9) r1 = (Inr res, r1) \<and>
     isl (fst (applySemanticOperation ex_wcfg ex_wscope (ex_op ''k2'' 3 1) r1))"
proof -
  let ?x = "applySemanticOperation ex_wcfg ex_wscope (ex_op ''k1'' 3 9) ex_repo"
  have "\<not> isl (fst ?x)" by code_simp
  then obtain res r1 where r: "?x = (Inr res, r1)" by (metis outcome_ok)
  have n: "jm_get (wr_operations ex_repo) (op_idempotency_key (ex_op ''k1'' 3 9)) = None" by code_simp
  have "jm_get (wr_operations (snd ?x)) ''k2'' = None" by code_simp
  then have k: "jm_get (wr_operations r1) (op_idempotency_key (ex_op ''k2'' 3 1)) = None" using r by (simp add: ex_op_def)
  have e: "op_expected_revision (ex_op ''k2'' 3 1) = op_expected_revision (ex_op ''k1'' 3 9)" by (simp add: ex_op_def)
  have r2: "r1 = run (workspace_step ex_wcfg) r1 []" by simp
  show ?thesis using workspace_no_lost_update [OF r n r2, of "ex_op ''k2'' 3 1" ex_wscope] k e r by auto
qed

theorem upsert_lookup_roundtrip_witness:
  "\<exists>res r1. applySemanticOperation ex_wcfg ex_wscope (ex_op ''k1'' 3 9) ex_repo = (Inr res, r1) \<and>
     (\<exists>e. workspace_getEntity ex_wscope (en_canonical_ref e) r1 = Inr (Some e))"
proof -
  let ?x = "applySemanticOperation ex_wcfg ex_wscope (ex_op ''k1'' 3 9) ex_repo"
  have "\<not> isl (fst ?x)" by code_simp
  then obtain res r1 where r: "?x = (Inr res, r1)" by (metis outcome_ok)
  have n: "jm_get (wr_operations ex_repo) (op_idempotency_key (ex_op ''k1'' 3 9)) = None" by code_simp
  have o: "op_kind (ex_op ''k1'' 3 9) = UpsertEntity" "op_payload (ex_op ''k1'' 3 9) = PEntity (ex_entity 9)" by (simp_all add: ex_op_def)
  show ?thesis using upsert_lookup_roundtrip [OF r n o] r by blast
qed

end
