(* ===== verification/Js_Regex.thy ===== *)
theory Js_Regex
  imports Js_Prelude
begin

text \<open>
  The regular expressions the code uses, with the backtracking order of ECMAScript.

  A position is the code unit before it and the text after it. \<open>re_ends r p\<close> lists the positions at which a match of
  \<open>r\<close> that starts at \<open>p\<close> may end, in the order in which a JavaScript engine tries them: the left alternative first, a
  greedy repetition with as many rounds as possible first, and no round that consumes nothing. \<open>re_find\<close> is the search
  from left to right that \<open>test\<close> and \<open>replace\<close> without the \<open>g\<close> flag do. Letters are compared without regard to case (flag
  \<open>i\<close>); \<open>RChar\<close> takes the class as a predicate.
\<close>

type_synonym text_position = "char option \<times> string"

datatype regex =
    REmpty
  | RChar "char \<Rightarrow> bool"
  | RSeq regex regex
  | RAlt regex regex
  | RStar regex
  | RBoundary

text \<open>\<open>\w\<close> of ECMAScript.\<close>

definition word_char :: "char \<Rightarrow> bool" where
  "word_char c \<longleftrightarrow> (let n = of_char c :: int in 48 \<le> n \<and> n \<le> 57 \<or> 65 \<le> n \<and> n \<le> 90 \<or> n = 95 \<or> 97 \<le> n \<and> n \<le> 122)"

definition at_boundary :: "text_position \<Rightarrow> bool" where
  "at_boundary p \<longleftrightarrow>
     (case fst p of None \<Rightarrow> False | Some c \<Rightarrow> word_char c) \<noteq> (case snd p of [] \<Rightarrow> False | c # _ \<Rightarrow> word_char c)"

text \<open>
  Greedy repetition with at most \<open>n\<close> rounds; every round consumes at least one code unit, so the length of the rest is
  enough (\<open>star_ends_enough\<close>).
\<close>

fun star_ends :: "(text_position \<Rightarrow> text_position list) \<Rightarrow> nat \<Rightarrow> text_position \<Rightarrow> text_position list" where
  "star_ends m 0 p = [p]"
| "star_ends m (Suc n) p =
     concat (map (star_ends m n) (filter (\<lambda>q. length (snd q) < length (snd p)) (m p))) @ [p]"

fun re_ends :: "regex \<Rightarrow> text_position \<Rightarrow> text_position list" where
  "re_ends REmpty p = [p]"
| "re_ends (RChar f) p = (case snd p of [] \<Rightarrow> [] | c # cs \<Rightarrow> if f c then [(Some c, cs)] else [])"
| "re_ends (RSeq a b) p = concat (map (re_ends b) (re_ends a p))"
| "re_ends (RAlt a b) p = re_ends a p @ re_ends b p"
| "re_ends (RStar a) p = star_ends (re_ends a) (length (snd p)) p"
| "re_ends RBoundary p = (if at_boundary p then [p] else [])"

lemma star_ends_enough:
  "length (snd p) \<le> n \<Longrightarrow> length (snd p) \<le> k \<Longrightarrow> star_ends m n p = star_ends m k p"
proof (induction n arbitrary: k p)
  case (Suc n)
  show ?case
  proof (cases k)
    case 0
    with Suc.prems show ?thesis by simp
  next
    case (Suc j)
    have "map (star_ends m n) (filter (\<lambda>q. length (snd q) < length (snd p)) (m p)) =
        map (star_ends m j) (filter (\<lambda>q. length (snd q) < length (snd p)) (m p))"
      using Suc Suc.prems by (intro map_cong refl Suc.IH) auto
    then show ?thesis by (simp only: Suc star_ends.simps)
  qed
next
  case 0
  then show ?case by (cases k) simp_all
qed

text \<open>The leftmost match: the text before it and the text after it.\<close>

fun re_find :: "regex \<Rightarrow> char option \<Rightarrow> string \<Rightarrow> (string \<times> string) option" where
  "re_find r prev [] = (case re_ends r (prev, []) of [] \<Rightarrow> None | q # _ \<Rightarrow> Some ([], snd q))"
| "re_find r prev (c # cs) = (case re_ends r (prev, c # cs) of
     q # _ \<Rightarrow> Some ([], snd q)
   | [] \<Rightarrow> map_option (map_prod ((#) c) id) (re_find r (Some c) cs))"

definition re_test :: "regex \<Rightarrow> string \<Rightarrow> bool" where
  "re_test r s \<longleftrightarrow> re_find r None s \<noteq> None"

text \<open>A pattern that starts with \<open>^\<close>.\<close>

definition re_at_start :: "regex \<Rightarrow> string \<Rightarrow> bool" where
  "re_at_start r s \<longleftrightarrow> re_ends r (None, s) \<noteq> []"

definition re_replace :: "regex \<Rightarrow> string \<Rightarrow> string \<Rightarrow> string" where
  "re_replace r new s = (case re_find r None s of None \<Rightarrow> s | Some (before, rest) \<Rightarrow> before @ new @ rest)"

text \<open>With the flag \<open>g\<close>, for a pattern that does not match the empty text.\<close>

function re_replace_all :: "regex \<Rightarrow> string \<Rightarrow> char option \<Rightarrow> string \<Rightarrow> string" where
  "re_replace_all r new prev s = (case re_find r prev s of
     None \<Rightarrow> s
   | Some (before, rest) \<Rightarrow> if length rest < length s
       then before @ new @ re_replace_all r new (Some (last (take (length s - length rest) s))) rest else s)"
  by pat_completeness auto
termination
  by (relation "measure (\<lambda>(_, _, _, s). length s)") auto

declare re_replace_all.simps [simp del]

section \<open>Building patterns\<close>

definition re_lit :: "char \<Rightarrow> regex" where
  "re_lit c = RChar (\<lambda>d. js_lower_char d = js_lower_char c)"

fun re_seq :: "regex list \<Rightarrow> regex" where
  "re_seq [] = REmpty"
| "re_seq [r] = r"
| "re_seq (r # rs) = RSeq r (re_seq rs)"

fun re_alts :: "regex list \<Rightarrow> regex" where
  "re_alts [] = RChar (\<lambda>_. False)"
| "re_alts [r] = r"
| "re_alts (r # rs) = RAlt r (re_alts rs)"

definition re_str :: "string \<Rightarrow> regex" where
  "re_str s = re_seq (map re_lit s)"

definition re_opt :: "regex \<Rightarrow> regex" where
  "re_opt r = RAlt r REmpty"

definition re_plus :: "regex \<Rightarrow> regex" where
  "re_plus r = RSeq r (RStar r)"

definition re_at_least :: "nat \<Rightarrow> regex \<Rightarrow> regex" where
  "re_at_least n r = re_seq (replicate n r @ [RStar r])"

definition re_oneof :: "string \<Rightarrow> regex" where
  "re_oneof cs = RChar (\<lambda>d. js_lower_char d \<in> set cs)"

definition re_space :: regex where
  "re_space = RChar js_space"

section \<open>The search decides whether there is a match\<close>

text \<open>What it means that a pattern matches between two positions, without an order on the attempts.\<close>

inductive matches :: "regex \<Rightarrow> text_position \<Rightarrow> text_position \<Rightarrow> bool" where
  empty: "matches REmpty p p"
| char: "f c \<Longrightarrow> matches (RChar f) (prev, c # cs) (Some c, cs)"
| seq: "matches a p q \<Longrightarrow> matches b q r \<Longrightarrow> matches (RSeq a b) p r"
| left: "matches a p q \<Longrightarrow> matches (RAlt a b) p q"
| right: "matches b p q \<Longrightarrow> matches (RAlt a b) p q"
| finish: "matches (RStar a) p p"
| again: "matches a p q \<Longrightarrow> matches (RStar a) q r \<Longrightarrow> matches (RStar a) p r"
| boundary: "at_boundary p \<Longrightarrow> matches RBoundary p p"

inductive_cases matches_SeqE: "matches (RSeq a b) p r"
inductive_cases matches_AltE: "matches (RAlt a b) p r"
inductive_cases matches_CharE: "matches (RChar f) p r"

definition advance_over :: "char option \<Rightarrow> string \<Rightarrow> string \<Rightarrow> text_position" where
  "advance_over prev w rest = (if w = [] then prev else Some (last w), rest)"

lemma matches_advance: "matches r p q \<Longrightarrow> \<exists>w. snd p = w @ snd q \<and> q = advance_over (fst p) w (snd q)"
proof (induction rule: matches.induct)
  case (char f c prev cs)
  show ?case by (rule exI [of _ "[c]"]) (simp add: advance_over_def)
next
  case (seq a p q b r)
  then obtain v w where "snd p = v @ snd q" "q = advance_over (fst p) v (snd q)" "snd q = w @ snd r" "r = advance_over (fst q) w (snd r)" by blast
  then show ?case by (intro exI [of _ "v @ w"]) (auto simp: advance_over_def split: if_splits)
next
  case (again a p q r)
  then obtain v w where "snd p = v @ snd q" "q = advance_over (fst p) v (snd q)" "snd q = w @ snd r" "r = advance_over (fst q) w (snd r)" by blast
  then show ?case by (intro exI [of _ "v @ w"]) (auto simp: advance_over_def split: if_splits)
qed (auto simp: advance_over_def)

lemma matches_shrinks: "matches r p q \<Longrightarrow> q \<noteq> p \<Longrightarrow> length (snd q) < length (snd p)"
  using matches_advance [of r p q] by (cases p; cases q) (auto simp: advance_over_def split: if_splits)

lemma star_ends_sound:
  assumes "\<And>p q. q \<in> set (m p) \<Longrightarrow> matches a p q"
  shows "q \<in> set (star_ends m n p) \<Longrightarrow> matches (RStar a) p q"
  by (induction n arbitrary: p) (auto intro: matches.finish matches.again dest!: assms)

lemma star_ends_complete:
  assumes "\<And>p q. matches a p q \<Longrightarrow> q \<in> set (m p)"
  shows "matches (RStar a) p q \<Longrightarrow> length (snd p) \<le> n \<Longrightarrow> q \<in> set (star_ends m n p)"
proof (induction "RStar a" p q arbitrary: n rule: matches.induct)
  case (finish p)
  then show ?case by (cases n) auto
next
  case (again p q r)
  show ?case
  proof (cases "q = p")
    case False
    from matches_shrinks [OF again(1) this] again(5) obtain k where k: "n = Suc k" "length (snd q) \<le> k" by (cases n) auto
    have "q \<in> set (filter (\<lambda>q. length (snd q) < length (snd p)) (m p))"
      using assms [OF again(1)] matches_shrinks [OF again(1) False] by simp
    with again(4) [OF k(2)] show ?thesis unfolding k(1) star_ends.simps set_append set_concat set_map by blast
  qed (use again in auto)
qed

lemma re_ends_iff: "q \<in> set (re_ends r p) \<longleftrightarrow> matches r p q"
proof (induction r arbitrary: p q)
  case (RChar f)
  show ?case by (cases p; cases "snd p") (auto intro: matches.char elim: matches_CharE)
next
  case (RStar a)
  show ?case
    using star_ends_sound [of "re_ends a" a q "length (snd p)" p] star_ends_complete [of a "re_ends a" p q "length (snd p)"] RStar
    unfolding re_ends.simps by blast
qed (auto intro: matches.intros elim: matches.cases simp: Bex_def elim!: matches_SeqE matches_AltE)

lemma all_splits_Cons:
  "(\<forall>w rest. c # s = w @ rest \<longrightarrow> P w rest) \<longleftrightarrow> P [] (c # s) \<and> (\<forall>w rest. s = w @ rest \<longrightarrow> P (c # w) rest)"
  by (auto simp: Cons_eq_append_conv)

lemma re_find_None: "re_find r prev s = None \<longleftrightarrow> (\<forall>w rest. s = w @ rest \<longrightarrow> re_ends r (advance_over prev w rest) = [])"
proof (induction s arbitrary: prev)
  case (Cons c s)
  have "advance_over prev (c # w) rest = advance_over (Some c) w rest" for w rest by (simp add: advance_over_def)
  moreover have "advance_over prev [] (c # s) = (prev, c # s)" by (simp add: advance_over_def)
  ultimately show ?case by (simp add: Cons.IH all_splits_Cons split: list.split)
qed (auto simp: advance_over_def split: list.split)

text \<open>\<open>test\<close> answers whether the pattern matches somewhere in the text.\<close>

lemma re_test_iff:
  "re_test r s \<longleftrightarrow> (\<exists>before w rest. s = before @ w @ rest \<and>
     matches r (advance_over None before (w @ rest)) (advance_over None (before @ w) rest))"
proof -
  have "re_test r s \<longleftrightarrow> (\<exists>before rest q. s = before @ rest \<and> matches r (advance_over None before rest) q)"
    unfolding re_test_def re_find_None by (metis re_ends_iff list.set_intros(1) list.set_sel(1) empty_iff list.set(1))
  also have "\<dots> \<longleftrightarrow> (\<exists>before w rest. s = before @ w @ rest \<and>
      matches r (advance_over None before (w @ rest)) (advance_over None (before @ w) rest))"
  proof
    assume "\<exists>before rest q. s = before @ rest \<and> matches r (advance_over None before rest) q"
    then obtain b t q where b: "s = b @ t" and mt: "matches r (advance_over None b t) q" by blast
    from matches_advance [OF mt] obtain w where w: "t = w @ snd q" and q: "q = advance_over (fst (advance_over None b t)) w (snd q)"
      by (auto simp: advance_over_def)
    have "q = advance_over None (b @ w) (snd q)" by (subst q) (auto simp: advance_over_def)
    with b w mt have "s = b @ w @ snd q" "matches r (advance_over None b (w @ snd q)) (advance_over None (b @ w) (snd q))" by simp_all
    then show "\<exists>before w rest. s = before @ w @ rest \<and>
        matches r (advance_over None before (w @ rest)) (advance_over None (before @ w) rest)" by blast
  qed blast
  finally show ?thesis .
qed

lemma re_find_Some: "re_find r prev s = Some (before, rest) \<Longrightarrow> \<exists>w. s = before @ w @ rest"
proof (induction s arbitrary: prev before)
  case (Cons c s)
  show ?case
  proof (cases "re_ends r (prev, c # s)")
    case Nil
    with Cons.prems obtain b where "re_find r (Some c) s = Some (b, rest)" "before = c # b" by auto
    with Cons.IH show ?thesis by fastforce
  next
    case (Cons q qs)
    then have "matches r (prev, c # s) q" by (simp flip: re_ends_iff)
    with matches_advance Cons Cons.prems show ?thesis by fastforce
  qed
next
  case Nil
  then show ?case
  proof (cases "re_ends r (prev, [])")
    case (Cons q qs)
    then have "matches r (prev, []) q" by (simp flip: re_ends_iff)
    with matches_advance Cons Nil show ?thesis by fastforce
  qed simp
qed

end
