(* ===== verification/Remote_Contracts.thy ===== *)
theory Remote_Contracts
  imports Status Workspace Js_Regex
begin

text \<open>
  The contracts of the remote boundary in \<open>spatial/contracts/index.ts\<close>: endpoint details, provenance, context manifests,
  requests, results, test frames and accounting records.

  Prices, loads and capacities are rationals; limits in bytes and milliseconds are integers. A context field is a string,
  a number or a boolean. An optional or nullable field is an option.
\<close>

datatype surface_state = SfREADY | SfLOADING | SfPARTIAL | SfSTALE | SfUNAVAILABLE | SfUNAUTHORIZED | SfINCOMPATIBLE

record endpoint_latency =
  lt_p50_ms :: "rat option"
  lt_p95_ms :: "rat option"
  lt_measured_at :: "timestamp option"
  lt_window :: "string option"

record endpoint_cost =
  cs_currency :: "string option"
  cs_unit_price :: "rat option"
  cs_billing_dimension :: "string option"
  cs_minimum_charge :: "rat option"

record endpoint_deposit =
  dp_minimum :: "rat option"
  dp_recommended :: "rat option"
  dp_currency :: "string option"
  dp_escrow :: "bool option"

record endpoint_limits =
  lm_context_tokens :: "int option"
  lm_payload_bytes :: "int option"
  lm_timeout_ms :: "int option"
  lm_streaming :: "bool option"

record endpoint_details =
  ed_workspace_id :: string
  ed_node_id :: string
  ed_canonical_ref :: string
  ed_endpoint_id :: string
  ed_revision :: int
  ed_display_name :: string
  ed_capability :: string
  ed_endpoint_type :: string
  ed_supported_modalities :: "string list"
  ed_availability :: availability
  ed_surface_state :: surface_state
  ed_freshness :: status_freshness
  ed_latency :: endpoint_latency
  ed_load :: "rat option"
  ed_capacity :: "rat option"
  ed_cost :: endpoint_cost
  ed_deposit :: endpoint_deposit
  ed_provider_ref :: "string option"
  ed_remote_agent_ref :: "string option"
  ed_validation_refs :: "string list"
  ed_input_formats :: "string list"
  ed_output_formats :: "string list"
  ed_limits :: endpoint_limits
  ed_privacy :: "string option"
  ed_trust_summary :: "string option"
  ed_description :: "string option"
  ed_allowed_actions :: "string list"

definition MAX_SAFE_INTEGER :: int where
  "MAX_SAFE_INTEGER = 9007199254740991"

definition nullableNumber :: "zod \<Rightarrow> rat \<Rightarrow> rat option \<Rightarrow> rat option option" where
  "nullableNumber z maximum = nullable (\<lambda>q. if z_finite_max z maximum q then Some q else None)"

definition nullableInt :: "zod \<Rightarrow> int \<Rightarrow> int option \<Rightarrow> int option option" where
  "nullableInt z maximum = nullable (\<lambda>n. if z_number_nonnegative z n \<and> z_number_max z maximum n then Some n else None)"

definition endpointLatencySchema :: "zod \<Rightarrow> endpoint_latency \<Rightarrow> endpoint_latency option" where
  "endpointLatencySchema z l = do {
     p50 \<leftarrow> nullableNumber z 86400000 (lt_p50_ms l);
     p95 \<leftarrow> nullableNumber z 86400000 (lt_p95_ms l);
     window \<leftarrow> nullable (boundedText z 128) (lt_window l);
     Some (l \<lparr> lt_p50_ms := p50, lt_p95_ms := p95, lt_window := window \<rparr>) }"

definition endpointCostSchema :: "zod \<Rightarrow> endpoint_cost \<Rightarrow> endpoint_cost option" where
  "endpointCostSchema z c = do {
     currency \<leftarrow> nullable (idSchema z) (cs_currency c);
     price \<leftarrow> nullableNumber z (of_int MAX_SAFE_INTEGER) (cs_unit_price c);
     dimension \<leftarrow> nullable (idSchema z) (cs_billing_dimension c);
     minimum \<leftarrow> nullableNumber z (of_int MAX_SAFE_INTEGER) (cs_minimum_charge c);
     Some \<lparr> cs_currency = currency, cs_unit_price = price, cs_billing_dimension = dimension, cs_minimum_charge = minimum \<rparr> }"

definition endpointDepositSchema :: "zod \<Rightarrow> endpoint_deposit \<Rightarrow> endpoint_deposit option" where
  "endpointDepositSchema z d = do {
     minimum \<leftarrow> nullableNumber z (of_int MAX_SAFE_INTEGER) (dp_minimum d);
     recommended \<leftarrow> nullableNumber z (of_int MAX_SAFE_INTEGER) (dp_recommended d);
     currency \<leftarrow> nullable (idSchema z) (dp_currency d);
     Some (d \<lparr> dp_minimum := minimum, dp_recommended := recommended, dp_currency := currency \<rparr>) }"

definition endpointLimitsSchema :: "zod \<Rightarrow> endpoint_limits \<Rightarrow> endpoint_limits option" where
  "endpointLimitsSchema z l = do {
     tokens \<leftarrow> nullableInt z MAX_SAFE_INTEGER (lm_context_tokens l);
     bytes \<leftarrow> nullableInt z MAX_SAFE_INTEGER (lm_payload_bytes l);
     timeout \<leftarrow> nullableInt z 86400000 (lm_timeout_ms l);
     Some (l \<lparr> lm_context_tokens := tokens, lm_payload_bytes := bytes, lm_timeout_ms := timeout \<rparr>) }"

definition parseSpatialEndpointDetails :: "zod \<Rightarrow> endpoint_details \<Rightarrow> endpoint_details option" where
  "parseSpatialEndpointDetails z d = do {
     workspace \<leftarrow> idSchema z (ed_workspace_id d);
     node \<leftarrow> idSchema z (ed_node_id d);
     ref \<leftarrow> idSchema z (ed_canonical_ref d);
     eid \<leftarrow> idSchema z (ed_endpoint_id d);
     revision \<leftarrow> revisionSchema z (ed_revision d);
     name \<leftarrow> labelSchema z (ed_display_name d);
     capability \<leftarrow> labelSchema z (ed_capability d);
     etype \<leftarrow> labelSchema z (ed_endpoint_type d);
     modalities \<leftarrow> arrayMax z 64 (idSchema z) (ed_supported_modalities d);
     freshness \<leftarrow> spatialFreshnessSchema z (ed_freshness d);
     latency \<leftarrow> endpointLatencySchema z (ed_latency d);
     load \<leftarrow> nullableNumber z 1 (ed_load d);
     capacity \<leftarrow> nullableNumber z (of_int MAX_SAFE_INTEGER) (ed_capacity d);
     cost \<leftarrow> endpointCostSchema z (ed_cost d);
     deposit \<leftarrow> endpointDepositSchema z (ed_deposit d);
     provider \<leftarrow> nullable (idSchema z) (ed_provider_ref d);
     agent \<leftarrow> nullable (idSchema z) (ed_remote_agent_ref d);
     validations \<leftarrow> arrayMax z 128 (idSchema z) (ed_validation_refs d);
     inputs \<leftarrow> arrayMax z 128 (idSchema z) (ed_input_formats d);
     outputs \<leftarrow> arrayMax z 128 (idSchema z) (ed_output_formats d);
     limits \<leftarrow> endpointLimitsSchema z (ed_limits d);
     privacy \<leftarrow> nullable (boundedText z 256) (ed_privacy d);
     trust \<leftarrow> nullable (boundedText z 256) (ed_trust_summary d);
     description \<leftarrow> nullable (boundedText z 2000) (ed_description d);
     actions \<leftarrow> arrayMax z 64 (idSchema z) (ed_allowed_actions d);
     Some (d \<lparr> ed_workspace_id := workspace, ed_node_id := node, ed_canonical_ref := ref, ed_endpoint_id := eid,
       ed_revision := revision, ed_display_name := name, ed_capability := capability, ed_endpoint_type := etype,
       ed_supported_modalities := modalities, ed_freshness := freshness, ed_latency := latency, ed_load := load,
       ed_capacity := capacity, ed_cost := cost, ed_deposit := deposit, ed_provider_ref := provider,
       ed_remote_agent_ref := agent, ed_validation_refs := validations, ed_input_formats := inputs,
       ed_output_formats := outputs, ed_limits := limits, ed_privacy := privacy, ed_trust_summary := trust,
       ed_description := description, ed_allowed_actions := actions \<rparr>) }"

section \<open>Provenance and context manifests\<close>

datatype provenance_state = EpUNVERIFIED | EpVERIFIED | EpSTALE | EpREVOKED

text \<open>The literals \<open>source_zone\<close> (\<open>REMOTE_UNTRUSTED\<close>) and \<open>untrusted\<close> (\<open>true\<close>) are not stored.\<close>

record endpoint_provenance =
  ep_provenance_id :: string
  ep_workspace_id :: string
  ep_node_id :: string
  ep_endpoint_ref :: string
  ep_endpoint_revision :: int
  ep_capability :: string
  ep_provider_ref :: "string option"
  ep_remote_node_ref :: "string option"
  ep_validation_state :: provenance_state
  ep_request_id :: "string option"
  ep_correlation_id :: string
  ep_observed_at :: timestamp

definition parseSpatialEndpointProvenance :: "zod \<Rightarrow> endpoint_provenance \<Rightarrow> endpoint_provenance option" where
  "parseSpatialEndpointProvenance z p = do {
     pid \<leftarrow> idSchema z (ep_provenance_id p);
     workspace \<leftarrow> idSchema z (ep_workspace_id p);
     node \<leftarrow> idSchema z (ep_node_id p);
     endpoint \<leftarrow> idSchema z (ep_endpoint_ref p);
     revision \<leftarrow> revisionSchema z (ep_endpoint_revision p);
     capability \<leftarrow> labelSchema z (ep_capability p);
     provider \<leftarrow> nullable (idSchema z) (ep_provider_ref p);
     remote \<leftarrow> nullable (idSchema z) (ep_remote_node_ref p);
     request \<leftarrow> nullable (idSchema z) (ep_request_id p);
     correlation \<leftarrow> idSchema z (ep_correlation_id p);
     Some (p \<lparr> ep_provenance_id := pid, ep_workspace_id := workspace, ep_node_id := node, ep_endpoint_ref := endpoint,
       ep_endpoint_revision := revision, ep_capability := capability, ep_provider_ref := provider,
       ep_remote_node_ref := remote, ep_request_id := request, ep_correlation_id := correlation \<rparr>) }"

datatype context_value = CvText string | CvNumber int | CvBool bool

type_synonym context_fields = "(string, context_value) jsmap"

datatype retention = EPHEMERAL | SESSION | PERSISTED

record context_manifest =
  cf_manifest_id :: string
  cf_request_id :: string
  cf_workspace_id :: string
  cf_node_id :: string
  cf_workspace_session_ref :: string
  cf_purpose :: string
  cf_capability_ref :: string
  cf_allowed_fields :: "string list"
  cf_fields :: context_fields
  cf_attachment_refs :: "string list"
  cf_media_types :: "string list"
  cf_size_limit_bytes :: int
  cf_redactions :: "string list"
  cf_forbidden_fields :: "string list"
  cf_retention :: retention
  cf_consent_required :: bool
  cf_consent_granted :: bool
  cf_policy_revision :: int
  cf_manifest_hash :: string
  cf_created_at :: timestamp

definition safeKeySchema :: "zod \<Rightarrow> string \<Rightarrow> string option" where
  "safeKeySchema z v = (let t = js_trim v in if z_string_min z 1 t \<and> z_string_max z 96 t then Some t else None)"

fun safeValueSchema :: "zod \<Rightarrow> context_value \<Rightarrow> context_value option" where
  "safeValueSchema z (CvText s) = (if z_string_max z 512 s then Some (CvText s) else None)"
| "safeValueSchema z v = Some v"

definition safeEntrySchema :: "zod \<Rightarrow> string \<times> context_value \<Rightarrow> (string \<times> context_value) option" where
  "safeEntrySchema z e = do { k \<leftarrow> safeKeySchema z (fst e); v \<leftarrow> safeValueSchema z (snd e); Some (k, v) }"

text \<open>\<open>/^sha256:[a-f0-9]{16,128}$/\<close>\<close>

definition sha256_ref :: "string \<Rightarrow> bool" where
  "sha256_ref s \<longleftrightarrow> take 7 s = ''sha256:'' \<and> (let digits = drop 7 s in
     16 \<le> length digits \<and> length digits \<le> 128 \<and>
     list_all (\<lambda>c. let n = of_char c :: int in 48 \<le> n \<and> n \<le> 57 \<or> 97 \<le> n \<and> n \<le> 102) digits)"

definition sha256Schema :: "string \<Rightarrow> string option" where
  "sha256Schema s = (if sha256_ref s then Some s else None)"

text \<open>\<open>/^[a-z0-9!#$&^_.+-]+\/[a-z0-9!#$&^_.+-]+$/i\<close>: the slash is in neither class, so there is exactly one.\<close>

definition mime_char :: "char \<Rightarrow> bool" where
  "mime_char c \<longleftrightarrow> (let n = of_char (js_lower_char c) :: int in 97 \<le> n \<and> n \<le> 122 \<or> 48 \<le> n \<and> n \<le> 57) \<or> c \<in> set ''!#$&^_.+-''"

definition mime_type :: "string \<Rightarrow> bool" where
  "mime_type s \<longleftrightarrow> (let main = takeWhile mime_char s in main \<noteq> [] \<and>
     (case drop (length main) s of [] \<Rightarrow> False
      | c # sub \<Rightarrow> c = CHR ''/'' \<and> sub \<noteq> [] \<and> list_all mime_char sub))"

definition mimeSchema :: "string \<Rightarrow> string option" where
  "mimeSchema s = (if mime_type s then Some s else None)"

definition parseSpatialRemoteContextManifest :: "zod \<Rightarrow> context_manifest \<Rightarrow> context_manifest option" where
  "parseSpatialRemoteContextManifest z m = do {
     mid \<leftarrow> idSchema z (cf_manifest_id m);
     request \<leftarrow> idSchema z (cf_request_id m);
     workspace \<leftarrow> idSchema z (cf_workspace_id m);
     node \<leftarrow> idSchema z (cf_node_id m);
     session \<leftarrow> idSchema z (cf_workspace_session_ref m);
     purpose \<leftarrow> labelSchema z (cf_purpose m);
     capability \<leftarrow> idSchema z (cf_capability_ref m);
     allowed \<leftarrow> arrayMax z 64 (safeKeySchema z) (cf_allowed_fields m);
     fields \<leftarrow> arrayOf (safeEntrySchema z) (cf_fields m);
     attachments \<leftarrow> arrayMax z 32 sha256Schema (cf_attachment_refs m);
     media \<leftarrow> arrayMax z 16 mimeSchema (cf_media_types m);
     size \<leftarrow> (if z_number_positive z (cf_size_limit_bytes m) \<and> z_number_max z 50000000 (cf_size_limit_bytes m)
       then Some (cf_size_limit_bytes m) else None);
     redactions \<leftarrow> arrayMax z 64 (safeKeySchema z) (cf_redactions m);
     forbidden \<leftarrow> arrayMax z 64 (safeKeySchema z) (cf_forbidden_fields m);
     policy \<leftarrow> revisionSchema z (cf_policy_revision m);
     hash \<leftarrow> sha256Schema (cf_manifest_hash m);
     Some (m \<lparr> cf_manifest_id := mid, cf_request_id := request, cf_workspace_id := workspace, cf_node_id := node,
       cf_workspace_session_ref := session, cf_purpose := purpose, cf_capability_ref := capability,
       cf_allowed_fields := allowed, cf_fields := fields, cf_attachment_refs := attachments, cf_media_types := media,
       cf_size_limit_bytes := size, cf_redactions := redactions, cf_forbidden_fields := forbidden,
       cf_policy_revision := policy, cf_manifest_hash := hash \<rparr>) }"

section \<open>Requests and results\<close>

datatype billing_policy = BpFREE | BpMETERED | BpUNKNOWN

datatype request_state = RqREADY | RqVALIDATING | RqSUBMITTING | RqSTREAMING | RqCOMPLETE | RqCANCELLED | RqTIMEOUT | RqUNAVAILABLE
  | RqREJECTED | RqINVALID_RESULT | RqINSUFFICIENT_DEPOSIT

text \<open>The nested objects \<open>authorization\<close> (always \<open>AUTHORIZED\<close>), \<open>resource_budget\<close> and \<open>transport\<close> are written out as fields.\<close>

record remote_request =
  rm_request_id :: string
  rm_local_node_id :: string
  rm_local_primary_agent_ref :: string
  rm_local_session_ref :: string
  rm_endpoint_ref :: string
  rm_endpoint_revision :: int
  rm_capability :: string
  rm_input_refs :: "string list"
  rm_context_manifest :: context_manifest
  rm_grant_ref :: "string option"
  rm_policy_revision :: int
  rm_policy :: billing_policy
  rm_estimate_units :: "int option"
  rm_max_units :: "rat option"
  rm_adapter_id :: string
  rm_timeout_ms :: int
  rm_request_bytes :: int
  rm_state :: request_state
  rm_idempotency_key :: string
  rm_correlation_id :: string
  rm_created_at :: timestamp
  rm_provenance :: endpoint_provenance

definition parseSpatialRemoteRequest :: "zod \<Rightarrow> remote_request \<Rightarrow> remote_request option" where
  "parseSpatialRemoteRequest z r = do {
     rid \<leftarrow> idSchema z (rm_request_id r);
     node \<leftarrow> idSchema z (rm_local_node_id r);
     agent \<leftarrow> idSchema z (rm_local_primary_agent_ref r);
     session \<leftarrow> idSchema z (rm_local_session_ref r);
     endpoint \<leftarrow> idSchema z (rm_endpoint_ref r);
     revision \<leftarrow> revisionSchema z (rm_endpoint_revision r);
     capability \<leftarrow> labelSchema z (rm_capability r);
     inputs \<leftarrow> arrayMax z 32 (idSchema z) (rm_input_refs r);
     manifest \<leftarrow> parseSpatialRemoteContextManifest z (rm_context_manifest r);
     grant \<leftarrow> nullable (idSchema z) (rm_grant_ref r);
     policy \<leftarrow> revisionSchema z (rm_policy_revision r);
     estimate \<leftarrow> nullableInt z MAX_SAFE_INTEGER (rm_estimate_units r);
     units \<leftarrow> nullableNumber z (of_int MAX_SAFE_INTEGER) (rm_max_units r);
     adapter \<leftarrow> idSchema z (rm_adapter_id r);
     timeout \<leftarrow> (if z_number_positive z (rm_timeout_ms r) \<and> z_number_max z 86400000 (rm_timeout_ms r) then Some (rm_timeout_ms r) else None);
     bytes \<leftarrow> (if z_int_nonnegative z (rm_request_bytes r) \<and> z_number_max z 50000000 (rm_request_bytes r) then Some (rm_request_bytes r) else None);
     key \<leftarrow> idSchema z (rm_idempotency_key r);
     correlation \<leftarrow> idSchema z (rm_correlation_id r);
     provenance \<leftarrow> parseSpatialEndpointProvenance z (rm_provenance r);
     Some (r \<lparr> rm_request_id := rid, rm_local_node_id := node, rm_local_primary_agent_ref := agent, rm_local_session_ref := session,
       rm_endpoint_ref := endpoint, rm_endpoint_revision := revision, rm_capability := capability, rm_input_refs := inputs,
       rm_context_manifest := manifest, rm_grant_ref := grant, rm_policy_revision := policy, rm_estimate_units := estimate,
       rm_max_units := units, rm_adapter_id := adapter, rm_timeout_ms := timeout, rm_request_bytes := bytes,
       rm_idempotency_key := key, rm_correlation_id := correlation, rm_provenance := provenance \<rparr>) }"

datatype remote_validation = RvUNVERIFIED | RvVALID | RvPARTIAL | RvSANITIZED | RvQUARANTINED | RvINVALID

datatype remote_classification = RcNONE | RcPROMPT_INJECTION | RcSCRIPT | RcUNSAFE_HTML | RcSECRET_PATTERN | RcMIME_MISMATCH | RcOVERSIZED

text \<open>\<open>validation.schema\<close> is always null and \<open>untrusted\<close> the literal \<open>true\<close>: neither is stored.\<close>

record remote_result =
  rs_result_id :: string
  rs_request_id :: string
  rs_endpoint_ref :: string
  rs_endpoint_revision :: int
  rs_content_type :: string
  rs_status :: remote_validation
  rs_classification :: remote_classification
  rs_size_bytes :: int
  rs_safe_text :: "string option"
  rs_payload_ref :: "string option"
  rs_provenance :: endpoint_provenance
  rs_received_at :: timestamp
  rs_correlation_id :: string

definition parseSpatialRemoteResult :: "zod \<Rightarrow> remote_result \<Rightarrow> remote_result option" where
  "parseSpatialRemoteResult z r = do {
     rid \<leftarrow> idSchema z (rs_result_id r);
     request \<leftarrow> idSchema z (rs_request_id r);
     endpoint \<leftarrow> idSchema z (rs_endpoint_ref r);
     revision \<leftarrow> revisionSchema z (rs_endpoint_revision r);
     ctype \<leftarrow> mimeSchema (rs_content_type r);
     size \<leftarrow> (if z_int_nonnegative z (rs_size_bytes r) \<and> z_number_max z 50000000 (rs_size_bytes r) then Some (rs_size_bytes r) else None);
     safe \<leftarrow> nullable (boundedText z 1000000) (rs_safe_text r);
     payload \<leftarrow> nullable (idSchema z) (rs_payload_ref r);
     provenance \<leftarrow> parseSpatialEndpointProvenance z (rs_provenance r);
     correlation \<leftarrow> idSchema z (rs_correlation_id r);
     Some (r \<lparr> rs_result_id := rid, rs_request_id := request, rs_endpoint_ref := endpoint, rs_endpoint_revision := revision,
       rs_content_type := ctype, rs_size_bytes := size, rs_safe_text := safe, rs_payload_ref := payload,
       rs_provenance := provenance, rs_correlation_id := correlation \<rparr>) }"

section \<open>Test frames and accounting\<close>

datatype frame_state = FsREADY | FsVALIDATING | FsSUBMITTING | FsSTREAMING | FsCOMPLETE | FsCANCELLED | FsTIMEOUT | FsUNAVAILABLE
  | FsINVALID_RESULT | FsINSUFFICIENT_DEPOSIT | FsREJECTED

record test_frame =
  tf_frame_id :: string
  tf_workspace_id :: string
  tf_node_id :: string
  tf_endpoint_ref :: string
  tf_capability :: string
  tf_schema_fields :: "string list"
  tf_schema_media_types :: "string list"
  tf_input_value_ref :: "string option"
  tf_submit_intent_ref :: "string option"
  tf_response_ref :: "string option"
  tf_accounting_ref :: "string option"
  tf_state :: frame_state
  tf_source_revision :: int
  tf_provenance_ref :: "string option"
  tf_created_at :: timestamp
  tf_updated_at :: timestamp

definition parseSpatialEndpointTestFrame :: "zod \<Rightarrow> test_frame \<Rightarrow> test_frame option" where
  "parseSpatialEndpointTestFrame z f = do {
     fid \<leftarrow> idSchema z (tf_frame_id f);
     workspace \<leftarrow> idSchema z (tf_workspace_id f);
     node \<leftarrow> idSchema z (tf_node_id f);
     endpoint \<leftarrow> idSchema z (tf_endpoint_ref f);
     capability \<leftarrow> labelSchema z (tf_capability f);
     fields \<leftarrow> arrayMax z 64 (safeKeySchema z) (tf_schema_fields f);
     media \<leftarrow> arrayMax z 16 (boundedText z 128) (tf_schema_media_types f);
     value_ref \<leftarrow> nullable (idSchema z) (tf_input_value_ref f);
     intent \<leftarrow> nullable (idSchema z) (tf_submit_intent_ref f);
     response \<leftarrow> nullable (idSchema z) (tf_response_ref f);
     accounting \<leftarrow> nullable (idSchema z) (tf_accounting_ref f);
     revision \<leftarrow> revisionSchema z (tf_source_revision f);
     provenance \<leftarrow> nullable (idSchema z) (tf_provenance_ref f);
     Some (f \<lparr> tf_frame_id := fid, tf_workspace_id := workspace, tf_node_id := node, tf_endpoint_ref := endpoint,
       tf_capability := capability, tf_schema_fields := fields, tf_schema_media_types := media, tf_input_value_ref := value_ref,
       tf_submit_intent_ref := intent, tf_response_ref := response, tf_accounting_ref := accounting,
       tf_source_revision := revision, tf_provenance_ref := provenance \<rparr>) }"

datatype accounting_state = AcPENDING | AcSETTLED | AcFAILED | AcCANCELLED

datatype charge_policy = NO_CHARGE | CHARGE_ON_ACCEPTED_RESULT | CHARGE_ON_ATTEMPT | CHARGE_UNKNOWN

text \<open>The literal \<open>authoritative_source\<close> (\<open>NODE\<close>) is not stored.\<close>

record accounting_record =
  ac_record_id :: string
  ac_request_id :: string
  ac_node_id :: string
  ac_workspace_session_ref :: string
  ac_protocol_session_ref :: "string option"
  ac_endpoint_ref :: string
  ac_rate_card_revision :: int
  ac_billing_policy :: billing_policy
  ac_input_units :: int
  ac_output_units :: int
  ac_estimate_units :: "int option"
  ac_measured_units :: "int option"
  ac_settlement_ref :: "string option"
  ac_charge_policy :: charge_policy
  ac_state :: accounting_state
  ac_created_at :: timestamp
  ac_updated_at :: timestamp

definition nonnegativeSchema :: "zod \<Rightarrow> int \<Rightarrow> int option" where
  "nonnegativeSchema z n = (if z_number_nonnegative z n then Some n else None)"

definition parseSpatialResourceAccounting :: "zod \<Rightarrow> accounting_record \<Rightarrow> accounting_record option" where
  "parseSpatialResourceAccounting z a = do {
     rid \<leftarrow> idSchema z (ac_record_id a);
     request \<leftarrow> idSchema z (ac_request_id a);
     node \<leftarrow> idSchema z (ac_node_id a);
     session \<leftarrow> idSchema z (ac_workspace_session_ref a);
     protocol \<leftarrow> nullable (idSchema z) (ac_protocol_session_ref a);
     endpoint \<leftarrow> idSchema z (ac_endpoint_ref a);
     revision \<leftarrow> revisionSchema z (ac_rate_card_revision a);
     inputs \<leftarrow> nonnegativeSchema z (ac_input_units a);
     outputs \<leftarrow> nonnegativeSchema z (ac_output_units a);
     estimate \<leftarrow> nullable (nonnegativeSchema z) (ac_estimate_units a);
     measured \<leftarrow> nullable (nonnegativeSchema z) (ac_measured_units a);
     settlement \<leftarrow> nullable (idSchema z) (ac_settlement_ref a);
     Some (a \<lparr> ac_record_id := rid, ac_request_id := request, ac_node_id := node, ac_workspace_session_ref := session,
       ac_protocol_session_ref := protocol, ac_endpoint_ref := endpoint, ac_rate_card_revision := revision,
       ac_input_units := inputs, ac_output_units := outputs, ac_estimate_units := estimate, ac_measured_units := measured,
       ac_settlement_ref := settlement \<rparr>) }"

end
