(* ===== verification/Mediation.thy ===== *)
theory Mediation
  imports Remote_Contracts Topology "HOL-Library.Sublist"
begin

text \<open>
  The local mediation of remote endpoints of \<open>spatial/remote/mediation.ts\<close>, \<open>LocalRemoteMediationService\<close>.

  \<open>submitEndpointTest\<close> awaits the transport adapter, so it is cut there: \<open>submit_begin\<close> runs up to \<open>adapter.send\<close> and leaves
  a \<open>pending_submit\<close>; \<open>submit_settle\<close> takes what the race between the adapter and the timer gave (a response, a rejection,
  or the timeout) and runs to the end, the \<open>catch\<close> and \<open>finally\<close> blocks included. \<open>ms_sent\<close> records the requests handed to an
  adapter. An \<open>AbortController\<close> is a number; \<open>ms_aborted\<close> holds the aborted ones. The clock and the id factory are streams of
  which the state counts the readings; without a factory ids are numbered.

  A remote payload is a JSON value, \<open>undefined\<close>, or an object with a stream reader. A field name is no member of
  \<open>Object.prototype\<close> and no array index, so an object keeps its properties in creation order.
\<close>

section \<open>Patterns\<close>

definition SECRET_KEY :: regex where
  "SECRET_KEY = re_alts [
     re_seq [re_str ''system'', re_opt (re_oneof ''_-''), re_str ''prompt''], re_str ''conversation'', re_str ''history'', re_str ''wallet'',
     re_seq [re_str ''private'', re_opt (re_oneof ''_-''), re_str ''key''], re_str ''secret'', re_str ''token'', re_str ''credential'',
     re_str ''cookie'', re_str ''authorization'', re_seq [re_str ''browser'', re_opt (re_oneof ''_-''), re_str ''state''],
     re_seq [re_str ''other'', re_opt (re_oneof ''_-''), re_str ''workspace''], re_str ''password'']"

definition JAVASCRIPT_URL :: regex where
  "JAVASCRIPT_URL = re_seq [re_str ''javascript'', RStar re_space, re_lit CHR '':'']"

definition SCRIPT_OR_HTML :: regex where
  "SCRIPT_OR_HTML = RAlt
     (re_seq [re_lit CHR ''<'', re_opt (re_lit CHR ''/''),
        re_alts [re_str ''script'', re_str ''iframe'', re_str ''object'', re_str ''embed'', re_str ''form'', re_str ''button'',
          RSeq (re_lit CHR ''a'') RBoundary],
        RStar (RChar (\<lambda>c. c \<noteq> CHR ''>'')), re_lit CHR ''>''])
     JAVASCRIPT_URL"

definition PROMPT_INJECTION :: regex where
  "PROMPT_INJECTION = re_alts [
     re_seq [re_alts [re_str ''ignore'', re_str ''disregard'', re_str ''override''], re_plus re_space,
       re_opt (RSeq (re_str ''all'') (re_plus re_space)), re_alts [re_str ''previous'', re_str ''prior'', re_str ''system''],
       re_plus re_space, re_str ''instructions''],
     re_seq [re_str ''reveal'', re_plus re_space, re_opt (RSeq (re_str ''the'') (re_plus re_space)), re_str ''system'', re_plus re_space, re_str ''prompt''],
     re_seq [re_str ''you'', re_plus re_space, re_str ''are'', re_plus re_space, re_str ''now'', re_plus re_space]]"

definition letter :: "char \<Rightarrow> bool" where
  "letter c \<longleftrightarrow> (let n = of_char (js_lower_char c) :: int in 97 \<le> n \<and> n \<le> 122)"

definition letter_digit :: "char \<Rightarrow> bool" where
  "letter_digit c \<longleftrightarrow> letter c \<or> (let n = of_char c :: int in 48 \<le> n \<and> n \<le> 57)"

definition SECRET_VALUE :: regex where
  "SECRET_VALUE = re_alts [
     RSeq (re_str ''sk-'') (re_at_least 12 (RChar (\<lambda>c. letter_digit c \<or> c \<in> set ''_-''))),
     re_seq [re_str ''-----BEGIN '', re_plus (RChar (\<lambda>c. letter c \<or> c = CHR '' '')), re_str '' KEY-----''],
     re_seq [re_str ''bearer'', re_plus re_space, re_at_least 12 (RChar (\<lambda>c. letter_digit c \<or> c \<in> set ''._-''))],
     re_seq [re_alts [re_str ''password'', re_str ''secret'', re_str ''token'', re_seq [re_str ''api'', re_opt (re_oneof ''_-''), re_str ''key'']],
       RStar re_space, re_oneof '':='', RStar re_space, re_plus (RChar (\<lambda>c. \<not> js_space c))]]"

text \<open>\<open>/^[a-z][a-z0-9+.-]*:\/\//i\<close>\<close>

definition URL_SCHEME :: regex where
  "URL_SCHEME = re_seq [RChar letter, RStar (RChar (\<lambda>c. letter_digit c \<or> c \<in> set ''+.-'')), re_str ''://'']"

section \<open>Configuration and state\<close>

datatype mediation_code = ENDPOINT_NOT_REGISTERED | ENDPOINT_NOT_ALLOWED | ENDPOINT_UNAVAILABLE | CAPABILITY_MISMATCH
  | STALE_ENDPOINT | CONTEXT_FORBIDDEN | CONTEXT_TOO_LARGE | CONSENT_REQUIRED | UNAUTHORIZED | TRANSPORT_UNAVAILABLE
  | TRANSPORT_ERROR | TIMEOUT | MediationCANCELLED | INVALID_RESULT | DUPLICATE_SUBMIT

datatype mediation_error = Mediation mediation_code | RegistryRejected registry_error

record remote_authorization =
  rz_allowed :: bool
  rz_grantRef :: "string option"
  rz_policyRevision :: "int option"

record mediation_config =
  mc_zod :: zod
  mc_workspaceId :: string
  mc_nodeId :: string
  mc_primaryAgentRef :: string
  mc_defaultWorkspaceSessionRef :: "string option"
  mc_registry :: registry_options
  mc_defaultAdapterId :: "string option"
  mc_maxRequestBytes :: "int option"
  mc_maxResponseBytes :: "int option"
  mc_defaultTimeoutMs :: "int option"
  mc_now :: "nat \<Rightarrow> timestamp"
  mc_idFactory :: "(string \<Rightarrow> nat \<Rightarrow> string) option"
  mc_authorize :: "(endpoint_details \<Rightarrow> string \<Rightarrow> string \<Rightarrow> string \<Rightarrow> remote_authorization) option"

datatype mediation_event_type = EvManifest | EvRequest | EvResult | EvFrame | EvAccounting | EvProvenance

record mediation_event =
  me_type :: mediation_event_type
  me_id :: string
  me_requestId :: "string option"
  me_occurredAt :: timestamp

record submit_result =
  sr_request :: remote_request
  sr_result :: remote_result
  sr_accounting :: accounting_record
  sr_frame :: test_frame
  sr_duplicate :: bool

record mediation =
  ms_registry :: registry
  ms_endpoints :: "(string, endpoint_details) jsmap"
  ms_allowedEndpoints :: "string list"
  ms_adapters :: "string list"
  ms_frames :: "(string, test_frame) jsmap"
  ms_requests :: "(string, remote_request) jsmap"
  ms_results :: "(string, remote_result) jsmap"
  ms_accounting :: "(string, accounting_record) jsmap"
  ms_idempotent :: "(string, submit_result) jsmap"
  ms_controllers :: "(string, nat) jsmap"
  ms_aborted :: "nat list"
  ms_nextController :: nat
  ms_cancelledRequests :: "string list"
  ms_eventLog :: "mediation_event list"
  ms_counter :: nat
  ms_clock :: nat
  ms_sent :: "remote_request list"

type_synonym 'a mediation_op = "mediation \<Rightarrow> (mediation_error, 'a, mediation) outcome"

definition mediation_refuse :: "mediation_code \<Rightarrow> 'a mediation_op" where
  "mediation_refuse code s = throw (Mediation code) s"

definition DEFAULT_MAX_REQUEST_BYTES :: int where
  "DEFAULT_MAX_REQUEST_BYTES = 256000"

definition DEFAULT_MAX_RESPONSE_BYTES :: int where
  "DEFAULT_MAX_RESPONSE_BYTES = 1000000"

definition DEFAULT_TIMEOUT_MS :: int where
  "DEFAULT_TIMEOUT_MS = 30000"

text \<open>\<open>TextEncoder\<close>: a code unit from 128 to 255 takes two bytes in UTF-8.\<close>

definition byteLength :: "string \<Rightarrow> int" where
  "byteLength s = sum_list (map (\<lambda>c. if (of_char c :: int) < 128 then 1 else 2) s)"

definition mediation_stableHash :: "string \<Rightarrow> string" where
  "mediation_stableHash v = ''sha256:'' @ fnv1a v @ replicate 24 CHR ''0''"

definition mediation_nowIso :: "mediation_config \<Rightarrow> timestamp mediation_op" where
  "mediation_nowIso cfg s = return (mc_now cfg (ms_clock s)) (s \<lparr> ms_clock := ms_clock s + 1 \<rparr>)"

definition nth_id :: "mediation_config \<Rightarrow> string \<Rightarrow> nat \<Rightarrow> string" where
  "nth_id cfg kind n = (case mc_idFactory cfg of None \<Rightarrow> kind @ '':'' @ show_int (int n + 1) | Some f \<Rightarrow> f kind n)"

definition safeId :: "mediation_config \<Rightarrow> string \<Rightarrow> string mediation_op" where
  "safeId cfg kind s = return (nth_id cfg kind (ms_counter s)) (s \<lparr> ms_counter := ms_counter s + 1 \<rparr>)"

definition recordEvent :: "mediation_config \<Rightarrow> mediation_event_type \<Rightarrow> string \<Rightarrow> string option \<Rightarrow> mediation \<Rightarrow> mediation" where
  "recordEvent cfg type_of i request s = s \<lparr> ms_clock := ms_clock s + 1, ms_eventLog := ms_eventLog s @
     [\<lparr> me_type = type_of, me_id = i, me_requestId = request, me_occurredAt = mc_now cfg (ms_clock s) \<rparr>] \<rparr>"

section \<open>Text of a payload\<close>

datatype remote_payload = PJson json | PUndefined | PStream "(string \<times> json) list"

record transport_response =
  tr_contentType :: string
  tr_payload :: remote_payload
  tr_sizeBytes :: "int option"

fun payload_text :: "remote_payload \<Rightarrow> string" where
  "payload_text (PJson (JStr s)) = s"
| "payload_text (PJson v) = stringify v"
| "payload_text PUndefined = ''undefined''"
| "payload_text (PStream kvs) = stringify (JObj kvs)"

text \<open>\<open>value.replace(/<[^>]*>/g, '')\<close>\<close>

function strip_markup :: "string \<Rightarrow> string" where
  "strip_markup [] = []"
| "strip_markup (c # cs) = (if c = CHR ''<'' \<and> CHR ''>'' \<in> set cs then strip_markup (tl (dropWhile (\<lambda>d. d \<noteq> CHR ''>'') cs))
     else c # strip_markup cs)"
  by pat_completeness auto
termination
  by (relation "measure length") (auto simp: less_Suc_eq_le, meson diff_le_self length_dropWhile_le order.trans)

definition sanitizedText :: "remote_payload \<Rightarrow> string" where
  "sanitizedText payload = take 1000000 (filter (\<lambda>c. c \<noteq> char_of (0::int)) (strip_markup (payload_text payload)))"

text \<open>An equation that computes without counting to the limit.\<close>

lemma sanitizedText_code [code]:
  "sanitizedText payload = (let t = filter (\<lambda>c. c \<noteq> char_of (0::int)) (strip_markup (payload_text payload)) in
     if int (length t) \<le> 1000000 then t else take 1000000 t)"
  by (simp add: sanitizedText_def Let_def)

definition hasRemoteUiPayload :: "remote_payload \<Rightarrow> bool" where
  "hasRemoteUiPayload payload \<longleftrightarrow>
     list_ex (\<lambda>k. js_toLowerCase k \<in> {''component'', ''component_registry'', ''action'', ''callback'', ''script'', ''html''})
       (case payload of PJson (JObj kvs) \<Rightarrow> map fst kvs | PStream kvs \<Rightarrow> map fst kvs | _ \<Rightarrow> [])"

definition hasUnboundedStream :: "remote_payload \<Rightarrow> bool" where
  "hasUnboundedStream payload \<longleftrightarrow> (case payload of PStream _ \<Rightarrow> True | _ \<Rightarrow> False)"

text \<open>\<open>split(';', 1)[0]\<close>\<close>

definition before_semicolon :: "string \<Rightarrow> string" where
  "before_semicolon s = takeWhile (\<lambda>c. c \<noteq> CHR '';'') s"

definition matchesMime :: "string \<Rightarrow> string list \<Rightarrow> bool" where
  "matchesMime contentType formats \<longleftrightarrow> formats = [] \<or>
     (let normalized = js_toLowerCase (js_trim (before_semicolon contentType)) in
      list_ex (\<lambda>format. let candidate = js_toLowerCase format in
        candidate = normalized \<or> candidate = ''*'' \<or> suffix ''/*'' candidate \<and> prefix (butlast candidate) normalized) formats)"

section \<open>Adapters and endpoints\<close>

definition registerAdapter :: "string \<Rightarrow> unit mediation_op" where
  "registerAdapter adapter s = (if js_trim adapter = [] then mediation_refuse TRANSPORT_UNAVAILABLE s
     else return () (s \<lparr> ms_adapters := List.insert adapter (ms_adapters s) \<rparr>))"

fun registerAdapters :: "string list \<Rightarrow> unit mediation_op" where
  "registerAdapters [] s = return () s"
| "registerAdapters (a # as) s = seqO (registerAdapter a s) (\<lambda>_ s1. registerAdapters as s1)"

definition empty_mediation :: "registry \<Rightarrow> mediation" where
  "empty_mediation r = \<lparr> ms_registry = r, ms_endpoints = [], ms_allowedEndpoints = [], ms_adapters = [], ms_frames = [], ms_requests = [],
     ms_results = [], ms_accounting = [], ms_idempotent = [], ms_controllers = [], ms_aborted = [], ms_nextController = 0,
     ms_cancelledRequests = [], ms_eventLog = [], ms_counter = 0, ms_clock = 0, ms_sent = [] \<rparr>"

text \<open>The constructor: the registry it is given, or a new one of its own scope.\<close>

definition createRemoteMediationService :: "mediation_config \<Rightarrow> registry option \<Rightarrow> string list
    \<Rightarrow> mediation_error + (mediation_config \<times> mediation)" where
  "createRemoteMediationService cfg shared adapters =
     (if js_trim (mc_primaryAgentRef cfg) = [] then Inl (Mediation UNAUTHORIZED)
      else bindR (case shared of Some r \<Rightarrow> Inr (cfg, r)
        | None \<Rightarrow> (case createCanonicalReferenceRegistry \<lparr> rgo_workspaceId = mc_workspaceId cfg, rgo_nodeId = mc_nodeId cfg, rgo_now = mc_now cfg \<rparr> of
            Inl e \<Rightarrow> Inl (RegistryRejected e) | Inr opts \<Rightarrow> Inr (cfg \<lparr> mc_registry := opts \<rparr>, empty_registry)))
      (\<lambda>p. case registerAdapters adapters (empty_mediation (snd p)) of (Inl e, _) \<Rightarrow> Inl e | (Inr _, s) \<Rightarrow> Inr (fst p, s)))"

definition endpoint_discovery :: "endpoint_details \<Rightarrow> reference_input" where
  "endpoint_discovery d = \<lparr> rfi_canonicalRef = ed_canonical_ref d, rfi_entityId = ed_endpoint_id d, rfi_entityKind = Kendpoint,
     rfi_revision = ed_revision d, rfi_projectionKind = None, rfi_state = None, rfi_provenanceRef = ed_provider_ref d \<rparr>"

definition registerEndpoint :: "mediation_config \<Rightarrow> endpoint_details \<Rightarrow> bool \<Rightarrow> endpoint_details mediation_op" where
  "registerEndpoint cfg details allowed s =
     (case parseSpatialEndpointDetails (mc_zod cfg) details of
        None \<Rightarrow> mediation_refuse ENDPOINT_NOT_REGISTERED s
      | Some d \<Rightarrow>
          if ed_workspace_id d \<noteq> mc_workspaceId cfg \<or> ed_node_id d \<noteq> mc_nodeId cfg then mediation_refuse ENDPOINT_NOT_REGISTERED s
          else if re_at_start URL_SCHEME (ed_canonical_ref d) \<or> prefix ''//'' (ed_canonical_ref d) then mediation_refuse ENDPOINT_NOT_REGISTERED s
          else if (case jm_get (ms_endpoints s) (ed_canonical_ref d) of None \<Rightarrow> False | Some e \<Rightarrow> ed_revision d < ed_revision e)
            then mediation_refuse STALE_ENDPOINT s
          else case discover (mc_zod cfg) (mc_registry cfg) (endpoint_discovery d) (ms_registry s) of
            (Inl e, r) \<Rightarrow> throw (RegistryRejected e) (s \<lparr> ms_registry := r \<rparr>)
          | (Inr _, r) \<Rightarrow> return d (s \<lparr> ms_registry := r, ms_endpoints := jm_set (ed_canonical_ref d) d (ms_endpoints s),
              ms_allowedEndpoints := (if allowed then List.insert (ed_canonical_ref d) (ms_allowedEndpoints s)
                else removeAll (ed_canonical_ref d) (ms_allowedEndpoints s)) \<rparr>))"

definition revokeEndpoint :: "string \<Rightarrow> mediation \<Rightarrow> mediation" where
  "revokeEndpoint ref s = s \<lparr> ms_allowedEndpoints := removeAll (js_trim ref) (ms_allowedEndpoints s) \<rparr>"

definition getEndpoint :: "string \<Rightarrow> endpoint_details mediation_op" where
  "getEndpoint ref s = (case jm_get (ms_endpoints s) (js_trim ref) of
     None \<Rightarrow> mediation_refuse ENDPOINT_NOT_REGISTERED s | Some d \<Rightarrow> return d s)"

definition createProvenance :: "mediation_config \<Rightarrow> string \<Rightarrow> string option \<Rightarrow> string option \<Rightarrow> endpoint_provenance mediation_op" where
  "createProvenance cfg endpointRef requestId correlationId s =
     seqO (getEndpoint endpointRef s) (\<lambda>endpoint s.
     seqO (safeId cfg ''provenance'' s) (\<lambda>pid s.
     seqO (mediation_nowIso cfg s) (\<lambda>now s.
     case parseSpatialEndpointProvenance (mc_zod cfg) \<lparr> ep_provenance_id = pid, ep_workspace_id = mc_workspaceId cfg, ep_node_id = mc_nodeId cfg,
         ep_endpoint_ref = ed_canonical_ref endpoint, ep_endpoint_revision = ed_revision endpoint, ep_capability = ed_capability endpoint,
         ep_provider_ref = ed_provider_ref endpoint, ep_remote_node_ref = None, ep_validation_state = EpUNVERIFIED, ep_request_id = requestId,
         ep_correlation_id = (case correlationId of None \<Rightarrow> ''correlation:'' @ endpointRef | Some c \<Rightarrow> c), ep_observed_at = now \<rparr> of
       None \<Rightarrow> mediation_refuse ENDPOINT_NOT_REGISTERED s
     | Some p \<Rightarrow> return p (recordEvent cfg EvProvenance (ep_provenance_id p) requestId s))))"

section \<open>Context manifests\<close>

record manifest_input =
  mi_requestId :: string
  mi_endpointRef :: string
  mi_capability :: string
  mi_workspaceSessionRef :: string
  mi_purpose :: string
  mi_fields :: "context_fields option"
  mi_allowedFields :: "string list option"
  mi_attachmentRefs :: "string list option"
  mi_mediaTypes :: "string list option"
  mi_sizeLimitBytes :: "int option"
  mi_retention :: "retention option"
  mi_consentRequired :: "bool option"
  mi_consentGranted :: "bool option"
  mi_policyRevision :: "int option"

definition normalizedFields :: "context_fields option \<Rightarrow> context_fields" where
  "normalizedFields given = foldl (\<lambda>m e. jm_set (js_trim (fst e)) (snd e) m) []
     (filter (\<lambda>e. js_trim (fst e) \<noteq> []) (case given of None \<Rightarrow> [] | Some fs \<Rightarrow> fs))"

definition requestedFields :: "string list option \<Rightarrow> context_fields \<Rightarrow> string list" where
  "requestedFields allowed given = (case allowed of
     Some names \<Rightarrow> filter (\<lambda>n. n \<noteq> []) (map js_trim names) | None \<Rightarrow> jm_keys given)"

definition minimizedFields :: "context_fields \<Rightarrow> string list \<Rightarrow> context_fields" where
  "minimizedFields given allowed = foldl (\<lambda>m f. case jm_get given f of None \<Rightarrow> m | Some v \<Rightarrow> jm_set f v m) [] allowed"

fun context_json :: "context_value \<Rightarrow> json" where
  "context_json (CvText s) = JStr s"
| "context_json (CvNumber n) = JNum n"
| "context_json (CvBool b) = JBool b"

definition fields_json :: "context_fields \<Rightarrow> json" where
  "fields_json fs = JObj (map (map_prod id context_json) fs)"

definition manifestBody :: "endpoint_details \<Rightarrow> manifest_input \<Rightarrow> context_fields \<Rightarrow> string" where
  "manifestBody endpoint input given = stringify (JObj [(''endpoint'', JStr (ed_canonical_ref endpoint)), (''capability'', JStr (mi_capability input)),
     (''fields'', fields_json given), (''attachments'', JArr (map JStr (case mi_attachmentRefs input of None \<Rightarrow> [] | Some as \<Rightarrow> as))),
     (''purpose'', JStr (mi_purpose input))])"

definition maxRequestBytes :: "mediation_config \<Rightarrow> int" where
  "maxRequestBytes cfg = or_default (mc_maxRequestBytes cfg) DEFAULT_MAX_REQUEST_BYTES"

definition sizeLimitBytes :: "mediation_config \<Rightarrow> endpoint_details \<Rightarrow> manifest_input \<Rightarrow> int" where
  "sizeLimitBytes cfg endpoint input =
     min (max 1 (or_default (or_else (mi_sizeLimitBytes input) (lm_payload_bytes (ed_limits endpoint))) (maxRequestBytes cfg))) (maxRequestBytes cfg)"

definition manifest_candidate :: "mediation_config \<Rightarrow> endpoint_details \<Rightarrow> manifest_input \<Rightarrow> string list \<Rightarrow> string \<Rightarrow> timestamp \<Rightarrow> context_manifest" where
  "manifest_candidate cfg endpoint input mediaTypes mid now =
     (let given = normalizedFields (mi_fields input); requested = requestedFields (mi_allowedFields input) given;
          allowed = filter (\<lambda>f. \<not> re_test SECRET_KEY f) requested; minimized = minimizedFields given allowed
      in \<lparr> cf_manifest_id = mid, cf_request_id = mi_requestId input, cf_workspace_id = mc_workspaceId cfg, cf_node_id = mc_nodeId cfg,
           cf_workspace_session_ref = mi_workspaceSessionRef input, cf_purpose = take 240 (mi_purpose input), cf_capability_ref = ed_capability endpoint,
           cf_allowed_fields = allowed, cf_fields = minimized, cf_attachment_refs = or_default (mi_attachmentRefs input) [], cf_media_types = mediaTypes,
           cf_size_limit_bytes = sizeLimitBytes cfg endpoint input,
           cf_redactions = filter (\<lambda>f. f \<notin> set allowed \<or> re_test SECRET_KEY f) (jm_keys given),
           cf_forbidden_fields = filter (re_test SECRET_KEY) requested, cf_retention = or_default (mi_retention input) EPHEMERAL,
           cf_consent_required = or_default (mi_consentRequired input) False, cf_consent_granted = or_default (mi_consentGranted input) False,
           cf_policy_revision = or_default (mi_policyRevision input) 0,
           cf_manifest_hash = mediation_stableHash (manifestBody endpoint input minimized), cf_created_at = now \<rparr>)"

definition manifest_size :: "endpoint_details \<Rightarrow> manifest_input \<Rightarrow> int" where
  "manifest_size endpoint input = (let given = normalizedFields (mi_fields input) in byteLength (manifestBody endpoint input
     (minimizedFields given (filter (\<lambda>f. \<not> re_test SECRET_KEY f) (requestedFields (mi_allowedFields input) given)))))"

definition createContextManifest :: "mediation_config \<Rightarrow> manifest_input \<Rightarrow> context_manifest mediation_op" where
  "createContextManifest cfg input s =
     seqO (getEndpoint (mi_endpointRef input) s) (\<lambda>endpoint s.
     if ed_capability endpoint \<noteq> mi_capability input then mediation_refuse CAPABILITY_MISMATCH s
     else if prefix ''workspace-'' (mi_workspaceSessionRef input) \<and> \<not> prefix (mc_workspaceId cfg @ '':'') (mi_workspaceSessionRef input)
       then mediation_refuse UNAUTHORIZED s
     else let mediaTypes = take 16 (or_default (mi_mediaTypes input) (ed_input_formats endpoint)) in
       if ed_input_formats endpoint \<noteq> [] \<and> list_ex (\<lambda>t. \<not> matchesMime t (ed_input_formats endpoint)) mediaTypes then mediation_refuse CONTEXT_FORBIDDEN s
       else if manifest_size endpoint input > sizeLimitBytes cfg endpoint input then mediation_refuse CONTEXT_TOO_LARGE s
       else seqO (safeId cfg ''manifest'' s) (\<lambda>mid s.
         seqO (mediation_nowIso cfg s) (\<lambda>now s.
         let m = manifest_candidate cfg endpoint input mediaTypes mid now in
         if cf_consent_required m \<and> \<not> cf_consent_granted m then mediation_refuse CONSENT_REQUIRED s
         else case parseSpatialRemoteContextManifest (mc_zod cfg) m of
           None \<Rightarrow> mediation_refuse CONTEXT_FORBIDDEN s
         | Some p \<Rightarrow> return p (recordEvent cfg EvManifest (cf_manifest_id p) (Some (mi_requestId input)) s))))"

section \<open>Test frames\<close>

record frame_input =
  fi_frameId :: "string option"
  fi_endpointRef :: string
  fi_sourceRevision :: "int option"

definition schema_fields :: "endpoint_details \<Rightarrow> string list" where
  "schema_fields endpoint = take 64 (if ed_input_formats endpoint \<noteq> [] then ed_input_formats endpoint
     else if ed_supported_modalities endpoint \<noteq> [] then ed_supported_modalities endpoint else [''text/plain''])"

definition new_frame :: "mediation_config \<Rightarrow> endpoint_details \<Rightarrow> string \<Rightarrow> timestamp \<Rightarrow> test_frame" where
  "new_frame cfg endpoint fid now = \<lparr> tf_frame_id = fid, tf_workspace_id = mc_workspaceId cfg, tf_node_id = mc_nodeId cfg,
     tf_endpoint_ref = ed_canonical_ref endpoint, tf_capability = ed_capability endpoint, tf_schema_fields = schema_fields endpoint,
     tf_schema_media_types = take 16 (ed_input_formats endpoint), tf_input_value_ref = None, tf_submit_intent_ref = None,
     tf_response_ref = None, tf_accounting_ref = None, tf_state = FsREADY, tf_source_revision = ed_revision endpoint,
     tf_provenance_ref = None, tf_created_at = now, tf_updated_at = now \<rparr>"

definition createEndpointTestFrame :: "mediation_config \<Rightarrow> frame_input \<Rightarrow> test_frame mediation_op" where
  "createEndpointTestFrame cfg input s =
     seqO (getEndpoint (fi_endpointRef input) s) (\<lambda>endpoint s.
     if (case fi_sourceRevision input of None \<Rightarrow> False | Some r \<Rightarrow> r \<noteq> ed_revision endpoint) then mediation_refuse STALE_ENDPOINT s
     else seqO (mediation_nowIso cfg s) (\<lambda>now s.
       seqO (case fi_frameId input of Some fid \<Rightarrow> return fid s | None \<Rightarrow> safeId cfg ''endpoint-test-frame'' s) (\<lambda>fid s.
       case parseSpatialEndpointTestFrame (mc_zod cfg) (new_frame cfg endpoint fid now) of
         None \<Rightarrow> mediation_refuse ENDPOINT_NOT_REGISTERED s
       | Some f \<Rightarrow> return f (recordEvent cfg EvFrame (tf_frame_id f) None
           (s \<lparr> ms_frames := jm_set (tf_frame_id f) f (ms_frames s) \<rparr>)))))"

definition getFrame :: "string \<Rightarrow> test_frame mediation_op" where
  "getFrame frameId s = (case jm_get (ms_frames s) (js_trim frameId) of
     None \<Rightarrow> mediation_refuse ENDPOINT_NOT_REGISTERED s | Some f \<Rightarrow> return f s)"

definition listFrames :: "mediation \<Rightarrow> test_frame list" where
  "listFrames s = jm_values (ms_frames s)"

definition getRequest :: "string \<Rightarrow> mediation \<Rightarrow> remote_request option" where
  "getRequest requestId s = jm_get (ms_requests s) (js_trim requestId)"

definition getResult :: "string \<Rightarrow> mediation \<Rightarrow> remote_result option" where
  "getResult resultId s = jm_get (ms_results s) (js_trim resultId)"

definition getAccounting :: "string \<Rightarrow> mediation \<Rightarrow> accounting_record option" where
  "getAccounting requestId s = jm_get (ms_accounting s) (js_trim requestId)"

text \<open>The frame is read under the trimmed identifier and written under the identifier as given.\<close>

definition updateFrame :: "mediation_config \<Rightarrow> string \<Rightarrow> (test_frame \<Rightarrow> test_frame) \<Rightarrow> test_frame mediation_op" where
  "updateFrame cfg frameId patch s =
     seqO (getFrame frameId s) (\<lambda>cur s.
     seqO (mediation_nowIso cfg s) (\<lambda>now s.
     case parseSpatialEndpointTestFrame (mc_zod cfg) ((patch cur) \<lparr> tf_updated_at := now \<rparr>) of
       None \<Rightarrow> mediation_refuse ENDPOINT_NOT_REGISTERED s
     | Some f \<Rightarrow> return f (recordEvent cfg EvFrame frameId (tf_submit_intent_ref f)
         (s \<lparr> ms_frames := jm_set frameId f (ms_frames s) \<rparr>))))"

section \<open>Submitting: up to the adapter\<close>

record submit_input =
  si_frameId :: string
  si_idempotencyKey :: "string option"
  si_fields :: "context_fields option"
  si_allowedFields :: "string list option"
  si_attachmentRefs :: "string list option"
  si_mediaTypes :: "string list option"
  si_workspaceSessionRef :: "string option"
  si_operatorConsent :: "bool option"
  si_purpose :: "string option"

record pending_submit =
  ps_request :: remote_request
  ps_endpoint :: endpoint_details
  ps_frameId :: string
  ps_requestId :: string
  ps_idempotencyKey :: string
  ps_controller :: nat

datatype submit_progress = SubmitDuplicate submit_result | SubmitPending pending_submit

definition submit_key :: "submit_input \<Rightarrow> test_frame \<Rightarrow> string" where
  "submit_key input frame = js_trim (case si_idempotencyKey input of Some k \<Rightarrow> k
     | None \<Rightarrow> tf_frame_id frame @ '':'' @ stringify (fields_json (or_default (si_fields input) [])))"

definition submit_session_ref :: "mediation_config \<Rightarrow> submit_input \<Rightarrow> string" where
  "submit_session_ref cfg input = or_default (or_else (si_workspaceSessionRef input) (mc_defaultWorkspaceSessionRef cfg))
     (mc_workspaceId cfg @ '':session:manual'')"

definition submit_authorization :: "mediation_config \<Rightarrow> endpoint_details \<Rightarrow> string \<Rightarrow> string \<Rightarrow> remote_authorization" where
  "submit_authorization cfg endpoint capability session = (case mc_authorize cfg of
     None \<Rightarrow> \<lparr> rz_allowed = True, rz_grantRef = None, rz_policyRevision = Some 0 \<rparr>
   | Some f \<Rightarrow> f endpoint capability session (mc_primaryAgentRef cfg))"

definition submit_manifest :: "mediation_config \<Rightarrow> submit_input \<Rightarrow> endpoint_details \<Rightarrow> test_frame \<Rightarrow> remote_authorization \<Rightarrow> string \<Rightarrow> manifest_input" where
  "submit_manifest cfg input endpoint frame authorization requestId = \<lparr> mi_requestId = requestId, mi_endpointRef = ed_canonical_ref endpoint,
     mi_capability = tf_capability frame, mi_workspaceSessionRef = submit_session_ref cfg input,
     mi_purpose = or_default (si_purpose input) ''operator-endpoint-test'', mi_fields = si_fields input, mi_allowedFields = si_allowedFields input,
     mi_attachmentRefs = si_attachmentRefs input, mi_mediaTypes = si_mediaTypes input, mi_sizeLimitBytes = lm_payload_bytes (ed_limits endpoint),
     mi_retention = None, mi_consentRequired = Some False, mi_consentGranted = Some (or_default (si_operatorConsent input) False),
     mi_policyRevision = Some (or_default (rz_policyRevision authorization) 0) \<rparr>"

definition request_size :: "context_manifest \<Rightarrow> int" where
  "request_size m = byteLength (stringify (JObj [(''fields'', fields_json (cf_fields m)), (''attachments'', JArr (map JStr (cf_attachment_refs m)))]))"

definition submit_timeout :: "mediation_config \<Rightarrow> endpoint_details \<Rightarrow> int" where
  "submit_timeout cfg endpoint = (let standard = or_default (mc_defaultTimeoutMs cfg) DEFAULT_TIMEOUT_MS in
     min (or_default (lm_timeout_ms (ed_limits endpoint)) standard) standard)"

definition submit_adapter :: "mediation_config \<Rightarrow> endpoint_details \<Rightarrow> string" where
  "submit_adapter cfg endpoint = or_default (or_else (mc_defaultAdapterId cfg) (ed_provider_ref endpoint)) ''node-mediated''"

text \<open>\<open>Math.ceil(bytes / 1024)\<close>\<close>

definition kilobytes :: "int \<Rightarrow> int" where
  "kilobytes bytes = (bytes + 1023) div 1024"

definition request_candidate :: "mediation_config \<Rightarrow> submit_input \<Rightarrow> endpoint_details \<Rightarrow> test_frame \<Rightarrow> remote_authorization \<Rightarrow> string
    \<Rightarrow> string \<Rightarrow> context_manifest \<Rightarrow> endpoint_provenance \<Rightarrow> timestamp \<Rightarrow> remote_request" where
  "request_candidate cfg input endpoint frame authorization requestId correlationId manifest provenance now =
     (let metered = cs_unit_price (ed_cost endpoint) \<noteq> None; bytes = request_size manifest in
      \<lparr> rm_request_id = requestId, rm_local_node_id = mc_nodeId cfg, rm_local_primary_agent_ref = mc_primaryAgentRef cfg,
        rm_local_session_ref = submit_session_ref cfg input, rm_endpoint_ref = ed_canonical_ref endpoint, rm_endpoint_revision = ed_revision endpoint,
        rm_capability = tf_capability frame, rm_input_refs = cf_attachment_refs manifest, rm_context_manifest = manifest,
        rm_grant_ref = rz_grantRef authorization, rm_policy_revision = or_default (rz_policyRevision authorization) 0,
        rm_policy = (if metered then BpMETERED else BpFREE), rm_estimate_units = Some (if metered then max 1 (kilobytes bytes) else 0),
        rm_max_units = ed_capacity endpoint, rm_adapter_id = submit_adapter cfg endpoint, rm_timeout_ms = submit_timeout cfg endpoint,
        rm_request_bytes = bytes, rm_state = RqSUBMITTING, rm_idempotency_key = submit_key input frame, rm_correlation_id = correlationId,
        rm_created_at = now, rm_provenance = provenance \<rparr>)"

text \<open>From the parsed request to \<open>adapter.send\<close>.\<close>

definition submit_send :: "mediation_config \<Rightarrow> endpoint_details \<Rightarrow> test_frame \<Rightarrow> string \<Rightarrow> string \<Rightarrow> string \<Rightarrow> remote_request \<Rightarrow> submit_progress mediation_op" where
  "submit_send cfg endpoint frame key requestId provenanceId request s =
     seqO (updateFrame cfg (tf_frame_id frame) (\<lambda>f. f \<lparr> tf_state := FsSUBMITTING, tf_submit_intent_ref := Some requestId,
         tf_provenance_ref := Some provenanceId \<rparr>) (s \<lparr> ms_requests := jm_set requestId request (ms_requests s) \<rparr>)) (\<lambda>_ s.
     let s = recordEvent cfg EvRequest requestId (Some requestId) s; c = ms_nextController s in
     return (SubmitPending \<lparr> ps_request = request, ps_endpoint = endpoint, ps_frameId = tf_frame_id frame, ps_requestId = requestId,
         ps_idempotencyKey = key, ps_controller = c \<rparr>)
       (s \<lparr> ms_nextController := c + 1, ms_controllers := jm_set requestId c (ms_controllers s), ms_sent := ms_sent s @ [request] \<rparr>))"

definition submit_request :: "mediation_config \<Rightarrow> submit_input \<Rightarrow> endpoint_details \<Rightarrow> test_frame \<Rightarrow> submit_progress mediation_op" where
  "submit_request cfg input endpoint frame s =
     seqO (safeId cfg ''remote-request'' s) (\<lambda>requestId s.
     let authorization = submit_authorization cfg endpoint (tf_capability frame) (submit_session_ref cfg input) in
     if \<not> rz_allowed authorization then mediation_refuse UNAUTHORIZED s
     else seqO (createContextManifest cfg (submit_manifest cfg input endpoint frame authorization requestId) s) (\<lambda>manifest s.
       if submit_adapter cfg endpoint \<notin> set (ms_adapters s) then mediation_refuse TRANSPORT_UNAVAILABLE s
       else seqO (safeId cfg ''correlation'' s) (\<lambda>correlationId s.
         seqO (createProvenance cfg (ed_canonical_ref endpoint) (Some requestId) (Some correlationId) s) (\<lambda>provenance s.
         seqO (mediation_nowIso cfg s) (\<lambda>now s.
         case parseSpatialRemoteRequest (mc_zod cfg)
             (request_candidate cfg input endpoint frame authorization requestId correlationId manifest provenance now) of
           None \<Rightarrow> mediation_refuse UNAUTHORIZED s
         | Some request \<Rightarrow> submit_send cfg endpoint frame (submit_key input frame) requestId (ep_provenance_id provenance) request s)))))"

definition submit_begin :: "mediation_config \<Rightarrow> submit_input \<Rightarrow> submit_progress mediation_op" where
  "submit_begin cfg input s =
     seqO (getFrame (si_frameId input) s) (\<lambda>frame s.
     seqO (getEndpoint (tf_endpoint_ref frame) s) (\<lambda>endpoint s.
     case jm_get (ms_idempotent s) (submit_key input frame) of
       Some previous \<Rightarrow> return (SubmitDuplicate (previous \<lparr> sr_duplicate := True \<rparr>)) s
     | None \<Rightarrow>
         if tf_state frame \<in> {FsSUBMITTING, FsSTREAMING} then mediation_refuse DUPLICATE_SUBMIT s
         else if ed_canonical_ref endpoint \<notin> set (ms_allowedEndpoints s) then mediation_refuse ENDPOINT_NOT_ALLOWED s
         else if ed_availability endpoint = AvUNAVAILABLE \<or> ed_surface_state endpoint = SfUNAVAILABLE then mediation_refuse ENDPOINT_UNAVAILABLE s
         else if tf_source_revision frame \<noteq> ed_revision endpoint then mediation_refuse STALE_ENDPOINT s
         else submit_request cfg input endpoint frame s))"

section \<open>Validating what came back\<close>

definition response_type :: "transport_response \<Rightarrow> string" where
  "response_type response = before_semicolon (js_toLowerCase (js_trim (tr_contentType response)))"

definition response_size :: "transport_response \<Rightarrow> int" where
  "response_size response = or_default (tr_sizeBytes response) (byteLength (sanitizedText (tr_payload response)))"

definition classify_response :: "mediation_config \<Rightarrow> endpoint_details \<Rightarrow> transport_response \<Rightarrow> remote_validation \<times> remote_classification" where
  "classify_response cfg endpoint response =
     (let payload = tr_payload response; raw = payload_text payload; cleaned = sanitizedText payload in
      if response_size response > or_default (mc_maxResponseBytes cfg) DEFAULT_MAX_RESPONSE_BYTES then (RvQUARANTINED, RcOVERSIZED)
      else if \<not> matchesMime (response_type response) (ed_output_formats endpoint) then (RvINVALID, RcMIME_MISMATCH)
      else if hasUnboundedStream payload then (RvQUARANTINED, RcOVERSIZED)
      else if hasRemoteUiPayload payload then (RvQUARANTINED, RcUNSAFE_HTML)
      else if re_test SCRIPT_OR_HTML raw then
        (RvQUARANTINED, if sublist ''<script'' (js_toLowerCase raw) \<or> re_test JAVASCRIPT_URL (js_toLowerCase raw) then RcSCRIPT else RcUNSAFE_HTML)
      else if re_test SECRET_VALUE cleaned then (RvQUARANTINED, RcSECRET_PATTERN)
      else if re_test PROMPT_INJECTION cleaned then (RvQUARANTINED, RcPROMPT_INJECTION)
      else (RvVALID, RcNONE))"

fun classification_name :: "remote_classification \<Rightarrow> string" where
  "classification_name RcNONE = ''none''"
| "classification_name RcPROMPT_INJECTION = ''prompt_injection''"
| "classification_name RcSCRIPT = ''script''"
| "classification_name RcUNSAFE_HTML = ''unsafe_html''"
| "classification_name RcSECRET_PATTERN = ''secret_pattern''"
| "classification_name RcMIME_MISMATCH = ''mime_mismatch''"
| "classification_name RcOVERSIZED = ''oversized''"

definition safe_response_text :: "remote_validation \<Rightarrow> remote_classification \<Rightarrow> string \<Rightarrow> string" where
  "safe_response_text status classification cleaned =
     (let preview = (if classification = RcSECRET_PATTERN then re_replace SECRET_VALUE ''[redacted-secret]'' cleaned else cleaned) in
      if status = RvQUARANTINED then ''Remote output quarantined ('' @ classification_name classification @ ''). '' @ take 512 preview
      else if status = RvINVALID then ''Remote output rejected by the local validator.''
      else cleaned)"

definition validateRemoteResult :: "mediation_config \<Rightarrow> remote_request \<Rightarrow> endpoint_details \<Rightarrow> transport_response \<Rightarrow> remote_result mediation_op" where
  "validateRemoteResult cfg request endpoint response s =
     (let (status, classification) = classify_response cfg endpoint response in
     seqO (mediation_nowIso cfg s) (\<lambda>observed s.
     seqO (safeId cfg ''remote-result'' s) (\<lambda>rid s.
     seqO (mediation_nowIso cfg s) (\<lambda>received s.
     case parseSpatialRemoteResult (mc_zod cfg) \<lparr> rs_result_id = rid, rs_request_id = rm_request_id request, rs_endpoint_ref = rm_endpoint_ref request,
         rs_endpoint_revision = rm_endpoint_revision request,
         rs_content_type = (if response_type response = [] then ''text/plain'' else response_type response),
         rs_status = status, rs_classification = classification, rs_size_bytes = response_size response,
         rs_safe_text = Some (safe_response_text status classification (sanitizedText (tr_payload response))), rs_payload_ref = None,
         rs_provenance = (rm_provenance request) \<lparr> ep_request_id := Some (rm_request_id request),
           ep_validation_state := (if status = RvVALID then EpVERIFIED else EpUNVERIFIED), ep_observed_at := observed \<rparr>,
         rs_received_at = received, rs_correlation_id = rm_correlation_id request \<rparr> of
       None \<Rightarrow> mediation_refuse INVALID_RESULT s
     | Some r \<Rightarrow> return r s))))"

definition settleAccounting :: "mediation_config \<Rightarrow> remote_request \<Rightarrow> endpoint_details \<Rightarrow> int \<Rightarrow> accounting_state \<Rightarrow> accounting_record mediation_op" where
  "settleAccounting cfg request endpoint outputBytes state s =
     (let inputs = max 0 (kilobytes (rm_request_bytes request)); outputs = max 0 (kilobytes outputBytes); metered = rm_policy request = BpMETERED in
     seqO (mediation_nowIso cfg s) (\<lambda>now s.
     seqO (safeId cfg ''accounting'' s) (\<lambda>aid s.
     return \<lparr> ac_record_id = aid, ac_request_id = rm_request_id request, ac_node_id = mc_nodeId cfg,
       ac_workspace_session_ref = rm_local_session_ref request, ac_protocol_session_ref = None, ac_endpoint_ref = ed_canonical_ref endpoint,
       ac_rate_card_revision = ed_revision endpoint, ac_billing_policy = (if metered then BpMETERED else BpFREE),
       ac_input_units = (if metered then inputs else 0), ac_output_units = (if metered then outputs else 0),
       ac_estimate_units = rm_estimate_units request, ac_measured_units = Some (if metered then inputs + outputs else 0), ac_settlement_ref = None,
       ac_charge_policy = (if metered then CHARGE_ON_ACCEPTED_RESULT else NO_CHARGE), ac_state = state,
       ac_created_at = now, ac_updated_at = now \<rparr> s)))"

section \<open>Submitting: after the adapter\<close>

text \<open>What the race gave: a response, a rejection (with the code if it was a mediation error), or the timer.\<close>

datatype remote_outcome = Responded transport_response | Rejected "mediation_code option" | TimedOut

definition accept_response :: "mediation_config \<Rightarrow> pending_submit \<Rightarrow> transport_response \<Rightarrow> submit_result mediation_op" where
  "accept_response cfg p response s =
     seqO (validateRemoteResult cfg (ps_request p) (ps_endpoint p) response s) (\<lambda>result s.
     let s = recordEvent cfg EvResult (rs_result_id result) (Some (ps_requestId p)) (s \<lparr> ms_results := jm_set (rs_result_id result) result (ms_results s) \<rparr>) in
     seqO (settleAccounting cfg (ps_request p) (ps_endpoint p) (response_size response)
         (if rs_status result \<in> {RvVALID, RvSANITIZED} then AcSETTLED else AcFAILED) s) (\<lambda>accounting s.
     case parseSpatialResourceAccounting (mc_zod cfg) accounting of
       None \<Rightarrow> mediation_refuse INVALID_RESULT s
     | Some a \<Rightarrow>
         let s = recordEvent cfg EvAccounting (ac_record_id a) (Some (ps_requestId p)) (s \<lparr> ms_accounting := jm_set (ps_requestId p) a (ms_accounting s) \<rparr>) in
         seqO (updateFrame cfg (ps_frameId p) (\<lambda>f. f \<lparr> tf_state := (if rs_status result \<in> {RvQUARANTINED, RvINVALID} then FsINVALID_RESULT else FsCOMPLETE),
             tf_response_ref := Some (rs_result_id result), tf_accounting_ref := Some (ac_record_id a) \<rparr>) s) (\<lambda>frame s.
         let r = \<lparr> sr_request = ps_request p, sr_result = result, sr_accounting = a, sr_frame = frame, sr_duplicate = False \<rparr> in
         return r (s \<lparr> ms_idempotent := jm_set (ps_idempotencyKey p) r (ms_idempotent s) \<rparr>))))"

text \<open>The \<open>try\<close> block from the await on; \<open>None\<close> on the left is an error that is not a mediation error.\<close>

definition submit_try :: "mediation_config \<Rightarrow> pending_submit \<Rightarrow> remote_outcome \<Rightarrow> mediation \<Rightarrow> (mediation_code option, submit_result, mediation) outcome" where
  "submit_try cfg p outcome s = (case outcome of
     TimedOut \<Rightarrow> throw (Some TIMEOUT) (s \<lparr> ms_aborted := List.insert (ps_controller p) (ms_aborted s) \<rparr>)
   | Rejected code \<Rightarrow> throw code s
   | Responded response \<Rightarrow>
       if ps_controller p \<in> set (ms_aborted s) then throw (Some TIMEOUT) s
       else (case accept_response cfg p response s of
         (Inl (Mediation code), s1) \<Rightarrow> throw (Some code) s1 | (Inl (RegistryRejected _), s1) \<Rightarrow> throw None s1 | (Inr r, s1) \<Rightarrow> return r s1))"

definition submit_failure :: "pending_submit \<Rightarrow> mediation_code option \<Rightarrow> mediation \<Rightarrow> mediation_code" where
  "submit_failure p code s = (if ps_requestId p \<in> set (ms_cancelledRequests s) then MediationCANCELLED
     else case code of Some c \<Rightarrow> c
     | None \<Rightarrow> if ps_controller p \<in> set (ms_aborted s) then TIMEOUT else TRANSPORT_ERROR)"

fun failure_state :: "mediation_code \<Rightarrow> frame_state" where
  "failure_state TIMEOUT = FsTIMEOUT"
| "failure_state MediationCANCELLED = FsCANCELLED"
| "failure_state ENDPOINT_UNAVAILABLE = FsUNAVAILABLE"
| "failure_state _ = FsREJECTED"

definition submit_cleanup :: "pending_submit \<Rightarrow> mediation \<Rightarrow> mediation" where
  "submit_cleanup p s = s \<lparr> ms_controllers := jm_delete (ps_requestId p) (ms_controllers s),
     ms_cancelledRequests := removeAll (ps_requestId p) (ms_cancelledRequests s) \<rparr>"

definition submit_settle :: "mediation_config \<Rightarrow> pending_submit \<Rightarrow> remote_outcome \<Rightarrow> submit_result mediation_op" where
  "submit_settle cfg p outcome s = map_prod id (submit_cleanup p) (case submit_try cfg p outcome s of
     (Inr r, s1) \<Rightarrow> return r s1
   | (Inl code, s1) \<Rightarrow> let failure = submit_failure p code s1 in
       seqO (updateFrame cfg (ps_frameId p) (\<lambda>f. f \<lparr> tf_state := failure_state failure \<rparr>) s1) (\<lambda>_ s2. mediation_refuse failure s2))"

definition cancelEndpointTest :: "mediation_config \<Rightarrow> string \<Rightarrow> test_frame mediation_op" where
  "cancelEndpointTest cfg frameId s =
     seqO (getFrame frameId s) (\<lambda>frame s.
     updateFrame cfg frameId (\<lambda>f. f \<lparr> tf_state := FsCANCELLED \<rparr>)
       (if js_truthy (tf_submit_intent_ref frame) then
          let requestId = the (tf_submit_intent_ref frame) in
          s \<lparr> ms_cancelledRequests := List.insert requestId (ms_cancelledRequests s),
            ms_aborted := (case jm_get (ms_controllers s) requestId of None \<Rightarrow> ms_aborted s | Some c \<Rightarrow> List.insert c (ms_aborted s)) \<rparr>
        else s))"

end
