(* ===== verification/Mediation_Properties.thy ===== *)
theory Mediation_Properties
  imports Mediation Status_Properties Workspace_Properties
begin

text \<open>
  What the mediation of remote endpoints guarantees under every interleaving of submissions, responses, timeouts and
  cancellations, and where it does not do what it means to.
\<close>

section \<open>Schemas\<close>

lemma safeKeySchema_normalising [schema_normalising]: "normalising (safeKeySchema z)"
  by (auto simp: normalising_def safeKeySchema_def Let_def split: if_splits)

lemma safeKeySchema_trim: "safeKeySchema z v = Some t \<Longrightarrow> t = js_trim v"
  by (auto simp: safeKeySchema_def Let_def split: if_splits)

lemma safeValueSchema_same: "safeValueSchema z v = Some w \<Longrightarrow> w = v"
  by (cases v) (auto split: if_splits)

lemma sha256Schema_normalising [schema_normalising]: "normalising sha256Schema"
  by (auto simp: normalising_def sha256Schema_def split: if_splits)

lemma sha256Schema_same: "sha256Schema s = Some t \<Longrightarrow> t = s \<and> sha256_ref s"
  by (auto simp: sha256Schema_def split: if_splits)

lemma frame_normalising [schema_normalising]: "normalising (parseSpatialEndpointTestFrame z)"
  unfolding normalising_def parseSpatialEndpointTestFrame_def
  by (clarsimp simp: bind_eq_Some_conv)
    (intro exI conjI; (rule refl | erule normalisingD [rotated]; intro schema_normalising))

lemma nullable_id: "nullable (idSchema z) v = Some w \<Longrightarrow> w = map_option js_trim v"
  by (auto simp: nullable_def split: option.splits dest: idSchema_trim)

lemma frame_keeps:
  assumes "parseSpatialEndpointTestFrame z f = Some g"
  shows "tf_frame_id g = js_trim (tf_frame_id f)" "tf_state g = tf_state f" "tf_endpoint_ref g = js_trim (tf_endpoint_ref f)"
    "tf_submit_intent_ref g = map_option js_trim (tf_submit_intent_ref f)"
  using assms by (clarsimp simp: parseSpatialEndpointTestFrame_def bind_eq_Some_conv; auto dest: idSchema_trim nullable_id)+

text \<open>A stored frame parses to itself, so it still parses after a change of its state.\<close>

lemma frame_state_valid:
  assumes "parseSpatialEndpointTestFrame z f = Some f"
  shows "parseSpatialEndpointTestFrame z (f \<lparr> tf_state := st, tf_updated_at := t \<rparr>) = Some (f \<lparr> tf_state := st, tf_updated_at := t \<rparr>)"
  using assms by (cases f) (clarsimp simp: parseSpatialEndpointTestFrame_def bind_eq_Some_conv)

lemma endpoint_keeps:
  assumes "parseSpatialEndpointDetails z d = Some e"
  shows "ed_canonical_ref e = js_trim (ed_canonical_ref d)" "ed_revision e = ed_revision d" "ed_availability e = ed_availability d"
    "ed_surface_state e = ed_surface_state d"
  using assms by (clarsimp simp: parseSpatialEndpointDetails_def bind_eq_Some_conv revisionSchema_def split: if_splits; auto dest: idSchema_trim)+

lemma request_keeps:
  assumes "parseSpatialRemoteRequest z r = Some q"
  shows "rm_endpoint_ref q = js_trim (rm_endpoint_ref r)" "rm_endpoint_revision q = rm_endpoint_revision r" "rm_adapter_id q = js_trim (rm_adapter_id r)"
    "rm_timeout_ms q = rm_timeout_ms r" "parseSpatialRemoteContextManifest z (rm_context_manifest r) = Some (rm_context_manifest q)"
    "rm_policy q = rm_policy r" "z_number_positive z (rm_timeout_ms r)" "rm_idempotency_key q = js_trim (rm_idempotency_key r)"
  using assms by (clarsimp simp: parseSpatialRemoteRequest_def bind_eq_Some_conv revisionSchema_def split: if_splits; auto dest: idSchema_trim)+

lemma manifest_parsed:
  assumes "parseSpatialRemoteContextManifest z m = Some n"
  shows "arrayOf (safeEntrySchema z) (cf_fields m) = Some (cf_fields n)" "arrayOf sha256Schema (cf_attachment_refs m) = Some (cf_attachment_refs n)"
    "cf_workspace_id n = js_trim (cf_workspace_id m)"
  using assms by (clarsimp simp: parseSpatialRemoteContextManifest_def bind_eq_Some_conv arrayMax_def split: if_splits; auto dest: idSchema_trim)+

lemma parsed_entries:
  assumes "arrayOf (safeEntrySchema z) es = Some fs" and "(k, v) \<in> set fs"
  shows "\<exists>k'. (k', v) \<in> set es \<and> k = js_trim k'"
  using assms
  by (induction es arbitrary: fs)
    (auto simp: bind_eq_Some_conv safeEntrySchema_def dest!: safeKeySchema_trim safeValueSchema_same, blast+)

lemma parsed_attachments: "arrayOf sha256Schema xs = Some ys \<Longrightarrow> ys = xs \<and> list_all sha256_ref xs"
  by (induction xs arbitrary: ys) (auto simp: bind_eq_Some_conv dest!: sha256Schema_same)

section \<open>What leaves in a context\<close>

lemma foldl_fields_get:
  "jm_get (foldl (\<lambda>m e. jm_set (js_trim (fst e)) (snd e) m) m es) k = Some v \<Longrightarrow>
   jm_get m k = Some v \<or> (\<exists>e \<in> set es. k = js_trim (fst e) \<and> v = snd e)"
proof (induction es arbitrary: m)
  case (Cons e es)
  from Cons.IH [of "jm_set (js_trim (fst e)) (snd e) m"] Cons.prems show ?case by (auto simp: jm_get_set split: if_splits)
qed simp

text \<open>A normalised field carries the value of an entry whose name trims to its name.\<close>

lemma normalizedFields_get:
  "jm_get (normalizedFields fs) k = Some v \<Longrightarrow> \<exists>k'. (k', v) \<in> set (or_default fs []) \<and> k = js_trim k' \<and> k \<noteq> []"
  unfolding normalizedFields_def by (drule foldl_fields_get) (auto simp: or_default_def split: option.splits)

lemma foldl_minimized_get:
  "jm_get (foldl (\<lambda>m f. case jm_get given f of None \<Rightarrow> m | Some v \<Rightarrow> jm_set f v m) m fs) k = Some v \<Longrightarrow>
   jm_get m k = Some v \<or> k \<in> set fs \<and> jm_get given k = Some v"
proof (induction fs arbitrary: m)
  case (Cons f fs)
  from Cons.IH [of "case jm_get given f of None \<Rightarrow> m | Some v \<Rightarrow> jm_set f v m"] Cons.prems show ?case
    by (auto simp: jm_get_set split: option.splits if_splits)
qed simp

lemma minimized_get: "jm_get (minimizedFields given fs) k = Some v \<Longrightarrow> k \<in> set fs \<and> jm_get given k = Some v"
  unfolding minimizedFields_def by (drule foldl_minimized_get) simp

lemma minimized_wf: "jm_wf (minimizedFields given fs)"
proof -
  have "jm_wf m \<Longrightarrow> jm_wf (foldl (\<lambda>m f. case jm_get given f of None \<Rightarrow> m | Some v \<Rightarrow> jm_set f v m) m fs)" for m
    by (induction fs arbitrary: m) (auto split: option.splits simp: jm_wf_set)
  then show ?thesis by (simp add: minimizedFields_def)
qed

text \<open>What a submission may disclose: entries the operator gave, under names the operator listed, none of them a secret name.\<close>

definition disclosable :: "submit_input \<Rightarrow> string \<Rightarrow> context_value \<Rightarrow> bool" where
  "disclosable input k v \<longleftrightarrow> \<not> re_test SECRET_KEY k \<and> (\<exists>k'. (k', v) \<in> set (or_default (si_fields input) []) \<and> k = js_trim k') \<and>
     (\<forall>names. si_allowedFields input = Some names \<longrightarrow> k \<in> js_trim ` set names)"

lemma candidate_fields:
  assumes "(k, v) \<in> set (cf_fields (manifest_candidate cfg endpoint (submit_manifest cfg input endpoint frame authorization rid) types mid now))"
  shows "disclosable input k v \<and> js_trim k = k"
proof -
  let ?given = "normalizedFields (si_fields input)"
  let ?names = "requestedFields (si_allowedFields input) ?given"
  from assms have "(k, v) \<in> set (minimizedFields ?given (filter (\<lambda>f. \<not> re_test SECRET_KEY f) ?names))"
    by (simp add: manifest_candidate_def submit_manifest_def Let_def)
  then have "jm_get (minimizedFields ?given (filter (\<lambda>f. \<not> re_test SECRET_KEY f) ?names)) k = Some v"
    by (simp add: jm_get_mem [OF minimized_wf])
  from minimized_get [OF this] have n: "k \<in> set ?names" "\<not> re_test SECRET_KEY k" and g: "jm_get ?given k = Some v" by auto
  from normalizedFields_get [OF g] n show ?thesis by (auto simp: disclosable_def requestedFields_def)
qed

section \<open>Calls and settlements in any order\<close>

text \<open>
  \<open>BeginSubmit\<close> runs a submission up to its await, \<open>SettleSubmit i\<close> resumes the \<open>i\<close>-th pending one with what the race gave;
  everything else runs to its end in one step.
\<close>

datatype mediation_call =
    AddAdapter string
  | RegisterEndpoint endpoint_details bool
  | RevokeEndpoint string
  | CreateManifest manifest_input
  | CreateFrame frame_input
  | BeginSubmit submit_input
  | SettleSubmit nat remote_outcome
  | CancelTest string

fun mediation_step :: "mediation_config \<Rightarrow> mediation \<times> pending_submit list \<Rightarrow> mediation_call \<Rightarrow> mediation \<times> pending_submit list" where
  "mediation_step cfg (s, ps) (AddAdapter a) = (snd (registerAdapter a s), ps)"
| "mediation_step cfg (s, ps) (RegisterEndpoint d allowed) = (snd (registerEndpoint cfg d allowed s), ps)"
| "mediation_step cfg (s, ps) (RevokeEndpoint ref) = (revokeEndpoint ref s, ps)"
| "mediation_step cfg (s, ps) (CreateManifest input) = (snd (createContextManifest cfg input s), ps)"
| "mediation_step cfg (s, ps) (CreateFrame input) = (snd (createEndpointTestFrame cfg input s), ps)"
| "mediation_step cfg (s, ps) (BeginSubmit input) = (case submit_begin cfg input s of
     (Inr (SubmitPending p), s1) \<Rightarrow> (s1, ps @ [p]) | (_, s1) \<Rightarrow> (s1, ps))"
| "mediation_step cfg (s, ps) (SettleSubmit i outcome) =
     (if i < length ps then (snd (submit_settle cfg (ps ! i) outcome s), take i ps @ drop (Suc i) ps) else (s, ps))"
| "mediation_step cfg (s, ps) (CancelTest frameId) = (snd (cancelEndpointTest cfg frameId s), ps)"

text \<open>The state without the event log and the readings of clock and ids.\<close>

definition core :: "mediation \<Rightarrow> mediation" where
  "core s = s \<lparr> ms_eventLog := [], ms_counter := 0, ms_clock := 0 \<rparr>"

lemma core_fields:
  assumes "core s = core t"
  shows "ms_registry s = ms_registry t" "ms_endpoints s = ms_endpoints t" "ms_allowedEndpoints s = ms_allowedEndpoints t"
    "ms_adapters s = ms_adapters t" "ms_frames s = ms_frames t" "ms_requests s = ms_requests t" "ms_results s = ms_results t"
    "ms_accounting s = ms_accounting t" "ms_idempotent s = ms_idempotent t" "ms_controllers s = ms_controllers t"
    "ms_aborted s = ms_aborted t" "ms_nextController s = ms_nextController t" "ms_cancelledRequests s = ms_cancelledRequests t"
    "ms_sent s = ms_sent t"
  using assms by (cases s; cases t; simp add: core_def)+

lemma core_simps [simp]:
  "core (recordEvent cfg k i q s) = core s" "core (s \<lparr> ms_counter := n \<rparr>) = core s" "core (s \<lparr> ms_clock := n \<rparr>) = core s"
  by (simp_all add: core_def recordEvent_def)

lemmas mediation_unfolds = safeId_def mediation_nowIso_def mediation_refuse_def Let_def

lemma createProvenance_core: "core (snd (createProvenance cfg ref rid cid s)) = core s"
  by (simp add: createProvenance_def getEndpoint_def mediation_unfolds split: option.split)

lemma createContextManifest_core: "core (snd (createContextManifest cfg input s)) = core s"
  by (simp add: createContextManifest_def getEndpoint_def mediation_unfolds split: option.split)

lemma createContextManifest_Inr:
  assumes "createContextManifest cfg input s = (Inr m, s')"
  shows "\<exists>endpoint types mid now. jm_get (ms_endpoints s) (js_trim (mi_endpointRef input)) = Some endpoint \<and>
    ed_capability endpoint = mi_capability input \<and>
    parseSpatialRemoteContextManifest (mc_zod cfg) (manifest_candidate cfg endpoint input types mid now) = Some m"
  using assms unfolding createContextManifest_def getEndpoint_def mediation_unfolds
  by (simp split: option.splits if_splits) blast

text \<open>The state without its frames and requests.\<close>

definition sans_frames :: "mediation \<Rightarrow> mediation" where
  "sans_frames s = core (s \<lparr> ms_frames := [], ms_requests := [] \<rparr>)"

lemma sans_frames_core: "core s = core t \<Longrightarrow> sans_frames s = sans_frames t"
  by (cases s; cases t) (simp add: sans_frames_def core_def)

lemma sans_frames_fields:
  assumes "sans_frames s = sans_frames t"
  shows "ms_registry s = ms_registry t" "ms_endpoints s = ms_endpoints t" "ms_allowedEndpoints s = ms_allowedEndpoints t"
    "ms_adapters s = ms_adapters t" "ms_results s = ms_results t" "ms_accounting s = ms_accounting t" "ms_idempotent s = ms_idempotent t"
    "ms_controllers s = ms_controllers t" "ms_aborted s = ms_aborted t" "ms_nextController s = ms_nextController t"
    "ms_cancelledRequests s = ms_cancelledRequests t" "ms_sent s = ms_sent t"
  using assms by (cases s; cases t; simp add: sans_frames_def core_def)+

lemma sans_frames_simps [simp]:
  "sans_frames (recordEvent cfg k i q s) = sans_frames s" "sans_frames (s \<lparr> ms_frames := f \<rparr>) = sans_frames s"
  "sans_frames (s \<lparr> ms_clock := n \<rparr>) = sans_frames s" "sans_frames (s \<lparr> ms_counter := n \<rparr>) = sans_frames s"
  "sans_frames (s \<lparr> ms_requests := qs \<rparr>) = sans_frames s"
  by (simp_all add: sans_frames_def core_def recordEvent_def)

lemma recordEvent_fields [simp]:
  "ms_frames (recordEvent cfg k i q s) = ms_frames s" "ms_nextController (recordEvent cfg k i q s) = ms_nextController s"
  "ms_controllers (recordEvent cfg k i q s) = ms_controllers s" "ms_sent (recordEvent cfg k i q s) = ms_sent s"
  by (simp_all add: recordEvent_def)

lemma updateFrame_cases:
  obtains (kept) s' where "updateFrame cfg fid patch s = (Inl (Mediation ENDPOINT_NOT_REGISTERED), s')"
      "ms_frames s' = ms_frames s" "sans_frames s' = sans_frames s"
      "\<And>f. jm_get (ms_frames s) (js_trim fid) = Some f \<Longrightarrow>
        parseSpatialEndpointTestFrame (mc_zod cfg) ((patch f) \<lparr> tf_updated_at := mc_now cfg (ms_clock s) \<rparr>) = None"
  | (written) f g s' where "updateFrame cfg fid patch s = (Inr g, s')" "jm_get (ms_frames s) (js_trim fid) = Some f"
      "parseSpatialEndpointTestFrame (mc_zod cfg) ((patch f) \<lparr> tf_updated_at := mc_now cfg (ms_clock s) \<rparr>) = Some g"
      "ms_frames s' = jm_set fid g (ms_frames s)" "sans_frames s' = sans_frames s"
proof (cases "jm_get (ms_frames s) (js_trim fid)")
  case None
  then show thesis using kept by (simp add: updateFrame_def getFrame_def mediation_unfolds)
next
  case (Some f)
  show thesis
  proof (cases "parseSpatialEndpointTestFrame (mc_zod cfg) ((patch f) \<lparr> tf_updated_at := mc_now cfg (ms_clock s) \<rparr>)")
    case None
    with Some show thesis by (intro kept [of "s \<lparr> ms_clock := ms_clock s + 1 \<rparr>"]) (auto simp: updateFrame_def getFrame_def mediation_unfolds)
  next
    case g: (Some g)
    with Some show thesis
      by (intro written [of g "recordEvent cfg EvFrame fid (tf_submit_intent_ref g)
          (s \<lparr> ms_clock := ms_clock s + 1, ms_frames := jm_set fid g (ms_frames s) \<rparr>)" f])
        (simp_all add: updateFrame_def getFrame_def mediation_unfolds)
  qed
qed

lemma createFrame_cases:
  obtains (kept) e s' where "createEndpointTestFrame cfg input s = (Inl e, s')" "ms_frames s' = ms_frames s" "sans_frames s' = sans_frames s"
  | (written) f g s' where "createEndpointTestFrame cfg input s = (Inr g, s')" "parseSpatialEndpointTestFrame (mc_zod cfg) f = Some g"
      "ms_frames s' = jm_set (tf_frame_id g) g (ms_frames s)" "sans_frames s' = sans_frames s"
proof -
  obtain r s' where c: "createEndpointTestFrame cfg input s = (r, s')" by (cases "createEndpointTestFrame cfg input s")
  show thesis
  proof (cases r)
    case (Inl e)
    with c have "ms_frames s' = ms_frames s" "sans_frames s' = sans_frames s"
      by (auto simp: createEndpointTestFrame_def getEndpoint_def mediation_unfolds split: option.splits if_splits)
    with c Inl show thesis by (blast intro: kept)
  next
    case (Inr g)
    with c have "\<exists>f. parseSpatialEndpointTestFrame (mc_zod cfg) f = Some g" "ms_frames s' = jm_set (tf_frame_id g) g (ms_frames s)"
      "sans_frames s' = sans_frames s"
      by (auto simp: createEndpointTestFrame_def getEndpoint_def mediation_unfolds split: option.splits if_splits)
    with c Inr show thesis by (blast intro: written)
  qed
qed

section \<open>A submission that reaches an adapter\<close>

lemma submit_send_cases:
  obtains (stopped) s' where "submit_send cfg endpoint frame key rid prid request s = (Inl (Mediation ENDPOINT_NOT_REGISTERED), s')"
      "ms_frames s' = ms_frames s" "sans_frames s' = sans_frames s"
  | (sent) g s1 where "submit_send cfg endpoint frame key rid prid request s = (Inr (SubmitPending \<lparr> ps_request = request, ps_endpoint = endpoint,
        ps_frameId = tf_frame_id frame, ps_requestId = rid, ps_idempotencyKey = key, ps_controller = ms_nextController s \<rparr>),
        s1 \<lparr> ms_nextController := ms_nextController s + 1, ms_controllers := jm_set rid (ms_nextController s) (ms_controllers s),
          ms_sent := ms_sent s @ [request] \<rparr>)"
      "sans_frames s1 = sans_frames s" "ms_frames s1 = jm_set (tf_frame_id frame) g (ms_frames s)"
      "tf_frame_id g = js_trim (tf_frame_id (the (jm_get (ms_frames s) (js_trim (tf_frame_id frame)))))"
      "parseSpatialEndpointTestFrame (mc_zod cfg) g = Some g" "tf_submit_intent_ref g = Some (js_trim rid)" "tf_state g = FsSUBMITTING"
proof -
  let ?s = "s \<lparr> ms_requests := jm_set rid request (ms_requests s) \<rparr>"
  let ?patch = "\<lambda>f. f \<lparr> tf_state := FsSUBMITTING, tf_submit_intent_ref := Some rid, tf_provenance_ref := Some prid \<rparr>"
  show thesis
  proof (cases rule: updateFrame_cases [of cfg "tf_frame_id frame" ?patch ?s])
    case (kept s')
    then show thesis by (intro stopped [of s']) (simp_all add: submit_send_def)
  next
    case (written f g s')
    have "sans_frames s' = sans_frames s" using written(5) by simp
    note same = sans_frames_fields [OF this]
    have intent: "tf_submit_intent_ref g = Some (js_trim rid)"
      using frame_keeps(4) [OF written(3)] by simp
    have "tf_frame_id g = js_trim (tf_frame_id f)" "tf_state g = FsSUBMITTING" using frame_keeps [OF written(3)] by simp_all
    moreover have "jm_get (ms_frames s) (js_trim (tf_frame_id frame)) = Some f" "ms_frames s' = jm_set (tf_frame_id frame) g (ms_frames s)"
      using written(2,4) by simp_all
    ultimately show thesis
      using normalisingD [OF frame_normalising written(3)] intent written(5)
      by (intro sent [of "recordEvent cfg EvRequest rid (Some rid) s'" g]) (simp_all add: submit_send_def Let_def written(1) same)
  qed
qed

lemma submit_request_cases:
  fixes cfg input endpoint frame s
  defines "rid \<equiv> nth_id cfg ''remote-request'' (ms_counter s)"
    and "authorization \<equiv> submit_authorization cfg endpoint (tf_capability frame) (submit_session_ref cfg input)"
  obtains (stopped) e s' where "submit_request cfg input endpoint frame s = (Inl e, s')" "core s' = core s"
  | (sends) manifest s1 s2 provenance cid now request s3 where "rz_allowed authorization"
      "createContextManifest cfg (submit_manifest cfg input endpoint frame authorization rid) s1 = (Inr manifest, s2)" "core s1 = core s"
      "submit_adapter cfg endpoint \<in> set (ms_adapters s)"
      "parseSpatialRemoteRequest (mc_zod cfg) (request_candidate cfg input endpoint frame authorization rid cid manifest provenance now) = Some request"
      "submit_request cfg input endpoint frame s = submit_send cfg endpoint frame (submit_key input frame) rid (ep_provenance_id provenance) request s3"
      "core s3 = core s"
proof -
  note def = submit_request_def safeId_def mediation_nowIso_def mediation_refuse_def Let_def
  let ?s1 = "s \<lparr> ms_counter := ms_counter s + 1 \<rparr>"
  let ?m = "submit_manifest cfg input endpoint frame authorization rid"
  show thesis
  proof (cases "rz_allowed authorization")
    case False
    then show thesis by (intro stopped [of _ ?s1]) (simp_all add: def authorization_def)
  next
    case allowed: True
    obtain x s2 where m: "createContextManifest cfg ?m ?s1 = (x, s2)" by (cases "createContextManifest cfg ?m ?s1")
    then have s2: "core s2 = core s" using createContextManifest_core [of cfg ?m ?s1] by simp
    show thesis
    proof (cases x)
      case (Inl e)
      with allowed m s2 show thesis by (intro stopped [of e s2]) (simp_all add: def authorization_def rid_def)
    next
      case (Inr manifest)
      show thesis
      proof (cases "submit_adapter cfg endpoint \<in> set (ms_adapters s2)")
        case False
        with Inr allowed m s2 show thesis by (intro stopped [of _ s2]) (simp_all add: def authorization_def rid_def)
      next
        case adapter: True
        let ?cid = "nth_id cfg ''correlation'' (ms_counter s2)"
        let ?s2 = "s2 \<lparr> ms_counter := ms_counter s2 + 1 \<rparr>"
        obtain y s3 where p: "createProvenance cfg (ed_canonical_ref endpoint) (Some rid) (Some ?cid) ?s2 = (y, s3)"
          by (cases "createProvenance cfg (ed_canonical_ref endpoint) (Some rid) (Some ?cid) ?s2")
        then have s3: "core s3 = core s" using createProvenance_core [of cfg "ed_canonical_ref endpoint" "Some rid" "Some ?cid" ?s2] s2 by simp
        show thesis
        proof (cases y)
          case (Inl e)
          with Inr allowed m adapter p s3 show thesis by (intro stopped [of e s3]) (simp_all add: def authorization_def rid_def)
        next
          case prov: (Inr provenance)
          let ?now = "mc_now cfg (ms_clock s3)"
          let ?s3 = "s3 \<lparr> ms_clock := ms_clock s3 + 1 \<rparr>"
          have eq: "submit_request cfg input endpoint frame s =
            (case parseSpatialRemoteRequest (mc_zod cfg) (request_candidate cfg input endpoint frame authorization rid ?cid manifest provenance ?now) of
               None \<Rightarrow> (Inl (Mediation UNAUTHORIZED), ?s3)
             | Some request \<Rightarrow> submit_send cfg endpoint frame (submit_key input frame) rid (ep_provenance_id provenance) request ?s3)"
            using Inr allowed m adapter p prov by (simp add: def authorization_def rid_def split: option.split)
          show thesis
          proof (cases "parseSpatialRemoteRequest (mc_zod cfg) (request_candidate cfg input endpoint frame authorization rid ?cid manifest provenance ?now)")
            case None
            with eq s3 show thesis by (intro stopped [of _ ?s3]) simp_all
          next
            case (Some request)
            have "submit_adapter cfg endpoint \<in> set (ms_adapters s)" using adapter core_fields(4) [OF s2] by simp
            with Some eq s3 allowed m Inr show thesis
              by (intro sends [of ?s1 manifest s2 ?cid provenance ?now request ?s3]) (simp_all)
          qed
        qed
      qed
    qed
  qed
qed

lemma submit_begin_cases:
  obtains (stopped) e s' where "submit_begin cfg input s = (Inl e, s')" "ms_frames s' = ms_frames s" "sans_frames s' = sans_frames s"
  | (duplicate) r where "submit_begin cfg input s = (Inr (SubmitDuplicate r), s)"
  | (sends) frame endpoint where "jm_get (ms_frames s) (js_trim (si_frameId input)) = Some frame"
      "jm_get (ms_endpoints s) (js_trim (tf_endpoint_ref frame)) = Some endpoint"
      "jm_get (ms_idempotent s) (submit_key input frame) = None" "tf_state frame \<noteq> FsSUBMITTING"
      "ed_canonical_ref endpoint \<in> set (ms_allowedEndpoints s)"
      "ed_availability endpoint \<noteq> AvUNAVAILABLE" "ed_surface_state endpoint \<noteq> SfUNAVAILABLE"
      "tf_source_revision frame = ed_revision endpoint" "submit_begin cfg input s = submit_request cfg input endpoint frame s"
proof (cases "jm_get (ms_frames s) (js_trim (si_frameId input))")
  case None
  then show thesis by (intro stopped [of _ s]) (simp_all add: submit_begin_def getFrame_def mediation_refuse_def)
next
  case frame: (Some frame)
  show thesis
  proof (cases "jm_get (ms_endpoints s) (js_trim (tf_endpoint_ref frame))")
    case None
    with frame show thesis by (intro stopped [of _ s]) (simp_all add: submit_begin_def getFrame_def getEndpoint_def mediation_refuse_def)
  next
    case endpoint: (Some endpoint)
    show thesis
    proof (cases "jm_get (ms_idempotent s) (submit_key input frame)")
      case (Some r)
      with frame endpoint show thesis by (intro duplicate) (simp_all add: submit_begin_def getFrame_def getEndpoint_def)
    next
      case None
      with frame endpoint have "submit_begin cfg input s =
        (if tf_state frame \<in> {FsSUBMITTING, FsSTREAMING} then mediation_refuse DUPLICATE_SUBMIT s
         else if ed_canonical_ref endpoint \<notin> set (ms_allowedEndpoints s) then mediation_refuse ENDPOINT_NOT_ALLOWED s
         else if ed_availability endpoint = AvUNAVAILABLE \<or> ed_surface_state endpoint = SfUNAVAILABLE then mediation_refuse ENDPOINT_UNAVAILABLE s
         else if tf_source_revision frame \<noteq> ed_revision endpoint then mediation_refuse STALE_ENDPOINT s
         else submit_request cfg input endpoint frame s)"
        by (simp add: submit_begin_def getFrame_def getEndpoint_def)
      with frame endpoint None show thesis
        by (auto simp: mediation_refuse_def split: if_splits intro: stopped sends)
    qed
  qed
qed

section \<open>Settling a submission\<close>

text \<open>Where requests go and which have gone.\<close>

definition routing :: "mediation \<Rightarrow> (string, endpoint_details) jsmap \<times> string list \<times> string list \<times> remote_request list" where
  "routing s = (ms_endpoints s, ms_allowedEndpoints s, ms_adapters s, ms_sent s)"

lemma routing_sans_frames:
  assumes "sans_frames s = sans_frames t"
  shows "routing s = routing t"
  by (simp only: routing_def sans_frames_fields [OF assms])

lemma validateRemoteResult_core: "core (snd (validateRemoteResult cfg request endpoint response s)) = core s"
  by (simp add: validateRemoteResult_def mediation_unfolds split: option.split prod.split)

lemma validateRemoteResult_error: "validateRemoteResult cfg request endpoint response s = (Inl e, s') \<Longrightarrow> e = Mediation INVALID_RESULT"
  by (auto simp: validateRemoteResult_def mediation_unfolds split: option.splits prod.splits)

lemma settleAccounting_returns:
  obtains a s' where "settleAccounting cfg request endpoint n state s = (Inr a, s')" "core s' = core s"
  by (simp add: settleAccounting_def mediation_unfolds)

lemma accept_response_cases:
  obtains (failed) code s' where "accept_response cfg p response s = (Inl (Mediation code), s')" "ms_frames s' = ms_frames s"
      "ms_idempotent s' = ms_idempotent s" "routing s' = routing s" "ms_cancelledRequests s' = ms_cancelledRequests s"
  | (accepted) r f s' where "accept_response cfg p response s = (Inr r, s')" "jm_get (ms_frames s) (js_trim (ps_frameId p)) = Some f"
      "ms_frames s' = jm_set (ps_frameId p) (sr_frame r) (ms_frames s)" "ms_idempotent s' = jm_set (ps_idempotencyKey p) r (ms_idempotent s)"
      "routing s' = routing s" "tf_state (sr_frame r) \<in> {FsCOMPLETE, FsINVALID_RESULT}"
      "parseSpatialEndpointTestFrame (mc_zod cfg) (sr_frame r) = Some (sr_frame r)" "tf_frame_id (sr_frame r) = js_trim (tf_frame_id f)"
      "tf_state (sr_frame r) = FsCOMPLETE \<longleftrightarrow> rs_status (sr_result r) \<notin> {RvQUARANTINED, RvINVALID}"
      "sr_request r = ps_request p" "\<not> sr_duplicate r"
proof -
  obtain x s1 where v: "validateRemoteResult cfg (ps_request p) (ps_endpoint p) response s = (x, s1)"
    by (cases "validateRemoteResult cfg (ps_request p) (ps_endpoint p) response s")
  then have "core s1 = core s" using validateRemoteResult_core [of cfg "ps_request p" "ps_endpoint p" response s] by simp
  note same1 = core_fields [OF this]
  show thesis
  proof (cases x)
    case (Inl e)
    with v validateRemoteResult_error [of cfg "ps_request p" "ps_endpoint p" response s] show thesis
      by (intro failed [of INVALID_RESULT s1]) (simp_all add: accept_response_def routing_def same1)
  next
    case (Inr result)
    let ?s1 = "recordEvent cfg EvResult (rs_result_id result) (Some (ps_requestId p))
      (s1 \<lparr> ms_results := jm_set (rs_result_id result) result (ms_results s1) \<rparr>)"
    let ?state = "if rs_status result \<in> {RvVALID, RvSANITIZED} then AcSETTLED else AcFAILED"
    obtain a0 s2 where a0: "settleAccounting cfg (ps_request p) (ps_endpoint p) (response_size response) ?state ?s1 = (Inr a0, s2)"
      and "core s2 = core ?s1" by (rule settleAccounting_returns)
    note same2 = core_fields [OF this(2)]
    show thesis
    proof (cases "parseSpatialResourceAccounting (mc_zod cfg) a0")
      case None
      with v Inr a0 show thesis
        by (intro failed [of INVALID_RESULT s2]) (simp_all add: accept_response_def mediation_refuse_def routing_def same1 same2 recordEvent_def)
    next
      case (Some a)
      let ?s2 = "recordEvent cfg EvAccounting (ac_record_id a) (Some (ps_requestId p)) (s2 \<lparr> ms_accounting := jm_set (ps_requestId p) a (ms_accounting s2) \<rparr>)"
      let ?patch = "\<lambda>f. f \<lparr> tf_state := (if rs_status result \<in> {RvQUARANTINED, RvINVALID} then FsINVALID_RESULT else FsCOMPLETE),
        tf_response_ref := Some (rs_result_id result), tf_accounting_ref := Some (ac_record_id a) \<rparr>"
      have r2: "routing ?s2 = routing s" "ms_frames ?s2 = ms_frames s" "ms_idempotent ?s2 = ms_idempotent s"
        "ms_cancelledRequests ?s2 = ms_cancelledRequests s"
        by (simp_all add: routing_def same1 same2 recordEvent_def)
      have eq: "accept_response cfg p response s = seqO (updateFrame cfg (ps_frameId p) ?patch ?s2) (\<lambda>frame s.
        let r = \<lparr> sr_request = ps_request p, sr_result = result, sr_accounting = a, sr_frame = frame, sr_duplicate = False \<rparr> in
        return r (s \<lparr> ms_idempotent := jm_set (ps_idempotencyKey p) r (ms_idempotent s) \<rparr>))"
        using v Inr a0 Some by (simp add: accept_response_def)
      show thesis
      proof (cases rule: updateFrame_cases [of cfg "ps_frameId p" ?patch ?s2])
        case (kept s')
        note same = sans_frames_fields [OF kept(3)]
        show thesis
        proof (rule failed)
          show "accept_response cfg p response s = (Inl (Mediation ENDPOINT_NOT_REGISTERED), s')" by (simp only: eq kept(1)) simp
          show "ms_frames s' = ms_frames s" "ms_idempotent s' = ms_idempotent s" "ms_cancelledRequests s' = ms_cancelledRequests s"
            by (simp_all only: kept(2) same r2)
          show "routing s' = routing s" using routing_sans_frames [OF kept(3)] r2(1) by (rule trans)
        qed
      next
        case (written f g s')
        note same = sans_frames_fields [OF written(5)]
        have frames: "jm_get (ms_frames s) (js_trim (ps_frameId p)) = Some f" "ms_frames s' = jm_set (ps_frameId p) g (ms_frames s)"
          using written(2,4) by (simp_all only: r2)
        have idempotent: "ms_idempotent s' = ms_idempotent s" by (simp only: same r2)
        have route: "routing s' = routing s" using routing_sans_frames [OF written(5)] r2(1) by (rule trans)
        have g: "tf_state g = (if rs_status result \<in> {RvQUARANTINED, RvINVALID} then FsINVALID_RESULT else FsCOMPLETE)"
          "tf_frame_id g = js_trim (tf_frame_id f)" "parseSpatialEndpointTestFrame (mc_zod cfg) g = Some g"
          using frame_keeps [OF written(3)] normalisingD [OF frame_normalising written(3)] by simp_all
        let ?r = "\<lparr> sr_request = ps_request p, sr_result = result, sr_accounting = a, sr_frame = g, sr_duplicate = False \<rparr>"
        have "accept_response cfg p response s = (Inr ?r, s' \<lparr> ms_idempotent := jm_set (ps_idempotencyKey p) ?r (ms_idempotent s') \<rparr>)"
          by (simp only: eq written(1)) (simp add: Let_def)
        moreover have "routing (s' \<lparr> ms_idempotent := jm_set (ps_idempotencyKey p) ?r (ms_idempotent s') \<rparr>) = routing s"
          using route by (simp add: routing_def)
        moreover have "tf_state g = FsCOMPLETE \<longleftrightarrow> rs_status result \<notin> {RvQUARANTINED, RvINVALID}" "tf_state g \<in> {FsCOMPLETE, FsINVALID_RESULT}"
          by (simp_all add: g(1))
        ultimately show thesis
          using frames idempotent g(2,3) by (intro accepted [of ?r "s' \<lparr> ms_idempotent := jm_set (ps_idempotencyKey p) ?r (ms_idempotent s') \<rparr>" f]) simp_all
      qed
    qed
  qed
qed


text \<open>What is left of a settled submission is either its result or a coded error, and in both cases a frame in a final state.\<close>

definition settled_state :: "frame_state \<Rightarrow> bool" where
  "settled_state st \<longleftrightarrow> st \<notin> {FsREADY, FsVALIDATING, FsSUBMITTING, FsSTREAMING}"

lemma failure_state_settled: "settled_state (failure_state code)"
  by (cases code) (simp_all add: settled_state_def)

lemma submit_try_cases:
  obtains (failed) code s' where "submit_try cfg p outcome s = (Inl code, s')" "ms_frames s' = ms_frames s"
      "ms_idempotent s' = ms_idempotent s" "routing s' = routing s" "ms_cancelledRequests s' = ms_cancelledRequests s"
      "outcome = TimedOut \<Longrightarrow> code = Some TIMEOUT"
  | (accepted) r f s' where "submit_try cfg p outcome s = (Inr r, s')" "jm_get (ms_frames s) (js_trim (ps_frameId p)) = Some f"
      "ms_frames s' = jm_set (ps_frameId p) (sr_frame r) (ms_frames s)" "ms_idempotent s' = jm_set (ps_idempotencyKey p) r (ms_idempotent s)"
      "routing s' = routing s" "tf_state (sr_frame r) \<in> {FsCOMPLETE, FsINVALID_RESULT}"
      "parseSpatialEndpointTestFrame (mc_zod cfg) (sr_frame r) = Some (sr_frame r)" "tf_frame_id (sr_frame r) = js_trim (tf_frame_id f)"
      "tf_state (sr_frame r) = FsCOMPLETE \<longleftrightarrow> rs_status (sr_result r) \<notin> {RvQUARANTINED, RvINVALID}"
      "ps_controller p \<notin> set (ms_aborted s)" "\<exists>response. outcome = Responded response"
proof (cases outcome)
  case (Responded response)
  show thesis
  proof (cases "ps_controller p \<in> set (ms_aborted s)")
    case True
    with Responded show thesis by (intro failed [of "Some TIMEOUT" s]) (simp_all add: submit_try_def)
  next
    case live: False
    show thesis
    proof (cases rule: accept_response_cases [of cfg p response s])
      case (failed code s')
      with Responded live show thesis by (intro that(1) [of "Some code" s']) (simp_all add: submit_try_def)
    next
      case (accepted r f s')
      with Responded live show thesis by (intro that(2) [of r s' f]) (simp_all add: submit_try_def)
    qed
  qed
next
  case (Rejected code)
  then show thesis by (intro failed [of code s]) (simp_all add: submit_try_def)
next
  case TimedOut
  then show thesis
    by (intro failed [of "Some TIMEOUT" "s \<lparr> ms_aborted := List.insert (ps_controller p) (ms_aborted s) \<rparr>"]) (simp_all add: submit_try_def routing_def)
qed

lemma cleanup_fields [simp]:
  "routing (submit_cleanup p s) = routing s" "ms_frames (submit_cleanup p s) = ms_frames s" "ms_idempotent (submit_cleanup p s) = ms_idempotent s"
  by (simp_all add: submit_cleanup_def routing_def)

lemma submit_settle_cases:
  assumes frame: "jm_get (ms_frames s) (js_trim (ps_frameId p)) = Some f" and valid: "parseSpatialEndpointTestFrame (mc_zod cfg) f = Some f"
  obtains (failed) code g s' where "submit_settle cfg p outcome s = (Inl (Mediation code), s')"
      "ms_frames s' = jm_set (ps_frameId p) g (ms_frames s)" "ms_idempotent s' = ms_idempotent s" "routing s' = routing s"
      "tf_state g = failure_state code" "tf_frame_id g = js_trim (tf_frame_id f)" "parseSpatialEndpointTestFrame (mc_zod cfg) g = Some g"
      "ps_requestId p \<in> set (ms_cancelledRequests s) \<Longrightarrow> code = MediationCANCELLED"
      "outcome = TimedOut \<Longrightarrow> code \<in> {TIMEOUT, MediationCANCELLED}"
  | (accepted) r s' where "submit_settle cfg p outcome s = (Inr r, s')"
      "ms_frames s' = jm_set (ps_frameId p) (sr_frame r) (ms_frames s)" "ms_idempotent s' = jm_set (ps_idempotencyKey p) r (ms_idempotent s)"
      "routing s' = routing s" "tf_state (sr_frame r) \<in> {FsCOMPLETE, FsINVALID_RESULT}"
      "parseSpatialEndpointTestFrame (mc_zod cfg) (sr_frame r) = Some (sr_frame r)" "tf_frame_id (sr_frame r) = js_trim (tf_frame_id f)"
      "tf_state (sr_frame r) = FsCOMPLETE \<longleftrightarrow> rs_status (sr_result r) \<notin> {RvQUARANTINED, RvINVALID}"
      "ps_controller p \<notin> set (ms_aborted s)" "\<exists>response. outcome = Responded response"
proof (cases rule: submit_try_cases [of cfg p outcome s])
  case (failed c s1)
  let ?code = "submit_failure p c s1"
  let ?patch = "\<lambda>f. f \<lparr> tf_state := failure_state ?code \<rparr>"
  show thesis
  proof (cases rule: updateFrame_cases [of cfg "ps_frameId p" ?patch s1])
    case (kept s2)
    with frame frame_state_valid [OF valid] failed(2) show thesis by simp
  next
    case (written f' g s2)
    have f': "f' = f" using written(2) frame failed(2) by simp
    have g: "tf_state g = failure_state ?code" "tf_frame_id g = js_trim (tf_frame_id f)" "parseSpatialEndpointTestFrame (mc_zod cfg) g = Some g"
      using frame_keeps [OF written(3)] normalisingD [OF frame_normalising written(3)] by (simp_all add: f')
    show thesis
    proof (rule that(1))
      show "submit_settle cfg p outcome s = (Inl (Mediation ?code), submit_cleanup p s2)"
        by (simp add: submit_settle_def failed(1) written(1) mediation_refuse_def Let_def)
      show "ms_frames (submit_cleanup p s2) = jm_set (ps_frameId p) g (ms_frames s)" by (simp add: written(4) failed(2))
      show "ms_idempotent (submit_cleanup p s2) = ms_idempotent s" by (simp add: sans_frames_fields(7) [OF written(5)] failed(3))
      show "routing (submit_cleanup p s2) = routing s" by (simp add: routing_sans_frames [OF written(5)] failed(4))
      show "ps_requestId p \<in> set (ms_cancelledRequests s) \<Longrightarrow> ?code = MediationCANCELLED" by (simp add: submit_failure_def failed(5))
      show "outcome = TimedOut \<Longrightarrow> ?code \<in> {TIMEOUT, MediationCANCELLED}" using failed(6) by (auto simp: submit_failure_def)
    qed (rule g)+
  qed
next
  case (accepted r f' s1)
  have f': "f' = f" using accepted(2) frame by simp
  show thesis
  proof (rule that(2))
    show "submit_settle cfg p outcome s = (Inr r, submit_cleanup p s1)" by (simp add: submit_settle_def accepted(1))
  qed (use accepted f' in simp_all)
qed

section \<open>An invariant of every interleaving\<close>

definition endpoints_ok :: "mediation \<Rightarrow> bool" where
  "endpoints_ok s \<longleftrightarrow> (\<forall>k e. jm_get (ms_endpoints s) k = Some e \<longrightarrow> ed_canonical_ref e = k \<and> js_trim k = k)"

definition frames_ok :: "mediation_config \<Rightarrow> mediation \<Rightarrow> bool" where
  "frames_ok cfg s \<longleftrightarrow> (\<forall>k f. jm_get (ms_frames s) k = Some f \<longrightarrow> tf_frame_id f = js_trim k \<and> parseSpatialEndpointTestFrame (mc_zod cfg) f = Some f)"

definition pending_ok :: "mediation \<Rightarrow> pending_submit \<Rightarrow> bool" where
  "pending_ok s p \<longleftrightarrow> js_trim (ps_frameId p) = ps_frameId p \<and> jm_get (ms_frames s) (ps_frameId p) \<noteq> None"

definition mediation_ok :: "mediation_config \<Rightarrow> mediation \<times> pending_submit list \<Rightarrow> bool" where
  "mediation_ok cfg = (\<lambda>(s, ps). endpoints_ok s \<and> frames_ok cfg s \<and> list_all (pending_ok s) ps)"

lemma frames_ok_set:
  assumes "frames_ok cfg s" and "ms_frames s' = jm_set k g (ms_frames s)" and "tf_frame_id g = js_trim k"
    and "parseSpatialEndpointTestFrame (mc_zod cfg) g = Some g"
  shows "frames_ok cfg s'"
  using assms by (auto simp: frames_ok_def jm_get_set)

lemma pending_ok_set: "pending_ok s p \<Longrightarrow> ms_frames s' = jm_set k g (ms_frames s) \<Longrightarrow> pending_ok s' p"
  by (auto simp: pending_ok_def jm_get_set)

lemma frames_ok_id: "frames_ok cfg s \<Longrightarrow> jm_get (ms_frames s) k = Some f \<Longrightarrow> tf_frame_id f = js_trim k"
  by (simp add: frames_ok_def)

text \<open>The conditions under which a request may go to an adapter.\<close>

definition remote_gate :: "mediation_config \<Rightarrow> mediation \<Rightarrow> submit_input \<Rightarrow> remote_request \<Rightarrow> bool" where
  "remote_gate cfg s input q \<longleftrightarrow>
     (\<exists>e. jm_get (ms_endpoints s) (rm_endpoint_ref q) = Some e \<and> rm_endpoint_ref q \<in> set (ms_allowedEndpoints s) \<and>
        ed_availability e \<noteq> AvUNAVAILABLE \<and> ed_surface_state e \<noteq> SfUNAVAILABLE \<and> rm_endpoint_revision q = ed_revision e \<and>
        rz_allowed (submit_authorization cfg e (ed_capability e) (submit_session_ref cfg input)) \<and>
        submit_adapter cfg e \<in> set (ms_adapters s) \<and> rm_adapter_id q = js_trim (submit_adapter cfg e)) \<and>
     rm_timeout_ms q \<le> or_default (mc_defaultTimeoutMs cfg) DEFAULT_TIMEOUT_MS \<and>
     (\<forall>(k, v) \<in> set (cf_fields (rm_context_manifest q)). disclosable input k v) \<and> list_all sha256_ref (cf_attachment_refs (rm_context_manifest q))"

lemma sent_manifest:
  assumes "parseSpatialRemoteContextManifest z (manifest_candidate cfg endpoint (submit_manifest cfg input endpoint frame authorization rid) types mid now) = Some m"
    and "parseSpatialRemoteContextManifest z m = Some n"
  shows "(\<forall>(k, v) \<in> set (cf_fields n). disclosable input k v) \<and> list_all sha256_ref (cf_attachment_refs n)"
proof -
  have "disclosable input k v" if "(k, v) \<in> set (cf_fields n)" for k v
  proof -
    from parsed_entries [OF manifest_parsed(1) [OF assms(2)] that] obtain k1 where k1: "(k1, v) \<in> set (cf_fields m)" "k = js_trim k1" by blast
    from parsed_entries [OF manifest_parsed(1) [OF assms(1)] k1(1)] obtain k2
      where "(k2, v) \<in> set (cf_fields (manifest_candidate cfg endpoint (submit_manifest cfg input endpoint frame authorization rid) types mid now))"
        "k1 = js_trim k2" by blast
    with candidate_fields [OF this(1)] k1(2) show ?thesis by simp
  qed
  then show ?thesis using parsed_attachments [OF manifest_parsed(2) [OF assms(2)]] by auto
qed

lemma submit_begin_effect:
  assumes "endpoints_ok s" and frames: "frames_ok cfg s"
  obtains (quiet) r s' where "submit_begin cfg input s = (r, s')" "\<And>p. r \<noteq> Inr (SubmitPending p)" "ms_frames s' = ms_frames s"
      "routing s' = routing s" "ms_idempotent s' = ms_idempotent s"
  | (sent) p q g s' where "submit_begin cfg input s = (Inr (SubmitPending p), s')" "remote_gate cfg s input q"
      "routing s' = (ms_endpoints s, ms_allowedEndpoints s, ms_adapters s, ms_sent s @ [q])" "ms_idempotent s' = ms_idempotent s"
      "jm_get (ms_idempotent s) (rm_idempotency_key q) = None" "ms_frames s' = jm_set (ps_frameId p) g (ms_frames s)"
      "js_trim (ps_frameId p) = ps_frameId p" "tf_frame_id g = ps_frameId p" "parseSpatialEndpointTestFrame (mc_zod cfg) g = Some g"
      "tf_state g = FsSUBMITTING" "ps_idempotencyKey p = rm_idempotency_key q" "ps_request p = q"
proof (cases rule: submit_begin_cases [of cfg input s])
  case (stopped e s')
  note same = sans_frames_fields [OF stopped(3)]
  show thesis by (rule quiet [OF stopped(1)]) (simp_all add: stopped(2) routing_sans_frames [OF stopped(3)] same)
next
  case (duplicate r)
  then show thesis by (rule quiet) simp_all
next
  case found: (sends frame endpoint)
  let ?rid = "nth_id cfg ''remote-request'' (ms_counter s)"
  let ?auth = "submit_authorization cfg endpoint (tf_capability frame) (submit_session_ref cfg input)"
  have key: "ed_canonical_ref endpoint = js_trim (tf_endpoint_ref frame)" using found(2) assms(1) by (simp add: endpoints_ok_def)
  have fid: "tf_frame_id frame = js_trim (si_frameId input)" using frames_ok_id [OF frames found(1)] by simp
  show thesis
  proof (cases rule: submit_request_cases [of cfg input endpoint frame s])
    case (stopped e s')
    show thesis
      by (rule quiet [OF trans [OF found(9) stopped(1)]]) (simp_all add: routing_def core_fields [OF stopped(2)])
  next
    case (sends manifest s1 s2 provenance cid now request s3)
    note same3 = core_fields [OF sends(7)] and same1 = core_fields [OF sends(3)]
    from createContextManifest_Inr [OF sends(2)] key found(2) obtain types mid now'
      where capability: "ed_capability endpoint = tf_capability frame"
        and manifest: "parseSpatialRemoteContextManifest (mc_zod cfg) (manifest_candidate cfg endpoint
          (submit_manifest cfg input endpoint frame ?auth ?rid) types mid now') = Some manifest"
      by (auto simp: same1 submit_manifest_def)
    note r = request_keeps [OF sends(5)]
    have gate: "remote_gate cfg s input request"
      using found(2,5-7) key sends(1,4) capability r sent_manifest [OF manifest, of "rm_context_manifest request"]
      by (simp add: remote_gate_def request_candidate_def Let_def submit_timeout_def)
    have ikey: "rm_idempotency_key request = submit_key input frame" using r(8) by (simp add: request_candidate_def Let_def submit_key_def)
    have frame3: "jm_get (ms_frames s3) (js_trim (tf_frame_id frame)) = Some frame" using found(1) fid by (simp add: same3)
    show thesis
    proof (cases rule: submit_send_cases [of cfg endpoint frame "submit_key input frame" ?rid "ep_provenance_id provenance" request s3])
      case (stopped s')
      note same = sans_frames_fields [OF stopped(3)]
      show thesis
        by (rule quiet [OF trans [OF found(9) trans [OF sends(6) stopped(1)]]]) (simp_all add: stopped(2) routing_sans_frames [OF stopped(3)] routing_def same3 same)
    next
      case go: (sent g s')
      note same = sans_frames_fields [OF go(2)]
      show thesis
        by (rule sent [OF trans [OF found(9) trans [OF sends(6) go(1)]] gate, of g])
          (use found(3) ikey fid go(3-5,7) frame3 in \<open>simp_all add: routing_def same same3\<close>)
    qed
  qed
qed

section \<open>One step\<close>

text \<open>
  What any call does: the invariant stays, recorded keys stay, a request leaves only through a gated \<open>BeginSubmit\<close>, and an endpoint
  becomes allowed only by being registered so.
\<close>

definition step_effect :: "mediation_config \<Rightarrow> mediation \<Rightarrow> mediation_call \<Rightarrow> mediation \<Rightarrow> bool" where
  "step_effect cfg s c s' \<longleftrightarrow>
     (\<forall>k. jm_get (ms_idempotent s) k \<noteq> None \<longrightarrow> jm_get (ms_idempotent s') k \<noteq> None) \<and>
     (ms_sent s' = ms_sent s \<or> (\<exists>input q. c = BeginSubmit input \<and> ms_sent s' = ms_sent s @ [q] \<and> remote_gate cfg s input q \<and>
        jm_get (ms_idempotent s) (rm_idempotency_key q) = None)) \<and>
     (\<forall>ref \<in> set (ms_allowedEndpoints s'). (\<exists>d. c = RegisterEndpoint d True \<and> js_trim (ed_canonical_ref d) = ref) \<or>
        ref \<in> set (ms_allowedEndpoints s) \<and> (\<forall>r. c = RevokeEndpoint r \<longrightarrow> js_trim r \<noteq> ref))"

lemma quiet_step:
  assumes "mediation_ok cfg (s, ps)" and "routing s' = routing s" and "ms_frames s' = ms_frames s" and "ms_idempotent s' = ms_idempotent s"
    and "\<And>r. c \<noteq> RevokeEndpoint r"
  shows "mediation_ok cfg (s', ps) \<and> step_effect cfg s c s'"
  using assms by (auto simp: mediation_ok_def endpoints_ok_def frames_ok_def pending_ok_def routing_def step_effect_def list_all_iff)

lemma frame_step:
  assumes ok: "mediation_ok cfg (s, ps)" and "routing s' = routing s" and "ms_frames s' = jm_set k g (ms_frames s)"
    and "\<And>key. jm_get (ms_idempotent s) key \<noteq> None \<Longrightarrow> jm_get (ms_idempotent s') key \<noteq> None" and "\<And>r. c \<noteq> RevokeEndpoint r"
    and "tf_frame_id g = js_trim k" and "parseSpatialEndpointTestFrame (mc_zod cfg) g = Some g"
    and "set ps' \<subseteq> set ps"
  shows "mediation_ok cfg (s', ps') \<and> step_effect cfg s c s'"
proof
  from ok have parts: "endpoints_ok s" "frames_ok cfg s" "list_all (pending_ok s) ps" by (simp_all add: mediation_ok_def)
  have "endpoints_ok s'" using parts(1) assms(2) by (simp add: endpoints_ok_def routing_def)
  moreover have "list_all (pending_ok s') ps'" using parts(3) assms(8) pending_ok_set [OF _ assms(3)] by (auto simp: list_all_iff)
  ultimately show "mediation_ok cfg (s', ps')" using frames_ok_set [OF parts(2) assms(3,6,7)] by (simp add: mediation_ok_def)
  show "step_effect cfg s c s'" using assms(2,4,5) by (auto simp: step_effect_def routing_def)
qed

lemma register_step:
  assumes "mediation_ok cfg (s, ps)"
  shows "mediation_ok cfg (mediation_step cfg (s, ps) (RegisterEndpoint d allowed)) \<and>
    step_effect cfg s (RegisterEndpoint d allowed) (fst (mediation_step cfg (s, ps) (RegisterEndpoint d allowed)))"
  using assms
  by (auto simp: registerEndpoint_def mediation_refuse_def mediation_ok_def endpoints_ok_def frames_ok_def pending_ok_def list_all_iff step_effect_def
      jm_get_set endpoint_keeps split: option.splits if_splits prod.splits sum.splits)

lemma begin_step:
  assumes ok: "mediation_ok cfg (s, ps)"
  shows "mediation_ok cfg (mediation_step cfg (s, ps) (BeginSubmit input)) \<and>
    step_effect cfg s (BeginSubmit input) (fst (mediation_step cfg (s, ps) (BeginSubmit input)))"
proof -
  from ok have parts: "endpoints_ok s" "frames_ok cfg s" "list_all (pending_ok s) ps" by (simp_all add: mediation_ok_def)
  from parts(1,2) show ?thesis
  proof (cases rule: submit_begin_effect [of s cfg input])
    case (quiet r s')
    then have "mediation_step cfg (s, ps) (BeginSubmit input) = (s', ps)" by (auto split: sum.split submit_progress.split)
    with quiet_step [OF ok quiet(4,3,5), of "BeginSubmit input"] show ?thesis by simp
  next
    case (sent p q g s')
    have "pending_ok s' p" using sent(6,7) by (simp add: pending_ok_def)
    moreover have "list_all (pending_ok s') ps" using parts(3) pending_ok_set [OF _ sent(6)] by (auto simp: list_all_iff)
    moreover have "endpoints_ok s'" using parts(1) sent(3) by (simp add: endpoints_ok_def routing_def)
    moreover have "frames_ok cfg s'" using frames_ok_set [OF parts(2) sent(6)] sent(7-9) by simp
    moreover have "step_effect cfg s (BeginSubmit input) s'" using sent(2-5) by (auto simp: step_effect_def routing_def)
    ultimately show ?thesis using sent(1) by (simp add: mediation_ok_def)
  qed
qed

lemma settle_step:
  assumes ok: "mediation_ok cfg (s, ps)"
  shows "mediation_ok cfg (mediation_step cfg (s, ps) (SettleSubmit i outcome)) \<and>
    step_effect cfg s (SettleSubmit i outcome) (fst (mediation_step cfg (s, ps) (SettleSubmit i outcome)))"
proof (cases "i < length ps")
  case True
  let ?p = "ps ! i"
  from ok True have p: "pending_ok s ?p" and fok: "frames_ok cfg s" by (auto simp: mediation_ok_def list_all_iff)
  then obtain f where f: "jm_get (ms_frames s) (js_trim (ps_frameId ?p)) = Some f" "tf_frame_id f = ps_frameId ?p"
    "parseSpatialEndpointTestFrame (mc_zod cfg) f = Some f" by (auto simp: pending_ok_def frames_ok_def)
  have sub: "set (take i ps @ drop (Suc i) ps) \<subseteq> set ps" using set_take_subset set_drop_subset by fastforce
  from f(1,3) show ?thesis
  proof (cases rule: submit_settle_cases [where outcome = outcome])
    case (failed code g s')
    with frame_step [OF ok failed(4,2) _ _ _ failed(7) sub, of "SettleSubmit i outcome"] f(2) True show ?thesis by simp
  next
    case (accepted r s')
    with frame_step [OF ok accepted(4,2) _ _ _ accepted(6) sub, of "SettleSubmit i outcome"] f(2) True show ?thesis
      by (simp add: jm_get_set)
  qed
next
  case False
  with quiet_step [OF ok, of s "SettleSubmit i outcome"] show ?thesis by simp
qed

lemma cancel_step:
  assumes ok: "mediation_ok cfg (s, ps)"
  shows "mediation_ok cfg (mediation_step cfg (s, ps) (CancelTest fid)) \<and>
    step_effect cfg s (CancelTest fid) (fst (mediation_step cfg (s, ps) (CancelTest fid)))"
proof (cases "jm_get (ms_frames s) (js_trim fid)")
  case None
  with quiet_step [OF ok, of s "CancelTest fid"] show ?thesis by (simp add: cancelEndpointTest_def getFrame_def mediation_refuse_def)
next
  case (Some f)
  define s1 where "s1 = (if js_truthy (tf_submit_intent_ref f) then
      let requestId = the (tf_submit_intent_ref f) in
      s \<lparr> ms_cancelledRequests := List.insert requestId (ms_cancelledRequests s),
        ms_aborted := (case jm_get (ms_controllers s) requestId of None \<Rightarrow> ms_aborted s | Some c \<Rightarrow> List.insert c (ms_aborted s)) \<rparr>
    else s)"
  have s1: "routing s1 = routing s" "ms_frames s1 = ms_frames s" "ms_idempotent s1 = ms_idempotent s"
    by (simp_all add: s1_def routing_def Let_def)
  have eq: "cancelEndpointTest cfg fid s = updateFrame cfg fid (\<lambda>f. f \<lparr> tf_state := FsCANCELLED \<rparr>) s1"
    using Some by (simp add: cancelEndpointTest_def getFrame_def s1_def Let_def)
  show ?thesis
  proof (cases rule: updateFrame_cases [of cfg fid "\<lambda>f. f \<lparr> tf_state := FsCANCELLED \<rparr>" s1])
    case (kept s')
    note same = sans_frames_fields [OF kept(3)]
    have "routing s' = routing s" "ms_frames s' = ms_frames s" "ms_idempotent s' = ms_idempotent s"
      using routing_sans_frames [OF kept(3)] kept(2) same(7) s1 by simp_all
    from quiet_step [OF ok this, of "CancelTest fid"] show ?thesis by (simp add: eq kept(1))
  next
    case (written f' g s')
    note same = sans_frames_fields [OF written(5)]
    have r: "routing s' = routing s" "ms_frames s' = jm_set fid g (ms_frames s)"
      using routing_sans_frames [OF written(5)] written(4) s1 by simp_all
    have "jm_get (ms_frames s) (js_trim fid) = Some f'" using written(2) s1(2) by simp
    with ok have "tf_frame_id f' = js_trim fid" by (auto simp: mediation_ok_def dest: frames_ok_id)
    then have "tf_frame_id g = js_trim fid" using frame_keeps(1) [OF written(3)] by simp
    with frame_step [OF ok r, of "CancelTest fid" ps] normalisingD [OF frame_normalising written(3)] show ?thesis
      by (simp add: eq written(1) same s1)
  qed
qed

lemma mediation_step_ok:
  assumes ok: "mediation_ok cfg (s, ps)"
  shows "mediation_ok cfg (mediation_step cfg (s, ps) c) \<and> step_effect cfg s c (fst (mediation_step cfg (s, ps) c))"
proof (cases c)
  case (AddAdapter a)
  with ok show ?thesis
    by (auto simp: registerAdapter_def mediation_refuse_def mediation_ok_def endpoints_ok_def frames_ok_def pending_ok_def list_all_iff step_effect_def)
next
  case (RegisterEndpoint d allowed)
  with register_step [OF ok] show ?thesis by simp
next
  case (RevokeEndpoint ref)
  with ok show ?thesis
    by (auto simp: revokeEndpoint_def mediation_ok_def endpoints_ok_def frames_ok_def pending_ok_def list_all_iff step_effect_def)
next
  case (CreateManifest input)
  note same = core_fields [OF createContextManifest_core [of cfg input s]]
  from quiet_step [OF ok, of "snd (createContextManifest cfg input s)" c] show ?thesis
    by (simp add: CreateManifest routing_def same)
next
  case (CreateFrame input)
  show ?thesis
  proof (cases rule: createFrame_cases [of cfg input s])
    case (kept e s')
    note same = sans_frames_fields [OF kept(3)]
    from quiet_step [OF ok routing_sans_frames [OF kept(3)] kept(2) same(7), of c] kept(1) show ?thesis by (simp add: CreateFrame)
  next
    case (written f g s')
    note same = sans_frames_fields [OF written(4)]
    have "js_trim (tf_frame_id g) = tf_frame_id g" using frame_keeps(1) [OF written(2)] by simp
    with frame_step [OF ok routing_sans_frames [OF written(4)] written(3), of c ps] normalisingD [OF frame_normalising written(2)] written(1)
    show ?thesis by (simp add: CreateFrame same)
  qed
next
  case (BeginSubmit input)
  with begin_step [OF ok] show ?thesis by simp
next
  case (SettleSubmit i outcome)
  with settle_step [OF ok] show ?thesis by simp
next
  case (CancelTest fid)
  show ?thesis unfolding CancelTest by (rule cancel_step [OF ok])
qed

lemma mediation_run_ok: "mediation_ok cfg sp \<Longrightarrow> mediation_ok cfg (run (mediation_step cfg) sp cs)"
  by (induction cs arbitrary: sp) (simp_all, metis mediation_step_ok surj_pair)

lemma registerAdapters_fields:
  "registerAdapters as s = (r, s') \<Longrightarrow> \<exists>ads. s' = s \<lparr> ms_adapters := ads \<rparr>"
proof (induction as arbitrary: s)
  case Nil
  then show ?case by (auto intro: exI [of _ "ms_adapters s"])
next
  case (Cons a as)
  then show ?case by (cases "js_trim a = []") (auto simp: registerAdapter_def mediation_refuse_def intro: exI [of _ "ms_adapters s"], fastforce+)
qed

lemma service_starts:
  assumes "createRemoteMediationService cfg0 shared adapters = Inr (cfg, s0)"
  shows "mediation_ok cfg (s0, [])" "ms_sent s0 = []" "ms_allowedEndpoints s0 = []"
proof -
  from assms obtain r where "registerAdapters adapters (empty_mediation r) = (Inr (), s0)"
    unfolding createRemoteMediationService_def bindR_def by (auto split: if_splits sum.splits option.splits prod.splits)
  from registerAdapters_fields [OF this] obtain ads where "s0 = empty_mediation r \<lparr> ms_adapters := ads \<rparr>" ..
  then show "mediation_ok cfg (s0, [])" "ms_sent s0 = []" "ms_allowedEndpoints s0 = []"
    by (simp_all add: empty_mediation_def mediation_ok_def endpoints_ok_def frames_ok_def)
qed

lemma step_at:
  assumes "mediation_ok cfg sp"
  shows "step_effect cfg (fst (run (mediation_step cfg) sp cs)) c (fst (run (mediation_step cfg) sp (cs @ [c])))"
  using mediation_step_ok mediation_run_ok [OF assms] by (cases "run (mediation_step cfg) sp cs") (simp add: run_append, metis)




section \<open>Idempotency and settlement\<close>

lemma idempotent_stays:
  assumes ok: "mediation_ok cfg sp" and "jm_get (ms_idempotent (fst sp)) key \<noteq> None"
  shows "jm_get (ms_idempotent (fst (run (mediation_step cfg) sp cs))) key \<noteq> None"
proof (induction cs rule: rev_induct)
  case (snoc c cs)
  with step_at [OF ok, of cs c] show ?case by (simp add: step_effect_def)
qed (use assms(2) in simp)

lemma sent_grows:
  assumes ok: "mediation_ok cfg sp"
  shows "\<exists>qs. ms_sent (fst (run (mediation_step cfg) sp cs)) = ms_sent (fst sp) @ qs \<and>
    (\<forall>q \<in> set qs. jm_get (ms_idempotent (fst sp)) (rm_idempotency_key q) = None)"
proof (induction cs rule: rev_induct)
  case (snoc c cs)
  then obtain qs where qs: "ms_sent (fst (run (mediation_step cfg) sp cs)) = ms_sent (fst sp) @ qs"
    "\<forall>q \<in> set qs. jm_get (ms_idempotent (fst sp)) (rm_idempotency_key q) = None" by blast
  from step_at [OF ok, of cs c] consider (same) "ms_sent (fst (run (mediation_step cfg) sp (cs @ [c]))) = ms_sent (fst (run (mediation_step cfg) sp cs))"
    | (sent) q where "ms_sent (fst (run (mediation_step cfg) sp (cs @ [c]))) = ms_sent (fst (run (mediation_step cfg) sp cs)) @ [q]"
      "jm_get (ms_idempotent (fst (run (mediation_step cfg) sp cs))) (rm_idempotency_key q) = None"
    by (auto simp: step_effect_def)
  then show ?case
  proof cases
    case same
    with qs show ?thesis by auto
  next
    case sent
    from idempotent_stays [OF ok, of "rm_idempotency_key q" cs] sent(2) have "jm_get (ms_idempotent (fst sp)) (rm_idempotency_key q) = None" by blast
    with sent(1) qs show ?thesis by (intro exI [of _ "qs @ [q]"]) auto
  qed
qed simp

lemma duplicate_answer:
  assumes "jm_get (ms_frames s) (js_trim (si_frameId input)) = Some frame" and "jm_get (ms_endpoints s) (js_trim (tf_endpoint_ref frame)) = Some e"
    and "jm_get (ms_idempotent s) (submit_key input frame) = Some r"
  shows "submit_begin cfg input s = (Inr (SubmitDuplicate (r \<lparr> sr_duplicate := True \<rparr>)), s)"
  using assms by (simp add: submit_begin_def getFrame_def getEndpoint_def)

lemma pending_frame:
  assumes "mediation_ok cfg (s, ps)" and "i < length ps"
  obtains f where "jm_get (ms_frames s) (js_trim (ps_frameId (ps ! i))) = Some f" "parseSpatialEndpointTestFrame (mc_zod cfg) f = Some f"
    "js_trim (ps_frameId (ps ! i)) = ps_frameId (ps ! i)"
proof -
  from assms have "pending_ok s (ps ! i)" "frames_ok cfg s" by (auto simp: mediation_ok_def list_all_iff)
  then show thesis using that by (auto simp: pending_ok_def frames_ok_def)
qed

text \<open>
  (C36) Once a submission has been accepted, whatever is called afterwards and in whichever order the other pending submissions settle, no
  request with its idempotency key is handed to an adapter again, and submitting under the key returns a stored result, marked
  as a duplicate, without a change of state.
\<close>

theorem settled_key_never_resent:
  assumes "createRemoteMediationService cfg0 shared adapters = Inr (cfg, s0)" and "run (mediation_step cfg) (s0, []) cs = (s, ps)"
    and "i < length ps" and "submit_settle cfg (ps ! i) outcome s = (Inr r, s1)"
    and "run (mediation_step cfg) (s0, []) (cs @ SettleSubmit i outcome # later) = (s2, ps2)"
  shows "(\<exists>qs. ms_sent s2 = ms_sent s @ qs \<and> (\<forall>q \<in> set qs. rm_idempotency_key q \<noteq> ps_idempotencyKey (ps ! i))) \<and>
    (\<forall>input frame e. jm_get (ms_frames s2) (js_trim (si_frameId input)) = Some frame \<longrightarrow>
       jm_get (ms_endpoints s2) (js_trim (tf_endpoint_ref frame)) = Some e \<longrightarrow> submit_key input frame = ps_idempotencyKey (ps ! i) \<longrightarrow>
       (\<exists>r'. submit_begin cfg input s2 = (Inr (SubmitDuplicate r'), s2) \<and> sr_duplicate r'))"
proof -
  let ?key = "ps_idempotencyKey (ps ! i)"
  let ?sp = "(s1, take i ps @ drop (Suc i) ps)"
  have ok: "mediation_ok cfg (s, ps)" using mediation_run_ok [OF service_starts(1) [OF assms(1)], of cs] assms(2) by simp
  obtain f where f: "jm_get (ms_frames s) (js_trim (ps_frameId (ps ! i))) = Some f" "parseSpatialEndpointTestFrame (mc_zod cfg) f = Some f"
    using pending_frame [OF ok assms(3)] .
  from f have s1: "jm_get (ms_idempotent s1) ?key = Some r" "ms_sent s1 = ms_sent s"
    by (cases rule: submit_settle_cases [where outcome = outcome]; use assms(4) in \<open>simp add: routing_def\<close>)+
  have step: "mediation_step cfg (s, ps) (SettleSubmit i outcome) = ?sp" using assms(3,4) by simp
  have ok1: "mediation_ok cfg ?sp" using mediation_step_ok [OF ok, of "SettleSubmit i outcome"] step by simp
  have s2: "run (mediation_step cfg) ?sp later = (s2, ps2)" using assms(2,5) step by (simp add: run_append)
  from idempotent_stays [OF ok1, of ?key later] s1 s2 obtain r2 where "jm_get (ms_idempotent s2) ?key = Some r2" by auto
  moreover from sent_grows [OF ok1, of later] s1 s2 have "\<exists>qs. ms_sent s2 = ms_sent s @ qs \<and> (\<forall>q \<in> set qs. rm_idempotency_key q \<noteq> ?key)"
    by fastforce
  ultimately show ?thesis using duplicate_answer [of s2] by fastforce
qed

text \<open>
  (C35) However the race of a pending submission ends, settling it leaves its frame in a final state: a result is stored under its key, with a
  frame that is complete exactly when the result was neither quarantined nor invalid, and only if the submission was not aborted; every
  failure is a coded error whose frame state says which, cancelled if the request was cancelled, and records no result under the key.
  Settling sends nothing.
\<close>

theorem submit_settles_frame:
  assumes "createRemoteMediationService cfg0 shared adapters = Inr (cfg, s0)" and "run (mediation_step cfg) (s0, []) cs = (s, ps)"
    and "i < length ps" and "submit_settle cfg (ps ! i) outcome s = (x, s1)"
  shows "\<exists>f. jm_get (ms_frames s1) (ps_frameId (ps ! i)) = Some f \<and> settled_state (tf_state f) \<and> ms_sent s1 = ms_sent s \<and> (case x of
      Inl e \<Rightarrow> ms_idempotent s1 = ms_idempotent s \<and> (\<exists>code. e = Mediation code \<and> tf_state f = failure_state code \<and>
        (ps_requestId (ps ! i) \<in> set (ms_cancelledRequests s) \<longrightarrow> code = MediationCANCELLED) \<and>
        (outcome = TimedOut \<longrightarrow> code \<in> {TIMEOUT, MediationCANCELLED}))
    | Inr r \<Rightarrow> jm_get (ms_idempotent s1) (ps_idempotencyKey (ps ! i)) = Some r \<and> sr_frame r = f \<and> ps_controller (ps ! i) \<notin> set (ms_aborted s) \<and>
        (tf_state f = FsCOMPLETE \<longleftrightarrow> rs_status (sr_result r) \<notin> {RvQUARANTINED, RvINVALID}))"
proof -
  have ok: "mediation_ok cfg (s, ps)" using mediation_run_ok [OF service_starts(1) [OF assms(1)], of cs] assms(2) by simp
  obtain f where f: "jm_get (ms_frames s) (js_trim (ps_frameId (ps ! i))) = Some f" "parseSpatialEndpointTestFrame (mc_zod cfg) f = Some f"
    using pending_frame [OF ok assms(3)] .
  from f show ?thesis
  proof (cases rule: submit_settle_cases [where outcome = outcome])
    case (failed code g s')
    with assms(4) failure_state_settled [of code] show ?thesis by (auto simp: routing_def)
  next
    case (accepted r s')
    with assms(4) show ?thesis by (auto simp: routing_def settled_state_def)
  qed
qed

section \<open>What is made of a response\<close>

















section \<open>A submission that runs\<close>

definition sample_endpoint :: endpoint_details where
  "sample_endpoint = \<lparr> ed_workspace_id = ''w'', ed_node_id = ''n'', ed_canonical_ref = ''e'', ed_endpoint_id = ''i'', ed_revision = 1,
     ed_display_name = ''d'', ed_capability = ''c'', ed_endpoint_type = ''t'', ed_supported_modalities = [], ed_availability = AvAVAILABLE,
     ed_surface_state = SfREADY, ed_freshness = \<lparr> fr_state = FrFRESH, fr_observed_at = 0, fr_stale_after_seconds = 60, fr_source = ''s'' \<rparr>,
     ed_latency = \<lparr> lt_p50_ms = None, lt_p95_ms = None, lt_measured_at = None, lt_window = None \<rparr>, ed_load = None, ed_capacity = None,
     ed_cost = \<lparr> cs_currency = None, cs_unit_price = None, cs_billing_dimension = None, cs_minimum_charge = None \<rparr>,
     ed_deposit = \<lparr> dp_minimum = None, dp_recommended = None, dp_currency = None, dp_escrow = None \<rparr>,
     ed_provider_ref = Some ''p'', ed_remote_agent_ref = None, ed_validation_refs = [], ed_input_formats = [], ed_output_formats = [''text/plain''],
     ed_limits = \<lparr> lm_context_tokens = None, lm_payload_bytes = None, lm_timeout_ms = Some 500, lm_streaming = None \<rparr>,
     ed_privacy = None, ed_trust_summary = None, ed_description = None, ed_allowed_actions = [] \<rparr>"

definition sample_mediation :: mediation_config where
  "sample_mediation = \<lparr> mc_zod = zod_ref, mc_workspaceId = ''w'', mc_nodeId = ''n'', mc_primaryAgentRef = ''a'', mc_defaultWorkspaceSessionRef = Some ''s'',
     mc_registry = \<lparr> rgo_workspaceId = ''w'', rgo_nodeId = ''n'', rgo_now = (\<lambda>n. 0) \<rparr>, mc_defaultAdapterId = None, mc_maxRequestBytes = None,
     mc_maxResponseBytes = None, mc_defaultTimeoutMs = None, mc_now = (\<lambda>n. 0), mc_idFactory = Some (\<lambda>kind n. ''r'' @ show_int (int n)),
     mc_authorize = None \<rparr>"

definition sample_submit :: submit_input where
  "sample_submit = \<lparr> si_frameId = ''f'', si_idempotencyKey = Some ''k'', si_fields = Some [(''q'', CvNumber 1), (''token'', CvBool True)],
     si_allowedFields = None, si_attachmentRefs = None, si_mediaTypes = None, si_workspaceSessionRef = None, si_operatorConsent = None,
     si_purpose = Some ''p'' \<rparr>"

definition sample_session :: "mediation_call list" where
  "sample_session = [RegisterEndpoint sample_endpoint True, CreateFrame \<lparr> fi_frameId = Some ''f'', fi_endpointRef = ''e'', fi_sourceRevision = None \<rparr>, BeginSubmit sample_submit]"

definition sample_mediator :: mediation where
  "sample_mediator = empty_mediation empty_registry \<lparr> ms_adapters := [''p''] \<rparr>"


lemma sample_trims: "js_trim ''a'' = ''a''" "js_trim ''p'' = ''p''" "js_trim ''w'' = ''w''" "js_trim ''n'' = ''n''"
  by code_simp+

lemma sample_created: "createRemoteMediationService sample_mediation None [''p''] = Inr (sample_mediation, sample_mediator)"
  by (simp add: createRemoteMediationService_def sample_mediation_def sample_mediator_def empty_mediation_def registerAdapter_def
      createCanonicalReferenceRegistry_def bindR_def sample_trims Let_def)


definition sample_response :: transport_response where
  "sample_response = \<lparr> tr_contentType = ''text/plain'', tr_payload = PJson (JStr ''ok''), tr_sizeBytes = None \<rparr>"

definition sample_run :: "mediation \<times> pending_submit list" where
  "sample_run = run (mediation_step sample_mediation) (sample_mediator, []) sample_session"

lemma sample_evaluated:
  "case sample_run of (s, ps) \<Rightarrow> ms_sent s \<noteq> [] \<and> (case ps of [] \<Rightarrow> False | p # _ \<Rightarrow>
     (case submit_settle sample_mediation p (Responded sample_response) s of (Inl _, _) \<Rightarrow> False
      | (Inr r, s1) \<Rightarrow> tf_state (sr_frame r) = FsCOMPLETE \<and> rs_safe_text (sr_result r) = Some ''ok''))"
  by code_simp


lemma sample_settled:
  obtains s p ps r s1 where "run (mediation_step sample_mediation) (sample_mediator, []) sample_session = (s, p # ps)"
    "submit_settle sample_mediation p (Responded sample_response) s = (Inr r, s1)" "tf_state (sr_frame r) = FsCOMPLETE"
  using sample_evaluated unfolding sample_run_def
  by (cases "run (mediation_step sample_mediation) (sample_mediator, []) sample_session")
    (auto split: list.splits prod.splits sum.splits)

theorem settled_key_never_resent_witness:
  "\<exists>s p ps s2 ps2. run (mediation_step sample_mediation) (sample_mediator, []) sample_session = (s, p # ps) \<and>
    run (mediation_step sample_mediation) (sample_mediator, []) (sample_session @ SettleSubmit 0 (Responded sample_response) # sample_session) = (s2, ps2) \<and>
    (\<exists>qs. ms_sent s2 = ms_sent s @ qs \<and> (\<forall>q \<in> set qs. rm_idempotency_key q \<noteq> ps_idempotencyKey p))"
proof -
  obtain s p ps r s1 where r: "run (mediation_step sample_mediation) (sample_mediator, []) sample_session = (s, p # ps)"
    "submit_settle sample_mediation p (Responded sample_response) s = (Inr r, s1)" by (rule sample_settled)
  obtain s2 ps2 where s2: "run (mediation_step sample_mediation) (sample_mediator, []) (sample_session @ SettleSubmit 0 (Responded sample_response) # sample_session) = (s2, ps2)"
    by (rule prod.exhaust)
  from settled_key_never_resent [OF sample_created r(1), of 0 "Responded sample_response" r s1 sample_session s2 ps2] r s2 show ?thesis by auto
qed

theorem submit_settles_frame_witness:
  "\<exists>s p ps x s1 f. run (mediation_step sample_mediation) (sample_mediator, []) sample_session = (s, p # ps) \<and> submit_settle sample_mediation p TimedOut s = (x, s1) \<and>
    jm_get (ms_frames s1) (ps_frameId p) = Some f \<and> settled_state (tf_state f)"
proof -
  obtain s p ps where r: "run (mediation_step sample_mediation) (sample_mediator, []) sample_session = (s, p # ps)" by (rule sample_settled)
  obtain x s1 where x: "submit_settle sample_mediation p TimedOut s = (x, s1)" by (rule prod.exhaust)
  from submit_settles_frame [OF sample_created r, of 0 TimedOut x s1] r x show ?thesis by auto
qed

section \<open>Where the mediation does not do what it means to\<close>

text \<open>
  Cancelling does not look at the state of the frame: a completed test is rewritten to cancelled, and with an identifier that has
  spaces around it the change is written to a second entry, while the frame the service goes on reading keeps its state.
\<close>

lemma cancel_rewrites_any_frame:
  assumes "frames_ok cfg s" and "jm_get (ms_frames s) (js_trim fid) = Some f"
  shows "\<exists>g s'. cancelEndpointTest cfg fid s = (Inr g, s') \<and> tf_state g = FsCANCELLED \<and> jm_get (ms_frames s') fid = Some g \<and>
    (js_trim fid \<noteq> fid \<longrightarrow> jm_get (ms_frames s') (js_trim fid) = Some f)"
proof -
  define s1 where "s1 = (if js_truthy (tf_submit_intent_ref f) then
      let requestId = the (tf_submit_intent_ref f) in
      s \<lparr> ms_cancelledRequests := List.insert requestId (ms_cancelledRequests s),
        ms_aborted := (case jm_get (ms_controllers s) requestId of None \<Rightarrow> ms_aborted s | Some c \<Rightarrow> List.insert c (ms_aborted s)) \<rparr>
    else s)"
  have same: "ms_frames s1 = ms_frames s" by (simp add: s1_def Let_def)
  have eq: "cancelEndpointTest cfg fid s = updateFrame cfg fid (\<lambda>f. f \<lparr> tf_state := FsCANCELLED \<rparr>) s1"
    using assms(2) by (simp add: cancelEndpointTest_def getFrame_def s1_def Let_def)
  have valid: "parseSpatialEndpointTestFrame (mc_zod cfg) f = Some f" using assms by (simp add: frames_ok_def)
  show ?thesis
  proof (cases rule: updateFrame_cases [of cfg fid "\<lambda>f. f \<lparr> tf_state := FsCANCELLED \<rparr>" s1])
    case (kept s')
    with assms(2) frame_state_valid [OF valid] same show ?thesis by simp
  next
    case (written f' g s')
    with frame_keeps(2) [OF written(3)] assms(2) same eq show ?thesis by (auto simp: jm_get_set)
  qed
qed

text \<open>Only the first secret of a quarantined text is redacted; the next one is in the preview that is stored and shown.\<close>

lemma second_secret_shown:
  "safe_response_text RvQUARANTINED RcSECRET_PATTERN ''token=a token=b'' =
     ''Remote output quarantined (secret_pattern). [redacted-secret] token=b''"
  by code_simp

text \<open>The size limit is checked against the size the remote side declares: a response five times the limit is valid.\<close>

lemma declared_size_trusted:
  "byteLength (sanitizedText (PJson (JStr ''hello hello''))) = 11 \<and>
   classify_response (sample_mediation \<lparr> mc_maxResponseBytes := Some 2 \<rparr>) sample_endpoint
     \<lparr> tr_contentType = ''text/plain'', tr_payload = PJson (JStr ''hello hello''), tr_sizeBytes = Some 1 \<rparr> = (RvVALID, RcNONE)"
  by code_simp

text \<open>
  A parameter after a space in the content type passes the comparison of types, which trims, and fails the schema of the result, which
  does not: a valid response becomes an invalid-result error.
\<close>

lemma spaced_content_type_refused:
  "matchesMime (response_type (sample_response \<lparr> tr_contentType := ''text/plain ; charset=utf-8'' \<rparr>)) [''text/plain''] \<and>
   mimeSchema (response_type (sample_response \<lparr> tr_contentType := ''text/plain ; charset=utf-8'' \<rparr>)) = None"
  by code_simp

text \<open>
  An idempotency key is recorded only when a submission settles: two frames submitted under one key before that both reach the adapter.
\<close>

lemma overlapping_key_sent_twice:
  "map rm_idempotency_key (ms_sent (fst (run (mediation_step sample_mediation) (sample_mediator, [])
     (sample_session @ [CreateFrame \<lparr> fi_frameId = Some ''g'', fi_endpointRef = ''e'', fi_sourceRevision = None \<rparr>,
        BeginSubmit (sample_submit \<lparr> si_frameId := ''g'' \<rparr>)])))) = [''k'', ''k'']"
  by code_simp

text \<open>
  The session of a submission is compared with the workspace only if it starts with \<open>workspace-\<close>: a session of another workspace whose
  name does not start so is accepted.
\<close>

lemma foreign_session_accepted:
  "map rm_local_session_ref (ms_sent (fst (run (mediation_step sample_mediation) (sample_mediator, [])
     (butlast sample_session @ [BeginSubmit (sample_submit \<lparr> si_workspaceSessionRef := Some ''other:s'' \<rparr>)])))) = [''other:s'']"
  by code_simp

end
