(* ===== verification/Provenance.thy ===== *)
theory Provenance
  imports Remote_Contracts Topology
begin

text \<open>
  The local history of interactions with endpoints of \<open>spatial/topology/provenance.ts\<close>, \<open>InteractionProvenanceService\<close>: records
  under idempotency keys, the history of each endpoint, and the experience kept for it, which decides whether it is trusted.
  The clock is a stream of which the state counts the readings. Reputations are rationals.
\<close>

datatype interaction_outcome = OcSUCCESS | OcFAILURE | OcCANCELLED | OcTIMEOUT

datatype familiarity = NEVER_USED | USED | TRUSTED_BY_HISTORY

record interaction_record =
  ir_record_id :: string
  ir_request_id :: string
  ir_endpoint_ref :: string
  ir_endpoint_revision :: int
  ir_result_ref :: "string option"
  ir_outcome :: interaction_outcome
  ir_latency_ms :: "rat option"
  ir_usage_ref :: "string option"
  ir_idempotency_key :: string
  ir_node_id :: string
  ir_workspace_id :: string
  ir_primary_agent_ref :: string
  ir_revision :: int
  ir_observed_at :: timestamp

definition parseSpatialInteractionProvenance :: "zod \<Rightarrow> interaction_record \<Rightarrow> interaction_record option" where
  "parseSpatialInteractionProvenance z r = do {
     rid \<leftarrow> idSchema z (ir_record_id r);
     request \<leftarrow> idSchema z (ir_request_id r);
     endpoint \<leftarrow> idSchema z (ir_endpoint_ref r);
     erevision \<leftarrow> revisionSchema z (ir_endpoint_revision r);
     result \<leftarrow> nullable (idSchema z) (ir_result_ref r);
     latency \<leftarrow> nullableNumber z 86400000 (ir_latency_ms r);
     usage \<leftarrow> nullable (idSchema z) (ir_usage_ref r);
     key \<leftarrow> idSchema z (ir_idempotency_key r);
     node \<leftarrow> idSchema z (ir_node_id r);
     workspace \<leftarrow> idSchema z (ir_workspace_id r);
     agent \<leftarrow> idSchema z (ir_primary_agent_ref r);
     revision \<leftarrow> revisionSchema z (ir_revision r);
     Some (r \<lparr> ir_record_id := rid, ir_request_id := request, ir_endpoint_ref := endpoint, ir_endpoint_revision := erevision,
       ir_result_ref := result, ir_latency_ms := latency, ir_usage_ref := usage, ir_idempotency_key := key, ir_node_id := node,
       ir_workspace_id := workspace, ir_primary_agent_ref := agent, ir_revision := revision \<rparr>) }"

record interaction_config =
  ic_zod :: zod
  ic_workspaceId :: string
  ic_nodeId :: string
  ic_primaryAgentRef :: string
  ic_now :: "nat \<Rightarrow> timestamp"
  ic_trustedSuccessThreshold :: "int option"

record interaction_input =
  ii_requestId :: string
  ii_endpointRef :: string
  ii_endpointRevision :: int
  ii_resultRef :: "string option"
  ii_outcome :: interaction_outcome
  ii_latencyMs :: "rat option"
  ii_usageRef :: "string option"
  ii_idempotencyKey :: string

record endpoint_experience =
  xp_endpointRef :: string
  xp_endpointRevision :: int
  xp_interactionCount :: int
  xp_successfulCount :: int
  xp_failedCount :: int
  xp_cancelledCount :: int
  xp_timeoutCount :: int
  xp_lastUsedAt :: "timestamp option"
  xp_lastSuccessAt :: "timestamp option"
  xp_lastFailureAt :: "timestamp option"
  xp_familiarity :: familiarity

datatype provenance_error = INVALID_RECORD

record interactions =
  it_records :: "(string, interaction_record) jsmap"
  it_revisions :: "(string, interaction_record list) jsmap"
  it_experience :: "(string, endpoint_experience) jsmap"
  it_globalReputation :: "(string, rat) jsmap"
  it_unresolvedFailures :: "(string, bool) jsmap"
  it_clock :: nat

definition no_interactions :: interactions where
  "no_interactions = \<lparr> it_records = [], it_revisions = [], it_experience = [], it_globalReputation = [], it_unresolvedFailures = [], it_clock = 0 \<rparr>"

definition getExperience :: "string \<Rightarrow> interactions \<Rightarrow> endpoint_experience" where
  "getExperience endpointRef s = (case jm_get (it_experience s) endpointRef of
     Some current \<Rightarrow> current
   | None \<Rightarrow> \<lparr> xp_endpointRef = endpointRef, xp_endpointRevision = 0, xp_interactionCount = 0, xp_successfulCount = 0, xp_failedCount = 0,
       xp_cancelledCount = 0, xp_timeoutCount = 0, xp_lastUsedAt = None, xp_lastSuccessAt = None, xp_lastFailureAt = None,
       xp_familiarity = NEVER_USED \<rparr>)"

definition inspectHistory :: "string \<Rightarrow> interactions \<Rightarrow> interaction_record list" where
  "inspectHistory endpointRef s = or_default (jm_get (it_revisions s) endpointRef) []"

definition setGlobalReputation :: "string \<Rightarrow> rat \<Rightarrow> interactions \<Rightarrow> (provenance_error, unit, interactions) outcome" where
  "setGlobalReputation endpointRef score s = (if score < 0 \<or> 1 < score then throw INVALID_RECORD s
     else return () (s \<lparr> it_globalReputation := jm_set endpointRef score (it_globalReputation s) \<rparr>))"

definition getGlobalReputation :: "string \<Rightarrow> interactions \<Rightarrow> rat option" where
  "getGlobalReputation endpointRef s = jm_get (it_globalReputation s) endpointRef"

definition list_interactions :: "interactions \<Rightarrow> interaction_record list" where
  "list_interactions s = jm_values (it_records s)"

definition trust_threshold :: "interaction_config \<Rightarrow> int" where
  "trust_threshold cfg = max 1 (or_default (ic_trustedSuccessThreshold cfg) 3)"

definition updateExperience :: "interaction_config \<Rightarrow> interaction_record \<Rightarrow> interactions \<Rightarrow> interactions" where
  "updateExperience cfg r s =
     (let e = ir_endpoint_ref r; current = getExperience e s; success = ir_outcome r = OcSUCCESS;
          failure = ir_outcome r = OcFAILURE \<or> ir_outcome r = OcTIMEOUT;
          successful = xp_successfulCount current + (if success then 1 else 0);
          s1 = (if failure then s \<lparr> it_unresolvedFailures := jm_set e True (it_unresolvedFailures s) \<rparr> else s);
          s2 = (if success then s1 \<lparr> it_unresolvedFailures := jm_set e False (it_unresolvedFailures s1) \<rparr> else s1);
          noFreshFailure = (\<not> or_default (jm_get (it_unresolvedFailures s2) e) False)
      in s2 \<lparr> it_experience := jm_set e \<lparr> xp_endpointRef = e, xp_endpointRevision = ir_endpoint_revision r,
           xp_interactionCount = xp_interactionCount current + 1, xp_successfulCount = successful,
           xp_failedCount = xp_failedCount current + (if ir_outcome r = OcFAILURE then 1 else 0),
           xp_cancelledCount = xp_cancelledCount current + (if ir_outcome r = OcCANCELLED then 1 else 0),
           xp_timeoutCount = xp_timeoutCount current + (if ir_outcome r = OcTIMEOUT then 1 else 0),
           xp_lastUsedAt = Some (ir_observed_at r),
           xp_lastSuccessAt = (if success then Some (ir_observed_at r) else xp_lastSuccessAt current),
           xp_lastFailureAt = (if failure then Some (ir_observed_at r) else xp_lastFailureAt current),
           xp_familiarity = (if trust_threshold cfg \<le> successful \<and> noFreshFailure then TRUSTED_BY_HISTORY else USED) \<rparr> (it_experience s2) \<rparr>)"

definition interaction_candidate :: "interaction_config \<Rightarrow> interaction_input \<Rightarrow> timestamp \<Rightarrow> interaction_record" where
  "interaction_candidate cfg input now = (let key = js_trim (ii_idempotencyKey input) in
     \<lparr> ir_record_id = ''provenance:'' @ key, ir_request_id = ii_requestId input, ir_endpoint_ref = ii_endpointRef input,
       ir_endpoint_revision = ii_endpointRevision input, ir_result_ref = ii_resultRef input, ir_outcome = ii_outcome input,
       ir_latency_ms = ii_latencyMs input, ir_usage_ref = ii_usageRef input, ir_idempotency_key = key, ir_node_id = ic_nodeId cfg,
       ir_workspace_id = ic_workspaceId cfg, ir_primary_agent_ref = ic_primaryAgentRef cfg, ir_revision = 0, ir_observed_at = now \<rparr>)"

definition record_interaction :: "interaction_config \<Rightarrow> interaction_input \<Rightarrow> interactions
    \<Rightarrow> (provenance_error, interaction_record \<times> bool, interactions) outcome" where
  "record_interaction cfg input s =
     (let key = js_trim (ii_idempotencyKey input) in
      case jm_get (it_records s) key of
        Some existing \<Rightarrow> return (existing, True) s
      | None \<Rightarrow>
          if js_trim (ii_requestId input) = [] \<or> js_trim (ii_endpointRef input) = [] \<or> key = [] \<or> ii_endpointRevision input < 0
            then throw INVALID_RECORD s
          else let now = ic_now cfg (it_clock s); s1 = s \<lparr> it_clock := it_clock s + 1 \<rparr> in
            case parseSpatialInteractionProvenance (ic_zod cfg) (interaction_candidate cfg input now) of
              None \<Rightarrow> throw INVALID_RECORD s1
            | Some r \<Rightarrow> return (r, False) (updateExperience cfg r
                (s1 \<lparr> it_records := jm_set key r (it_records s1),
                   it_revisions := jm_set (ii_endpointRef input) (inspectHistory (ii_endpointRef input) s1 @ [r]) (it_revisions s1) \<rparr>)))"

end
