(* ===== verification/Provenance_Properties.thy ===== *)
theory Provenance_Properties
  imports Provenance Workspace_Properties
begin

text \<open>The experience kept for an endpoint is what its recorded interactions say, and an interaction is counted once.\<close>

datatype interaction_call = RecordInteraction interaction_input | SetReputation string rat

fun interaction_step :: "interaction_config \<Rightarrow> interactions \<Rightarrow> interaction_call \<Rightarrow> interactions" where
  "interaction_step cfg s (RecordInteraction input) = snd (record_interaction cfg input s)"
| "interaction_step cfg s (SetReputation e score) = snd (setGlobalReputation e score s)"

section \<open>A reference for the experience\<close>

text \<open>The experience with an endpoint read off the list of its interactions.\<close>

definition outcomes :: "interaction_outcome \<Rightarrow> interaction_record list \<Rightarrow> int" where
  "outcomes oc rs = int (length (filter (\<lambda>r. ir_outcome r = oc) rs))"

definition last_time :: "(interaction_outcome \<Rightarrow> bool) \<Rightarrow> interaction_record list \<Rightarrow> timestamp option" where
  "last_time P rs = (let fs = filter (\<lambda>r. P (ir_outcome r)) rs in if fs = [] then None else Some (ir_observed_at (last fs)))"

definition unsuccessful :: "interaction_outcome \<Rightarrow> bool" where
  "unsuccessful oc \<longleftrightarrow> oc = OcFAILURE \<or> oc = OcTIMEOUT"

text \<open>The last interaction that was not cancelled did not succeed.\<close>

definition unresolved :: "interaction_record list \<Rightarrow> bool" where
  "unresolved rs \<longleftrightarrow> (let fs = filter (\<lambda>r. ir_outcome r \<noteq> OcCANCELLED) rs in fs \<noteq> [] \<and> unsuccessful (ir_outcome (last fs)))"

definition experience_of :: "int \<Rightarrow> string \<Rightarrow> interaction_record list \<Rightarrow> endpoint_experience" where
  "experience_of threshold e rs = \<lparr> xp_endpointRef = e, xp_endpointRevision = (if rs = [] then 0 else ir_endpoint_revision (last rs)),
     xp_interactionCount = int (length rs), xp_successfulCount = outcomes OcSUCCESS rs, xp_failedCount = outcomes OcFAILURE rs,
     xp_cancelledCount = outcomes OcCANCELLED rs, xp_timeoutCount = outcomes OcTIMEOUT rs,
     xp_lastUsedAt = last_time (\<lambda>_. True) rs, xp_lastSuccessAt = last_time (\<lambda>oc. oc = OcSUCCESS) rs, xp_lastFailureAt = last_time unsuccessful rs,
     xp_familiarity = (if rs = [] then NEVER_USED
       else if threshold \<le> outcomes OcSUCCESS rs \<and> \<not> unresolved rs then TRUSTED_BY_HISTORY else USED) \<rparr>"

definition interactions_with :: "string \<Rightarrow> interactions \<Rightarrow> interaction_record list" where
  "interactions_with e s = filter (\<lambda>r. ir_endpoint_ref r = e) (list_interactions s)"

definition experience_ok :: "interaction_config \<Rightarrow> interactions \<Rightarrow> bool" where
  "experience_ok cfg s \<longleftrightarrow> (\<forall>e. getExperience e s = experience_of (trust_threshold cfg) e (interactions_with e s) \<and>
     or_default (jm_get (it_unresolvedFailures s) e) False = unresolved (interactions_with e s))"

lemma last_time_snoc: "last_time P (rs @ [r]) = (if P (ir_outcome r) then Some (ir_observed_at r) else last_time P rs)"
  by (simp add: last_time_def Let_def)

lemma outcomes_snoc: "outcomes oc (rs @ [r]) = outcomes oc rs + (if ir_outcome r = oc then 1 else 0)"
  by (simp add: outcomes_def)

lemma unresolved_snoc: "unresolved (rs @ [r]) = (case ir_outcome r of OcCANCELLED \<Rightarrow> unresolved rs | OcSUCCESS \<Rightarrow> False | _ \<Rightarrow> True)"
  by (auto simp: unresolved_def unsuccessful_def Let_def split: interaction_outcome.split)

lemma updateExperience_ok:
  assumes "experience_ok cfg s" and "it_experience t = it_experience s" and "it_unresolvedFailures t = it_unresolvedFailures s"
    and "list_interactions t = list_interactions s @ [r]"
  shows "experience_ok cfg (updateExperience cfg r t)"
proof -
  let ?e = "ir_endpoint_ref r"
  let ?u = "updateExperience cfg r t"
  have list: "list_interactions ?u = list_interactions s @ [r]"
    using assms(4) by (simp add: updateExperience_def Let_def list_interactions_def)
  have here: "interactions_with ?e ?u = interactions_with ?e s @ [r]" using list by (simp add: interactions_with_def)
  have old: "getExperience ?e t = experience_of (trust_threshold cfg) ?e (interactions_with ?e s)"
    "or_default (jm_get (it_unresolvedFailures t) ?e) False = unresolved (interactions_with ?e s)"
    using assms(1-3) by (simp_all add: experience_ok_def getExperience_def)
  have flag: "or_default (jm_get (it_unresolvedFailures ?u) ?e) False = unresolved (interactions_with ?e ?u)"
    using old(2) unfolding here unresolved_snoc
    by (cases "ir_outcome r") (simp_all add: updateExperience_def Let_def or_default_def)
  have now: "getExperience ?e ?u = experience_of (trust_threshold cfg) ?e (interactions_with ?e ?u)"
    using old unfolding here
    by (cases "ir_outcome r")
      (simp_all add: updateExperience_def Let_def getExperience_def [of _ "_ :: interactions"] experience_of_def last_time_snoc outcomes_snoc
        unresolved_snoc unsuccessful_def or_default_def)
  show ?thesis unfolding experience_ok_def
  proof (intro allI)
    fix e
    show "getExperience e ?u = experience_of (trust_threshold cfg) e (interactions_with e ?u) \<and>
      or_default (jm_get (it_unresolvedFailures ?u) e) False = unresolved (interactions_with e ?u)"
    proof (cases "e = ?e")
      case True
      with flag now show ?thesis by simp
    next
      case False
      then have "interactions_with e ?u = interactions_with e s" using list by (simp add: interactions_with_def)
      moreover have "getExperience e ?u = getExperience e s" using False assms(2)
        by (simp add: updateExperience_def Let_def getExperience_def)
      moreover have "jm_get (it_unresolvedFailures ?u) e = jm_get (it_unresolvedFailures s) e" using False assms(3)
        by (simp add: updateExperience_def Let_def)
      ultimately show ?thesis using assms(1) by (simp add: experience_ok_def)
    qed
  qed
qed

lemma record_cases:
  obtains (kept) x where "record_interaction cfg input s = (x, s)" "\<And>r. x \<noteq> Inr (r, False)"
  | (read) "record_interaction cfg input s = (Inl INVALID_RECORD, s \<lparr> it_clock := it_clock s + 1 \<rparr>)"
  | (recorded) r t where "record_interaction cfg input s = (Inr (r, False), updateExperience cfg r t)"
      "it_experience t = it_experience s" "it_unresolvedFailures t = it_unresolvedFailures s"
      "it_records t = it_records s @ [(js_trim (ii_idempotencyKey input), r)]" "jm_get (it_records s) (js_trim (ii_idempotencyKey input)) = None"
      "parseSpatialInteractionProvenance (ic_zod cfg) (interaction_candidate cfg input (ic_now cfg (it_clock s))) = Some r"
proof (cases "jm_get (it_records s) (js_trim (ii_idempotencyKey input))")
  case (Some old)
  then show thesis by (intro kept [of "Inr (old, True)"]) (simp_all add: record_interaction_def)
next
  case none: None
  let ?bad = "js_trim (ii_requestId input) = [] \<or> js_trim (ii_endpointRef input) = [] \<or> js_trim (ii_idempotencyKey input) = [] \<or>
    ii_endpointRevision input < 0"
  let ?s1 = "s \<lparr> it_clock := it_clock s + 1 \<rparr>"
  have eq: "record_interaction cfg input s = (if ?bad then (Inl INVALID_RECORD, s)
    else case parseSpatialInteractionProvenance (ic_zod cfg) (interaction_candidate cfg input (ic_now cfg (it_clock s))) of
      None \<Rightarrow> (Inl INVALID_RECORD, ?s1)
    | Some r \<Rightarrow> (Inr (r, False), updateExperience cfg r (?s1 \<lparr> it_records := jm_set (js_trim (ii_idempotencyKey input)) r (it_records ?s1),
        it_revisions := jm_set (ii_endpointRef input) (inspectHistory (ii_endpointRef input) ?s1 @ [r]) (it_revisions ?s1) \<rparr>)))"
    using none by (simp only: record_interaction_def Let_def option.case)
  show thesis
  proof (cases ?bad)
    case True
    with eq show thesis by (intro kept [of "Inl INVALID_RECORD"]) simp_all
  next
    case good: False
    show thesis
    proof (cases "parseSpatialInteractionProvenance (ic_zod cfg) (interaction_candidate cfg input (ic_now cfg (it_clock s)))")
      case None
      with eq good show thesis by (intro read) simp
    next
      case (Some r)
      let ?t = "?s1 \<lparr> it_records := jm_set (js_trim (ii_idempotencyKey input)) r (it_records ?s1),
        it_revisions := jm_set (ii_endpointRef input) (inspectHistory (ii_endpointRef input) ?s1 @ [r]) (it_revisions ?s1) \<rparr>"
      have "record_interaction cfg input s = (Inr (r, False), updateExperience cfg r ?t)" unfolding eq Some using good by simp
      then show thesis by (rule recorded) (use Some none in \<open>simp_all add: jm_set_fresh jm_has_def\<close>)
    qed
  qed
qed

lemma updateExperience_records: "it_records (updateExperience cfg r t) = it_records t"
  by (simp add: updateExperience_def Let_def)

lemma interaction_step_ok: "experience_ok cfg s \<Longrightarrow> experience_ok cfg (interaction_step cfg s c)"
proof (cases c)
  case (SetReputation e score)
  assume "experience_ok cfg s"
  with SetReputation show ?thesis
    by (simp add: setGlobalReputation_def experience_ok_def interactions_with_def list_interactions_def getExperience_def)
next
  case (RecordInteraction input)
  assume ok: "experience_ok cfg s"
  show ?thesis
  proof (cases rule: record_cases [of cfg input s])
    case (kept x)
    with RecordInteraction ok show ?thesis by simp
  next
    case read
    with RecordInteraction ok show ?thesis by (simp add: experience_ok_def interactions_with_def list_interactions_def getExperience_def)
  next
    case (recorded r t)
    have "list_interactions t = list_interactions s @ [r]" using recorded(4) by (simp add: list_interactions_def jm_values_def)
    with updateExperience_ok [OF ok recorded(2,3)] recorded(1) RecordInteraction show ?thesis by simp
  qed
qed

lemma experience_run: "experience_ok cfg s \<Longrightarrow> experience_ok cfg (run (interaction_step cfg) s cs)"
  by (induction cs arbitrary: s) (simp_all add: interaction_step_ok)

text \<open>
  (C38) After any calls, failed ones included, the counts, times and the trust the service keeps for an endpoint are those of the list of its
  recorded interactions: it is trusted exactly when enough of them succeeded and the last one that was not cancelled did; an endpoint
  never used has no experience, whatever reputation it was given.
\<close>

theorem experience_is_history:
  "getExperience e (run (interaction_step cfg) no_interactions cs) =
     experience_of (trust_threshold cfg) e (interactions_with e (run (interaction_step cfg) no_interactions cs))"
proof -
  have "experience_ok cfg no_interactions"
    by (simp add: experience_ok_def no_interactions_def getExperience_def interactions_with_def list_interactions_def jm_values_def
        experience_of_def outcomes_def last_time_def unresolved_def or_default_def)
  from experience_run [OF this, of cs] show ?thesis by (simp add: experience_ok_def)
qed

section \<open>Once\<close>

lemma record_grows: "\<exists>rs. it_records (interaction_step cfg s c) = it_records s @ rs"
proof (cases c)
  case (RecordInteraction input)
  show ?thesis
    by (cases rule: record_cases [of cfg input s]) (auto simp: RecordInteraction updateExperience_records)
qed (simp add: setGlobalReputation_def)

lemma records_grow: "\<exists>rs. it_records (run (interaction_step cfg) s cs) = it_records s @ rs"
proof (induction cs arbitrary: s)
  case (Cons c cs)
  from record_grows [of cfg s c] Cons [of "interaction_step cfg s c"] show ?case by auto
qed simp

text \<open>
  An interaction is counted once: recorded again under its key, after any calls, the first record is returned as a duplicate and
  nothing changes.
\<close>

theorem interaction_recorded_once:
  assumes "record_interaction cfg input s = (Inr (r, d), s1)" and "js_trim (ii_idempotencyKey again) = js_trim (ii_idempotencyKey input)"
  shows "record_interaction cfg again (run (interaction_step cfg) s1 cs) = (Inr (r, True), run (interaction_step cfg) s1 cs)"
proof -
  let ?key = "js_trim (ii_idempotencyKey input)"
  have "jm_get (it_records s1) ?key = Some r"
  proof (cases rule: record_cases [of cfg input s])
    case (kept x)
    with assms(1) show ?thesis by (auto simp: record_interaction_def Let_def split: option.splits if_splits)
  next
    case (recorded r' t)
    with assms(1) show ?thesis by (auto simp: updateExperience_records jm_get_def map_add_def)
  qed (use assms(1) in simp)
  moreover obtain rs where "it_records (run (interaction_step cfg) s1 cs) = it_records s1 @ rs" using records_grow by blast
  ultimately have "jm_get (it_records (run (interaction_step cfg) s1 cs)) ?key = Some r" by (simp add: jm_get_def map_add_def)
  with assms(2) show ?thesis by (simp add: record_interaction_def)
qed

definition sample_history :: interaction_config where
  "sample_history = \<lparr> ic_zod = zod_ref, ic_workspaceId = ''w'', ic_nodeId = ''n'', ic_primaryAgentRef = ''a'', ic_now = int, ic_trustedSuccessThreshold = None \<rparr>"

definition sample_interaction :: "string \<Rightarrow> interaction_input" where
  "sample_interaction e = \<lparr> ii_requestId = ''r'', ii_endpointRef = e, ii_endpointRevision = 1, ii_resultRef = None, ii_outcome = OcSUCCESS,
     ii_latencyMs = None, ii_usageRef = None, ii_idempotencyKey = ''k'' \<rparr>"

theorem interaction_recorded_once_witness:
  "\<exists>r s1. record_interaction sample_history (sample_interaction ''e'') no_interactions = (Inr (r, False), s1) \<and>
    record_interaction sample_history (sample_interaction ''e'') (run (interaction_step sample_history) s1 [SetReputation ''e'' 1]) =
      (Inr (r, True), run (interaction_step sample_history) s1 [SetReputation ''e'' 1])"
proof -
  have "case record_interaction sample_history (sample_interaction ''e'') no_interactions of (Inr (_, d), _) \<Rightarrow> \<not> d | (Inl _, _) \<Rightarrow> False" by code_simp
  then obtain r s1 where "record_interaction sample_history (sample_interaction ''e'') no_interactions = (Inr (r, False), s1)"
    by (auto split: prod.splits sum.splits)
  from interaction_recorded_once [OF this refl] this show ?thesis by blast
qed

text \<open>
  The history is filed under the endpoint as the caller named it, the experience under the name without surrounding spaces: an
  interaction reported with a space counts in the experience of the endpoint and is missing in its history.
\<close>

lemma padded_interaction_missing_in_history:
  "(let s = snd (record_interaction sample_history (sample_interaction '' e'') no_interactions) in
    xp_interactionCount (getExperience ''e'' s) = 1 \<and> inspectHistory ''e'' s = [])"
  by code_simp

text \<open>Trust is kept across revisions of an endpoint: three successes of one revision make the next one trusted after a cancelled call.\<close>

lemma trust_survives_revision:
  "(let call = (\<lambda>k revision oc. RecordInteraction ((sample_interaction ''e'') \<lparr> ii_idempotencyKey := k, ii_endpointRevision := revision, ii_outcome := oc \<rparr>));
        x = getExperience ''e'' (run (interaction_step sample_history) no_interactions
          [call ''1'' 1 OcSUCCESS, call ''2'' 1 OcSUCCESS, call ''3'' 1 OcSUCCESS, call ''4'' 2 OcCANCELLED])
    in xp_endpointRevision x = 2 \<and> xp_familiarity x = TRUSTED_BY_HISTORY)"
  by code_simp

end
