(* ===== verification/Attention.thy ===== *)
theory Attention
  imports Remote_Contracts Topology
begin

text \<open>
  The attention of \<open>spatial/topology/attention.ts\<close>: the queue of items an event raises (\<open>AttentionQueueService\<close>), their orbital
  markers (\<open>OrbitalAttentionMarkerService\<close>) and the focus on one item (\<open>AttentionFocusController\<close>).

  Clocks are streams of which the state counts the readings. The phase of a marker is computed in double precision:
  \<open>double_of\<close> rounds a rational that is zero or at least one half to the nearest double, ties to even; a phase is the decimal
  \<open>toFixed(4)\<close> gives. Sorting is stable, so sorting by two keys is sorting by the second and then by the first.
\<close>

section \<open>Contracts\<close>

datatype alert_severity = AlINFORMATION | AlCOMPLETED | AlATTENTION | AlACTION_REQUIRED | AlCRITICAL

datatype attention_state = AtUNREAD | AtSEEN | AtACKNOWLEDGED | AtRESOLVED | AtARCHIVED | AtDISMISSED | AtAGGREGATED

datatype attention_type = TyAUTONOMOUS_EVENT | TyENDPOINT_FAILURE | TyTASK_COMPLETE | TyAPPROVAL | TyFRESHNESS | TySECURITY

record attention_item =
  ai_attention_id :: string
  ai_source_event_ref :: string
  ai_subject_ref :: string
  ai_node_id :: string
  ai_workspace_id :: string
  ai_target_agent_ref :: string
  ai_attention_type :: attention_type
  ai_severity :: alert_severity
  ai_state :: attention_state
  ai_summary :: string
  ai_created_at :: timestamp
  ai_acknowledged_at :: "timestamp option"
  ai_redaction_profile_ref :: "string option"
  ai_grouping_key :: string
  ai_session_ref :: "string option"
  ai_required_action :: "string option"
  ai_provenance_ref :: "string option"

definition parseSpatialAttentionItem :: "zod \<Rightarrow> attention_item \<Rightarrow> attention_item option" where
  "parseSpatialAttentionItem z i = do {
     aid \<leftarrow> idSchema z (ai_attention_id i);
     source \<leftarrow> idSchema z (ai_source_event_ref i);
     subject \<leftarrow> idSchema z (ai_subject_ref i);
     node \<leftarrow> idSchema z (ai_node_id i);
     workspace \<leftarrow> idSchema z (ai_workspace_id i);
     agent \<leftarrow> idSchema z (ai_target_agent_ref i);
     summary \<leftarrow> labelSchema z (ai_summary i);
     profile \<leftarrow> nullable (idSchema z) (ai_redaction_profile_ref i);
     grouping \<leftarrow> idSchema z (ai_grouping_key i);
     session \<leftarrow> nullable (idSchema z) (ai_session_ref i);
     action \<leftarrow> nullable (idSchema z) (ai_required_action i);
     provenance \<leftarrow> nullable (idSchema z) (ai_provenance_ref i);
     Some (i \<lparr> ai_attention_id := aid, ai_source_event_ref := source, ai_subject_ref := subject, ai_node_id := node,
       ai_workspace_id := workspace, ai_target_agent_ref := agent, ai_summary := summary, ai_redaction_profile_ref := profile,
       ai_grouping_key := grouping, ai_session_ref := session, ai_required_action := action, ai_provenance_ref := provenance \<rparr>) }"

datatype orbit_lane = INNER | MIDDLE | OUTER

datatype marker_state = MkORBITING_UNREAD | MkAGGREGATED | MkSELECTED | MkFOCUSED | MkHIDDEN

record attention_marker =
  am_marker_id :: string
  am_attention_ref :: string
  am_workspace_id :: string
  am_node_id :: string
  am_orbit_lane :: orbit_lane
  am_radius :: rat
  am_phase :: rat
  am_angular_velocity :: rat
  am_severity :: alert_severity
  am_attention_type :: attention_type
  am_unread :: bool
  am_presentation_state :: marker_state
  am_aggregation_count :: int
  am_reduced_motion :: bool
  am_updated_at :: timestamp

definition parseSpatialAttentionMarker :: "zod \<Rightarrow> attention_marker \<Rightarrow> attention_marker option" where
  "parseSpatialAttentionMarker z m = do {
     mid \<leftarrow> idSchema z (am_marker_id m);
     aid \<leftarrow> idSchema z (am_attention_ref m);
     workspace \<leftarrow> idSchema z (am_workspace_id m);
     node \<leftarrow> idSchema z (am_node_id m);
     if z_finite_positive z (am_radius m) \<and> z_number_positive z (am_aggregation_count m)
       then Some (m \<lparr> am_marker_id := mid, am_attention_ref := aid, am_workspace_id := workspace, am_node_id := node \<rparr>) else None }"

datatype focus_state = FoINSPECTING | FoFOCUSED | FoRETURNED | FoSOURCE_UNAVAILABLE

record attention_focus =
  af_focus_id :: string
  af_attention_id :: string
  af_workspace_id :: string
  af_node_id :: string
  af_state :: focus_state
  af_previous_viewport_ref :: "string option"
  af_source_available :: bool
  af_world_position_preserved :: bool
  af_created_at :: timestamp
  af_updated_at :: timestamp

definition parseSpatialAttentionFocus :: "zod \<Rightarrow> attention_focus \<Rightarrow> attention_focus option" where
  "parseSpatialAttentionFocus z f = do {
     fid \<leftarrow> idSchema z (af_focus_id f);
     aid \<leftarrow> idSchema z (af_attention_id f);
     workspace \<leftarrow> idSchema z (af_workspace_id f);
     node \<leftarrow> idSchema z (af_node_id f);
     viewport \<leftarrow> nullable (idSchema z) (af_previous_viewport_ref f);
     Some (f \<lparr> af_focus_id := fid, af_attention_id := aid, af_workspace_id := workspace, af_node_id := node,
       af_previous_viewport_ref := viewport \<rparr>) }"

section \<open>The queue\<close>

record attention_config =
  aq_zod :: zod
  aq_workspaceId :: string
  aq_nodeId :: string
  aq_targetAgentRef :: string
  aq_now :: "nat \<Rightarrow> timestamp"
  aq_maxItems :: "int option"

record raise_input =
  ra_sourceEventRef :: string
  ra_subjectRef :: string
  ra_severity :: alert_severity
  ra_attentionType :: "attention_type option"
  ra_summary :: string
  ra_groupingKey :: string
  ra_redactionProfileRef :: "string option"
  ra_sessionRef :: "string option"
  ra_requiredAction :: "string option"
  ra_provenanceRef :: "string option"

datatype attention_code = INVALID_ITEM | UNKNOWN_ITEM | ATTENTION_TRANSITION | ATTENTION_SCOPE

record attention_queue =
  at_items :: "(string, attention_item) jsmap"
  at_sourceIndex :: "(string, string) jsmap"
  at_connected :: bool
  at_clock :: nat

definition empty_attention :: attention_queue where
  "empty_attention = \<lparr> at_items = [], at_sourceIndex = [], at_connected = True, at_clock = 0 \<rparr>"

fun severityRank :: "alert_severity \<Rightarrow> int" where
  "severityRank AlINFORMATION = 1"
| "severityRank AlCOMPLETED = 2"
| "severityRank AlATTENTION = 3"
| "severityRank AlACTION_REQUIRED = 4"
| "severityRank AlCRITICAL = 5"

definition MARKUP :: regex where
  "MARKUP = re_seq [re_lit CHR ''<'', re_plus (RChar (\<lambda>c. c \<noteq> CHR ''>'')), re_lit CHR ''>'']"

definition SUMMARY_SECRET :: regex where
  "SUMMARY_SECRET = re_seq [
     re_alts [re_str ''token'', re_str ''secret'', re_str ''password'', re_seq [re_str ''api'', re_opt (re_oneof ''_ -''), re_str ''key'']],
     RStar re_space, re_oneof '':='', RStar re_space, re_plus (RChar (\<lambda>c. \<not> js_space c))]"

text \<open>The pattern has no group, so \<open>$1\<close> in the replacement stands for itself.\<close>

definition redactSummary :: "string \<Rightarrow> string" where
  "redactSummary summary = take 240 (js_trim (re_replace_all SUMMARY_SECRET ''$1: [redacted]'' None (re_replace_all MARKUP [] None summary)))"

definition attention_maxItems :: "attention_config \<Rightarrow> int" where
  "attention_maxItems cfg = max 1 (min 100000 (or_default (aq_maxItems cfg) 10000))"

definition attention_get :: "string \<Rightarrow> attention_queue \<Rightarrow> (attention_code, attention_item, attention_queue) outcome" where
  "attention_get attentionId q = (case jm_get (at_items q) attentionId of None \<Rightarrow> throw UNKNOWN_ITEM q | Some i \<Rightarrow> return i q)"

definition remove_item :: "attention_item \<Rightarrow> attention_queue \<Rightarrow> attention_queue" where
  "remove_item i q = q \<lparr> at_items := jm_delete (ai_attention_id i) (at_items q), at_sourceIndex := jm_delete (ai_source_event_ref i) (at_sourceIndex q) \<rparr>"

fun trim_loop :: "int \<Rightarrow> attention_item list \<Rightarrow> attention_queue \<Rightarrow> attention_queue" where
  "trim_loop n [] q = q"
| "trim_loop n (i # rest) q = (if int (length (at_items q)) \<le> n then q else trim_loop n rest (remove_item i q))"

definition removable :: "attention_item \<Rightarrow> bool" where
  "removable i \<longleftrightarrow> ai_severity i \<noteq> AlCRITICAL \<and> ai_state i \<noteq> AtUNREAD"

definition attention_trim :: "attention_config \<Rightarrow> attention_queue \<Rightarrow> attention_queue" where
  "attention_trim cfg q = (if int (length (at_items q)) \<le> attention_maxItems cfg then q
     else trim_loop (attention_maxItems cfg) (sort_key ai_created_at (filter removable (jm_values (at_items q)))) q)"

definition attention_candidate :: "attention_config \<Rightarrow> raise_input \<Rightarrow> timestamp \<Rightarrow> attention_item" where
  "attention_candidate cfg input now = \<lparr> ai_attention_id = ''attention:'' @ ra_sourceEventRef input, ai_source_event_ref = ra_sourceEventRef input,
     ai_subject_ref = ra_subjectRef input, ai_node_id = aq_nodeId cfg, ai_workspace_id = aq_workspaceId cfg,
     ai_target_agent_ref = aq_targetAgentRef cfg, ai_attention_type = or_default (ra_attentionType input) TyAUTONOMOUS_EVENT,
     ai_severity = ra_severity input, ai_state = AtUNREAD, ai_summary = redactSummary (ra_summary input), ai_created_at = now,
     ai_acknowledged_at = None, ai_redaction_profile_ref = ra_redactionProfileRef input, ai_grouping_key = ra_groupingKey input,
     ai_session_ref = ra_sessionRef input, ai_required_action = ra_requiredAction input, ai_provenance_ref = ra_provenanceRef input \<rparr>"

definition store_item :: "attention_item \<Rightarrow> attention_queue \<Rightarrow> attention_queue" where
  "store_item i q = q \<lparr> at_items := jm_set (ai_attention_id i) i (at_items q),
     at_sourceIndex := jm_set (ai_source_event_ref i) (ai_attention_id i) (at_sourceIndex q) \<rparr>"

definition attention_raise :: "attention_config \<Rightarrow> raise_input \<Rightarrow> attention_queue
    \<Rightarrow> (attention_code, attention_item \<times> bool, attention_queue) outcome" where
  "attention_raise cfg input q =
     (if js_truthy (jm_get (at_sourceIndex q) (ra_sourceEventRef input))
        then seqO (attention_get (the (jm_get (at_sourceIndex q) (ra_sourceEventRef input))) q) (\<lambda>i q. return (i, True) q)
      else if js_trim (ra_sourceEventRef input) = [] \<or> js_trim (ra_subjectRef input) = [] \<or> js_trim (ra_summary input) = []
        then throw INVALID_ITEM q
      else let now = aq_now cfg (at_clock q); q1 = q \<lparr> at_clock := at_clock q + 1 \<rparr> in
        case parseSpatialAttentionItem (aq_zod cfg) (attention_candidate cfg input now) of
          None \<Rightarrow> throw INVALID_ITEM q1
        | Some i \<Rightarrow> return (i, False) (attention_trim cfg (store_item i q1)))"

definition closed_states :: "attention_state list" where
  "closed_states = [AtRESOLVED, AtARCHIVED, AtDISMISSED]"

definition attention_list :: "bool \<Rightarrow> attention_queue \<Rightarrow> attention_item list" where
  "attention_list includeResolved q = sort_key (\<lambda>i. - severityRank (ai_severity i)) (sort_key (\<lambda>i. - ai_created_at i)
     (filter (\<lambda>i. includeResolved \<or> ai_state i \<notin> set closed_states) (jm_values (at_items q))))"

fun attention_next :: "attention_state \<Rightarrow> attention_state list" where
  "attention_next AtUNREAD = [AtSEEN, AtDISMISSED, AtAGGREGATED, AtARCHIVED]"
| "attention_next AtSEEN = [AtACKNOWLEDGED, AtDISMISSED, AtAGGREGATED, AtARCHIVED]"
| "attention_next AtACKNOWLEDGED = [AtRESOLVED, AtDISMISSED, AtARCHIVED]"
| "attention_next AtAGGREGATED = [AtSEEN, AtACKNOWLEDGED, AtDISMISSED, AtARCHIVED]"
| "attention_next AtRESOLVED = [AtARCHIVED]"
| "attention_next AtDISMISSED = [AtARCHIVED]"
| "attention_next AtARCHIVED = []"

definition attention_transition :: "attention_config \<Rightarrow> string \<Rightarrow> attention_state \<Rightarrow> attention_queue
    \<Rightarrow> (attention_code, attention_item, attention_queue) outcome" where
  "attention_transition cfg attentionId state q = (case jm_get (at_items q) attentionId of
     None \<Rightarrow> throw UNKNOWN_ITEM q
   | Some current \<Rightarrow>
       if ai_state current \<noteq> state \<and> state \<notin> set (attention_next (ai_state current)) then throw ATTENTION_TRANSITION q
       else let stamp = (state = AtACKNOWLEDGED \<and> ai_acknowledged_at current = None);
                i = current \<lparr> ai_state := state, ai_acknowledged_at := (if stamp then Some (aq_now cfg (at_clock q)) else ai_acknowledged_at current) \<rparr>
            in return i (q \<lparr> at_clock := (if stamp then at_clock q + 1 else at_clock q), at_items := jm_set attentionId i (at_items q) \<rparr>))"

definition setConnected :: "bool \<Rightarrow> attention_queue \<Rightarrow> attention_queue" where
  "setConnected b q = q \<lparr> at_connected := b \<rparr>"

definition attention_reconnect :: "attention_queue \<Rightarrow> attention_item list \<times> attention_queue" where
  "attention_reconnect q = (attention_list False (q \<lparr> at_connected := True \<rparr>), q \<lparr> at_connected := True \<rparr>)"

definition attention_snapshot :: "attention_queue \<Rightarrow> attention_item list \<times> bool" where
  "attention_snapshot q = (jm_values (at_items q), at_connected q)"

fun restore_items :: "attention_config \<Rightarrow> attention_item list \<Rightarrow> attention_queue \<Rightarrow> (attention_code, unit, attention_queue) outcome" where
  "restore_items cfg [] q = return () q"
| "restore_items cfg (i # is) q = (case parseSpatialAttentionItem (aq_zod cfg) i of
     None \<Rightarrow> throw INVALID_ITEM q
   | Some p \<Rightarrow> if ai_workspace_id p \<noteq> aq_workspaceId cfg \<or> ai_node_id p \<noteq> aq_nodeId cfg \<or> ai_target_agent_ref p \<noteq> aq_targetAgentRef cfg
       then throw ATTENTION_SCOPE q
       else restore_items cfg is (store_item p q))"

definition attention_restore :: "attention_config \<Rightarrow> attention_item list \<Rightarrow> bool option \<Rightarrow> attention_queue \<Rightarrow> (attention_code, unit, attention_queue) outcome" where
  "attention_restore cfg items online q =
     seqO (restore_items cfg items (q \<lparr> at_items := [], at_sourceIndex := [] \<rparr>)) (\<lambda>_ q.
     return () (attention_trim cfg (q \<lparr> at_connected := or_default online True \<rparr>)))"

fun markAggregated :: "attention_config \<Rightarrow> string list \<Rightarrow> attention_queue \<Rightarrow> (attention_code, attention_item list, attention_queue) outcome" where
  "markAggregated cfg [] q = return [] q"
| "markAggregated cfg (a # as) q = seqO (attention_transition cfg a AtAGGREGATED q) (\<lambda>i q. seqO (markAggregated cfg as q) (\<lambda>is q. return (i # is) q))"

section \<open>Orbital markers\<close>

record marker_config =
  mk_zod :: zod
  mk_workspaceId :: string
  mk_nodeId :: string
  mk_now :: "nat \<Rightarrow> timestamp"
  mk_maxVisible :: "int option"
  mk_reducedMotion :: "bool option"

record marker_service =
  os_slots :: "(string, orbit_lane \<times> rat) jsmap"
  os_hidden :: "string list"
  os_readings :: nat

definition round_even :: "rat \<Rightarrow> int" where
  "round_even q = (let n = \<lfloor>q\<rfloor>; d = q - of_int n in if d < 1 / 2 then n else if 1 / 2 < d then n + 1 else if even n then n else n + 1)"

fun bit_length :: "nat \<Rightarrow> nat" where
  "bit_length n = (if n = 0 then 0 else Suc (bit_length (n div 2)))"

declare bit_length.simps [simp del]

text \<open>Doubles have 53 bits: a rational between \<open>2 ^ (b - 1)\<close> and \<open>2 ^ b\<close> is rounded to a multiple of \<open>2 ^ (b - 53)\<close>.\<close>

definition double_of :: "rat \<Rightarrow> rat" where
  "double_of q = (let ulp = 2 ^ bit_length (nat \<lfloor>q\<rfloor>) / 2 ^ 53 in of_int (round_even (q / ulp)) * ulp)"

text \<open>\<open>Math.PI * 2\<close>\<close>

definition TWO_PI :: rat where
  "TWO_PI = 884279719003555 / 140737488355328"

definition orbit_phase :: "nat \<Rightarrow> rat" where
  "orbit_phase index = (let x = double_of (of_nat index * double_of (73 / 100)); r = x - of_int \<lfloor>x / TWO_PI\<rfloor> * TWO_PI in
     of_int \<lfloor>r * 10000 + 1 / 2\<rfloor> / 10000)"

definition orbit_lane_of :: "alert_severity \<Rightarrow> orbit_lane" where
  "orbit_lane_of sev = (if sev = AlCRITICAL \<or> sev = AlACTION_REQUIRED then INNER else if sev = AlCOMPLETED then MIDDLE else OUTER)"

definition markerFor :: "marker_config \<Rightarrow> attention_item \<Rightarrow> nat \<Rightarrow> int \<Rightarrow> bool \<Rightarrow> marker_service
    \<Rightarrow> (attention_code, attention_marker, marker_service) outcome" where
  "markerFor cfg i index aggregationCount grouped s =
     (let lane = orbit_lane_of (ai_severity i);
          phase = (case jm_get (os_slots s) (ai_attention_id i) of Some saved \<Rightarrow> snd saved | None \<Rightarrow> orbit_phase index);
          s1 = s \<lparr> os_slots := jm_set (ai_attention_id i) (lane, phase) (os_slots s), os_readings := os_readings s + 1 \<rparr>;
          reducedMotion = or_default (mk_reducedMotion cfg) False in
      case parseSpatialAttentionMarker (mk_zod cfg) \<lparr> am_marker_id = ''marker:'' @ ai_attention_id i, am_attention_ref = ai_attention_id i,
          am_workspace_id = mk_workspaceId cfg, am_node_id = mk_nodeId cfg, am_orbit_lane = lane,
          am_radius = (case lane of INNER \<Rightarrow> 18 / 10 | MIDDLE \<Rightarrow> 25 / 10 | OUTER \<Rightarrow> 32 / 10), am_phase = phase,
          am_angular_velocity = (if reducedMotion then 0 else case lane of INNER \<Rightarrow> 18 / 1000 | MIDDLE \<Rightarrow> 12 / 1000 | OUTER \<Rightarrow> 8 / 1000),
          am_severity = ai_severity i, am_attention_type = ai_attention_type i, am_unread = (ai_state i = AtUNREAD),
          am_presentation_state = (if grouped then MkAGGREGATED else if ai_state i = AtUNREAD then MkORBITING_UNREAD else MkSELECTED),
          am_aggregation_count = aggregationCount, am_reduced_motion = reducedMotion, am_updated_at = mk_now cfg (os_readings s) \<rparr> of
        None \<Rightarrow> throw INVALID_ITEM s1
      | Some m \<Rightarrow> return m s1)"

definition active_items :: "marker_service \<Rightarrow> attention_item list \<Rightarrow> attention_item list" where
  "active_items s items = filter (\<lambda>i. ai_state i \<notin> set closed_states \<and> ai_attention_id i \<notin> set (os_hidden s)) items"

definition urgent :: "attention_item \<Rightarrow> bool" where
  "urgent i \<longleftrightarrow> ai_severity i = AlCRITICAL \<or> ai_severity i = AlACTION_REQUIRED"

fun severity_name :: "alert_severity \<Rightarrow> string" where
  "severity_name AlINFORMATION = ''INFORMATION''"
| "severity_name AlCOMPLETED = ''COMPLETED''"
| "severity_name AlATTENTION = ''ATTENTION''"
| "severity_name AlACTION_REQUIRED = ''ACTION_REQUIRED''"
| "severity_name AlCRITICAL = ''CRITICAL''"

definition group_key :: "attention_item \<Rightarrow> string" where
  "group_key i = ai_grouping_key i @ '':'' @ severity_name (ai_severity i)"

definition attention_groups :: "attention_item list \<Rightarrow> (string, attention_item list) jsmap" where
  "attention_groups items = foldl (\<lambda>m i. jm_set (group_key i) (or_default (jm_get m (group_key i)) [] @ [i]) m) [] items"

definition marker_entries :: "marker_config \<Rightarrow> marker_service \<Rightarrow> attention_item list \<Rightarrow> (attention_item \<times> int \<times> bool) list" where
  "marker_entries cfg s items =
     (let maxVisible = max 1 (min 32 (or_default (mk_maxVisible cfg) 8)); active = active_items s items;
          critical = filter urgent active; regular = filter (\<lambda>i. \<not> urgent i) active;
          grouped = map (\<lambda>g. (hd g, int (length g), 1 < length g)) (jm_values (attention_groups regular));
          ranked = sort_key (\<lambda>e. - severityRank (ai_severity (fst e))) (sort_key (\<lambda>e. - ai_created_at (fst e)) grouped);
          regularSlots = nat (max 0 (maxVisible - int (length critical)))
      in map (\<lambda>i. (i, 1, False)) critical @ take regularSlots ranked)"

fun markers_from :: "marker_config \<Rightarrow> nat \<Rightarrow> (attention_item \<times> int \<times> bool) list \<Rightarrow> marker_service
    \<Rightarrow> (attention_code, attention_marker list, marker_service) outcome" where
  "markers_from cfg index [] s = return [] s"
| "markers_from cfg index ((i, count, grouped) # es) s =
     seqO (markerFor cfg i index count grouped s) (\<lambda>m s. seqO (markers_from cfg (Suc index) es s) (\<lambda>ms s. return (m # ms) s))"

definition marker_project :: "marker_config \<Rightarrow> attention_item list \<Rightarrow> marker_service \<Rightarrow> (attention_code, attention_marker list, marker_service) outcome" where
  "marker_project cfg items s = markers_from cfg 0 (marker_entries cfg s items) s"

definition marker_hide :: "string \<Rightarrow> marker_service \<Rightarrow> marker_service" where
  "marker_hide attentionId s = s \<lparr> os_hidden := List.insert attentionId (os_hidden s) \<rparr>"

definition marker_show :: "string \<Rightarrow> marker_service \<Rightarrow> marker_service" where
  "marker_show attentionId s = s \<lparr> os_hidden := removeAll attentionId (os_hidden s) \<rparr>"

section \<open>Focus\<close>

datatype attention_action = ActINSPECT | ActACKNOWLEDGE | ActDISMISS | ActARCHIVE | ActOPEN_SOURCE | ActPROPOSE_ACTION
  | ActSHOW_IN_WORKSPACE | ActRETURN_VIEWPORT

datatype focus_error = QueueFailed attention_code | SOURCE_UNAVAILABLE | INVALID_ACTION

record focus_config =
  fo_queue :: attention_config
  fo_workspaceId :: string
  fo_nodeId :: string
  fo_now :: "nat \<Rightarrow> timestamp"
  fo_sourceAvailable :: "(string \<Rightarrow> bool) option"
  fo_onProposeAction :: "(attention_item \<Rightarrow> bool \<times> string option) option"

record focus_controller =
  fs_queue :: attention_queue
  fs_current :: "attention_focus option"
  fs_clock :: nat

text \<open>A call of the queue from the controller.\<close>

definition on_queue :: "(attention_queue \<Rightarrow> (attention_code, 'a, attention_queue) outcome) \<Rightarrow> focus_controller
    \<Rightarrow> (focus_error, 'a, focus_controller) outcome" where
  "on_queue f s = (case f (fs_queue s) of (Inl e, q) \<Rightarrow> throw (QueueFailed e) (s \<lparr> fs_queue := q \<rparr>) | (Inr a, q) \<Rightarrow> return a (s \<lparr> fs_queue := q \<rparr>))"

definition focus_on :: "focus_config \<Rightarrow> string \<Rightarrow> string option \<Rightarrow> focus_controller \<Rightarrow> (focus_error, attention_focus, focus_controller) outcome" where
  "focus_on cfg attentionId previousViewportRef s =
     seqO (on_queue (attention_get attentionId) s) (\<lambda>i s.
     let available = (case fo_sourceAvailable cfg of None \<Rightarrow> True | Some f \<Rightarrow> f (ai_subject_ref i)); now = fo_now cfg (fs_clock s);
         s = s \<lparr> fs_clock := fs_clock s + 1 \<rparr> in
     case parseSpatialAttentionFocus (aq_zod (fo_queue cfg)) \<lparr> af_focus_id = ''focus:'' @ attentionId, af_attention_id = attentionId,
         af_workspace_id = fo_workspaceId cfg, af_node_id = fo_nodeId cfg, af_state = (if available then FoFOCUSED else FoSOURCE_UNAVAILABLE),
         af_previous_viewport_ref = previousViewportRef, af_source_available = available, af_world_position_preserved = True,
         af_created_at = now, af_updated_at = now \<rparr> of
       None \<Rightarrow> throw INVALID_ACTION s
     | Some f \<Rightarrow> let s = s \<lparr> fs_current := Some f \<rparr> in
         if ai_state i = AtUNREAD then seqO (on_queue (attention_transition (fo_queue cfg) attentionId AtSEEN) s) (\<lambda>_ s. return f s)
         else return f s)"

definition current_or_focus :: "focus_config \<Rightarrow> string \<Rightarrow> focus_controller \<Rightarrow> (focus_error, attention_focus, focus_controller) outcome" where
  "current_or_focus cfg attentionId s = (case fs_current s of
     Some f \<Rightarrow> if af_attention_id f = attentionId then return f s else focus_on cfg attentionId None s
   | None \<Rightarrow> focus_on cfg attentionId None s)"

definition inspecting :: "attention_focus \<Rightarrow> attention_focus" where
  "inspecting f = (if af_state f = FoSOURCE_UNAVAILABLE then f else f \<lparr> af_state := FoINSPECTING \<rparr>)"

definition focus_inspect :: "focus_config \<Rightarrow> string \<Rightarrow> focus_controller \<Rightarrow> (focus_error, attention_focus, focus_controller) outcome" where
  "focus_inspect cfg attentionId s = seqO (current_or_focus cfg attentionId s) (\<lambda>f s. return (inspecting f) s)"

definition returnFromFocus :: "focus_config \<Rightarrow> focus_controller \<Rightarrow> (focus_error, attention_focus, focus_controller) outcome" where
  "returnFromFocus cfg s = (case fs_current s of
     None \<Rightarrow> throw INVALID_ACTION s
   | Some f \<Rightarrow> let g = f \<lparr> af_state := FoRETURNED, af_updated_at := fo_now cfg (fs_clock s) \<rparr> in
       return g (s \<lparr> fs_current := Some g, fs_clock := fs_clock s + 1 \<rparr>))"

text \<open>The focus and the reference of a plan; \<open>cameraChanged\<close> is false in every case.\<close>

definition focus_execute :: "focus_config \<Rightarrow> attention_action \<Rightarrow> string \<Rightarrow> focus_controller
    \<Rightarrow> (focus_error, attention_focus \<times> string option \<times> bool, focus_controller) outcome" where
  "focus_execute cfg action attentionId s =
     seqO (current_or_focus cfg attentionId s) (\<lambda>f s.
     seqO (on_queue (attention_get attentionId) s) (\<lambda>i s.
     case action of
       ActINSPECT \<Rightarrow> return (inspecting f, None, False) s
     | ActACKNOWLEDGE \<Rightarrow> seqO (on_queue (attention_transition (fo_queue cfg) attentionId AtACKNOWLEDGED) s) (\<lambda>_ s. return (f, None, False) s)
     | ActDISMISS \<Rightarrow> seqO (on_queue (attention_transition (fo_queue cfg) attentionId AtDISMISSED) s) (\<lambda>_ s. return (f, None, False) s)
     | ActARCHIVE \<Rightarrow> seqO (on_queue (attention_transition (fo_queue cfg) attentionId AtARCHIVED) s) (\<lambda>_ s. return (f, None, False) s)
     | ActOPEN_SOURCE \<Rightarrow> if af_source_available f then return (f, None, False) s else throw SOURCE_UNAVAILABLE s
     | ActSHOW_IN_WORKSPACE \<Rightarrow> return (f, None, False) s
     | ActPROPOSE_ACTION \<Rightarrow> (case fo_onProposeAction cfg of
         None \<Rightarrow> throw INVALID_ACTION s
       | Some propose \<Rightarrow> if fst (propose i) then return (f, snd (propose i), False) s else throw INVALID_ACTION s)
     | ActRETURN_VIEWPORT \<Rightarrow> seqO (returnFromFocus cfg s) (\<lambda>g s. return (g, None, False) s)))"

end
