(* ===== verification/Attention_Properties.thy ===== *)
theory Attention_Properties
  imports Attention Status_Properties Workspace_Properties
begin

text \<open>
  What the attention queue keeps under any calls, what its markers show, and where it does not do what it means to.
\<close>

section \<open>Items\<close>

lemma item_normalising [schema_normalising]: "normalising (parseSpatialAttentionItem z)"
  unfolding normalising_def parseSpatialAttentionItem_def
  by (clarsimp simp: bind_eq_Some_conv)
    (intro exI conjI; (rule refl | erule normalisingD [rotated]; intro schema_normalising))


text \<open>The identifier of the item an event raises.\<close>

definition attention_key :: "string \<Rightarrow> string" where
  "attention_key e = ''attention:'' @ e"

lemma attention_key_inj [simp]: "attention_key e = attention_key e' \<longleftrightarrow> e = e'"
  by (simp add: attention_key_def)


section \<open>Calls\<close>

datatype attention_call =
    Raise raise_input
  | Transition string attention_state
  | Aggregate "string list"
  | Connect bool

fun attention_step :: "attention_config \<Rightarrow> attention_queue \<Rightarrow> attention_call \<Rightarrow> attention_queue" where
  "attention_step cfg q (Raise input) = snd (attention_raise cfg input q)"
| "attention_step cfg q (Transition k st) = snd (attention_transition cfg k st q)"
| "attention_step cfg q (Aggregate ks) = snd (markAggregated cfg ks q)"
| "attention_step cfg q (Connect b) = setConnected b q"



fun stage :: "attention_state \<Rightarrow> nat" where
  "stage AtUNREAD = 0"
| "stage AtSEEN = 1"
| "stage AtAGGREGATED = 1"
| "stage AtACKNOWLEDGED = 2"
| "stage AtRESOLVED = 3"
| "stage AtDISMISSED = 3"
| "stage AtARCHIVED = 4"

text \<open>The same item later: nothing but its state and the time of its acknowledgement may have changed, and these only forwards.\<close>

definition later_item :: "attention_item \<Rightarrow> attention_item \<Rightarrow> bool" where
  "later_item i j \<longleftrightarrow> j \<lparr> ai_state := ai_state i, ai_acknowledged_at := ai_acknowledged_at i \<rparr> = i \<and> stage (ai_state i) \<le> stage (ai_state j) \<and>
     (ai_acknowledged_at i \<noteq> None \<longrightarrow> ai_acknowledged_at j = ai_acknowledged_at i)"

lemma later_refl [simp]: "later_item i i"
  by (simp add: later_item_def)


















section \<open>Markers\<close>

definition shows_entry :: "attention_item \<times> int \<times> bool \<Rightarrow> attention_marker \<Rightarrow> bool" where
  "shows_entry = (\<lambda>(i, count, grouped) m. am_attention_ref m = js_trim (ai_attention_id i) \<and> am_severity m = ai_severity i \<and>
     am_orbit_lane m = orbit_lane_of (ai_severity i) \<and> am_unread m = (ai_state i = AtUNREAD) \<and> am_aggregation_count m = count \<and>
     (am_presentation_state m = MkAGGREGATED \<longleftrightarrow> grouped))"

lemma marker_keeps:
  assumes "parseSpatialAttentionMarker z m = Some n"
  shows "am_attention_ref n = js_trim (am_attention_ref m)" "am_severity n = am_severity m" "am_orbit_lane n = am_orbit_lane m"
    "am_unread n = am_unread m" "am_aggregation_count n = am_aggregation_count m" "am_presentation_state n = am_presentation_state m"
  using assms by (clarsimp simp: parseSpatialAttentionMarker_def bind_eq_Some_conv split: if_splits; auto dest: idSchema_trim)+

lemma markerFor_shows: "markerFor cfg i n count grouped s = (Inr m, s') \<Longrightarrow> shows_entry (i, count, grouped) m"
  unfolding markerFor_def Let_def by (auto simp: shows_entry_def marker_keeps split: option.splits if_splits)

lemma markers_from_shows: "markers_from cfg n es s = (Inr ms, s') \<Longrightarrow> list_all2 shows_entry es ms"
proof (induction cfg n es s arbitrary: ms s' rule: markers_from.induct)
  case (2 cfg n i count grouped es s)
  then show ?case by (auto simp: seqO_def markerFor_shows split: prod.splits sum.splits)
qed simp







section \<open>Focus\<close>

lemma transition_other: "k' \<noteq> k \<Longrightarrow> jm_get (at_items (snd (attention_transition cfg k st q))) k' = jm_get (at_items q) k'"
  by (simp add: attention_transition_def Let_def split: option.split)

lemma on_queue_keeps:
  assumes "\<And>q. jm_get (at_items (snd (f q))) k = jm_get (at_items q) k" and "on_queue f s = (r, s')"
  shows "jm_get (at_items (fs_queue s')) k = jm_get (at_items (fs_queue s)) k"
  using assms(1) [of "fs_queue s"] assms(2) by (auto simp: on_queue_def split: prod.splits sum.splits)

lemma on_queue_get: "on_queue (attention_get k) s = (r, s') \<Longrightarrow> s' = s"
  by (auto simp: on_queue_def attention_get_def split: option.splits)

lemma focus_on_other:
  assumes "k' \<noteq> k" and "focus_on cfg k viewport s = (r, s')"
  shows "jm_get (at_items (fs_queue s')) k' = jm_get (at_items (fs_queue s)) k'"
proof -
  obtain x s1 where g: "on_queue (attention_get k) s = (x, s1)" by (cases "on_queue (attention_get k) s")
  note same = on_queue_get [OF g]
  show ?thesis
  proof (cases x)
    case (Inl e)
    with assms(2) g same show ?thesis by (simp add: focus_on_def)
  next
    case (Inr i)
    have keep: "jm_get (at_items (fs_queue t)) k' = jm_get (at_items (fs_queue u)) k'"
      if "seqO (on_queue (attention_transition (fo_queue cfg) k AtSEEN) u) (\<lambda>_ s. return f s) = (r, t)" for f u t
      using that on_queue_keeps [of "attention_transition (fo_queue cfg) k AtSEEN" k' u, OF transition_other [OF assms(1)]]
      by (auto simp: seqO_def split: prod.splits sum.splits)
    show ?thesis using assms(2) g Inr same
      by (auto simp: focus_on_def Let_def split: option.splits if_splits dest!: keep)
  qed
qed

lemma current_or_focus_other:
  "k' \<noteq> k \<Longrightarrow> current_or_focus cfg k s = (r, s') \<Longrightarrow> jm_get (at_items (fs_queue s')) k' = jm_get (at_items (fs_queue s)) k'"
  by (auto simp: current_or_focus_def focus_on_other split: option.splits if_splits)

text \<open>An action on an item changes no other item, and never moves the camera.\<close>

lemma focus_changes_one_item:
  assumes "k' \<noteq> k" and "focus_execute cfg action k s = (r, s')"
  shows "jm_get (at_items (fs_queue s')) k' = jm_get (at_items (fs_queue s)) k' \<and> (\<forall>f p camera. r = Inr (f, p, camera) \<longrightarrow> \<not> camera)"
proof -
  obtain x s1 where c: "current_or_focus cfg k s = (x, s1)" by (cases "current_or_focus cfg k s")
  note first = current_or_focus_other [OF assms(1) c]
  show ?thesis
  proof (cases x)
    case (Inl e)
    with assms(2) c first show ?thesis by (auto simp: focus_execute_def)
  next
    case (Inr f)
    obtain y s2 where g: "on_queue (attention_get k) s1 = (y, s2)" by (cases "on_queue (attention_get k) s1")
    note same = on_queue_get [OF g]
    have keep: "jm_get (at_items (fs_queue t)) k' = jm_get (at_items (fs_queue s1)) k' \<and> (\<forall>f p camera. r' = Inr (f, p, camera) \<longrightarrow> \<not> camera)"
      if "seqO (on_queue (attention_transition (fo_queue cfg) k st) s1) (\<lambda>_ s. return (f, None, False) s) = (r', t)" for st t r'
      using that on_queue_keeps [of "attention_transition (fo_queue cfg) k st" k' s1, OF transition_other [OF assms(1)]]
      by (auto simp: seqO_def split: prod.splits sum.splits)
    show ?thesis
    proof (cases y)
      case (Inl e)
      with assms(2) c g Inr same first show ?thesis by (auto simp: focus_execute_def)
    next
      case item: (Inr i)
      show ?thesis using assms(2) c g Inr item same first
        by (cases action) (auto simp: focus_execute_def returnFromFocus_def Let_def split: option.splits if_splits dest: keep)
    qed
  qed
qed

section \<open>A queue that runs\<close>

definition sample_attention :: attention_config where
  "sample_attention = \<lparr> aq_zod = zod_ref, aq_workspaceId = ''w'', aq_nodeId = ''n'', aq_targetAgentRef = ''a'', aq_now = int, aq_maxItems = Some 1 \<rparr>"

definition sample_event :: "string \<Rightarrow> alert_severity \<Rightarrow> raise_input" where
  "sample_event e sev = \<lparr> ra_sourceEventRef = e, ra_subjectRef = ''s'', ra_severity = sev, ra_attentionType = None, ra_summary = ''x'',
     ra_groupingKey = ''g'', ra_redactionProfileRef = None, ra_sessionRef = None, ra_requiredAction = None, ra_provenanceRef = None \<rparr>"







section \<open>Where the attention does not do what it means to\<close>

text \<open>The limit on markers does not hold for urgent items: as many are shown as there are.\<close>

lemma urgent_markers_unbounded:
  "marker_project cfg items s = (Inr ms, s') \<Longrightarrow> length (filter urgent (active_items s items)) \<le> length ms"
  unfolding marker_project_def by (drule markers_from_shows, drule list_all2_lengthD) (simp add: marker_entries_def Let_def)

text \<open>The redaction of a summary refers to a group the pattern does not have, so \<open>$1\<close> is shown.\<close>

lemma redaction_shows_placeholder: "redactSummary ''login token=abc failed'' = ''login $1: [redacted] failed''"
  by code_simp

text \<open>A snapshot that is refused has already emptied the queue.\<close>

lemma refused_restore_empties_queue:
  assumes "parseSpatialAttentionItem (aq_zod cfg) i = None"
  shows "attention_restore cfg (i # is) online q = (Inl INVALID_ITEM, q \<lparr> at_items := [], at_sourceIndex := [] \<rparr>)"
  using assms by (simp add: attention_restore_def)

text \<open>
  An event is looked up as it is named and stored without the spaces around it: raised again under a name with a space, a dismissed item
  is unread again.
\<close>

lemma padded_event_unread_again:
  "map ai_state (jm_values (at_items (run (attention_step sample_attention) empty_attention
     [Raise (sample_event '' e'' AlCRITICAL), Transition ''attention: e'' AtDISMISSED, Raise (sample_event '' e'' AlCRITICAL)]))) = [AtUNREAD]"
  by code_simp

end
