(* ===== verification/Spec2Isabelle.thy ===== *)
theory Spec2Isabelle
  imports Slot_Properties Binding_Properties Delivery_Properties Session_Properties Multi_Device_Properties Event_Properties
    Conversation_Properties Intent_Gateway Topology_Properties Rollout_Properties
    Status_Properties Recovery_Properties Authorization_Properties Hardening_Properties Workspace_Properties Mediation_Properties
    Provenance_Properties Attention_Properties
begin

text \<open>
  A verification of the core of the Spatial operator dashboard of AiDN, the TypeScript code under
  \<open>src/web/operator-dashboard/src/spatial\<close>; every path below is relative to it.

  \<^bold>\<open>The program.\<close> An operator works with one Node through a workspace. The Node has one Primary Agent Slot; a binding
  attaches an agent to it, a delivery service gives that agent grants and an inbox, and events of the Node reach the
  dashboard through a gateway. What the operator says passes an intent gateway and becomes an exchange of a durable
  conversation, whose turns hang on a graph of sessions. The workspace itself is a snapshot that semantic operations
  advance; several devices share it, its entities are known to a registry with relations and subagents on it. Probes
  report the state of the Node, recovery commands act on it; decisions, audit records, incidents and telemetry watch over
  what is done, a mediation service tests remote endpoints on the operator's behalf, and a rollout controller decides
  whether any of this is shown.

  \<^bold>\<open>Theories and sources.\<close>
  \<^item> \<open>Js_Prelude\<close>: what the code uses of JavaScript (trimming, case, the insertion-ordered \<open>Map\<close>, \<open>new Set\<close>, throwing with a
    state left behind) and four locales: a keyed store, a machine with an invariant and a monotone measure, a log
    numbered per source, and an idempotent command. \<open>Js_Json\<close>: \<open>JSON.stringify\<close>, \<open>stableStringify\<close> and the 32-bit FNV-1a
    hash on machine words.
  \<^item> \<open>Contracts\<close>: the shared schemas of \<open>contracts/index.ts\<close> and the scope of \<open>data/scope.ts\<close>. The schema of each
    component stands in that component's theory.
  \<^item> \<open>Slot_Repository\<close> (\<open>data/primary-agent-slot.ts\<close>): the three Maps and the change log of
    \<open>InMemoryPrimaryAgentSlotRepository\<close> are the record \<open>repository\<close>. \<open>apply\<close> is cut where it awaits: \<open>apply_begin\<close> and
    \<open>apply_commit\<close>. \<open>Slot_Lemmas\<close> has the invariant and its preservation, \<open>Slot_Concurrency\<close> the step relation of
    interleaved calls, \<open>Slot_Properties\<close> what follows: linearizability, a change feed without gaps, idempotency,
    reference integrity, final revocation, no inherited privileges, restart.
  \<^item> \<open>Binding_Api\<close> (\<open>data/primary-agent-binding.ts\<close>): plans, application, events and revocation callbacks over any
    repository, a record of its methods. \<open>Binding_Lemmas\<close> states what the API relies on as the locale \<open>slot_repository\<close> and
    interprets it with the in-memory repository; a sublocale makes a plan an idempotent command. \<open>Binding_Properties\<close>.
  \<^item> \<open>Delivery\<close> (\<open>data/primary-agent-delivery.ts\<close>): grants, subscriptions, the inbox, deliveries, acknowledgements, retries,
    replays and redaction. \<open>Delivery_Properties\<close>: redaction as noninterference, the exact result of a read, bounded attempts,
    each event enqueued once, nothing read through a revoked binding.
  \<^item> \<open>Session_Graph\<close> (\<open>interaction/session-graph.ts\<close>): sessions are objects in a store, because the code files one object under
    two keys. \<open>Session_Properties\<close>: the depth-first search equals the transitive closure, the graph of every run is a
    forest, snapshots round-trip.
  \<^item> \<open>Conversation\<close> (\<open>interaction/conversation.ts\<close>) on that graph, and \<open>Intent_Gateway\<close> (\<open>interaction/intent-gateway.ts\<close>) in front
    of it. \<open>Conversation_Properties\<close>: bounds on every stored text, an inactive binding freezes its exchanges, one exchange per
    intent, what the sanitiser leaves. The last section of this theory joins the two.
  \<^item> \<open>Multi_Device\<close> (\<open>multidevice/service.ts\<close>): the shared world, its mutation stream, viewports, offline queues and shares.
    \<open>Multi_Device_Properties\<close>: at-most-once mutations, what a result means, shared focus.
  \<^item> \<open>Event_Gateway\<close> (\<open>data/events.ts\<close>, and the contract table of \<open>contracts/index.ts\<close>): admission of retained events and the
    reconnecting stream. \<open>Event_Properties\<close>: delivery once and in order, idempotent replay, total dispatch, bounded
    reconnects that resume at the last envelope.
  \<^item> \<open>Topology\<close> (\<open>topology/reference-registry.ts\<close>, \<open>semantic-relations.ts\<close>, \<open>subagent-lifecycle.ts\<close>): three services on one registry.
    \<open>Topology_Properties\<close>: the registry refines a map of max-registers, nothing dangles, the authority of a subagent is fixed.
  \<^item> \<open>Workspace\<close> (\<open>workspace/repository.ts\<close>, \<open>workspace/model.ts\<close>): the in-memory repository of the Workspace snapshot and the
    presentation of each device. \<open>Workspace_Properties\<close>: a change feed without gaps, no lost update, what is written is read.
  \<^item> \<open>Status\<close> (\<open>status/aggregator.ts\<close>): probe results reduced to one Node status. \<open>Status_Properties\<close>: green exactly when every
    probe says so, growing revisions, cached reads never green, restart.
  \<^item> \<open>Recovery\<close> (\<open>status/recovery.ts\<close>): plans, and \<open>apply\<close> cut where it awaits the handler; the bridge from a status row to the
    Workspace, on the registry of \<open>Topology\<close>. \<open>Recovery_Properties\<close>: what has to hold before a handler runs under every
    interleaving, a complete audit trail, a plan can be carried out.
  \<^item> \<open>Authorization\<close> (\<open>hardening/authorization.ts\<close>) and \<open>Hardening\<close> (\<open>hardening/reliability.ts\<close>, \<open>privacy.ts\<close>, \<open>observability.ts\<close>).
    \<open>Authorization_Properties\<close>: exact decisions, revocation, redaction as a projection, the audit trail.
    \<open>Hardening_Properties\<close>: no green without recovery, exports without secrets, bounded telemetry.
  \<^item> \<open>Js_Regex\<close>: regular expressions as JavaScript runs them, by backtracking, and that the search finds a match exactly when
    the language of the pattern has one. \<open>Remote_Contracts\<close> (the remote boundary of \<open>contracts/index.ts\<close>) and \<open>Mediation\<close>
    (\<open>remote/mediation.ts\<close>), on the registry of \<open>Topology\<close>: endpoints, context manifests, test frames, submissions cut where they
    await the transport adapter, validation of what comes back, accounting. \<open>Mediation_Properties\<close>: what has to hold before a
    request leaves and what it may disclose, settlement of every submission, no second request under a settled key, exact
    classification of remote output.
  \<^item> \<open>Provenance\<close> (\<open>topology/provenance.ts\<close>): the local history of interactions with endpoints. \<open>Provenance_Properties\<close>: the
    experience kept for an endpoint is what its history says, each interaction is counted once.
  \<^item> \<open>Attention\<close> (\<open>topology/attention.ts\<close>): the attention queue, its orbital markers and the focus on an item.
    \<open>Attention_Properties\<close>: critical and unread items are never dropped, urgent ones always have a marker of their own.
  \<^item> \<open>Rollout\<close> (\<open>hardening/rollout.ts\<close>). \<open>Rollout_Properties\<close>: promotion ends, and nothing is shown behind a closed gate.

  \<^bold>\<open>State and operations.\<close> A class is a record of its fields, a method a definition that takes the state last and returns the
  outcome, \<open>Inl\<close> of the error it throws or \<open>Inr\<close> of its value, with the state it leaves in either case. A run is a list of
  calls (\<open>run\<close>); for the slot repository, whose calls suspend, it is the step relation \<open>slot_step\<close>, and for recovery commands
  and remote submissions a list of calls that begin and handlers or races that settle. The locales of \<open>Js_Prelude\<close> are interpreted on the components, and the properties of runs rest on the interpretations.

  \<^bold>\<open>Loops.\<close> Loops over data are structural; the depth-first search, the tag and markup filters, the script filter and the
  decimal printer are functions with a measure, so every definition returns. The one bound is the number of rounds of a
  repetition in a pattern, the length of the text that is left; every round consumes a character, so it is enough
  (\<open>star_ends_enough\<close>).

  \<^bold>\<open>Parameters.\<close> Zod is third-party: its checks are the record \<open>zod\<close>, what Zod documents of them is \<open>zod_documented\<close>, and a
  theorem that needs this assumes it; \<open>zod_ref\<close> satisfies it. \<open>Date.parse\<close>, the collation of \<open>localeCompare\<close>, clocks, id factories,
  authorisation callbacks and, for events, the parsing of a payload by its schema are arguments.

  \<^bold>\<open>Limits of the model.\<close> A string holds code units below 256, except turn texts and labels that need more, which are lists of
  code units. Numbers are integers, coordinates and prices rationals; the phase of an orbital marker is computed as doubles are. A timestamp is its millisecond count, and dates are valid except
  where the code tests for invalid ones. Diagnostic messages are not modelled; error codes are. Except in the slot
  repository, for recovery commands and for remote submissions, a call runs from its start to its end.

  \<^bold>\<open>Defects.\<close> Where the code does not do what it means to, a theorem or lemma shows it on the model: a transition that leaves
  a slot nobody can read, an expired plan that is applied, grant revisions that go back, a conflict that is missed, memory
  events that are never applied, a late chunk that reopens a response, two actors that share an idempotency key, a
  subagent revived by a space, a rollback that is refused, a Node shown online on stale evidence, a rewritten recovery
  plan that runs, a revocation passed by a space, an audit record that is overwritten, a record whose default retention
  has already ended, a snapshot that outgrows its own contract, a second secret that is shown, a declared size that is
  trusted, a key that is sent twice, a redaction that shows its placeholder, trust that survives a new revision.

  \<^bold>\<open>Not modelled.\<close> The endpoint topology of \<open>topology\<close>, artifacts, generated objects and the presentation planner of
  \<open>interaction\<close>, and the state and presence projections of the Primary Agent prepare what is displayed from the state
  of the services above; they decide nothing about it. The HTTP workspace repository is a client of the transport;
  \<open>classifySpatialValue\<close> and \<open>redactSpatialTranscript\<close> rewrite free text by patterns. The memory engine, gestures and camera
  geometry compute with floating-point numbers. The HTTP client, the React views and the classic dashboard are effects of
  the browser; the hypervisor and the faucet are Python programs behind HTTP.
\<close>

section \<open>From an operator's draft to an exchange\<close>




end
